(* ===== verification/Fsip2_Prelude.thy ===== *)
theory Fsip2_Prelude
  imports Main "HOL-Library.Sublist"
begin

text \<open>
  Shared vocabulary of the development. A Go string is a sequence of bytes, so it is an
  Isabelle \<^typ>\<open>string\<close> (a list of \<^typ>\<open>char\<close>, each one byte). A Go function that can
  return an error or panic returns a value of \<open>go_result\<close>: the run-time panic of the
  language (a slice bound out of range, a nil dereference) is a value of its own, because
  nothing in the program recovers from it.
\<close>

datatype ('e, 'a) go_result = Ok 'a | Err 'e | Panic

text \<open>Sequencing: the first error or panic ends the computation.\<close>

fun go_bind :: "('e, 'a) go_result \<Rightarrow> ('a \<Rightarrow> ('e, 'b) go_result) \<Rightarrow> ('e, 'b) go_result" where
  "go_bind (Ok x) f = f x"
| "go_bind (Err e) f = Err e"
| "go_bind Panic f = Panic"

fun map_err :: "('e \<Rightarrow> 'f) \<Rightarrow> ('e, 'a) go_result \<Rightarrow> ('f, 'a) go_result" where
  "map_err g (Ok x) = Ok x"
| "map_err g (Err e) = Err (g e)"
| "map_err g Panic = Panic"

fun is_ok :: "('e, 'a) go_result \<Rightarrow> bool" where
  "is_ok (Ok x) = True"
| "is_ok (Err e) = False"
| "is_ok Panic = False"

lemma is_ok_iff: "is_ok r \<longleftrightarrow> (\<exists>x. r = Ok x)"
  by (cases r) auto

named_theorems framing \<open>how field values, delimiters and control bytes interact\<close>
named_theorems session_frame \<open>which session fields an operation leaves alone\<close>

lemma go_bind_eq_Ok [simp]: "go_bind m f = Ok y \<longleftrightarrow> (\<exists>x. m = Ok x \<and> f x = Ok y)"
  by (cases m) auto

lemma go_bind_eq_Panic: "go_bind m f = Panic \<longleftrightarrow> m = Panic \<or> (\<exists>x. m = Ok x \<and> f x = Panic)"
  by (cases m) auto

lemma map_err_eq_Ok [simp]: "map_err g m = Ok x \<longleftrightarrow> m = Ok x"
  by (cases m) auto

lemma map_err_eq_Panic [simp]: "map_err g m = Panic \<longleftrightarrow> m = Panic"
  by (cases m) auto

subsection \<open>Lists\<close>

lemma take_length_append [simp]: "take (length xs) (xs @ ys) = xs"
  by simp

lemma suffix_append_self [simp]: "suffix ys (xs @ ys)"
  by (simp add: suffix_def)

lemma not_suffix_shorter: "length xs < length ys \<Longrightarrow> \<not> suffix ys xs"
  by (auto dest: suffix_length_le)

lemma suffix_take_drop: "suffix ys xs \<longleftrightarrow> length ys \<le> length xs \<and> drop (length xs - length ys) xs = ys"
  by (auto simp: suffix_def) (metis append_take_drop_id)

lemma prefix_take: "prefix ys xs \<longleftrightarrow> take (length ys) xs = ys"
  by (metis append_eq_conv_conj prefix_def take_is_prefix)

lemma concat_map_cong_set: "(\<And>x. x \<in> set xs \<Longrightarrow> f x = g x) \<Longrightarrow> concat (map f xs) = concat (map g xs)"
  by (metis map_cong)

end
