(* ===== verification/Go_Utf8.thy ===== *)
theory Go_Utf8
  imports Fsip2_Prelude
begin

text \<open>
  Go's view of a string as runes. Ranging over a string, or converting it to \<open>[]rune\<close>, decodes
  UTF-8: a byte that starts no valid sequence is read as the replacement rune U+FFFD and one
  byte is consumed. Converting runes back to a string encodes each of them. A rune is a code
  point, modelled as a \<^typ>\<open>nat\<close>.
\<close>

abbreviation byte :: "char \<Rightarrow> nat" where "byte c \<equiv> of_char c"

definition RuneError :: nat where "RuneError = 0xFFFD"

definition cont_byte :: "nat \<Rightarrow> bool" where
  "cont_byte b \<longleftrightarrow> 0x80 \<le> b \<and> b \<le> 0xBF"

text \<open>The range of the second byte depends on the first (no overlong forms, no surrogates).\<close>

definition second_ok :: "nat \<Rightarrow> nat \<Rightarrow> bool" where
  "second_ok b0 b1 \<longleftrightarrow>
     (if b0 = 0xE0 then 0xA0 else if b0 = 0xF0 then 0x90 else 0x80) \<le> b1 \<and>
     b1 \<le> (if b0 = 0xED then 0x9F else if b0 = 0xF4 then 0x8F else 0xBF)"

text \<open>The first rune of a string and the number of bytes it takes.\<close>

fun decode_rune :: "string \<Rightarrow> nat \<times> nat" where
  "decode_rune [] = (RuneError, 0)"
| "decode_rune (c0 # cs) =
     (let b0 = byte c0 in
      if b0 < 0x80 then (b0, 1)
      else if 0xC2 \<le> b0 \<and> b0 \<le> 0xDF then
        (case cs of
           c1 # _ \<Rightarrow> if cont_byte (byte c1) then ((b0 - 0xC0) * 64 + (byte c1 - 0x80), 2)
                      else (RuneError, 1)
         | _ \<Rightarrow> (RuneError, 1))
      else if 0xE0 \<le> b0 \<and> b0 \<le> 0xEF then
        (case cs of
           c1 # c2 # _ \<Rightarrow> if second_ok b0 (byte c1) \<and> cont_byte (byte c2)
             then ((b0 - 0xE0) * 4096 + (byte c1 - 0x80) * 64 + (byte c2 - 0x80), 3)
             else (RuneError, 1)
         | _ \<Rightarrow> (RuneError, 1))
      else if 0xF0 \<le> b0 \<and> b0 \<le> 0xF4 then
        (case cs of
           c1 # c2 # c3 # _ \<Rightarrow>
             if second_ok b0 (byte c1) \<and> cont_byte (byte c2) \<and> cont_byte (byte c3)
             then ((b0 - 0xF0) * 262144 + (byte c1 - 0x80) * 4096 + (byte c2 - 0x80) * 64
                     + (byte c3 - 0x80), 4)
             else (RuneError, 1)
         | _ \<Rightarrow> (RuneError, 1))
      else (RuneError, 1))"

fun runes :: "string \<Rightarrow> nat list" where
  "runes [] = []"
| "runes (c # cs) =
     (let rw = decode_rune (c # cs) in fst rw # runes (drop (snd rw - 1) cs))"

definition scalar :: "nat \<Rightarrow> bool" where
  "scalar r \<longleftrightarrow> r < 0xD800 \<or> (0xDFFF < r \<and> r \<le> 0x10FFFF)"

fun encode_rune :: "nat \<Rightarrow> string" where
  "encode_rune r =
     (if r < 0x80 then [char_of r]
      else if r < 0x800 then [char_of (0xC0 + r div 64), char_of (0x80 + r mod 64)]
      else if \<not> scalar r then [char_of (0xEF :: nat), char_of (0xBF :: nat), char_of (0xBD :: nat)]
      else if r < 0x10000 then
        [char_of (0xE0 + r div 4096), char_of (0x80 + r div 64 mod 64), char_of (0x80 + r mod 64)]
      else
        [char_of (0xF0 + r div 262144), char_of (0x80 + r div 4096 mod 64),
         char_of (0x80 + r div 64 mod 64), char_of (0x80 + r mod 64)])"

definition encode_runes :: "nat list \<Rightarrow> string" where
  "encode_runes rs = concat (map encode_rune rs)"

text \<open>\<open>utf8.ValidString\<close>: no position decodes to an error of width one.\<close>

fun valid_utf8 :: "string \<Rightarrow> bool" where
  "valid_utf8 [] = True"
| "valid_utf8 (c # cs) =
     (let rw = decode_rune (c # cs)
      in \<not> (fst rw = RuneError \<and> snd rw = 1) \<and> valid_utf8 (drop (snd rw - 1) cs))"

declare decode_rune.simps(2) [simp del] encode_rune.simps [simp del]

subsection \<open>Decoding one rune\<close>

lemma byte_char_of: "n < 256 \<Longrightarrow> byte (char_of n) = n"
  by (simp add: of_char_of)

lemma decode_rune_ascii: "byte c < 0x80 \<Longrightarrow> decode_rune (c # cs) = (byte c, 1)"
  by (simp add: decode_rune.simps)

lemma decode_two:
  assumes "0xC2 \<le> byte c0" "byte c0 \<le> 0xDF" "cont_byte (byte c1)"
  shows "decode_rune (c0 # c1 # t) = ((byte c0 - 0xC0) * 64 + (byte c1 - 0x80), 2)"
  using assms by (simp add: decode_rune.simps)

lemma decode_three:
  assumes "0xE0 \<le> byte c0" "byte c0 \<le> 0xEF" "second_ok (byte c0) (byte c1)" "cont_byte (byte c2)"
  shows "decode_rune (c0 # c1 # c2 # t) =
    ((byte c0 - 0xE0) * 4096 + (byte c1 - 0x80) * 64 + (byte c2 - 0x80), 3)"
  using assms by (simp add: decode_rune.simps)

lemma decode_four:
  assumes "0xF0 \<le> byte c0" "byte c0 \<le> 0xF4" "second_ok (byte c0) (byte c1)" "cont_byte (byte c2)"
    "cont_byte (byte c3)"
  shows "decode_rune (c0 # c1 # c2 # c3 # t) =
    ((byte c0 - 0xF0) * 262144 + (byte c1 - 0x80) * 4096 + (byte c2 - 0x80) * 64
       + (byte c3 - 0x80), 4)"
  using assms by (simp add: decode_rune.simps)

text \<open>The shapes a first rune can have.\<close>

lemma decode_rune_cases:
  assumes "s \<noteq> []"
  obtains (ascii) c t where "s = c # t" "byte c < 0x80" "decode_rune s = (byte c, 1)"
  | (two) c0 c1 t where "s = c0 # c1 # t" "0xC2 \<le> byte c0" "byte c0 \<le> 0xDF"
      "cont_byte (byte c1)" "decode_rune s = ((byte c0 - 0xC0) * 64 + (byte c1 - 0x80), 2)"
  | (three) c0 c1 c2 t where "s = c0 # c1 # c2 # t" "0xE0 \<le> byte c0" "byte c0 \<le> 0xEF"
      "second_ok (byte c0) (byte c1)" "cont_byte (byte c2)"
      "decode_rune s = ((byte c0 - 0xE0) * 4096 + (byte c1 - 0x80) * 64 + (byte c2 - 0x80), 3)"
  | (four) c0 c1 c2 c3 t where "s = c0 # c1 # c2 # c3 # t" "0xF0 \<le> byte c0" "byte c0 \<le> 0xF4"
      "second_ok (byte c0) (byte c1)" "cont_byte (byte c2)" "cont_byte (byte c3)"
      "decode_rune s = ((byte c0 - 0xF0) * 262144 + (byte c1 - 0x80) * 4096
         + (byte c2 - 0x80) * 64 + (byte c3 - 0x80), 4)"
  | (error) "decode_rune s = (RuneError, 1)"
proof -
  obtain c cs where s: "s = c # cs" using assms by (cases s) auto
  consider "byte c < 0x80" | "0xC2 \<le> byte c \<and> byte c \<le> 0xDF" | "0xE0 \<le> byte c \<and> byte c \<le> 0xEF"
    | "0xF0 \<le> byte c \<and> byte c \<le> 0xF4"
    | "\<not> byte c < 0x80" "\<not> (0xC2 \<le> byte c \<and> byte c \<le> 0xDF)"
      "\<not> (0xE0 \<le> byte c \<and> byte c \<le> 0xEF)" "\<not> (0xF0 \<le> byte c \<and> byte c \<le> 0xF4)"
    by blast
  then show ?thesis
  proof cases
    case 1
    then show ?thesis using s ascii decode_rune_ascii by blast
  next
    case 2
    show ?thesis
    proof (cases cs)
      case Nil
      then show ?thesis using 2 error by (simp add: s decode_rune.simps)
    next
      case (Cons c1 t)
      then show ?thesis using 2 error two[of c c1 t] decode_two[of c c1 t]
        by (cases "cont_byte (byte c1)") (simp_all add: s decode_rune.simps)
    qed
  next
    case 3
    show ?thesis
    proof (cases "\<exists>c1 c2 t. cs = c1 # c2 # t \<and> second_ok (byte c) (byte c1) \<and> cont_byte (byte c2)")
      case True
      then show ?thesis using 3 three decode_three s by blast
    next
      case False
      then have "decode_rune s = (RuneError, 1)"
        using 3 by (cases cs rule: remdups_adj.cases) (auto simp: s decode_rune.simps Let_def)
      then show ?thesis by (rule error)
    qed
  next
    case 4
    show ?thesis
    proof (cases "\<exists>c1 c2 c3 t. cs = c1 # c2 # c3 # t \<and> second_ok (byte c) (byte c1)
        \<and> cont_byte (byte c2) \<and> cont_byte (byte c3)")
      case True
      then show ?thesis using 4 four decode_four s by blast
    next
      case False
      then have "decode_rune s = (RuneError, 1)"
        using 4 by (cases cs rule: remdups_adj.cases)
          (auto simp: s decode_rune.simps Let_def split: list.split)
      then show ?thesis by (rule error)
    qed
  next
    case 5
    then have "decode_rune s = (RuneError, 1)"
      by (simp only: s decode_rune.simps Let_def if_False)
    then show ?thesis by (rule error)
  qed
qed

lemma decode_rune_width:
  assumes "s \<noteq> []"
  shows "1 \<le> snd (decode_rune s) \<and> snd (decode_rune s) \<le> length s"
  by (rule decode_rune_cases [OF assms]) (use assms in \<open>simp_all add: Suc_le_eq\<close>)

lemma decode_rune_width_Cons [simp]: "0 < snd (decode_rune (c # cs))" "Suc 0 \<le> snd (decode_rune (c # cs))"
  "snd (decode_rune (c # cs)) \<le> Suc (length cs)"
  using decode_rune_width [of "c # cs"] by auto

subsection \<open>Round trips\<close>

lemma second_ok_range: "second_ok b0 b1 \<Longrightarrow> 0x80 \<le> b1 \<and> b1 \<le> 0xBF"
  by (auto simp: second_ok_def split: if_splits)

lemma char_of_byte_plus: "b \<le> byte c \<Longrightarrow> char_of (b + (byte c - b)) = c"
  by simp

lemma digits2: "y < 64 \<Longrightarrow> (64 * x + y) div 64 = (x :: nat)" "y < 64 \<Longrightarrow> (64 * x + y) mod 64 = y"
  by simp_all

lemma digits3: assumes "y < 64" "z < 64"
  shows "(4096 * x + 64 * y + z) div 64 = (64 * x + y :: nat)" "(4096 * x + 64 * y + z) mod 64 = z"
    "(4096 * x + 64 * y + z) div 4096 = x"
proof -
  show d: "(4096 * x + 64 * y + z) div 64 = 64 * x + y"
    by (rule div_nat_eqI) (use assms in simp_all)
  show "(4096 * x + 64 * y + z) mod 64 = z"
    using div_mult_mod_eq [of "4096 * x + 64 * y + z" 64] unfolding d by (simp add: algebra_simps)
  show "(4096 * x + 64 * y + z) div 4096 = x"
    by (rule div_nat_eqI) (use assms in simp_all)
qed

lemma digits4: assumes "y < 64" "z < 64" "w < 64"
  shows "(262144 * x + 4096 * y + 64 * z + w) div 64 = (4096 * x + 64 * y + z :: nat)"
    "(262144 * x + 4096 * y + 64 * z + w) mod 64 = w"
    "(262144 * x + 4096 * y + 64 * z + w) div 4096 = 64 * x + y"
    "(262144 * x + 4096 * y + 64 * z + w) div 262144 = x"
proof -
  show d: "(262144 * x + 4096 * y + 64 * z + w) div 64 = 4096 * x + 64 * y + z"
    by (rule div_nat_eqI) (use assms in simp_all)
  show "(262144 * x + 4096 * y + 64 * z + w) mod 64 = w"
    using div_mult_mod_eq [of "262144 * x + 4096 * y + 64 * z + w" 64] unfolding d by (simp add: algebra_simps)
  show "(262144 * x + 4096 * y + 64 * z + w) div 4096 = 64 * x + y"
    by (rule div_nat_eqI) (use assms in simp_all)
  show "(262144 * x + 4096 * y + 64 * z + w) div 262144 = x"
    by (rule div_nat_eqI) (use assms in simp_all)
qed

lemmas digits = digits2 digits3 digits4

text \<open>A rune that was decoded without error encodes to the bytes it was read from.\<close>

lemma encode_decode_rune:
  assumes "s \<noteq> []" and ok: "\<not> (fst (decode_rune s) = RuneError \<and> snd (decode_rune s) = 1)"
  shows "encode_rune (fst (decode_rune s)) = take (snd (decode_rune s)) s \<and> scalar (fst (decode_rune s))"
proof (rule decode_rune_cases [OF assms(1)])
  fix c t assume "s = c # t" "byte c < 0x80" "decode_rune s = (byte c, 1)"
  then show ?thesis by (simp add: encode_rune.simps scalar_def)
next
  fix c0 c1 t assume a: "s = c0 # c1 # t" "0xC2 \<le> byte c0" "byte c0 \<le> 0xDF" "cont_byte (byte c1)"
    and d: "decode_rune s = ((byte c0 - 0xC0) * 64 + (byte c1 - 0x80), 2)"
  define x where "x = byte c0 - 0xC0"
  define y where "y = byte c1 - 0x80"
  have b: "byte c0 = 0xC0 + x" "byte c1 = 0x80 + y" "2 \<le> x" "x < 32" "y < 64"
    using a by (auto simp: x_def y_def cont_byte_def)
  then have c: "c0 = char_of (0xC0 + x)" "c1 = char_of (0x80 + y)" by (metis char_of_char)+
  have f: "decode_rune s = (64 * x + y, 2)" by (simp add: d x_def y_def)
  show ?thesis unfolding f using a(1) b(3-) by (simp add: encode_rune.simps digits scalar_def c)
next
  fix c0 c1 c2 t assume a: "s = c0 # c1 # c2 # t" "0xE0 \<le> byte c0" "byte c0 \<le> 0xEF"
      "second_ok (byte c0) (byte c1)" "cont_byte (byte c2)"
    and d: "decode_rune s = ((byte c0 - 0xE0) * 4096 + (byte c1 - 0x80) * 64 + (byte c2 - 0x80), 3)"
  define x where "x = byte c0 - 0xE0"
  define y where "y = byte c1 - 0x80"
  define z where "z = byte c2 - 0x80"
  have b: "byte c0 = 0xE0 + x" "byte c1 = 0x80 + y" "byte c2 = 0x80 + z" "x < 16" "y < 64" "z < 64"
    using a second_ok_range [OF a(4)] by (auto simp: x_def y_def z_def cont_byte_def)
  have e: "x = 0 \<longrightarrow> 32 \<le> y" "x = 13 \<longrightarrow> y < 32"
    using a(4) unfolding b(1,2) by (auto simp: second_ok_def)
  have c: "c0 = char_of (0xE0 + x)" "c1 = char_of (0x80 + y)" "c2 = char_of (0x80 + z)"
    using b by (metis char_of_char)+
  have f: "decode_rune s = (4096 * x + 64 * y + z, 3)" by (simp add: d x_def y_def z_def)
  have "4096 * x + 64 * y + z \<ge> 0x800" using e b by (cases "x = 0") auto
  moreover have "scalar (4096 * x + 64 * y + z)" "4096 * x + 64 * y + z < 0x10000"
    using e b(4-) by (cases x "13 :: nat" rule: linorder_cases; simp add: scalar_def)+
  ultimately show ?thesis unfolding f using a(1) b(4-) by (simp add: encode_rune.simps digits c)
next
  fix c0 c1 c2 c3 t assume a: "s = c0 # c1 # c2 # c3 # t" "0xF0 \<le> byte c0" "byte c0 \<le> 0xF4"
      "second_ok (byte c0) (byte c1)" "cont_byte (byte c2)" "cont_byte (byte c3)"
    and d: "decode_rune s = ((byte c0 - 0xF0) * 262144 + (byte c1 - 0x80) * 4096
         + (byte c2 - 0x80) * 64 + (byte c3 - 0x80), 4)"
  define x where "x = byte c0 - 0xF0"
  define y where "y = byte c1 - 0x80"
  define z where "z = byte c2 - 0x80"
  define w where "w = byte c3 - 0x80"
  have b: "byte c0 = 0xF0 + x" "byte c1 = 0x80 + y" "byte c2 = 0x80 + z" "byte c3 = 0x80 + w"
    "x < 5" "y < 64" "z < 64" "w < 64"
    using a second_ok_range [OF a(4)] by (auto simp: x_def y_def z_def w_def cont_byte_def)
  have e: "x = 0 \<longrightarrow> 16 \<le> y" "x = 4 \<longrightarrow> y < 16"
    using a(4) unfolding b(1,2) by (auto simp: second_ok_def)
  have c: "c0 = char_of (0xF0 + x)" "c1 = char_of (0x80 + y)" "c2 = char_of (0x80 + z)"
    "c3 = char_of (0x80 + w)"
    using b by (metis char_of_char)+
  have f: "decode_rune s = (262144 * x + 4096 * y + 64 * z + w, 4)"
    by (simp add: d x_def y_def z_def w_def)
  have "262144 * x + 4096 * y + 64 * z + w \<ge> 0x10000" using e(1) by (cases "x = 0") auto
  moreover have "262144 * x + 4096 * y + 64 * z + w \<le> 0x10FFFF" using e(2) b(5-) by (cases "x = 4") auto
  ultimately show ?thesis unfolding f using a(1) b(5-) by (simp add: encode_rune.simps digits scalar_def c)
next
  assume "decode_rune s = (RuneError, 1)"
  then show ?thesis using ok by simp
qed

lemma runes_Cons: "s \<noteq> [] \<Longrightarrow> runes s = fst (decode_rune s) # runes (drop (snd (decode_rune s)) s)"
  by (cases s) (auto simp: Let_def drop_Cons' Suc_le_eq)

lemma encode_runes_simps [simp]: "encode_runes [] = []"
  "encode_runes (r # rs) = encode_rune r @ encode_runes rs"
  "encode_runes (rs @ rs') = encode_runes rs @ encode_runes rs'"
  by (simp_all add: encode_runes_def)

theorem encode_runes_runes: "valid_utf8 s \<Longrightarrow> encode_runes (runes s) = s"
proof (induction s rule: runes.induct)
  case (2 c cs)
  define w where "w = snd (decode_rune (c # cs))"
  have w: "take w (c # cs) = c # take (w - 1) cs"
    using decode_rune_width_Cons(1) [of c cs] by (simp add: w_def take_Cons')
  from 2 encode_decode_rune [of "c # cs"] show ?case
    by (auto simp: Let_def w [unfolded w_def])
qed simp

lemma scalar_RuneError [simp]: "scalar RuneError"
  by (simp add: scalar_def RuneError_def)

lemma runes_scalar: "r \<in> set (runes s) \<Longrightarrow> scalar r"
proof (induction s rule: runes.induct)
  case (2 c cs)
  then show ?case using encode_decode_rune [of "c # cs"] scalar_RuneError
    by (cases "fst (decode_rune (c # cs)) = RuneError") (auto simp: Let_def)
qed simp

text \<open>Conversely, an encoded scalar decodes to itself.\<close>

lemma decode_encode_rune:
  assumes "scalar r"
  shows "decode_rune (encode_rune r @ t) = (r, length (encode_rune r))"
proof -
  consider "r < 0x80" | "0x80 \<le> r" "r < 0x800" | "0x800 \<le> r" "r < 0x10000" | "0x10000 \<le> r"
    by linarith
  then show ?thesis
  proof cases
    case 1
    then show ?thesis by (simp add: encode_rune.simps decode_rune_ascii)
  next
    case 2
    obtain x y where r: "r = 64 * x + y" "y < 64" "2 \<le> x" "x < 32"
      using 2 that [of "r div 64" "r mod 64"] by auto
    show ?thesis
      using decode_two [of "char_of (0xC0 + x)" "char_of (0x80 + y)" t] 2 r(2-)
      by (simp add: r(1) encode_rune.simps cont_byte_def)
  next
    case 3
    define x y z where "x = r div 64 div 64" and "y = r div 64 mod 64" and "z = r mod 64"
    then have r: "r = 4096 * x + 64 * y + z" "y < 64" "z < 64"
      using div_mult_mod_eq [of r 64] div_mult_mod_eq [of "r div 64" 64]
        mod_less_divisor [of 64 r] mod_less_divisor [of 64 "r div 64"] by linarith+
    then have x: "x < 16" using 3 by linarith
    have e: "x = 0 \<longrightarrow> 32 \<le> y" "x = 13 \<longrightarrow> y < 32"
      using 3 assms r x unfolding scalar_def by auto
    then have "second_ok (0xE0 + x) (0x80 + y)" using r x by (auto simp: second_ok_def)
    then show ?thesis using 3 assms r x
        decode_three [of "char_of (0xE0 + x)" "char_of (0x80 + y)" "char_of (0x80 + z)" t]
      by (simp add: encode_rune.simps cont_byte_def digits)
  next
    case 4
    define x y z w where "x = r div 64 div 64 div 64" and "y = r div 64 div 64 mod 64" and "z = r div 64 mod 64"
      and "w = r mod 64"
    then have r: "r = 262144 * x + 4096 * y + 64 * z + w" "y < 64" "z < 64" "w < 64"
      using div_mult_mod_eq [of r 64] div_mult_mod_eq [of "r div 64" 64]
        div_mult_mod_eq [of "r div 64 div 64" 64] mod_less_divisor [of 64 r]
        mod_less_divisor [of 64 "r div 64"] mod_less_divisor [of 64 "r div 64 div 64"] by linarith+
    have "r \<le> 0x10FFFF" using 4 assms by (auto simp: scalar_def)
    then have x: "x < 5" using r(1) by linarith
    have e: "x = 0 \<longrightarrow> 16 \<le> y" "x = 4 \<longrightarrow> y < 16"
      using 4 \<open>r \<le> 0x10FFFF\<close> r by auto
    then have "second_ok (0xF0 + x) (0x80 + y)" using r x by (auto simp: second_ok_def)
    then show ?thesis using 4 assms r x
        decode_four [of "char_of (0xF0 + x)" "char_of (0x80 + y)" "char_of (0x80 + z)"
          "char_of (0x80 + w)" t]
      by (simp add: encode_rune.simps cont_byte_def digits)
  qed
qed

lemma encode_rune_neq_Nil [simp]: "encode_rune r \<noteq> []"
  by (simp add: encode_rune.simps)

theorem runes_encode_runes: "\<forall>r \<in> set rs. scalar r \<Longrightarrow> runes (encode_runes rs) = rs"
  by (induction rs) (simp_all add: runes_Cons decode_encode_rune)

lemma valid_encode_runes: "\<forall>r \<in> set rs. scalar r \<Longrightarrow> valid_utf8 (encode_runes rs)"
proof (induction rs)
  case (Cons r rs)
  obtain c cs where e: "encode_rune r = c # cs" by (metis encode_rune_neq_Nil neq_Nil_conv)
  have d: "decode_rune (c # cs @ encode_runes rs) = (r, Suc (length cs))"
    using Cons.prems decode_encode_rune [of r "encode_runes rs"] by (simp add: e)
  have "\<not> (r = RuneError \<and> cs = [])"
    using e by (auto simp: encode_rune.simps RuneError_def split: if_splits)
  with Cons d show ?case by (simp add: e)
qed simp

lemma ascii_valid: "\<forall>c \<in> set s. byte c < 0x80 \<Longrightarrow> valid_utf8 s \<and> runes s = map byte s"
  by (induction s) (auto simp: decode_rune_ascii RuneError_def)

end
