(* ===== verification/Go_Strings.thy ===== *)
theory Go_Strings
  imports Go_Utf8
begin

text \<open>
  The functions of Go's \<open>strings\<close>, \<open>strconv\<close> and \<open>fmt\<close> packages that the program uses, as
  functions on byte lists. \<open>HasPrefix\<close>, \<open>HasSuffix\<close> and \<open>Contains\<close> are the library's
  \<^const>\<open>prefix\<close>, \<^const>\<open>suffix\<close> and \<^const>\<open>sublist\<close>.
\<close>

definition TrimSuffix :: "string \<Rightarrow> string \<Rightarrow> string" where
  "TrimSuffix s suf = (if suffix suf s then take (length s - length suf) s else s)"

text \<open>\<open>strings.Split\<close>. An empty separator splits after each UTF-8 sequence.\<close>

fun split_on :: "string \<Rightarrow> string \<Rightarrow> string list" where
  "split_on sep [] = [[]]"
| "split_on sep (c # cs) =
     (if prefix sep (c # cs) then [] # split_on sep (drop (length sep - 1) cs)
      else (case split_on sep cs of [] \<Rightarrow> [[c]] | w # ws \<Rightarrow> (c # w) # ws))"

fun explode :: "string \<Rightarrow> string list" where
  "explode [] = []"
| "explode (c # cs) =
     (let w = snd (decode_rune (c # cs)) in take w (c # cs) # explode (drop (w - 1) cs))"

definition Split :: "string \<Rightarrow> string \<Rightarrow> string list" where
  "Split s sep = (if sep = [] then explode s else split_on sep s)"

fun join :: "string \<Rightarrow> string list \<Rightarrow> string" where
  "join sep [] = []"
| "join sep [w] = w"
| "join sep (w # v # ws) = w @ sep @ join sep (v # ws)"

text \<open>\<open>strings.ReplaceAll\<close>: with an empty old string the new one goes around every sequence.\<close>

fun replace_on :: "string \<Rightarrow> string \<Rightarrow> string \<Rightarrow> string" where
  "replace_on old new [] = []"
| "replace_on old new (c # cs) =
     (if prefix old (c # cs) then new @ replace_on old new (drop (length old - 1) cs)
      else c # replace_on old new cs)"

definition ReplaceAll :: "string \<Rightarrow> string \<Rightarrow> string \<Rightarrow> string" where
  "ReplaceAll s old new =
     (if old = [] then new @ concat (map (\<lambda>w. w @ new) (explode s)) else replace_on old new s)"

text \<open>\<open>strings.Index\<close>; \<open>None\<close> is Go's -1.\<close>

fun Index :: "string \<Rightarrow> string \<Rightarrow> nat option" where
  "Index [] sub = (if sub = [] then Some 0 else None)"
| "Index (c # cs) sub = (if prefix sub (c # cs) then Some 0 else map_option Suc (Index cs sub))"

definition is_ascii :: "string \<Rightarrow> bool" where
  "is_ascii s \<longleftrightarrow> (\<forall>c \<in> set s. byte c < 0x80)"

text \<open>
  Letter case. The table of the non-ASCII letters is the argument \<open>uni\<close>; ASCII is written out.
\<close>

definition lower_rune :: "(nat \<Rightarrow> nat) \<Rightarrow> nat \<Rightarrow> nat" where
  "lower_rune uni r = (if r < 0x80 then if 65 \<le> r \<and> r \<le> 90 then r + 32 else r else uni r)"

definition upper_rune :: "(nat \<Rightarrow> nat) \<Rightarrow> nat \<Rightarrow> nat" where
  "upper_rune uni r = (if r < 0x80 then if 97 \<le> r \<and> r \<le> 122 then r - 32 else r else uni r)"

definition ToLower :: "(nat \<Rightarrow> nat) \<Rightarrow> string \<Rightarrow> string" where
  "ToLower uni s = encode_runes (map (lower_rune uni) (runes s))"

definition ToUpper :: "(nat \<Rightarrow> nat) \<Rightarrow> string \<Rightarrow> string" where
  "ToUpper uni s = encode_runes (map (upper_rune uni) (runes s))"

text \<open>\<open>strings.TrimSpace\<close>, with the runes of \<open>unicode.IsSpace\<close>.\<close>

definition space_runes :: "nat list" where
  "space_runes = [9, 10, 11, 12, 13, 32, 0x85, 0xA0, 0x1680, 0x2000, 0x2001, 0x2002, 0x2003, 0x2004,
     0x2005, 0x2006, 0x2007, 0x2008, 0x2009, 0x200A, 0x2028, 0x2029, 0x202F, 0x205F, 0x3000]"

fun trim_with :: "string list \<Rightarrow> nat \<Rightarrow> string \<Rightarrow> string" where
  "trim_with ws 0 s = s"
| "trim_with ws (Suc n) s =
     (case find (\<lambda>w. prefix w s) ws of None \<Rightarrow> s | Some w \<Rightarrow> trim_with ws n (drop (length w) s))"

definition TrimSpace :: "string \<Rightarrow> string" where
  "TrimSpace s =
     (let spaces = map encode_rune space_runes;
          t = trim_with spaces (length s) s
      in rev (trim_with (map rev spaces) (length t) (rev t)))"

subsection \<open>Numbers\<close>

fun nat_str :: "nat \<Rightarrow> string" where
  "nat_str n = (if n < 10 then [char_of (48 + n)] else nat_str (n div 10) @ [char_of (48 + n mod 10)])"

definition int_str :: "int \<Rightarrow> string" where
  "int_str i = (if i < 0 then ''-'' @ nat_str (nat (- i)) else nat_str (nat i))"

text \<open>\<open>%0wd\<close>: zero padding after the sign, never truncating.\<close>

definition pad_int :: "nat \<Rightarrow> int \<Rightarrow> string" where
  "pad_int w i =
     (let s = nat_str (nat (abs i)) in
      if i < 0 then ''-'' @ replicate (w - 1 - length s) CHR ''0'' @ s
      else replicate (w - length s) CHR ''0'' @ s)"

definition hex_digit :: "nat \<Rightarrow> char" where
  "hex_digit d = (if d < 10 then char_of (48 + d) else char_of (55 + d))"

text \<open>\<open>%04X\<close> of a value below 65536.\<close>

definition hex4 :: "nat \<Rightarrow> string" where
  "hex4 n = [hex_digit (n div 4096), hex_digit (n div 256 mod 16), hex_digit (n div 16 mod 16),
     hex_digit (n mod 16)]"

definition digit_value :: "char \<Rightarrow> nat option" where
  "digit_value c =
     (let b = byte c in
      if 48 \<le> b \<and> b \<le> 57 then Some (b - 48)
      else if 97 \<le> b \<and> b \<le> 122 then Some (b - 87)
      else if 65 \<le> b \<and> b \<le> 90 then Some (b - 55) else None)"

fun parse_digits :: "nat \<Rightarrow> nat \<Rightarrow> string \<Rightarrow> nat option" where
  "parse_digits base acc [] = Some acc"
| "parse_digits base acc (c # cs) =
     (case digit_value c of
        None \<Rightarrow> None
      | Some d \<Rightarrow> if d < base then parse_digits base (acc * base + d) cs else None)"

text \<open>\<open>strconv.ParseInt (s, base, 64)\<close> for an explicit base; \<open>strconv.Atoi\<close> is base ten.\<close>

definition ParseInt :: "nat \<Rightarrow> string \<Rightarrow> int option" where
  "ParseInt base s =
     (let neg = (s \<noteq> [] \<and> hd s = CHR ''-'');
          t = (if s \<noteq> [] \<and> (hd s = CHR ''-'' \<or> hd s = CHR ''+'') then tl s else s)
      in if t = [] then None
         else case parse_digits base 0 t of
           None \<Rightarrow> None
         | Some n \<Rightarrow> if neg then if n \<le> 2 ^ 63 then Some (- int n) else None
                     else if n < 2 ^ 63 then Some (int n) else None)"

definition Atoi :: "string \<Rightarrow> int option" where
  "Atoi s = ParseInt 10 s"

declare nat_str.simps [simp del]

subsection \<open>Splitting and replacing\<close>

lemma split_on_neq_Nil [simp]: "split_on sep s \<noteq> []"
  by (induction sep s rule: split_on.induct) (auto split: list.splits)

lemma prefix_singleton [simp]: "prefix [d] (c # cs) \<longleftrightarrow> c = d"
  by auto

lemma split_on_single_free [simp]: "d \<notin> set x \<Longrightarrow> split_on [d] x = [x]"
  by (induction x) auto

lemma split_on_single_append: "d \<notin> set x \<Longrightarrow> split_on [d] (x @ d # y) = x # split_on [d] y"
  by (induction x) auto

lemma split_on_single_concat:
  assumes "\<And>w. w \<in> set ws \<Longrightarrow> d \<notin> set w" and "d \<notin> set y"
  shows "split_on [d] (concat (map (\<lambda>w. w @ [d]) ws) @ y) = ws @ [y]"
  using assms by (induction ws) (auto simp: split_on_single_append)

lemma split_on_single_pieces: "w \<in> set (split_on [d] s) \<Longrightarrow> d \<notin> set w"
  by (induction s arbitrary: w) (auto split: if_splits list.splits)

lemma join_Cons: "ws \<noteq> [] \<Longrightarrow> join sep (w # ws) = w @ sep @ join sep ws"
  by (cases ws) simp_all

lemma join_Cons_char: "join sep ((c # w) # ws) = c # join sep (w # ws)"
  by (cases ws) simp_all

text \<open>Splitting loses nothing: for a non-empty separator, joining the pieces gives the string back.\<close>

lemma join_split_on: "sep \<noteq> [] \<Longrightarrow> join sep (split_on sep s) = s"
proof (induction sep s rule: split_on.induct)
  case (2 sep c cs)
  show ?case
  proof (cases "prefix sep (c # cs)")
    case True
    then have "c # cs = sep @ drop (length sep) (c # cs)" by (metis append_take_drop_id prefix_take)
    moreover have "drop (length sep) (c # cs) = drop (length sep - 1) cs"
      using 2(3) by (cases sep) auto
    ultimately have e: "sep @ drop (length sep - 1) cs = c # cs" by simp
    show ?thesis using 2 True by (simp add: join_Cons e [simplified])
  next
    case False
    then show ?thesis using 2 by (auto simp: join_Cons_char split: list.splits)
  qed
qed simp

lemma replace_on_single: "replace_on [d] new s = concat (map (\<lambda>c. if c = d then new else [c]) s)"
  by (induction s) auto

lemma ReplaceAll_single: "ReplaceAll s [d] new = concat (map (\<lambda>c. if c = d then new else [c]) s)"
  by (simp add: ReplaceAll_def replace_on_single)

lemma ReplaceAll_space: "ReplaceAll s [d] '' '' = map (\<lambda>c. if c = d then CHR '' '' else c) s"
  unfolding ReplaceAll_single by (induction s) auto

lemma replace_on_absent: "old \<noteq> [] \<Longrightarrow> \<not> sublist old s \<Longrightarrow> replace_on old new s = s"
  by (induction s) (auto simp: sublist_Cons_right)

lemma ReplaceAll_absent: "old \<noteq> [] \<Longrightarrow> \<not> sublist old s \<Longrightarrow> ReplaceAll s old new = s"
  by (simp add: ReplaceAll_def replace_on_absent)

subsection \<open>Suffixes\<close>

lemma TrimSuffix_append [simp]: "TrimSuffix (x @ suf) suf = x"
  by (simp add: TrimSuffix_def)

lemma TrimSuffix_other [simp]: "\<not> suffix suf s \<Longrightarrow> TrimSuffix s suf = s"
  by (simp add: TrimSuffix_def)

lemma TrimSuffix_cases:
  obtains (cut) "s = TrimSuffix s suf @ suf" | (same) "TrimSuffix s suf = s" "\<not> suffix suf s"
  by (cases "suffix suf s") (auto simp: suffix_def)

subsection \<open>Numbers\<close>

lemma hex_digit_value: "d < 16 \<Longrightarrow> digit_value (hex_digit d) = Some d"
  by (auto simp: digit_value_def hex_digit_def Let_def)

lemma hex_digit_upper: "d < 16 \<Longrightarrow> hex_digit d \<noteq> CHR ''-'' \<and> hex_digit d \<noteq> CHR ''+''"
proof -
  assume "d < 16"
  then have "byte (hex_digit d) = (if d < 10 then 48 + d else 55 + d)" by (simp add: hex_digit_def)
  then have "byte (hex_digit d) \<noteq> 45" "byte (hex_digit d) \<noteq> 43" using \<open>d < 16\<close> by (auto split: if_splits)
  then show ?thesis by auto
qed

lemma length_hex4 [simp]: "length (hex4 n) = 4"
  by (simp add: hex4_def)

lemma ParseInt_hex4: "n < 65536 \<Longrightarrow> ParseInt 16 (hex4 n) = Some (int n)"
proof -
  assume n: "n < 65536"
  have r: "n = ((n div 4096 * 16 + n div 256 mod 16) * 16 + n div 16 mod 16) * 16 + n mod 16"
  proof -
    have "n div 16 = 16 * (n div 256) + n div 16 mod 16" "n div 256 = 16 * (n div 4096) + n div 256 mod 16"
      using div_mult_mod_eq [of "n div 16" 16] div_mult_mod_eq [of "n div 256" 16]
      by (simp_all add: div_mult2_eq [symmetric])
    then show ?thesis using div_mult_mod_eq [of n 16] by (simp add: algebra_simps)
  qed
  have "n div 4096 < 16" using n by (simp add: less_mult_imp_div_less)
  then have p: "parse_digits 16 0 (hex4 n) = Some n"
    using r by (simp add: hex4_def hex_digit_value)
  have h: "hd (hex4 n) = hex_digit (n div 4096)" by (simp add: hex4_def)
  show ?thesis using n p hex_digit_upper [OF \<open>n div 4096 < 16\<close>]
    by (auto simp: ParseInt_def Let_def h) (auto simp: hex4_def)
qed

lemma digit_value_dec: "d < 10 \<Longrightarrow> digit_value (char_of (48 + d)) = Some d"
  by (simp add: digit_value_def)

lemma parse_digits_append:
  "parse_digits b acc (x @ y) = Option.bind (parse_digits b acc x) (\<lambda>a. parse_digits b a y)"
  by (induction b acc x rule: parse_digits.induct) (auto split: option.splits)

lemma nat_str_digits: "c \<in> set (nat_str n) \<Longrightarrow> 48 \<le> byte c \<and> byte c \<le> 57"
  by (induction n rule: nat_str.induct) (subst (asm) (2) nat_str.simps, auto split: if_splits)

lemma nat_str_neq_Nil [simp]: "nat_str n \<noteq> []"
  by (subst nat_str.simps) auto

lemma parse_nat_str: "parse_digits 10 0 (nat_str n) = Some n"
proof (induction n rule: nat_str.induct)
  case (1 n)
  then show ?case
    by (subst nat_str.simps) (auto simp: parse_digits_append digit_value_dec)
qed

lemma nat_str_sign: "hd (nat_str n) \<noteq> CHR ''-'' \<and> hd (nat_str n) \<noteq> CHR ''+''"
proof -
  have "48 \<le> byte (hd (nat_str n))" by (rule nat_str_digits [OF hd_in_set, THEN conjunct1]) simp
  then show ?thesis by auto
qed

lemma Atoi_int_str: "- (2 ^ 63) \<le> i \<Longrightarrow> i < 2 ^ 63 \<Longrightarrow> Atoi (int_str i) = Some i"
  using nat_str_sign [of "nat i"]
  by (auto simp: Atoi_def ParseInt_def int_str_def Let_def parse_nat_str)

lemma length_nat_str: "n < 10 ^ k \<Longrightarrow> 0 < k \<Longrightarrow> length (nat_str n) \<le> k"
proof (induction n arbitrary: k rule: nat_str.induct)
  case (1 n)
  show ?case
  proof (cases "n < 10")
    case False
    then obtain j where k: "k = Suc j" "0 < j" using 1(2,3) by (cases k; cases "k - 1") auto
    then have "n div 10 < 10 ^ j" using 1(2) by (simp add: less_mult_imp_div_less mult.commute)
    then show ?thesis using 1(1) [OF False _ k(2)] False k by (subst nat_str.simps) simp
  qed (use 1 in \<open>simp add: nat_str.simps\<close>)
qed

end
