(* ===== verification/Helpers.thy ===== *)
theory Helpers
  imports Go_Strings
begin

text \<open>
  \<open>internal/helpers/utils.go\<close>: truncation and padding of strings, the sanitisers that every
  field value passes through before it reaches a response, and the small Y/N and default
  helpers. The lemmas show that the loop of \<open>SanitizeString\<close> computes what its comment
  promises, that its output has no control character, and that it is idempotent.
\<close>

definition TruncateString :: "string \<Rightarrow> int \<Rightarrow> string" where
  "TruncateString s maxLen =
     (if maxLen \<le> 0 then []
      else if int (length s) \<le> maxLen then s
      else let rs = runes s in
        if int (length rs) \<le> maxLen then s else encode_runes (take (nat maxLen) rs))"

text \<open>A negative length makes the slice expression panic.\<close>

definition PadRight :: "string \<Rightarrow> int \<Rightarrow> ('e, string) go_result" where
  "PadRight s len =
     (if int (length s) \<ge> len then if len < 0 then Panic else Ok (take (nat len) s)
      else Ok (s @ replicate (nat len - length s) CHR '' ''))"

definition PadLeft :: "string \<Rightarrow> int \<Rightarrow> ('e, string) go_result" where
  "PadLeft s len =
     (if int (length s) \<ge> len then if len < 0 then Panic else Ok (take (nat len) s)
      else Ok (replicate (nat len - length s) CHR '' '' @ s))"

definition isControlRune :: "nat \<Rightarrow> bool" where
  "isControlRune r \<longleftrightarrow> r \<le> 0x1F \<or> r = 0x7F"

subsection \<open>SanitizeString\<close>

record sanitize_state =
  result :: "nat list"
  inRun :: bool
  pendingSep :: bool

definition absorb_trailing_spaces :: "nat list \<Rightarrow> nat list" where
  "absorb_trailing_spaces rs = rev (dropWhile (\<lambda>r. r = 32) (rev rs))"

text \<open>One iteration of the loop over the runes of the value.\<close>

definition sanitize_step :: "nat \<Rightarrow> sanitize_state \<Rightarrow> sanitize_state" where
  "sanitize_step r st =
     (if isControlRune r then
        if \<not> inRun st then
          st\<lparr>result := absorb_trailing_spaces (result st), inRun := True, pendingSep := True\<rparr>
        else st
      else if inRun st \<and> r = 32 then st
      else
        let st1 = st\<lparr>inRun := False\<rparr>;
            st2 = (if pendingSep st1
                   then st1\<lparr>pendingSep := False,
                            result := (if result st1 \<noteq> [] then result st1 @ [32] else result st1)\<rparr>
                   else st1)
        in st2\<lparr>result := result st2 @ [r]\<rparr>)"

definition sanitize_runes :: "nat list \<Rightarrow> nat list" where
  "sanitize_runes rs = result (fold sanitize_step rs \<lparr>result = [], inRun = False, pendingSep = False\<rparr>)"

definition SanitizeString :: "string \<Rightarrow> string" where
  "SanitizeString s = encode_runes (sanitize_runes (runes s))"

definition SanitizeFieldValue :: "string \<Rightarrow> string \<Rightarrow> string" where
  "SanitizeFieldValue value delim =
     (let value = (if delim \<noteq> [] then ReplaceAll value delim '' '' else value)
      in SanitizeString value)"

definition SanitizeFixedWidthString :: "string \<Rightarrow> string" where
  "SanitizeFixedWidthString s =
     concat (map (\<lambda>r. if isControlRune r then '' '' else encode_rune r) (runes s))"

subsection \<open>Small helpers\<close>

fun CoalesceString :: "string list \<Rightarrow> string" where
  "CoalesceString [] = []"
| "CoalesceString (v # vs) = (if v \<noteq> [] then v else CoalesceString vs)"

definition DefaultString :: "string \<Rightarrow> string \<Rightarrow> string" where
  "DefaultString value defaultValue = (if value = [] then defaultValue else value)"

definition BoolToYN :: "bool \<Rightarrow> string" where
  "BoolToYN b = (if b then ''Y'' else ''N'')"

definition YNToBool :: "(nat \<Rightarrow> nat) \<Rightarrow> string \<Rightarrow> bool" where
  "YNToBool uni s \<longleftrightarrow> ToUpper uni s = ''Y''"

fun Contains :: "string list \<Rightarrow> string \<Rightarrow> bool" where
  "Contains [] item = False"
| "Contains (s # ss) item = (if s = item then True else Contains ss item)"

lemma Contains_iff [simp]: "Contains ss item \<longleftrightarrow> item \<in> set ss"
  by (induction ss) auto

subsection \<open>What the sanitiser computes\<close>

text \<open>
  The comment's reading of the value: cut it at the control characters; if there is none the
  value is kept. Otherwise the spaces next to a cut go, the pieces that are then empty go, and
  one space joins the others.
\<close>

fun segments :: "nat list \<Rightarrow> nat list list" where
  "segments [] = [[]]"
| "segments (r # rs) =
     (if isControlRune r then [] # segments rs
      else case segments rs of [] \<Rightarrow> [[r]] | w # ws \<Rightarrow> (r # w) # ws)"

definition absorb_leading_spaces :: "nat list \<Rightarrow> nat list" where
  "absorb_leading_spaces rs = dropWhile (\<lambda>r. r = 32) rs"

fun join_pieces :: "nat list list \<Rightarrow> nat list" where
  "join_pieces [] = []"
| "join_pieces (p # ps) =
     (let q = join_pieces ps in if p = [] then q else if q = [] then p else p @ 32 # q)"

text \<open>The pieces after a cut: the last one keeps its trailing spaces.\<close>

fun after_cut :: "nat list list \<Rightarrow> nat list list" where
  "after_cut [] = []"
| "after_cut [w] = [absorb_leading_spaces w]"
| "after_cut (w # v # ws) =
     absorb_trailing_spaces (absorb_leading_spaces w) # after_cut (v # ws)"

definition sanitize_spec :: "nat list \<Rightarrow> nat list" where
  "sanitize_spec rs =
     (case segments rs of
        [] \<Rightarrow> []
      | [w] \<Rightarrow> w
      | w # ws \<Rightarrow> join_pieces (absorb_trailing_spaces w # after_cut ws))"

lemma segments_neq_Nil [simp]: "segments rs \<noteq> []"
  by (induction rs) (auto split: list.splits)

lemma absorb_trailing_append:
  "absorb_trailing_spaces (xs @ ys) =
     (if absorb_trailing_spaces ys = [] then absorb_trailing_spaces xs
      else xs @ absorb_trailing_spaces ys)"
  by (auto simp: absorb_trailing_spaces_def dropWhile_append dropWhile_eq_Nil_conv)

lemma absorb_trailing_idem [simp]:
  "absorb_trailing_spaces (absorb_trailing_spaces xs) = absorb_trailing_spaces xs"
  by (simp add: absorb_trailing_spaces_def)

lemma absorb_trailing_Nil [simp]: "absorb_trailing_spaces [] = []"
  by (simp add: absorb_trailing_spaces_def)

lemma absorb_trailing_Cons: "r \<noteq> 32 \<Longrightarrow> absorb_trailing_spaces (r # xs) = r # absorb_trailing_spaces xs"
  using absorb_trailing_append [of "[r]" xs] by (auto simp: absorb_trailing_spaces_def)

text \<open>The loop, by the state it is in between two iterations.\<close>

abbreviation in_text :: "nat list \<Rightarrow> sanitize_state" where
  "in_text res \<equiv> \<lparr>result = res, inRun = False, pendingSep = False\<rparr>"

abbreviation in_run :: "nat list \<Rightarrow> sanitize_state" where
  "in_run res \<equiv> \<lparr>result = res, inRun = True, pendingSep = True\<rparr>"

lemma not_control_space [simp]: "\<not> isControlRune 32"
  by (simp add: isControlRune_def)

lemma sanitize_step_simps:
  "isControlRune r \<Longrightarrow> sanitize_step r (in_text res) = in_run (absorb_trailing_spaces res)"
  "\<not> isControlRune r \<Longrightarrow> sanitize_step r (in_text res) = in_text (res @ [r])"
  "isControlRune r \<Longrightarrow> sanitize_step r (in_run res) = in_run res"
  "sanitize_step 32 (in_run res) = in_run res"
  "\<not> isControlRune r \<Longrightarrow> r \<noteq> 32 \<Longrightarrow>
     sanitize_step r (in_run res) = in_text ((if res \<noteq> [] then res @ [32] else []) @ [r])"
  by (simp_all add: sanitize_step_def Let_def)

lemma join_pieces_append:
  "q \<noteq> [] \<Longrightarrow> res \<noteq> [] \<Longrightarrow> join_pieces ((res @ 32 # q) # ps) = join_pieces (res # q # ps)"
  by (simp add: Let_def)

lemma join_pieces_Nil [simp]: "join_pieces ([] # ps) = join_pieces ps"
  by (simp add: Let_def)

lemma absorb_leading_simps [simp]:
  "absorb_leading_spaces [] = []"
  "absorb_leading_spaces (r # xs) = (if r = 32 then absorb_leading_spaces xs else r # xs)"
  by (simp_all add: absorb_leading_spaces_def)

lemma after_cut_space: "after_cut ((32 # w) # ws) = after_cut (w # ws)"
  by (cases ws) simp_all

lemma after_cut_empty: "join_pieces (res # after_cut ([] # ws)) = join_pieces (res # after_cut ws)"
  by (cases ws) simp_all

lemma sanitize_loop:
  "result (fold sanitize_step rs (in_text res)) =
     (case segments rs of [] \<Rightarrow> res | [w] \<Rightarrow> res @ w
      | w # ws \<Rightarrow> join_pieces (absorb_trailing_spaces (res @ w) # after_cut ws))"
  "absorb_trailing_spaces res = res \<Longrightarrow>
     result (fold sanitize_step rs (in_run res)) = join_pieces (res # after_cut (segments rs))"
proof (induction rs arbitrary: res)
  case (Cons r rs)
  {
    case 1
    show ?case using Cons.IH(1) [of "res @ [r]"] Cons.IH(2) [of "absorb_trailing_spaces res"]
      by (cases "isControlRune r") (auto simp: sanitize_step_simps split: list.splits)
  next
    case 2
    obtain w ws where s: "segments rs = w # ws" by (cases "segments rs") auto
    define pre where "pre = (if res \<noteq> [] then res @ [32] else [])"
    consider "isControlRune r" | "r = 32" | "\<not> isControlRune r" "r \<noteq> 32" by blast
    then show ?case
    proof cases
      case 3
      have a: "absorb_trailing_spaces (res @ 32 # r # w) = res @ 32 # r # absorb_trailing_spaces w"
        using absorb_trailing_append [of "res @ [32]" "r # w"] 3(2) by (simp add: absorb_trailing_Cons)
      show ?thesis using 3 Cons.IH(1) [of "pre @ [r]"]
        by (cases ws) (auto simp: sanitize_step_simps s a absorb_trailing_Cons pre_def Let_def
            split: if_splits)
    qed (use 2 Cons.IH(2) [of res] in \<open>simp_all add: sanitize_step_simps s after_cut_space
        after_cut_empty\<close>)
  }
qed simp_all

theorem sanitize_runes_spec: "sanitize_runes rs = sanitize_spec rs"
  using sanitize_loop(1) [of rs "[]"]
  by (simp add: sanitize_runes_def sanitize_spec_def split: list.splits)

subsection \<open>Consequences\<close>

lemma segments_no_control: "\<forall>r \<in> set rs. \<not> isControlRune r \<Longrightarrow> segments rs = [rs]"
  by (induction rs) auto

lemma sanitize_runes_clean: "\<forall>r \<in> set rs. \<not> isControlRune r \<Longrightarrow> sanitize_runes rs = rs"
  by (simp add: sanitize_runes_spec sanitize_spec_def segments_no_control)

lemma set_absorb_trailing: "set (absorb_trailing_spaces xs) \<subseteq> set xs"
  by (auto simp: absorb_trailing_spaces_def dest: set_dropWhileD)

lemma sanitize_step_set:
  "set (result (sanitize_step r st)) \<subseteq> set (result st) \<union> {32} \<union> (if isControlRune r then {} else {r})"
  using set_absorb_trailing [of "result st"] by (auto simp: sanitize_step_def Let_def)

lemma sanitize_fold_set:
  "set (result (fold sanitize_step rs st)) \<subseteq> set (result st) \<union> {32} \<union> {r \<in> set rs. \<not> isControlRune r}"
proof (induction rs arbitrary: st)
  case (Cons r rs)
  show ?case using Cons [of "sanitize_step r st"] sanitize_step_set [of r st]
    by (auto split: if_splits)
qed auto

lemma sanitize_runes_set: "set (sanitize_runes rs) \<subseteq> {32} \<union> {r \<in> set rs. \<not> isControlRune r}"
  using sanitize_fold_set [of rs "in_text []"] by (simp add: sanitize_runes_def)

lemma sanitize_runes_idem: "sanitize_runes (sanitize_runes rs) = sanitize_runes rs"
  using sanitize_runes_set [of rs] by (intro sanitize_runes_clean) auto

lemma scalar_space [simp]: "scalar 32"
  by (simp add: scalar_def)

lemma sanitize_runes_scalar: "r \<in> set (sanitize_runes (runes s)) \<Longrightarrow> scalar r"
  using sanitize_runes_set [of "runes s"] runes_scalar [of r s] by auto

lemma runes_SanitizeString: "runes (SanitizeString s) = sanitize_runes (runes s)"
  unfolding SanitizeString_def by (intro runes_encode_runes) (auto intro: sanitize_runes_scalar)

theorem SanitizeString_idem: "SanitizeString (SanitizeString s) = SanitizeString s"
  by (simp add: SanitizeString_def [of "SanitizeString s"] runes_SanitizeString sanitize_runes_idem)
     (simp add: SanitizeString_def)

theorem SanitizeString_valid: "valid_utf8 (SanitizeString s)"
  unfolding SanitizeString_def by (intro valid_encode_runes) (auto intro: sanitize_runes_scalar)

text \<open>Bytes below 0x80 of an encoded rune are that rune.\<close>

lemma encode_rune_ascii_byte: "c \<in> set (encode_rune r) \<Longrightarrow> byte c < 0x80 \<Longrightarrow> r = byte c"
proof -
  assume c: "c \<in> set (encode_rune r)" "byte c < 0x80"
  show ?thesis
  proof (cases "r < 0x80")
    case True
    then show ?thesis using c by (auto simp: encode_rune.simps)
  next
    case False
    have "128 + x mod 64 < (256 :: nat)" for x by (rule order_less_le_trans [of _ "128 + 64"]) simp_all
    then have m: "byte (char_of (128 + x mod 64)) = 128 + x mod 64" for x by (simp add: byte_char_of)
    have "128 \<le> byte (char_of (192 + r div 64))" if "r < 0x800"
      using that by (subst byte_char_of) auto
    moreover have "128 \<le> byte (char_of (224 + r div 4096))" if "r < 0x10000"
      using that by (subst byte_char_of) auto
    moreover have "128 \<le> byte (char_of (240 + r div 262144))" if "scalar r"
      using that by (subst byte_char_of) (auto simp: scalar_def)
    ultimately have "128 \<le> byte c"
      using False c(1) by (auto simp: encode_rune.simps m split: if_splits)
    then show ?thesis using c by simp
  qed
qed

definition control_byte :: "char \<Rightarrow> bool" where
  "control_byte c \<longleftrightarrow> byte c \<le> 0x1F \<or> byte c = 0x7F"

lemma SanitizeString_no_control: "c \<in> set (SanitizeString s) \<Longrightarrow> \<not> control_byte c"
proof
  assume c: "c \<in> set (SanitizeString s)" "control_byte c"
  then obtain r where r: "r \<in> set (sanitize_runes (runes s))" "c \<in> set (encode_rune r)"
    by (auto simp: SanitizeString_def encode_runes_def)
  have "r = byte c" using encode_rune_ascii_byte [OF r(2)] c(2) by (auto simp: control_byte_def)
  then show False using r(1) c(2) sanitize_runes_set [of "runes s"]
    by (auto simp: control_byte_def isControlRune_def)
qed

text \<open>The sanitiser brings in no ASCII character but the space.\<close>

lemma decode_rune_ascii_byte:
  assumes "s \<noteq> []" "fst (decode_rune s) < 0x80"
  shows "s \<noteq> [] \<and> fst (decode_rune s) = byte (hd s)"
  by (rule decode_rune_cases [OF assms(1)])
     (use assms(2) in \<open>auto simp: RuneError_def second_ok_def cont_byte_def split: if_splits\<close>)

lemma runes_ascii_byte: "r \<in> set (runes s) \<Longrightarrow> r < 0x80 \<Longrightarrow> \<exists>c \<in> set s. byte c = r"
proof (induction s rule: runes.induct)
  case (2 c cs)
  show ?case
  proof (cases "r = fst (decode_rune (c # cs))")
    case True
    then show ?thesis using decode_rune_ascii_byte [of "c # cs"] 2(3) by auto
  next
    case False
    then show ?thesis using 2 by (auto simp: Let_def dest: in_set_dropD)
  qed
qed simp

lemma byte_inj: "byte c = byte d \<longleftrightarrow> c = d"
  by simp

theorem SanitizeString_ascii:
  "c \<in> set (SanitizeString s) \<Longrightarrow> byte c < 0x80 \<Longrightarrow> c = CHR '' '' \<or> c \<in> set s"
proof -
  assume c: "c \<in> set (SanitizeString s)" "byte c < 0x80"
  then obtain r where r: "r \<in> set (sanitize_runes (runes s))" "c \<in> set (encode_rune r)"
    by (auto simp: SanitizeString_def encode_runes_def)
  then have "r = byte c" using encode_rune_ascii_byte c(2) by blast
  then have "byte c = 32 \<or> byte c \<in> set (runes s)" using r(1) sanitize_runes_set [of "runes s"] by auto
  then show ?thesis
  proof
    assume "byte c = 32"
    then have "byte c = byte (CHR '' '')" by simp
    then show ?thesis unfolding byte_inj by blast
  next
    assume "byte c \<in> set (runes s)"
    then show ?thesis using runes_ascii_byte c(2) byte_inj by metis
  qed
qed

lemma control_byte_runes:
  "\<forall>c \<in> set s. \<not> control_byte c \<Longrightarrow> r \<in> set (runes s) \<Longrightarrow> \<not> isControlRune r"
  using runes_ascii_byte [of r s] by (auto simp: control_byte_def isControlRune_def)

theorem SanitizeString_clean:
  "valid_utf8 s \<Longrightarrow> \<forall>c \<in> set s. \<not> control_byte c \<Longrightarrow> SanitizeString s = s"
  by (simp add: SanitizeString_def sanitize_runes_clean control_byte_runes encode_runes_runes)

text \<open>An ASCII delimiter other than the space: what a sane configuration has.\<close>

definition plain_delim :: "char \<Rightarrow> bool" where
  "plain_delim d \<longleftrightarrow> byte d < 0x80 \<and> d \<noteq> CHR '' ''"

lemma SanitizeFieldValue_no_delim [framing]:
  "plain_delim d \<Longrightarrow> d \<notin> set (SanitizeFieldValue v [d])"
  using SanitizeString_ascii [of d "ReplaceAll v [d] '' ''"]
  by (auto simp: SanitizeFieldValue_def plain_delim_def ReplaceAll_space)

lemma SanitizeFieldValue_no_control [framing]:
  "c \<in> set (SanitizeFieldValue v delim) \<Longrightarrow> \<not> control_byte c"
  by (simp add: SanitizeFieldValue_def SanitizeString_no_control)

lemma SanitizeFieldValue_clean:
  assumes "valid_utf8 v" "\<forall>c \<in> set v. \<not> control_byte c" "\<not> sublist delim v \<or> delim = []"
  shows "SanitizeFieldValue v delim = v"
  using assms by (auto simp: SanitizeFieldValue_def ReplaceAll_absent SanitizeString_clean)

lemma sublist_singleton: "sublist [d] s \<longleftrightarrow> d \<in> set s"
  by (auto simp: sublist_def in_set_conv_decomp)

lemma SanitizeFieldValue_idem:
  assumes "plain_delim d"
  shows "SanitizeFieldValue (SanitizeFieldValue v [d]) [d] = SanitizeFieldValue v [d]"
  using assms SanitizeFieldValue_no_control [of _ v "[d]"]
  by (intro SanitizeFieldValue_clean)
     (auto simp: sublist_singleton SanitizeFieldValue_no_delim, simp add: SanitizeFieldValue_def SanitizeString_valid)

subsection \<open>Truncation\<close>

lemma length_runes_le: "length (runes s) \<le> length s"
proof (induction s rule: runes.induct)
  case (2 c cs)
  then show ?case using decode_rune_width [of "c # cs"]
    by (auto simp: Let_def simp del: decode_rune_width_Cons)
qed simp

lemma runes_TruncateString:
  assumes "0 \<le> n"
  shows "runes (TruncateString s n) = take (nat n) (runes s)"
proof -
  have "runes (encode_runes (take (nat n) (runes s))) = take (nat n) (runes s)"
    by (intro runes_encode_runes) (auto dest: in_set_takeD intro: runes_scalar)
  then show ?thesis using assms length_runes_le [of s]
    by (auto simp: TruncateString_def Let_def)
qed

lemma TruncateString_bound: "int (length (runes (TruncateString s n))) \<le> max 0 n"
proof (cases "0 \<le> n")
  case True
  then show ?thesis by (simp add: runes_TruncateString)
qed (simp add: TruncateString_def)

text \<open>Truncating well-formed text cuts it at a character boundary.\<close>

lemma TruncateString_prefix:
  assumes "valid_utf8 s"
  shows "prefix (TruncateString s n) s \<and> valid_utf8 (TruncateString s n)"
proof -
  have "prefix (encode_runes (take k (runes s))) s" for k
    using encode_runes_runes [OF assms] by (metis append_take_drop_id encode_runes_simps(3) prefixI)
  moreover have "valid_utf8 (encode_runes (take k (runes s)))" for k
    by (intro valid_encode_runes) (auto dest: in_set_takeD intro: runes_scalar)
  ultimately show ?thesis using assms by (simp add: TruncateString_def Let_def)
qed

text \<open>ASCII values keep their width in the fixed-width sanitiser.\<close>

lemma SanitizeFixedWidthString_ascii:
  "is_ascii s \<Longrightarrow> length (SanitizeFixedWidthString s) = length s"
  by (induction s) (auto simp: SanitizeFixedWidthString_def is_ascii_def decode_rune_ascii
      encode_rune.simps)

end
