(* ===== verification/Protocol.thy ===== *)
theory Protocol
  imports Helpers
begin

text \<open>
  \<open>internal/sip2/protocol\<close>: delimiters, the field parsers and the field builders
  (\<open>delimiter.go\<close>), and the choice of a character set (\<open>charset.go\<close>). The encoders
  themselves belong to \<open>golang.org/x/text\<close> and are an argument \<open>enc\<close>: \<open>enc e s\<close> is the
  byte sequence of \<open>s\<close>, or \<open>None\<close> where the encoder reports an error.
\<close>

subsection \<open>Delimiters\<close>

abbreviation CR :: char where "CR \<equiv> CHR 0x0D"
abbreviation LF :: char where "LF \<equiv> CHR 0x0A"
abbreviation TAB :: char where "TAB \<equiv> CHR 0x09"
abbreviation BACKSLASH :: char where "BACKSLASH \<equiv> CHR 0x5C"

definition ConvertDelimiter :: "string \<Rightarrow> string" where
  "ConvertDelimiter delimiter =
     (let d1 = ReplaceAll delimiter [BACKSLASH, CHR ''r''] [CR];
          d2 = ReplaceAll d1 [BACKSLASH, CHR ''n''] [LF]
      in ReplaceAll d2 [BACKSLASH, CHR ''t''] [TAB])"

definition GetMessageDelimiterBytes :: "string \<Rightarrow> string" where
  "GetMessageDelimiterBytes delimiter = ConvertDelimiter delimiter"

definition GetFieldDelimiterBytes :: "string \<Rightarrow> string" where
  "GetFieldDelimiterBytes delimiter = delimiter"

subsection \<open>Parsing fields\<close>

definition SplitFields :: "string \<Rightarrow> string \<Rightarrow> string list" where
  "SplitFields message delimiter = Split message delimiter"

definition add_field :: "string \<Rightarrow> (string \<rightharpoonup> string) \<Rightarrow> (string \<rightharpoonup> string)" where
  "add_field part flds =
     (if length part < 2 then flds
      else flds(take 2 part \<mapsto> (if length part > 2 then drop 2 part else [])))"

definition ParseFields :: "string \<Rightarrow> string \<Rightarrow> (string \<rightharpoonup> string)" where
  "ParseFields message fieldDelimiter =
     fold add_field (SplitFields message fieldDelimiter) Map.empty"

definition add_multi_field ::
  "string \<Rightarrow> (string \<rightharpoonup> string list) \<Rightarrow> (string \<rightharpoonup> string list)" where
  "add_multi_field part flds =
     (if length part < 2 then flds
      else let code = take 2 part; v = (if length part > 2 then drop 2 part else [])
        in flds(code \<mapsto> (case flds code of None \<Rightarrow> [] | Some vs \<Rightarrow> vs) @ [v]))"

definition ParseMultiValueFields :: "string \<Rightarrow> string \<Rightarrow> (string \<rightharpoonup> string list)" where
  "ParseMultiValueFields message fieldDelimiter =
     fold add_multi_field (SplitFields message fieldDelimiter) Map.empty"

definition GetField :: "(string \<rightharpoonup> string) \<Rightarrow> string \<Rightarrow> string" where
  "GetField flds fieldCode = (case flds fieldCode of Some v \<Rightarrow> v | None \<Rightarrow> [])"

definition GetMultiValueField :: "(string \<rightharpoonup> string list) \<Rightarrow> string \<Rightarrow> string list" where
  "GetMultiValueField flds fieldCode = (case flds fieldCode of Some vs \<Rightarrow> vs | None \<Rightarrow> [])"

subsection \<open>Building fields\<close>

definition BuildField :: "string \<Rightarrow> string \<Rightarrow> string \<Rightarrow> string" where
  "BuildField fieldCode value delimiter =
     (let v = SanitizeFieldValue value delimiter in if v = [] then [] else fieldCode @ v @ delimiter)"

definition BuildRequiredField :: "string \<Rightarrow> string \<Rightarrow> string \<Rightarrow> string" where
  "BuildRequiredField fieldCode value delimiter =
     fieldCode @ SanitizeFieldValue value delimiter @ delimiter"

definition BuildPrefixedField :: "string \<Rightarrow> string \<Rightarrow> string \<Rightarrow> string" where
  "BuildPrefixedField fieldCode value delimiter =
     delimiter @ fieldCode @ SanitizeFieldValue value delimiter"

definition BuildFixedField :: "string \<Rightarrow> int \<Rightarrow> ('e, string) go_result" where
  "BuildFixedField value len =
     (let v = SanitizeFixedWidthString value
      in if int (length v) \<ge> len then if len < 0 then Panic else Ok (take (nat len) v)
         else Ok (v @ replicate (nat len - length v) CHR '' ''))"

definition BuildYNField :: "bool \<Rightarrow> string" where
  "BuildYNField value = (if value then ''Y'' else ''N'')"

definition ParseYNField :: "string \<Rightarrow> bool" where
  "ParseYNField value \<longleftrightarrow> value = ''Y'' \<or> value = ''y''"

subsection \<open>Character sets\<close>

datatype encoding = CodePage850 | ISO8859_1 | UTF8 | CodePage437 | Windows1252

definition GetEncoder :: "string \<Rightarrow> (string, encoding) go_result" where
  "GetEncoder charset =
     (if charset = ''IBM850'' then Ok CodePage850
      else if charset = ''ISO-8859-1'' then Ok ISO8859_1
      else if charset = ''UTF-8'' then Ok UTF8
      else if charset = ''IBM437'' then Ok CodePage437
      else if charset = ''Windows-1252'' then Ok Windows1252
      else Err (''unsupported charset: '' @ charset))"

type_synonym encoder = "encoding \<Rightarrow> string \<Rightarrow> string option"

definition EncodeString :: "encoder \<Rightarrow> string \<Rightarrow> string \<Rightarrow> (string, string) go_result" where
  "EncodeString enc s charset =
     (case GetEncoder charset of
        Err e \<Rightarrow> Err e
      | Panic \<Rightarrow> Panic
      | Ok e \<Rightarrow> (case enc e s of None \<Rightarrow> Err ''failed to encode string'' | Some b \<Rightarrow> Ok b))"

definition DecodeBytes :: "encoder \<Rightarrow> string \<Rightarrow> string \<Rightarrow> (string, string) go_result" where
  "DecodeBytes dec b charset =
     (case GetEncoder charset of
        Err e \<Rightarrow> Err e
      | Panic \<Rightarrow> Panic
      | Ok e \<Rightarrow> (case dec e b of None \<Rightarrow> Err ''failed to decode bytes'' | Some s \<Rightarrow> Ok s))"

definition SupportedCharsets :: "string list" where
  "SupportedCharsets = [''IBM850'', ''ISO-8859-1'', ''UTF-8'', ''IBM437'', ''Windows-1252'']"

definition IsCharsetSupported :: "string \<Rightarrow> bool" where
  "IsCharsetSupported charset \<longleftrightarrow> list_ex (\<lambda>supported. charset = supported) SupportedCharsets"

subsection \<open>The parsers by the list of the fields of a message\<close>

definition field_pairs :: "string list \<Rightarrow> (string \<times> string) list" where
  "field_pairs parts = map (\<lambda>p. (take 2 p, drop 2 p)) (filter (\<lambda>p. 2 \<le> length p) parts)"

lemma field_pairs_simps [simp]:
  "field_pairs [] = []"
  "field_pairs (p # ps) = (if 2 \<le> length p then [(take 2 p, drop 2 p)] else []) @ field_pairs ps"
  "field_pairs (ps @ qs) = field_pairs ps @ field_pairs qs"
  by (simp_all add: field_pairs_def)

lemma add_field_map: "add_field p m = (if 2 \<le> length p then m(take 2 p \<mapsto> drop 2 p) else m)"
  by (simp add: add_field_def not_less)

lemma fold_add_field: "fold add_field parts m = m ++ map_of (rev (field_pairs parts))"
  by (induction parts arbitrary: m) (simp_all add: add_field_map map_add_upd_left)

lemma ParseFields_pairs:
  "ParseFields message delim = map_of (rev (field_pairs (SplitFields message delim)))"
  by (simp add: ParseFields_def fold_add_field)

definition values_of :: "string \<Rightarrow> (string \<times> string) list \<Rightarrow> string list" where
  "values_of c ps = map snd (filter (\<lambda>p. fst p = c) ps)"

lemma values_of_simps [simp]: "values_of c [] = []"
  "values_of c ((c', v) # ps) = (if c' = c then v # values_of c ps else values_of c ps)"
  by (simp_all add: values_of_def)

definition multi_map :: "(string \<times> string) list \<Rightarrow> (string \<rightharpoonup> string list)" where
  "multi_map ps c = (if values_of c ps = [] then None else Some (values_of c ps))"

lemma fold_add_multi_field:
  "fold add_multi_field parts m c =
     (let vs = values_of c (field_pairs parts) in
      if vs = [] then m c else Some ((case m c of None \<Rightarrow> [] | Some us \<Rightarrow> us) @ vs))"
proof (induction parts arbitrary: m)
  case (Cons p ps)
  show ?case
    by (simp only: fold_simps(2) Cons [of "add_multi_field p m"])
       (auto simp: add_multi_field_def Let_def split: option.splits)
qed simp

lemma ParseMultiValueFields_pairs:
  "ParseMultiValueFields message delim = multi_map (field_pairs (SplitFields message delim))"
  by (rule ext) (simp add: ParseMultiValueFields_def fold_add_multi_field multi_map_def Let_def)

lemma map_of_rev_values:
  "map_of (rev ps) c = (if values_of c ps = [] then None else Some (last (values_of c ps)))"
  by (induction ps) (auto simp: map_add_def split: option.splits if_splits)

text \<open>The single-value map keeps the LAST value of a repeated field.\<close>

theorem ParseFields_last:
  "ParseFields message delim c = map_option last (ParseMultiValueFields message delim c)"
  by (simp add: ParseFields_pairs ParseMultiValueFields_pairs multi_map_def map_of_rev_values)

subsection \<open>What a built field is parsed to\<close>

abbreviation field_code :: "char \<Rightarrow> string \<Rightarrow> bool" where
  "field_code d c \<equiv> length c = 2 \<and> d \<notin> set c"

definition emitted :: "char \<Rightarrow> (string \<times> string) list \<Rightarrow> (string \<times> string) list" where
  "emitted d fs = filter (\<lambda>p. snd p \<noteq> []) (map (\<lambda>(c, v). (c, SanitizeFieldValue v [d])) fs)"

lemma emitted_simps [simp]: "emitted d [] = []"
  "emitted d ((c, v) # fs) =
     (if SanitizeFieldValue v [d] = [] then [] else [(c, SanitizeFieldValue v [d])]) @ emitted d fs"
  by (simp_all add: emitted_def)

lemma concat_BuildField:
  "concat (map (\<lambda>(c, v). BuildField c v [d]) fs) = concat (map (\<lambda>w. w @ [d]) (map (\<lambda>(c, v). c @ v) (emitted d fs)))"
  by (induction fs) (auto simp: BuildField_def Let_def)

lemma emitted_no_delim:
  "plain_delim d \<Longrightarrow> \<forall>(c, v) \<in> set fs. field_code d c \<Longrightarrow> (c, v) \<in> set (emitted d fs) \<Longrightarrow>
     field_code d c \<and> d \<notin> set v"
  by (auto simp: emitted_def SanitizeFieldValue_no_delim)

lemma SplitFields_BuildFields:
  assumes "plain_delim d" "\<forall>(c, v) \<in> set fs. field_code d c"
  shows "SplitFields (concat (map (\<lambda>(c, v). BuildField c v [d]) fs)) [d] =
    map (\<lambda>(c, v). c @ v) (emitted d fs) @ [[]]"
  unfolding concat_BuildField SplitFields_def Split_def
  using split_on_single_concat [of "map (\<lambda>(c, v). c @ v) (emitted d fs)" d "[]"]
    emitted_no_delim [OF assms] by fastforce

lemma field_pairs_emitted:
  "\<forall>(c, v) \<in> set ps. length c = 2 \<Longrightarrow> field_pairs (map (\<lambda>(c, v). c @ v) ps @ [[]]) = ps"
  by (induction ps) auto

theorem ParseMultiValueFields_BuildFields:
  assumes "plain_delim d" "\<forall>(c, v) \<in> set fs. field_code d c"
  shows "ParseMultiValueFields (concat (map (\<lambda>(c, v). BuildField c v [d]) fs)) [d] =
    multi_map (emitted d fs)"
  unfolding ParseMultiValueFields_pairs SplitFields_BuildFields [OF assms]
  using emitted_no_delim [OF assms] by (subst field_pairs_emitted) auto

text \<open>A built field adds no control character, and no delimiter but its own.\<close>

lemma BuildField_bytes [framing]:
  assumes "plain_delim d" "x \<in> set (BuildField code value [d])"
  shows "x \<in> set code \<or> x = d \<or> (\<not> control_byte x \<and> x \<noteq> d)"
  using assms SanitizeFieldValue_no_control by (auto simp: BuildField_def Let_def split: if_splits)

lemma count_list_append [simp]: "count_list (xs @ ys) x = count_list xs x + count_list ys x"
  by (induction xs) auto

lemma BuildField_delims [framing]:
  assumes "plain_delim d" "d \<notin> set code"
  shows "count_list (BuildField code v [d]) d \<le> 1"
    "count_list (BuildRequiredField code v [d]) d = 1"
    "count_list (BuildPrefixedField code v [d]) d = 1"
  using assms SanitizeFieldValue_no_delim [of d v]
  by (simp_all add: BuildField_def BuildRequiredField_def BuildPrefixedField_def Let_def count_notin)

lemma BuildFixedField_width:
  assumes "is_ascii value" "0 \<le> len"
  shows "\<exists>v. BuildFixedField value len = Ok v \<and> int (length v) = len"
  using assms by (auto simp: BuildFixedField_def Let_def)

lemma IsCharsetSupported_iff: "IsCharsetSupported charset \<longleftrightarrow> (\<exists>e. GetEncoder charset = Ok e)"
  by (auto simp: IsCharsetSupported_def SupportedCharsets_def GetEncoder_def)

lemma EncodeString_total:
  assumes "\<And>e. enc e s \<noteq> None"
  shows "(\<exists>b. EncodeString enc s charset = Ok b) \<longleftrightarrow> IsCharsetSupported charset"
proof (cases "GetEncoder charset")
  case (Ok e)
  then show ?thesis using assms [of e] by (auto simp: IsCharsetSupported_iff EncodeString_def)
qed (auto simp: IsCharsetSupported_iff EncodeString_def)

end
