(* ===== verification/Checksum.thy ===== *)
theory Checksum
  imports Protocol
begin

text \<open>
  \<open>internal/sip2/parser/checksum.go\<close>: the checksum of a message, its validation, and the
  removal of the checksum fields. An encoder is a function from a string to its bytes, or
  \<open>None\<close> where it reports an error. The 64-bit sums of the source cannot overflow: each byte
  adds at most 255.
\<close>

record ChecksumResult =
  Valid :: bool
  crSequenceNumber :: string
  ChecksumValue :: string

definition byte_sum :: "string \<Rightarrow> nat" where
  "byte_sum bs = sum_list (map byte bs)"

text \<open>
  The scan for the last AY before the first AZ: \<open>i\<close> is the index of the current position, the
  result is \<open>(ayIndex, azIndex)\<close> with \<open>None\<close> for the source's -1.
\<close>

fun scan_ay_az :: "string \<Rightarrow> nat \<Rightarrow> nat option \<Rightarrow> nat option \<times> nat option" where
  "scan_ay_az (c1 # c2 # cs) i ay =
     (if c1 = CHR ''A'' \<and> c2 = CHR ''Z'' then (ay, Some i)
      else scan_ay_az (c2 # cs) (Suc i) (if c1 = CHR ''A'' \<and> c2 = CHR ''Y'' then Some i else ay))"
| "scan_ay_az cs i ay = (ay, None)"

definition ValidateChecksum ::
  "(string \<Rightarrow> string option) \<Rightarrow> string \<Rightarrow> (string, ChecksumResult) go_result" where
  "ValidateChecksum enc message =
     (if length message < 4 then Err ''message too short for checksum validation''
      else
        let checksumStr = drop (length message - 4) message;
            messageContent = take (length message - 4) message;
            (ay, az) = scan_ay_az messageContent 0 None;
            (sequenceNumber, actual) =
              (case (ay, az) of
                 (Some y, Some z) \<Rightarrow> (take (z - (y + 2)) (drop (y + 2) messageContent), take y messageContent)
               | (None, Some z) \<Rightarrow> ([], take z messageContent)
               | _ \<Rightarrow> ([], messageContent));
            fullString =
              (if ay \<noteq> None then actual @ ''AY'' @ sequenceNumber @ ''AZ'' else actual @ ''AZ'')
        in case enc fullString of
             None \<Rightarrow> Err ''failed to encode message''
           | Some messageBytes \<Rightarrow>
               (case ParseInt 16 checksumStr of
                  None \<Rightarrow> Err ''failed to parse checksum''
                | Some checksum \<Rightarrow>
                    Ok \<lparr>Valid = ((int (byte_sum messageBytes) + checksum) mod 65536 = 0),
                        crSequenceNumber = sequenceNumber, ChecksumValue = checksumStr\<rparr>))"

definition CalculateChecksum ::
  "(string \<Rightarrow> string option) \<Rightarrow> string \<Rightarrow> string \<Rightarrow> string \<Rightarrow> (string, string) go_result" where
  "CalculateChecksum enc message sequenceNumber fieldDelimiter =
     (case enc (message @ fieldDelimiter @ ''AY'' @ sequenceNumber @ ''AZ'') of
        None \<Rightarrow> Err ''failed to encode message''
      | Some messageBytes \<Rightarrow> Ok (hex4 (nat ((- int (byte_sum messageBytes)) mod 65536))))"

fun StripChecksum :: "string \<Rightarrow> string" where
  "StripChecksum (c1 # c2 # cs) =
     (if c1 = CHR ''A'' \<and> c2 = CHR ''Y'' then [] else c1 # StripChecksum (c2 # cs))"
| "StripChecksum cs = cs"

definition upper_letter :: "char \<Rightarrow> bool" where
  "upper_letter c \<longleftrightarrow> 65 \<le> byte c \<and> byte c \<le> 90"

text \<open>What follows AY, up to the next two capital letters.\<close>

fun until_field_code :: "string \<Rightarrow> string" where
  "until_field_code (c1 # c2 # cs) =
     (if upper_letter c1 \<and> upper_letter c2 then [] else c1 # until_field_code (c2 # cs))"
| "until_field_code cs = cs"

fun ExtractSequenceNumber :: "string \<Rightarrow> string" where
  "ExtractSequenceNumber (c1 # c2 # cs) =
     (if c1 = CHR ''A'' \<and> c2 = CHR ''Y'' then until_field_code cs
      else ExtractSequenceNumber (c2 # cs))"
| "ExtractSequenceNumber cs = ''0''"

subsection \<open>The scan\<close>

lemma sublist_two: "sublist [a, b] (c1 # c2 # cs) \<longleftrightarrow> (c1 = a \<and> c2 = b) \<or> sublist [a, b] (c2 # cs)"
  by (auto simp: sublist_Cons_right)

lemma sublist_two_short [simp]: "\<not> sublist [a, b] [c]" "\<not> sublist [a, b] []"
  by (auto dest: sublist_length_le)

lemma scan_az_end:
  "\<not> sublist ''AZ'' (p @ ''A'') \<Longrightarrow> \<not> sublist ''AY'' p \<Longrightarrow>
     scan_ay_az (p @ ''AZ'') i ay = (ay, Some (i + length p))"
proof (induction p arbitrary: i ay)
  case (Cons c p)
  then show ?case by (cases p) (auto simp: sublist_two)
qed simp

text \<open>The scan finds the last AY when no AZ comes before the final one.\<close>

lemma scan_ay_az_end:
  assumes "\<not> sublist ''AZ'' (q @ ''AY'' @ p @ ''A'')" "\<not> sublist ''AY'' p"
  shows "scan_ay_az (q @ ''AY'' @ p @ ''AZ'') i ay = (Some (i + length q), Some (i + length q + 2 + length p))"
  using assms(1)
proof (induction q arbitrary: i ay)
  case Nil
  have "\<not> sublist ''AZ'' (p @ ''A'')" using Nil by (cases p) (simp_all add: sublist_two)
  then have "scan_ay_az (p @ ''AZ'') (Suc (Suc i)) (Some i) = (Some i, Some (Suc (Suc i) + length p))"
    using assms(2) by (rule scan_az_end)
  then show ?case by (cases p) auto
next
  case (Cons c q)
  then show ?case by (cases q) (auto simp: sublist_two)
qed

subsection \<open>A calculated checksum validates\<close>

lemma checksum_cancels: "(int s + int (nat ((- int s) mod 65536))) mod 65536 = 0"
  by (simp add: mod_simps)

lemma last_four:
  assumes "length cs = (4 :: nat)"
  shows "take (length (t @ cs) - 4) (t @ cs) = t" "drop (length (t @ cs) - 4) (t @ cs) = cs"
    "\<not> length (t @ cs) < 4"
  using assms by simp_all

theorem ValidateChecksum_CalculateChecksum:
  assumes "CalculateChecksum enc m seq delim = Ok cs"
    and "\<not> sublist ''AZ'' ((m @ delim) @ ''AY'' @ seq @ ''A'')" "\<not> sublist ''AY'' seq"
  shows "ValidateChecksum enc (m @ delim @ ''AY'' @ seq @ ''AZ'' @ cs) =
    Ok \<lparr>Valid = True, crSequenceNumber = seq, ChecksumValue = cs\<rparr>"
proof -
  let ?c = "(m @ delim) @ ''AY'' @ seq @ ''AZ''"
  obtain bs where bs: "enc ?c = Some bs" "cs = hex4 (nat ((- int (byte_sum bs)) mod 65536))"
    using assms(1) by (auto simp: CalculateChecksum_def split: option.splits)
  have l: "length cs = 4" by (simp add: bs(2))
  have n: "nat ((- int (byte_sum bs)) mod 65536) < 65536" by simp
  have h: "ParseInt 16 cs = Some (int (nat ((- int (byte_sum bs)) mod 65536)))"
    unfolding bs(2) by (rule ParseInt_hex4 [OF n])
  have s: "scan_ay_az ?c 0 None = (Some (length (m @ delim)), Some (length (m @ delim) + 2 + length seq))"
    using scan_ay_az_end [OF assms(2,3)] by simp
  have msg: "m @ delim @ ''AY'' @ seq @ ''AZ'' @ cs = ?c @ cs" by simp
  have parts: "take (length (?c @ cs) - 4) (?c @ cs) = ?c" "drop (length (?c @ cs) - 4) (?c @ cs) = cs"
    "\<not> length (?c @ cs) < 4" by (rule last_four [OF l])+
  have q: "take (length (m @ delim) + 2 + length seq - (length (m @ delim) + 2)) (drop (length (m @ delim) + 2) ?c) = seq"
    "take (length (m @ delim)) ?c = m @ delim" by simp_all
  show ?thesis unfolding msg ValidateChecksum_def parts
    using bs(1) parts(3) h checksum_cancels [of "byte_sum bs"] s q by (simp add: Let_def)
qed

lemma ValidateChecksum_short: "length message < 4 \<Longrightarrow> \<not> is_ok (ValidateChecksum enc message)"
  by (simp add: ValidateChecksum_def)

lemma ValidateChecksum_not_Panic: "ValidateChecksum enc message \<noteq> Panic"
  by (simp add: ValidateChecksum_def Let_def split: prod.split option.split)

subsection \<open>Stripping\<close>

lemma StripChecksum_append: "\<not> sublist ''AY'' (m @ ''A'') \<Longrightarrow> StripChecksum (m @ ''AY'' @ t) = m"
proof (induction m)
  case (Cons c m)
  then show ?case by (cases m) (auto simp: sublist_two)
qed simp

lemma StripChecksum_prefix: "prefix (StripChecksum s) s"
  by (induction s rule: StripChecksum.induct) auto

lemma StripChecksum_none: "\<not> sublist ''AY'' s \<Longrightarrow> StripChecksum s = s"
  by (induction s rule: StripChecksum.induct) (auto simp: sublist_two)

text \<open>Whatever follows it, the first AY of the message is where it is cut.\<close>

lemma StripChecksum_no_ay: "\<not> sublist ''AY'' (StripChecksum s)"
proof (induction s rule: StripChecksum.induct)
  case (1 c1 c2 cs)
  then show ?case using StripChecksum_prefix [of "c2 # cs"]
    by (cases "StripChecksum (c2 # cs)") (auto simp: sublist_two)
qed auto

lemma length_StripChecksum_le: "length (StripChecksum s) \<le> length s"
  using StripChecksum_prefix prefix_length_le by blast

end
