(* ===== verification/Codes.thy ===== *)
theory Codes
  imports Fsip2_Prelude
begin

text \<open>
  \<open>internal/sip2/parser/command.go\<close> and \<open>field.go\<close>: the message codes and the field codes,
  both strings in the source. The names of the field codes carry the prefix \<open>F_\<close>, because
  some of them are also names of record fields.
\<close>

subsection \<open>Message codes\<close>

type_synonym MessageCode = string

abbreviation (input) BlockPatron :: MessageCode where "BlockPatron \<equiv> ''01''"
abbreviation (input) CheckinRequest :: MessageCode where "CheckinRequest \<equiv> ''09''"
abbreviation (input) CheckinResponse :: MessageCode where "CheckinResponse \<equiv> ''10''"
abbreviation (input) CheckoutRequest :: MessageCode where "CheckoutRequest \<equiv> ''11''"
abbreviation (input) CheckoutResponse :: MessageCode where "CheckoutResponse \<equiv> ''12''"
abbreviation (input) HoldRequest :: MessageCode where "HoldRequest \<equiv> ''15''"
abbreviation (input) HoldResponse :: MessageCode where "HoldResponse \<equiv> ''16''"
abbreviation (input) ItemInformationRequest :: MessageCode where "ItemInformationRequest \<equiv> ''17''"
abbreviation (input) ItemInformationResponse :: MessageCode where "ItemInformationResponse \<equiv> ''18''"
abbreviation (input) ItemStatusUpdateRequest :: MessageCode where "ItemStatusUpdateRequest \<equiv> ''19''"
abbreviation (input) ItemStatusUpdateResponse :: MessageCode where "ItemStatusUpdateResponse \<equiv> ''20''"
abbreviation (input) PatronStatusRequest :: MessageCode where "PatronStatusRequest \<equiv> ''23''"
abbreviation (input) PatronStatusResponse :: MessageCode where "PatronStatusResponse \<equiv> ''24''"
abbreviation (input) PatronEnableRequest :: MessageCode where "PatronEnableRequest \<equiv> ''25''"
abbreviation (input) PatronEnableResponse :: MessageCode where "PatronEnableResponse \<equiv> ''26''"
abbreviation (input) RenewRequest :: MessageCode where "RenewRequest \<equiv> ''29''"
abbreviation (input) RenewResponse :: MessageCode where "RenewResponse \<equiv> ''30''"
abbreviation (input) EndPatronSessionRequest :: MessageCode where "EndPatronSessionRequest \<equiv> ''35''"
abbreviation (input) EndPatronSessionResponse :: MessageCode where "EndPatronSessionResponse \<equiv> ''36''"
abbreviation (input) FeePaidRequest :: MessageCode where "FeePaidRequest \<equiv> ''37''"
abbreviation (input) FeePaidResponse :: MessageCode where "FeePaidResponse \<equiv> ''38''"
abbreviation (input) PatronInformationRequest :: MessageCode where "PatronInformationRequest \<equiv> ''63''"
abbreviation (input) PatronInformationResponse :: MessageCode where "PatronInformationResponse \<equiv> ''64''"
abbreviation (input) RenewAllRequest :: MessageCode where "RenewAllRequest \<equiv> ''65''"
abbreviation (input) RenewAllResponse :: MessageCode where "RenewAllResponse \<equiv> ''66''"
abbreviation (input) LoginRequest :: MessageCode where "LoginRequest \<equiv> ''93''"
abbreviation (input) LoginResponse :: MessageCode where "LoginResponse \<equiv> ''94''"
abbreviation (input) RequestSCResend :: MessageCode where "RequestSCResend \<equiv> ''96''"
abbreviation (input) RequestACSResend :: MessageCode where "RequestACSResend \<equiv> ''97''"
abbreviation (input) ACSStatus :: MessageCode where "ACSStatus \<equiv> ''98''"
abbreviation (input) SCStatus :: MessageCode where "SCStatus \<equiv> ''99''"

definition request_codes :: "MessageCode list" where
  "request_codes = [
     BlockPatron, CheckinRequest, CheckoutRequest,
     HoldRequest, ItemInformationRequest, ItemStatusUpdateRequest,
     PatronStatusRequest, PatronEnableRequest, RenewRequest,
     EndPatronSessionRequest, FeePaidRequest, PatronInformationRequest,
     RenewAllRequest, LoginRequest, RequestACSResend,
     SCStatus]"

definition IsRequestMessage :: "MessageCode \<Rightarrow> bool" where
  "IsRequestMessage m \<longleftrightarrow> list_ex (\<lambda>req. m = req) request_codes"

definition response_codes :: "MessageCode list" where
  "response_codes = [
     CheckinResponse, CheckoutResponse, HoldResponse,
     ItemInformationResponse, ItemStatusUpdateResponse, PatronStatusResponse,
     PatronEnableResponse, RenewResponse, EndPatronSessionResponse,
     FeePaidResponse, PatronInformationResponse, RenewAllResponse,
     LoginResponse, RequestSCResend, ACSStatus]"

definition IsResponseMessage :: "MessageCode \<Rightarrow> bool" where
  "IsResponseMessage m \<longleftrightarrow> list_ex (\<lambda>resp. m = resp) response_codes"

text \<open>A code that is not in the map gives the empty string.\<close>

definition response_map :: "(MessageCode \<times> MessageCode) list" where
  "response_map = [
     (BlockPatron, []),
     (CheckinRequest, CheckinResponse),
     (CheckoutRequest, CheckoutResponse),
     (HoldRequest, HoldResponse),
     (ItemInformationRequest, ItemInformationResponse),
     (ItemStatusUpdateRequest, ItemStatusUpdateResponse),
     (PatronStatusRequest, PatronStatusResponse),
     (PatronEnableRequest, PatronEnableResponse),
     (RenewRequest, RenewResponse),
     (EndPatronSessionRequest, EndPatronSessionResponse),
     (FeePaidRequest, FeePaidResponse),
     (PatronInformationRequest, PatronInformationResponse),
     (RenewAllRequest, RenewAllResponse),
     (LoginRequest, LoginResponse),
     (RequestACSResend, RequestSCResend),
     (SCStatus, ACSStatus)]"

definition GetResponseCode :: "MessageCode \<Rightarrow> MessageCode" where
  "GetResponseCode m = (case map_of response_map m of Some r \<Rightarrow> r | None \<Rightarrow> [])"

definition message_names :: "(MessageCode \<times> string) list" where
  "message_names = [
     (BlockPatron, ''Block Patron''),
     (CheckinRequest, ''Checkin Request''),
     (CheckinResponse, ''Checkin Response''),
     (CheckoutRequest, ''Checkout Request''),
     (CheckoutResponse, ''Checkout Response''),
     (HoldRequest, ''Hold Request''),
     (HoldResponse, ''Hold Response''),
     (ItemInformationRequest, ''Item Information Request''),
     (ItemInformationResponse, ''Item Information Response''),
     (ItemStatusUpdateRequest, ''Item Status Update Request''),
     (ItemStatusUpdateResponse, ''Item Status Update Response''),
     (PatronStatusRequest, ''Patron Status Request''),
     (PatronStatusResponse, ''Patron Status Response''),
     (PatronEnableRequest, ''Patron Enable Request''),
     (PatronEnableResponse, ''Patron Enable Response''),
     (RenewRequest, ''Renew Request''),
     (RenewResponse, ''Renew Response''),
     (EndPatronSessionRequest, ''End Patron Session Request''),
     (EndPatronSessionResponse, ''End Patron Session Response''),
     (FeePaidRequest, ''Fee Paid Request''),
     (FeePaidResponse, ''Fee Paid Response''),
     (PatronInformationRequest, ''Patron Information Request''),
     (PatronInformationResponse, ''Patron Information Response''),
     (RenewAllRequest, ''Renew All Request''),
     (RenewAllResponse, ''Renew All Response''),
     (LoginRequest, ''Login Request''),
     (LoginResponse, ''Login Response''),
     (RequestSCResend, ''Request SC Resend''),
     (RequestACSResend, ''Request ACS Resend''),
     (ACSStatus, ''ACS Status''),
     (SCStatus, ''SC Status'')]"

definition MessageName :: "MessageCode \<Rightarrow> string" where
  "MessageName m = (case map_of message_names m of Some name \<Rightarrow> name | None \<Rightarrow> ''Unknown Message'')"

subsection \<open>Field codes\<close>

type_synonym FieldCode = string

abbreviation (input) F_PatronIdentifier :: FieldCode where "F_PatronIdentifier \<equiv> ''AA''"
abbreviation (input) F_ItemIdentifier :: FieldCode where "F_ItemIdentifier \<equiv> ''AB''"
abbreviation (input) F_TerminalPassword :: FieldCode where "F_TerminalPassword \<equiv> ''AC''"
abbreviation (input) F_PatronPassword :: FieldCode where "F_PatronPassword \<equiv> ''AD''"
abbreviation (input) F_PersonalName :: FieldCode where "F_PersonalName \<equiv> ''AE''"
abbreviation (input) F_ScreenMessage :: FieldCode where "F_ScreenMessage \<equiv> ''AF''"
abbreviation (input) F_PrintLine :: FieldCode where "F_PrintLine \<equiv> ''AG''"
abbreviation (input) F_DueDate :: FieldCode where "F_DueDate \<equiv> ''AH''"
abbreviation (input) F_ValidPatronPassword :: FieldCode where "F_ValidPatronPassword \<equiv> ''CQ''"
abbreviation (input) F_TitleIdentifier :: FieldCode where "F_TitleIdentifier \<equiv> ''AJ''"
abbreviation (input) F_InstitutionID :: FieldCode where "F_InstitutionID \<equiv> ''AO''"
abbreviation (input) F_CurrentLocation :: FieldCode where "F_CurrentLocation \<equiv> ''AP''"
abbreviation (input) F_PermanentLocation :: FieldCode where "F_PermanentLocation \<equiv> ''AQ''"
abbreviation (input) F_LibraryName :: FieldCode where "F_LibraryName \<equiv> ''AM''"
abbreviation (input) F_TerminalLocation :: FieldCode where "F_TerminalLocation \<equiv> ''AN''"
abbreviation (input) F_HoldPickupLocation :: FieldCode where "F_HoldPickupLocation \<equiv> ''BS''"
abbreviation (input) F_CallNumber :: FieldCode where "F_CallNumber \<equiv> ''CS''"
abbreviation (input) F_SequenceNumber :: FieldCode where "F_SequenceNumber \<equiv> ''AY''"
abbreviation (input) F_Checksum :: FieldCode where "F_Checksum \<equiv> ''AZ''"
abbreviation (input) F_ChargePrivilegesDenied :: FieldCode where "F_ChargePrivilegesDenied \<equiv> ''BH''"
abbreviation (input) F_RenewalPrivilegesDenied :: FieldCode where "F_RenewalPrivilegesDenied \<equiv> ''BI''"
abbreviation (input) F_RecallPrivilegesDenied :: FieldCode where "F_RecallPrivilegesDenied \<equiv> ''BJ''"
abbreviation (input) F_HoldPrivilegesDenied :: FieldCode where "F_HoldPrivilegesDenied \<equiv> ''BK''"
abbreviation (input) F_ValidPatron :: FieldCode where "F_ValidPatron \<equiv> ''BL''"
abbreviation (input) F_CardReportedLost :: FieldCode where "F_CardReportedLost \<equiv> ''CD''"
abbreviation (input) F_FeeAmount :: FieldCode where "F_FeeAmount \<equiv> ''BV''"
abbreviation (input) F_FeeType :: FieldCode where "F_FeeType \<equiv> ''BT''"
abbreviation (input) F_FeeIdentifier :: FieldCode where "F_FeeIdentifier \<equiv> ''CG''"
abbreviation (input) F_PaymentType :: FieldCode where "F_PaymentType \<equiv> ''BX''"
abbreviation (input) F_TransactionID :: FieldCode where "F_TransactionID \<equiv> ''BW''"
abbreviation (input) F_CurrencyType :: FieldCode where "F_CurrencyType \<equiv> ''BY''"
abbreviation (input) F_PermanentItemType :: FieldCode where "F_PermanentItemType \<equiv> ''CB''"
abbreviation (input) F_CurrentItemType :: FieldCode where "F_CurrentItemType \<equiv> ''CH''"
abbreviation (input) F_DesensitizeItem :: FieldCode where "F_DesensitizeItem \<equiv> ''CI''"
abbreviation (input) F_ResensitizeItem :: FieldCode where "F_ResensitizeItem \<equiv> ''CL''"
abbreviation (input) F_SecurityMarker :: FieldCode where "F_SecurityMarker \<equiv> ''CM''"
abbreviation (input) F_MediaType :: FieldCode where "F_MediaType \<equiv> ''CK''"
abbreviation (input) F_AlertType :: FieldCode where "F_AlertType \<equiv> ''CV''"
abbreviation (input) F_HoldQueueLength :: FieldCode where "F_HoldQueueLength \<equiv> ''CF''"
abbreviation (input) F_PickupServicePoint :: FieldCode where "F_PickupServicePoint \<equiv> ''CT''"
abbreviation (input) F_RequestorBarcode :: FieldCode where "F_RequestorBarcode \<equiv> ''CY''"
abbreviation (input) F_HoldShelfExpirationDate :: FieldCode where "F_HoldShelfExpirationDate \<equiv> ''CM''"
abbreviation (input) F_HoldItemsCount :: FieldCode where "F_HoldItemsCount \<equiv> ''AS''"
abbreviation (input) F_OverdueItemsCount :: FieldCode where "F_OverdueItemsCount \<equiv> ''AT''"
abbreviation (input) F_ChargedItemsCount :: FieldCode where "F_ChargedItemsCount \<equiv> ''AU''"
abbreviation (input) F_FineItemsCount :: FieldCode where "F_FineItemsCount \<equiv> ''AV''"
abbreviation (input) F_RecallItemsCount :: FieldCode where "F_RecallItemsCount \<equiv> ''BU''"
abbreviation (input) F_UnavailableHoldsCount :: FieldCode where "F_UnavailableHoldsCount \<equiv> ''CR''"
abbreviation (input) F_HoldItems :: FieldCode where "F_HoldItems \<equiv> ''AS''"
abbreviation (input) F_OverdueItems :: FieldCode where "F_OverdueItems \<equiv> ''AT''"
abbreviation (input) F_ChargedItems :: FieldCode where "F_ChargedItems \<equiv> ''AU''"
abbreviation (input) F_FineItems :: FieldCode where "F_FineItems \<equiv> ''AV''"
abbreviation (input) F_RecallItems :: FieldCode where "F_RecallItems \<equiv> ''BU''"
abbreviation (input) F_UnavailableHolds :: FieldCode where "F_UnavailableHolds \<equiv> ''CR''"
abbreviation (input) F_LoginUserID :: FieldCode where "F_LoginUserID \<equiv> ''CN''"
abbreviation (input) F_LoginPassword :: FieldCode where "F_LoginPassword \<equiv> ''CO''"
abbreviation (input) F_LocationCode :: FieldCode where "F_LocationCode \<equiv> ''CP''"
abbreviation (input) F_RenewalOK :: FieldCode where "F_RenewalOK \<equiv> ''OK''"
abbreviation (input) F_TransactionDate :: FieldCode where "F_TransactionDate \<equiv> ''DA''"
abbreviation (input) F_OK :: FieldCode where "F_OK \<equiv> ''OK''"
abbreviation (input) F_RenewalStatus :: FieldCode where "F_RenewalStatus \<equiv> ''OK''"
abbreviation (input) F_Summary :: FieldCode where "F_Summary \<equiv> ''BP''"
abbreviation (input) F_StartItem :: FieldCode where "F_StartItem \<equiv> ''BP''"
abbreviation (input) F_EndItem :: FieldCode where "F_EndItem \<equiv> ''BQ''"
abbreviation (input) F_Language :: FieldCode where "F_Language \<equiv> ''LG''"
abbreviation (input) F_HomeAddress :: FieldCode where "F_HomeAddress \<equiv> ''BD''"
abbreviation (input) F_EmailAddress :: FieldCode where "F_EmailAddress \<equiv> ''BE''"
abbreviation (input) F_HomePhoneNumber :: FieldCode where "F_HomePhoneNumber \<equiv> ''BF''"
abbreviation (input) F_Owner :: FieldCode where "F_Owner \<equiv> ''BG''"
abbreviation (input) F_ISBN :: FieldCode where "F_ISBN \<equiv> ''BN''"
abbreviation (input) F_ISBNIdentifier :: FieldCode where "F_ISBNIdentifier \<equiv> ''IN''"
abbreviation (input) F_OtherStandardID :: FieldCode where "F_OtherStandardID \<equiv> ''NB''"
abbreviation (input) F_LCCN :: FieldCode where "F_LCCN \<equiv> ''BO''"
abbreviation (input) F_PrimaryContributor :: FieldCode where "F_PrimaryContributor \<equiv> ''EA''"
abbreviation (input) F_WorkDescription :: FieldCode where "F_WorkDescription \<equiv> ''DE''"

definition field_names :: "(FieldCode \<times> string) list" where
  "field_names = [
     (F_PatronIdentifier, ''Patron Identifier''),
     (F_ItemIdentifier, ''Item Identifier''),
     (F_TerminalPassword, ''Terminal Password''),
     (F_PatronPassword, ''Patron Password''),
     (F_PersonalName, ''Personal Name''),
     (F_ScreenMessage, ''Screen Message''),
     (F_PrintLine, ''Print Line''),
     (F_DueDate, ''Due Date''),
     (F_ValidPatronPassword, ''Valid Patron Password''),
     (F_TitleIdentifier, ''Title Identifier''),
     (F_InstitutionID, ''Institution ID''),
     (F_CurrentLocation, ''Current Location''),
     (F_PermanentLocation, ''Permanent Location''),
     (F_LibraryName, ''Library Name''),
     (F_TerminalLocation, ''Terminal Location''),
     (F_HoldPickupLocation, ''Hold Pickup Location''),
     (F_CallNumber, ''Call Number''),
     (F_SequenceNumber, ''Sequence Number''),
     (F_Checksum, ''Checksum''),
     (F_ChargePrivilegesDenied, ''Charge Privileges Denied''),
     (F_RenewalPrivilegesDenied, ''Renewal Privileges Denied''),
     (F_RecallPrivilegesDenied, ''Recall Privileges Denied''),
     (F_HoldPrivilegesDenied, ''Hold Privileges Denied''),
     (F_ValidPatron, ''Valid Patron''),
     (F_CardReportedLost, ''Card Reported Lost''),
     (F_FeeAmount, ''Fee Amount''),
     (F_FeeType, ''Fee Type''),
     (F_FeeIdentifier, ''Fee Identifier''),
     (F_PaymentType, ''Payment Type''),
     (F_TransactionID, ''Transaction ID''),
     (F_CurrencyType, ''Currency Type''),
     (F_PermanentItemType, ''Permanent Item Type''),
     (F_CurrentItemType, ''Current Item Type''),
     (F_DesensitizeItem, ''Desensitize Item''),
     (F_ResensitizeItem, ''Resensitize Item''),
     (F_MediaType, ''Media Type''),
     (F_AlertType, ''Alert Type''),
     (F_HoldQueueLength, ''Hold Queue Length''),
     (F_PickupServicePoint, ''Pickup Service Point''),
     (F_RequestorBarcode, ''Requestor Barcode''),
     (F_HoldShelfExpirationDate, ''Hold Shelf Expiration Date / Security Marker''),
     (F_HoldItemsCount, ''Hold Items Count/List''),
     (F_OverdueItemsCount, ''Overdue Items Count/List''),
     (F_ChargedItemsCount, ''Charged Items Count/List''),
     (F_FineItemsCount, ''Fine Items Count/List''),
     (F_RecallItemsCount, ''Recall Items Count/List''),
     (F_UnavailableHoldsCount, ''Unavailable Holds Count/List''),
     (F_LoginUserID, ''Login User ID''),
     (F_LoginPassword, ''Login Password''),
     (F_LocationCode, ''Location Code''),
     (F_RenewalOK, ''Renewal OK/OK Status''),
     (F_TransactionDate, ''Transaction Date''),
     (F_Summary, ''Summary/Start Item''),
     (F_EndItem, ''End Item''),
     (F_Language, ''Language''),
     (F_HomeAddress, ''Home Address''),
     (F_EmailAddress, ''Email Address''),
     (F_HomePhoneNumber, ''Home Phone Number''),
     (F_Owner, ''Owner''),
     (F_ISBN, ''ISBN''),
     (F_ISBNIdentifier, ''ISBN Identifier''),
     (F_OtherStandardID, ''Other Standard Identifier''),
     (F_LCCN, ''LCCN''),
     (F_PrimaryContributor, ''Primary Contributor''),
     (F_WorkDescription, ''Work Description'')]"

definition FieldName :: "FieldCode \<Rightarrow> string" where
  "FieldName f = (case map_of field_names f of Some name \<Rightarrow> name | None \<Rightarrow> ''Unknown Field'')"

definition IsSensitive :: "FieldCode \<Rightarrow> bool" where
  "IsSensitive f \<longleftrightarrow> list_ex (\<lambda>s. f = s) [F_PatronPassword, F_TerminalPassword, F_LoginPassword]"

subsection \<open>Requests and their responses\<close>

text \<open>Every request but Block Patron has a response code, and that code is a response code.\<close>

lemma GetResponseCode_request:
  "IsRequestMessage m \<Longrightarrow> m \<noteq> BlockPatron \<Longrightarrow> IsResponseMessage (GetResponseCode m)"
  by (auto simp: IsRequestMessage_def request_codes_def IsResponseMessage_def response_codes_def
      GetResponseCode_def response_map_def)

lemma GetResponseCode_other: "\<not> IsRequestMessage m \<Longrightarrow> GetResponseCode m = []"
  by (auto simp: IsRequestMessage_def request_codes_def GetResponseCode_def response_map_def)

lemma IsRequestMessage_iff: "IsRequestMessage m \<longleftrightarrow> m \<in> set request_codes"
  by (auto simp: IsRequestMessage_def list_ex_iff)

lemma distinct_responses: "distinct (map GetResponseCode request_codes)"
  by code_simp

lemma GetResponseCode_inj:
  "IsRequestMessage m \<Longrightarrow> IsRequestMessage n \<Longrightarrow> GetResponseCode m = GetResponseCode n \<Longrightarrow> m = n"
  using distinct_responses by (auto simp: IsRequestMessage_iff distinct_map dest: inj_onD)

lemma request_not_response: "IsRequestMessage m \<Longrightarrow> \<not> IsResponseMessage m"
  by (auto simp: IsRequestMessage_def request_codes_def IsResponseMessage_def response_codes_def)

end
