(* ===== verification/Durations.thy ===== *)
theory Durations
  imports Go_Strings
begin

text \<open>
  \<open>internal/config/duration.go\<close>: durations such as \<open>6M\<close> or \<open>30D\<close>. The regular expression of
  the source, one or more digits followed by one of M, D, Y in either case, is written out. An
  error value keeps the fixed text of the message and drops the operands formatted into it.
\<close>

record ParsedDuration =
  Value :: int
  Period :: string

definition is_digit :: "char \<Rightarrow> bool" where
  "is_digit c \<longleftrightarrow> 48 \<le> byte c \<and> byte c \<le> 57"

definition duration_units :: string where "duration_units = ''MDYmdy''"

definition duration_regex :: "string \<Rightarrow> (string \<times> string) option" where
  "duration_regex s =
     (if s \<noteq> [] \<and> last s \<in> set duration_units \<and> butlast s \<noteq> [] \<and> list_all is_digit (butlast s)
      then Some (butlast s, [last s]) else None)"

definition ParseDuration :: "string \<Rightarrow> (string, ParsedDuration) go_result" where
  "ParseDuration s0 =
     (if s0 = [] then Err ''duration string cannot be empty''
      else let s = TrimSpace s0 in
        case duration_regex s of
          None \<Rightarrow> Err ''invalid duration format''
        | Some (digits, unit) \<Rightarrow>
            (case Atoi digits of
               None \<Rightarrow> Err ''invalid numeric value in duration''
             | Some v \<Rightarrow>
                 if v \<le> 0 then Err ''duration value must be greater than 0''
                 else Ok \<lparr>Value = v, Period = ToUpper (\<lambda>r. r) unit\<rparr>))"

definition duration_String :: "ParsedDuration \<Rightarrow> string" where
  "duration_String d = int_str (Value d) @ Period d"

lemma unit_upper:
  assumes "c \<in> set duration_units"
  shows "ToUpper (\<lambda>r. r) [c] \<in> {''M'', ''D'', ''Y''}"
proof -
  have "list_all (\<lambda>c. ToUpper (\<lambda>r. r) [c] \<in> {''M'', ''D'', ''Y''}) duration_units" by code_simp
  then show ?thesis using assms unfolding list_all_iff by blast
qed

lemma upper_unit: "p \<in> {''M'', ''D'', ''Y''} \<Longrightarrow> ToUpper (\<lambda>r. r) p = p"
proof -
  have "list_all (\<lambda>p. ToUpper (\<lambda>r. r) p = p) [''M'', ''D'', ''Y'']" by code_simp
  then show "p \<in> {''M'', ''D'', ''Y''} \<Longrightarrow> ?thesis" by (auto simp: list_all_iff)
qed

lemma Atoi_less: "Atoi s = Some v \<Longrightarrow> v < 2 ^ 63"
  by (auto simp: Atoi_def ParseInt_def Let_def split: if_splits option.splits)

lemma ParseDuration_bounds:
  assumes "ParseDuration s = Ok d"
  shows "0 < Value d \<and> Value d < 2 ^ 63 \<and> Period d \<in> {''M'', ''D'', ''Y''}"
proof -
  obtain digits unit where r: "duration_regex (TrimSpace s) = Some (digits, unit)"
    using assms by (auto simp: ParseDuration_def Let_def split: if_splits option.splits)
  then have "Period d = ToUpper (\<lambda>r. r) unit" "0 < Value d" "Atoi digits = Some (Value d)"
    using assms by (auto simp: ParseDuration_def Let_def split: if_splits option.splits)
  moreover obtain c where "c \<in> set duration_units" "unit = [c]"
    using r by (auto simp: duration_regex_def split: if_splits)
  ultimately show ?thesis using unit_upper Atoi_less by metis
qed

lemma trim_with_none: "find (\<lambda>w. prefix w s) ws = None \<Longrightarrow> trim_with ws n s = s"
  by (cases n) auto

text \<open>Text that begins and ends with a printable ASCII character is not trimmed.\<close>

lemma space_rune_bytes:
  "r \<in> set space_runes \<Longrightarrow>
     (byte (hd (encode_rune r)) < 33 \<or> 127 \<le> byte (hd (encode_rune r))) \<and>
     (byte (last (encode_rune r)) < 33 \<or> 127 \<le> byte (last (encode_rune r)))"
proof -
  have "list_all (\<lambda>r. (byte (hd (encode_rune r)) < 33 \<or> 127 \<le> byte (hd (encode_rune r))) \<and>
     (byte (last (encode_rune r)) < 33 \<or> 127 \<le> byte (last (encode_rune r)))) space_runes"
    by (simp add: space_runes_def encode_rune.simps scalar_def)
  then show "r \<in> set space_runes \<Longrightarrow> ?thesis" unfolding list_all_iff by blast
qed

lemma prefix_hd: "prefix p s \<Longrightarrow> p \<noteq> [] \<Longrightarrow> hd p = hd s"
  by (auto simp: prefix_def)

lemma space_not_prefix:
  assumes "33 \<le> byte (hd s)" "byte (hd s) < 127" "r \<in> set space_runes"
  shows "\<not> prefix (encode_rune r) s"
  using space_rune_bytes [OF assms(3)] prefix_hd [of "encode_rune r" s] assms(1,2) by auto

lemma space_not_suffix:
  assumes "33 \<le> byte (last s)" "byte (last s) < 127" "r \<in> set space_runes"
  shows "\<not> prefix (rev (encode_rune r)) (rev s)"
  using space_rune_bytes [OF assms(3)] prefix_hd [of "rev (encode_rune r)" "rev s"] assms(1,2)
  by (auto simp: hd_rev)

lemma TrimSpace_printable:
  assumes "33 \<le> byte (hd s)" "byte (hd s) < 127" "33 \<le> byte (last s)" "byte (last s) < 127"
  shows "TrimSpace s = s"
  using space_not_prefix [OF assms(1-2)] space_not_suffix [OF assms(3-4)]
  by (simp add: TrimSpace_def Let_def trim_with_none find_None_iff)

theorem ParseDuration_String:
  assumes "0 < Value d" "Value d < 2 ^ 63" "Period d \<in> {''M'', ''D'', ''Y''}"
  shows "ParseDuration (duration_String d) = Ok d"
proof -
  let ?n = "nat_str (nat (Value d))"
  obtain p where p: "Period d = [p]" "p \<in> set ''MDY''" using assms(3) by auto
  have i: "int_str (Value d) = ?n" using assms(1) by (simp add: int_str_def)
  have h: "48 \<le> byte (hd ?n) \<and> byte (hd ?n) \<le> 57" 
    by (rule nat_str_digits [OF hd_in_set]) simp
  have t: "TrimSpace (?n @ [p]) = ?n @ [p]"
    by (rule TrimSpace_printable) (use h p(2) in auto)
  have g: "list_all is_digit ?n" using nat_str_digits by (auto simp: list_all_iff is_digit_def)
  have u: "ToUpper (\<lambda>r. r) [p] = [p]" using upper_unit assms(3) by (simp add: p)
  have "p \<in> set duration_units" using p(2) by (auto simp: duration_units_def)
  moreover
  have "Atoi (int_str (Value d)) = Some (Value d)" using assms by (intro Atoi_int_str) auto
  ultimately show ?thesis using assms(1) p t g u
    by (auto simp: ParseDuration_def duration_String_def i duration_regex_def Let_def)
qed

end
