(* ===== verification/Tenant_Config.thy ===== *)
theory Tenant_Config
  imports Durations "HOL-Library.AList"
begin

text \<open>
  \<open>internal/config/config.go\<close> and \<open>loader.go\<close>: the bootstrap and tenant configuration, its
  validation and defaults, the loading of tenants from their sources, and the functions that
  read the configuration. Go's \<open>int\<close> configuration values are \<^typ>\<open>int\<close>; a pointer to an
  optional part is an \<open>option\<close>; a map read from YAML is an association list (its keys are
  distinct). YAML decoding, the URL parser and the fetching of a source are arguments.
  Fields carry a prefix where several Go structs share a name.
\<close>

record ConfigSource =
  cs_Type :: string
  cs_Path :: string
  cs_URL :: string
  cs_Bucket :: string
  cs_Key :: string
  cs_Region :: string

record TLSConfig =
  tls_Enabled :: bool
  tls_CertFile :: string
  tls_KeyFile :: string

record RollingRenewalConfig =
  rr_Enabled :: bool
  RenewWithin :: string
  ExtendFor :: string
  ExtendExpired :: bool
  ExtendExpiredLimits :: string
  DryRun :: bool
  SelectPatrons :: bool
  AllowedPatrons :: "string list"

record CustomFieldMapping =
  cfm_Code :: string
  cfm_Source :: string
  cfm_Type :: string
  ArrayDelimiter :: string
  MaxLength :: int

record PatronCustomFieldsConfig =
  pcf_Enabled :: bool
  pcf_Fields :: "CustomFieldMapping list"

record SCTenantConfig =
  sc_Tenant :: string
  SCSubnet :: string
  sc_Port :: int
  LocationCodes :: "string list"
  UsernamePrefixes :: "string list"

record FieldConfiguration =
  fc_Code :: string
  fc_Enabled :: bool
  PreferredFirstName :: "bool option"

record MessageSupport =
  ms_Code :: string
  ms_Enabled :: bool
  ms_Fields :: "FieldConfiguration list"

record TenantConfig =
  Tenant :: string
  cfgInstitutionID :: string
  cfgLibraryName :: string
  ErrorDetectionEnabled :: bool
  MessageDelimiter :: string
  FieldDelimiter :: string
  Charset :: string
  Timezone :: string
  LogLevel :: string
  OkapiURL :: string
  OkapiTenant :: string
  SupportedMessages :: "MessageSupport list"
  PatronPasswordVerificationRequired :: bool
  UsePinForPatronVerification :: bool
  InvalidCheckinStatuses :: string
  ClaimedReturnedResolution :: string
  StatusUpdateOk :: bool
  OfflineOk :: bool
  TimeoutPeriod :: int
  RetriesAllowed :: int
  Currency :: string
  CirculationStatusMapping :: "(string \<times> string) list"
  RenewAllMaxItems :: int
  PatronItemsLimit :: int
  AcceptBulkPayment :: bool
  PaymentMethod :: string
  NotifyPatron :: bool
  RollingRenewals :: "RollingRenewalConfig option"
  PatronCustomFields :: "PatronCustomFieldsConfig option"

record Config =
  Port :: int
  Host :: string
  cfg_OkapiURL :: string
  HealthCheckPort :: int
  TokenCacheCapacity :: int
  ScanPeriod :: int
  cfg_LogLevel :: string
  TenantConfigSources :: "ConfigSource list"
  TLS :: "TLSConfig option"
  Tenants :: "(string \<times> TenantConfig) list"
  TenantsOrdered :: "TenantConfig list"
  SCTenants :: "SCTenantConfig list"

definition SetTenants ::
  "(string \<times> TenantConfig) list \<Rightarrow> SCTenantConfig list \<Rightarrow> TenantConfig list \<Rightarrow> Config \<Rightarrow> Config" where
  "SetTenants tenants scTenants ordered c =
     c\<lparr>Tenants := tenants, SCTenants := scTenants, TenantsOrdered := ordered\<rparr>"

definition OKAPIUnlimitedLimit :: int where "OKAPIUnlimitedLimit = 2147483647"

subsection \<open>Validation\<close>

definition rr_Validate :: "RollingRenewalConfig \<Rightarrow> string option" where
  "rr_Validate rr =
     (if \<not> rr_Enabled rr then None
      else if RenewWithin rr = [] then Some ''renewWithin is required when rolling renewals are enabled''
      else if \<not> is_ok (ParseDuration (RenewWithin rr)) then Some ''invalid renewWithin duration''
      else if ExtendFor rr = [] then Some ''extendFor is required when rolling renewals are enabled''
      else if \<not> is_ok (ParseDuration (ExtendFor rr)) then Some ''invalid extendFor duration''
      else if ExtendExpiredLimits rr \<noteq> [] \<and> \<not> is_ok (ParseDuration (ExtendExpiredLimits rr))
      then Some ''invalid extendExpiredLimits duration''
      else if SelectPatrons rr \<and> AllowedPatrons rr = []
      then Some ''allowedPatrons cannot be empty when selectPatrons is true''
      else None)"

definition ValidateRollingRenewals :: "TenantConfig \<Rightarrow> string option" where
  "ValidateRollingRenewals tc =
     (case RollingRenewals tc of None \<Rightarrow> None | Some rr \<Rightarrow> rr_Validate rr)"

definition isValidCustomFieldCode :: "string \<Rightarrow> bool" where
  "isValidCustomFieldCode code \<longleftrightarrow>
     (case code of
        [a, b] \<Rightarrow> (a = CHR ''S'' \<or> a = CHR ''s'') \<and>
          ((65 \<le> byte b \<and> byte b \<le> 90) \<or> (97 \<le> byte b \<and> byte b \<le> 122))
      | _ \<Rightarrow> False)"

definition isValidCustomFieldType :: "string \<Rightarrow> bool" where
  "isValidCustomFieldType fieldType \<longleftrightarrow> fieldType \<in> {''string'', ''boolean'', ''array''}"

definition default_mapping :: "CustomFieldMapping \<Rightarrow> CustomFieldMapping" where
  "default_mapping f0 =
     (let f = (if cfm_Type f0 = ''array'' \<and> ArrayDelimiter f0 = [] then f0\<lparr>ArrayDelimiter := '',''\<rparr> else f0)
      in if MaxLength f0 \<le> 0 then f\<lparr>MaxLength := 60\<rparr> else f)"

text \<open>The loop over the fields: an error stops it, the defaults already filled in stay.\<close>

fun validate_fields ::
  "(nat \<Rightarrow> nat) \<Rightarrow> string list \<Rightarrow> CustomFieldMapping list \<Rightarrow> string option \<times> CustomFieldMapping list" where
  "validate_fields uni seen [] = (None, [])"
| "validate_fields uni seen (f # fs) =
     (if \<not> isValidCustomFieldCode (cfm_Code f) then (Some ''invalid field code'', f # fs)
      else let codeUpper = ToUpper uni (cfm_Code f) in
        if codeUpper \<in> set seen then (Some ''duplicate field code'', f # fs)
        else if cfm_Source f = [] then (Some ''source field is required'', f # fs)
        else if \<not> isValidCustomFieldType (cfm_Type f) then (Some ''invalid type'', f # fs)
        else let r = validate_fields uni (codeUpper # seen) fs in (fst r, default_mapping f # snd r))"

definition pcf_Validate ::
  "(nat \<Rightarrow> nat) \<Rightarrow> PatronCustomFieldsConfig \<Rightarrow> string option \<times> PatronCustomFieldsConfig" where
  "pcf_Validate uni pcf =
     (if \<not> pcf_Enabled pcf then (None, pcf)
      else if pcf_Fields pcf = [] then (None, pcf)
      else let r = validate_fields uni [] (pcf_Fields pcf) in (fst r, pcf\<lparr>pcf_Fields := snd r\<rparr>))"

definition ValidatePatronCustomFields ::
  "(nat \<Rightarrow> nat) \<Rightarrow> TenantConfig \<Rightarrow> string option \<times> TenantConfig" where
  "ValidatePatronCustomFields uni tc =
     (case PatronCustomFields tc of
        None \<Rightarrow> (None, tc)
      | Some pcf \<Rightarrow> let r = pcf_Validate uni pcf in (fst r, tc\<lparr>PatronCustomFields := Some (snd r)\<rparr>))"

definition cfg_Validate :: "(nat \<Rightarrow> nat) \<Rightarrow> (string \<Rightarrow> bool) \<Rightarrow> Config \<Rightarrow> string option" where
  "cfg_Validate uni url_ok c =
     (if Port c < 1 \<or> Port c > 65535 then Some ''invalid port''
      else if HealthCheckPort c < 1 \<or> HealthCheckPort c > 65535 then Some ''invalid health check port''
      else if cfg_OkapiURL c = [] then Some ''OkapiURL is required''
      else if \<not> url_ok (cfg_OkapiURL c) then Some ''invalid OkapiURL''
      else if ScanPeriod c < 0 then Some ''scan period must be non-negative''
      else if ToLower uni (cfg_LogLevel c) \<notin> {''debug'', ''info'', ''warn'', ''error''}
      then Some ''invalid log level''
      else case TLS c of
        None \<Rightarrow> None
      | Some tls \<Rightarrow>
          if tls_Enabled tls \<and> tls_CertFile tls = [] then Some ''TLS cert file is required when TLS is enabled''
          else if tls_Enabled tls \<and> tls_KeyFile tls = [] then Some ''TLS key file is required when TLS is enabled''
          else None)"

definition DeprecationWarnings :: "Config \<Rightarrow> string list" where
  "DeprecationWarnings c =
     (if TokenCacheCapacity c \<noteq> 0
      then [''tokenCacheCapacity is deprecated and ignored (tokens are held per SIP connection)''] else [])"

subsection \<open>Loading\<close>

definition UnescapeDelimiter :: "string \<Rightarrow> string" where
  "UnescapeDelimiter s =
     (if s = [CHR 0x5C, CHR ''r''] then [CHR 0x0D]
      else if s = [CHR 0x5C, CHR ''n''] then [CHR 0x0A]
      else if s = [CHR 0x5C, CHR ''r'', CHR 0x5C, CHR ''n''] then [CHR 0x0D, CHR 0x0A]
      else s)"

definition applyTenantDefaults :: "TenantConfig \<Rightarrow> TenantConfig" where
  "applyTenantDefaults tc =
     tc\<lparr>MessageDelimiter :=
          UnescapeDelimiter (if MessageDelimiter tc = [] then [CHR 0x5C, CHR ''r''] else MessageDelimiter tc),
        FieldDelimiter :=
          (let d = UnescapeDelimiter (FieldDelimiter tc) in if d = [] then ''|'' else d),
        Charset := (if Charset tc = [] then ''IBM850'' else Charset tc),
        Timezone := (if Timezone tc = [] then ''America/New_York'' else Timezone tc),
        LogLevel := (if LogLevel tc = [] then ''None'' else LogLevel tc)\<rparr>"

record TenantFileConfig =
  tf_Tenants :: "TenantConfig list"
  tf_SCTenants :: "SCTenantConfig list"

fun load_tenants :: "(nat \<Rightarrow> nat) \<Rightarrow> TenantConfig list \<Rightarrow> (string, TenantConfig list) go_result" where
  "load_tenants uni [] = Ok []"
| "load_tenants uni (tc # tcs) =
     (if Tenant tc = [] then Err ''each tenant entry must have a non-empty tenant field''
      else let t1 = applyTenantDefaults tc in
        case ValidateRollingRenewals t1 of
          Some e \<Rightarrow> Err (''invalid rolling renewals: '' @ e)
        | None \<Rightarrow>
            (case ValidatePatronCustomFields uni t1 of
               (Some e, _) \<Rightarrow> Err (''invalid patron custom fields: '' @ e)
             | (None, t2) \<Rightarrow> go_bind (load_tenants uni tcs) (\<lambda>ts. Ok (t2 # ts))))"

definition parseTenantConfigFile ::
  "(nat \<Rightarrow> nat) \<Rightarrow> (string \<Rightarrow> TenantFileConfig option) \<Rightarrow> string \<Rightarrow>
     (string, TenantConfig list \<times> SCTenantConfig list) go_result" where
  "parseTenantConfigFile uni unmarshal data =
     (case unmarshal data of
        None \<Rightarrow> Err ''failed to parse YAML''
      | Some file \<Rightarrow>
          if tf_Tenants file = [] then Err ''tenant config file must contain a non-empty tenants list''
          else go_bind (load_tenants uni (tf_Tenants file)) (\<lambda>ts. Ok (ts, tf_SCTenants file)))"

text \<open>
  The loader of a source: \<open>fetch\<close> is what reading the file, the URL or the bucket object gives.
\<close>

definition source_load ::
  "(nat \<Rightarrow> nat) \<Rightarrow> (string \<Rightarrow> TenantFileConfig option) \<Rightarrow> (ConfigSource \<Rightarrow> string option) \<Rightarrow>
     ConfigSource \<Rightarrow> (string, TenantConfig list \<times> SCTenantConfig list) go_result" where
  "source_load uni unmarshal fetch source =
     (case fetch source of
        None \<Rightarrow> Err ''failed to read the source''
      | Some data \<Rightarrow> parseTenantConfigFile uni unmarshal data)"

definition add_tenant :: "TenantConfig \<Rightarrow> Config \<Rightarrow> Config" where
  "add_tenant tc c =
     c\<lparr>Tenants := AList.update (Tenant tc) tc (Tenants c), TenantsOrdered := TenantsOrdered c @ [tc]\<rparr>"

fun loadTenantConfigs ::
  "(ConfigSource \<Rightarrow> (string, TenantConfig list \<times> SCTenantConfig list) go_result) \<Rightarrow>
     ConfigSource list \<Rightarrow> Config \<Rightarrow> (string, Config) go_result" where
  "loadTenantConfigs load [] c = Ok c"
| "loadTenantConfigs load (source # sources) c =
     (if cs_Type source \<notin> {''file'', ''http'', ''s3''} then Err ''unsupported config source type''
      else case load source of
        Err e \<Rightarrow> Err (''failed to load config from '' @ cs_Type source @ '': '' @ e)
      | Panic \<Rightarrow> Panic
      | Ok (tenantCfgs, scTenants) \<Rightarrow>
          let c1 = fold add_tenant tenantCfgs c
          in loadTenantConfigs load sources (c1\<lparr>SCTenants := SCTenants c1 @ scTenants\<rparr>))"

text \<open>\<open>Load\<close>, after the file has been read and decoded into \<open>raw\<close>.\<close>

definition Load ::
  "(ConfigSource \<Rightarrow> (string, TenantConfig list \<times> SCTenantConfig list) go_result) \<Rightarrow>
     Config \<Rightarrow> (string, Config) go_result" where
  "Load load raw =
     (let c1 = (if Port raw = 0 then raw\<lparr>Port := 6443\<rparr> else raw);
          c2 = (if HealthCheckPort c1 = 0 then c1\<lparr>HealthCheckPort := 8081\<rparr> else c1);
          c3 = (if ScanPeriod c2 = 0 then c2\<lparr>ScanPeriod := 300000\<rparr> else c2);
          c4 = (if cfg_LogLevel c3 = [] then c3\<lparr>cfg_LogLevel := ''info''\<rparr> else c3);
          c5 = c4\<lparr>Tenants := []\<rparr>
      in map_err (\<lambda>e. ''failed to load tenant configs: '' @ e)
           (loadTenantConfigs load (TenantConfigSources c5) c5))"

subsection \<open>Reading the tenant configuration\<close>

definition IsMessageSupported :: "TenantConfig \<Rightarrow> string \<Rightarrow> bool" where
  "IsMessageSupported tc code \<longleftrightarrow>
     list_ex (\<lambda>msg. ms_Code msg = code \<and> ms_Enabled msg) (SupportedMessages tc)"

fun field_enabled :: "MessageSupport list \<Rightarrow> string \<Rightarrow> string \<Rightarrow> bool" where
  "field_enabled [] messageCode fieldCode = True"
| "field_enabled (msg # msgs) messageCode fieldCode =
     (if ms_Code msg = messageCode then
        if ms_Fields msg = [] then True
        else case find (\<lambda>field. fc_Code field = fieldCode) (ms_Fields msg) of
          Some field \<Rightarrow> fc_Enabled field | None \<Rightarrow> True
      else field_enabled msgs messageCode fieldCode)"

definition IsFieldEnabled :: "TenantConfig \<Rightarrow> string \<Rightarrow> string \<Rightarrow> bool" where
  "IsFieldEnabled tc messageCode fieldCode = field_enabled (SupportedMessages tc) messageCode fieldCode"

text \<open>Here a message entry without the field does not end the search.\<close>

fun field_config :: "MessageSupport list \<Rightarrow> string \<Rightarrow> string \<Rightarrow> FieldConfiguration option" where
  "field_config [] messageCode fieldCode = None"
| "field_config (msg # msgs) messageCode fieldCode =
     (if ms_Code msg = messageCode then
        case find (\<lambda>field. fc_Code field = fieldCode) (ms_Fields msg) of
          Some field \<Rightarrow> Some field
        | None \<Rightarrow> field_config msgs messageCode fieldCode
      else field_config msgs messageCode fieldCode)"

definition GetFieldConfig :: "TenantConfig \<Rightarrow> string \<Rightarrow> string \<Rightarrow> FieldConfiguration option" where
  "GetFieldConfig tc messageCode fieldCode = field_config (SupportedMessages tc) messageCode fieldCode"

definition IsPreferredFirstNameEnabled :: "TenantConfig \<Rightarrow> string \<Rightarrow> string \<Rightarrow> bool" where
  "IsPreferredFirstNameEnabled tc messageCode fieldCode =
     (case GetFieldConfig tc messageCode fieldCode of
        None \<Rightarrow> False
      | Some cfg \<Rightarrow> (case PreferredFirstName cfg of None \<Rightarrow> False | Some b \<Rightarrow> b))"

definition default_circulation_statuses :: "(string \<times> string) list" where
  "default_circulation_statuses = [
     (''Available'', ''03''), (''Checked out'', ''04''), (''In process'', ''06''),
     (''Awaiting pickup'', ''08''), (''In transit'', ''10''), (''Claimed returned'', ''11''),
     (''Lost and paid'', ''12''), (''Aged to lost'', ''12''), (''Declared lost'', ''12''),
     (''Missing'', ''13''), (''Withdrawn'', ''01''), (''On order'', ''02''), (''Paged'', ''08'')]"

definition getDefaultCirculationStatusMapping :: "string \<Rightarrow> string" where
  "getDefaultCirculationStatusMapping folioStatus =
     (case map_of default_circulation_statuses folioStatus of Some code \<Rightarrow> code | None \<Rightarrow> ''01'')"

definition MapCirculationStatus :: "TenantConfig \<Rightarrow> string \<Rightarrow> string" where
  "MapCirculationStatus tc folioStatus =
     (if CirculationStatusMapping tc = [] then getDefaultCirculationStatusMapping folioStatus
      else case map_of (CirculationStatusMapping tc) folioStatus of
        Some sip2Code \<Rightarrow> sip2Code
      | None \<Rightarrow> (case map_of (CirculationStatusMapping tc) ''default'' of
            Some defaultCode \<Rightarrow> defaultCode | None \<Rightarrow> ''01''))"

definition GetRenewAllMaxItems :: "TenantConfig \<Rightarrow> int" where
  "GetRenewAllMaxItems tc = (if RenewAllMaxItems tc \<le> 0 then 50 else RenewAllMaxItems tc)"

definition GetPatronItemsLimit :: "TenantConfig \<Rightarrow> int" where
  "GetPatronItemsLimit tc = (if PatronItemsLimit tc \<le> 0 then OKAPIUnlimitedLimit else PatronItemsLimit tc)"

definition GetPaymentMethod :: "TenantConfig \<Rightarrow> string" where
  "GetPaymentMethod tc = (if PaymentMethod tc = [] then ''Credit card'' else PaymentMethod tc)"

definition GetTimeoutPeriod :: "TenantConfig \<Rightarrow> string" where
  "GetTimeoutPeriod tc =
     (let timeout = (if TimeoutPeriod tc \<le> 0 then 30 else TimeoutPeriod tc)
      in pad_int 3 (if timeout > 999 then 999 else timeout))"

definition GetRetriesAllowed :: "TenantConfig \<Rightarrow> string" where
  "GetRetriesAllowed tc =
     (let retries = (if RetriesAllowed tc \<le> 0 then 3 else RetriesAllowed tc)
      in pad_int 3 (if retries > 999 then 999 else retries))"

definition messagePositions :: "(string \<times> nat) list" where
  "messagePositions = [
     (''23'', 0), (''11'', 1), (''09'', 2), (''01'', 3), (''99'', 4), (''97'', 5), (''93'', 6), (''63'', 7),
     (''35'', 8), (''37'', 9), (''17'', 10), (''19'', 11), (''25'', 12), (''15'', 13), (''29'', 14), (''65'', 15)]"

definition mark_supported :: "MessageSupport \<Rightarrow> string \<Rightarrow> string" where
  "mark_supported msg bx =
     (case map_of messagePositions (ms_Code msg) of
        None \<Rightarrow> bx
      | Some pos \<Rightarrow>
          if pos = 3 \<or> pos = 12 then bx[pos := CHR ''N'']
          else if ms_Enabled msg then bx[pos := CHR ''Y''] else bx[pos := CHR ''N''])"

definition BuildSupportedMessages :: "TenantConfig \<Rightarrow> string" where
  "BuildSupportedMessages tc = fold mark_supported (SupportedMessages tc) (replicate 16 CHR ''N'')"

definition IsRollingRenewalEnabled :: "TenantConfig \<Rightarrow> bool" where
  "IsRollingRenewalEnabled tc =
     (case RollingRenewals tc of None \<Rightarrow> False | Some rr \<Rightarrow> rr_Enabled rr)"

definition GetClaimedReturnedResolution :: "(nat \<Rightarrow> nat) \<Rightarrow> TenantConfig \<Rightarrow> string" where
  "GetClaimedReturnedResolution uni tc =
     (let r = ToLower uni (ClaimedReturnedResolution tc)
      in if r = ''patron'' then ''patron'' else if r = ''library'' then ''library'' else ''none'')"

definition MapClaimedReturnedResolutionToFOLIO :: "(nat \<Rightarrow> nat) \<Rightarrow> TenantConfig \<Rightarrow> string" where
  "MapClaimedReturnedResolutionToFOLIO uni tc =
     (let r = GetClaimedReturnedResolution uni tc
      in if r = ''patron'' then ''Returned by patron''
         else if r = ''library'' then ''Found by library'' else [])"

definition GetInstitutionID :: "TenantConfig \<Rightarrow> string" where
  "GetInstitutionID tc = (if cfgInstitutionID tc \<noteq> [] then cfgInstitutionID tc else Tenant tc)"

definition GetLibraryName :: "TenantConfig \<Rightarrow> string" where
  "GetLibraryName tc = (if cfgLibraryName tc \<noteq> [] then cfgLibraryName tc else GetInstitutionID tc)"

subsection \<open>Properties\<close>

lemma mark_supported_length [simp]: "length (mark_supported msg bx) = length bx"
  by (simp add: mark_supported_def split: option.splits)

lemma fold_mark_length [simp]: "length (fold mark_supported ms bx) = length bx"
  by (induction ms arbitrary: bx) simp_all

lemma BuildSupportedMessages_length: "length (BuildSupportedMessages tc) = 16"
  by (simp add: BuildSupportedMessages_def)

lemma messagePositions_check:
  "distinct (map snd messagePositions) \<and> list_all (\<lambda>p. snd p < 16) messagePositions"
  by (simp add: messagePositions_def)

lemma messagePositions_inj:
  assumes "map_of messagePositions c = Some pos" "map_of messagePositions c' = Some pos"
  shows "c = c'"
  using assms [THEN map_of_SomeD] messagePositions_check unfolding distinct_map inj_on_def
  by (metis prod.inject snd_conv)

lemma messagePositions_bound: "map_of messagePositions c = Some pos \<Longrightarrow> pos < 16"
  using messagePositions_check map_of_SomeD [of messagePositions c pos]
  unfolding list_all_iff by (metis snd_conv)

text \<open>The letter of a message is decided by its LAST entry in the configuration.\<close>

lemma fold_mark_nth:
  assumes "map_of messagePositions code = Some pos" "length bx = 16" "pos \<noteq> 3" "pos \<noteq> 12"
  shows "fold mark_supported ms bx ! pos =
    (let es = filter (\<lambda>m. ms_Code m = code) ms in
     if es = [] then bx ! pos else if ms_Enabled (last es) then CHR ''Y'' else CHR ''N'')"
  using assms(2)
proof (induction ms arbitrary: bx rule: rev_induct)
  case (snoc m ms)
  have p: "pos < 16" by (rule messagePositions_bound [OF assms(1)])
  show ?case
  proof (cases "ms_Code m = code")
    case True
    have "length (fold mark_supported ms bx) = 16" using snoc.prems by simp
    then show ?thesis using assms p True by (simp add: mark_supported_def [of m])
  next
    case False
    then have "map_of messagePositions (ms_Code m) \<noteq> Some pos"
      using messagePositions_inj [OF assms(1)] by blast
    then have "mark_supported m bx' ! pos = bx' ! pos" for bx'
      by (auto simp: mark_supported_def nth_list_update_neq split: option.splits)
    then show ?thesis using snoc False by simp
  qed
qed simp

lemma BuildSupportedMessages_letter:
  assumes "map_of messagePositions code = Some pos" "pos \<noteq> 3" "pos \<noteq> 12"
  shows "BuildSupportedMessages tc ! pos =
    (let es = filter (\<lambda>m. ms_Code m = code) (SupportedMessages tc) in
     if es \<noteq> [] \<and> ms_Enabled (last es) then CHR ''Y'' else CHR ''N'')"
  using fold_mark_nth [OF assms(1) _ assms(2,3), of "replicate 16 CHR ''N''" "SupportedMessages tc"]
    messagePositions_bound [OF assms(1)]
  by (auto simp: BuildSupportedMessages_def Let_def)

lemma pad_int_3: "0 \<le> i \<Longrightarrow> i \<le> 999 \<Longrightarrow> length (pad_int 3 i) = 3"
  using length_nat_str [of "nat i" 3] by (simp add: pad_int_def Let_def)

lemma GetTimeoutPeriod_width: "length (GetTimeoutPeriod tc) = 3"
  by (simp add: GetTimeoutPeriod_def Let_def pad_int_3)

lemma GetRetriesAllowed_width: "length (GetRetriesAllowed tc) = 3"
  by (simp add: GetRetriesAllowed_def Let_def pad_int_3)

lemma isValidCustomFieldCode_length: "isValidCustomFieldCode c \<Longrightarrow> length c = 2"
  by (auto simp: isValidCustomFieldCode_def split: list.splits)

text \<open>A loaded tenant has its delimiters, character set and time zone filled in.\<close>

lemma UnescapeDelimiter_Nil [simp]: "UnescapeDelimiter s = [] \<longleftrightarrow> s = []"
  by (simp add: UnescapeDelimiter_def)

lemma applyTenantDefaults_filled:
  "MessageDelimiter (applyTenantDefaults tc) \<noteq> [] \<and> FieldDelimiter (applyTenantDefaults tc) \<noteq> [] \<and>
   Charset (applyTenantDefaults tc) \<noteq> [] \<and> Timezone (applyTenantDefaults tc) \<noteq> [] \<and>
   Tenant (applyTenantDefaults tc) = Tenant tc"
  by (simp add: applyTenantDefaults_def Let_def)

end
