(* ===== verification/Sip_Parser.thy ===== *)
theory Sip_Parser
  imports Checksum Codes Tenant_Config
begin

text \<open>
  \<open>internal/sip2/parser/parser.go\<close>: from the bytes of a request to a \<open>Message\<close>. The parser
  reads its tenant's configuration; the character encoders are the argument \<open>enc\<close>. A slice of a
  string beyond its end panics, so a message that is shorter than its code after the checksum
  fields are stripped is \<^const>\<open>Panic\<close>.
\<close>

record Message =
  Code :: MessageCode
  RawMessage :: string
  Fields :: "string \<rightharpoonup> string"
  MultiValueFields :: "string \<rightharpoonup> string list"
  msgSequenceNumber :: string
  ChecksumValid :: bool

definition slice :: "string \<Rightarrow> nat \<Rightarrow> nat \<Rightarrow> string" where
  "slice s i j = take (j - i) (drop i s)"

text \<open>Where the variable fields start, for a message content of \<open>n\<close> bytes.\<close>

definition fieldsStart :: "MessageCode \<Rightarrow> nat \<Rightarrow> nat" where
  "fieldsStart code n =
     (if code = LoginRequest then if n \<ge> 2 then 2 else 0
      else if code = PatronStatusRequest then if n \<ge> 21 then 21 else 0
      else if code = CheckoutRequest then if n \<ge> 38 then 38 else if n \<ge> 20 then 20 else 0
      else if code = CheckinRequest then if n \<ge> 37 then 37 else 0
      else if code = PatronInformationRequest then if n \<ge> 31 then 31 else 0
      else if code = ItemInformationRequest then if n \<ge> 18 then 18 else 0
      else if code = RenewRequest then if n \<ge> 38 then 38 else if n \<ge> 20 then 20 else 0
      else if code = RenewAllRequest then if n \<ge> 18 then 18 else 0
      else if code = EndPatronSessionRequest then if n \<ge> 18 then 18 else 0
      else if code = FeePaidRequest then if n \<ge> 25 then 25 else 0
      else if code = ItemStatusUpdateRequest then if n \<ge> 18 then 18 else 0
      else if code = SCStatus then if n \<ge> 8 then 8 else 0
      else 0)"

definition fixed_fields :: "MessageCode \<Rightarrow> string \<Rightarrow> (string \<times> string) list" where
  "fixed_fields code s =
     (let n = length s in
      if code = LoginRequest then
        if n \<ge> 2 then [(''uid_algorithm'', slice s 0 1), (''pwd_algorithm'', slice s 1 2)] else []
      else if code = PatronStatusRequest then
        if n \<ge> 21 then [(''language'', slice s 0 3), (''transaction_date'', slice s 3 21)] else []
      else if code = CheckoutRequest then
        if n \<ge> 20 then
          [(''sc_renewal_policy'', slice s 0 1), (''no_block'', slice s 1 2),
           (''transaction_date'', slice s 2 20)] @
          (if n \<ge> 38 then [(''nb_due_date'', slice s 20 38)] else [])
        else []
      else if code = CheckinRequest then
        if n \<ge> 37 then
          [(''no_block'', slice s 0 1), (''transaction_date'', slice s 1 19), (''return_date'', slice s 19 37)]
        else []
      else if code = PatronInformationRequest then
        if n \<ge> 31 then
          [(''language'', slice s 0 3), (''transaction_date'', slice s 3 21), (''summary'', slice s 21 31)]
        else []
      else if code = ItemInformationRequest then
        if n \<ge> 18 then [(''transaction_date'', slice s 0 18)] else []
      else if code = RenewRequest then
        if n \<ge> 20 then
          [(''third_party_allowed'', slice s 0 1), (''no_block'', slice s 1 2),
           (''transaction_date'', slice s 2 20)] @
          (if n \<ge> 38 then [(''nb_due_date'', slice s 20 38)] else [])
        else []
      else if code = RenewAllRequest then
        if n \<ge> 18 then [(''transaction_date'', slice s 0 18)] else []
      else if code = EndPatronSessionRequest then
        if n \<ge> 18 then [(''transaction_date'', slice s 0 18)] else []
      else if code = FeePaidRequest then
        if n \<ge> 20 then
          [(''transaction_date'', slice s 0 18), (''fee_type'', slice s 18 20)] @
          (if n \<ge> 22 then [(''payment_type'', slice s 20 22)] else []) @
          (if n \<ge> 25 then [(''currency_type'', slice s 22 25)] else [])
        else []
      else if code = ItemStatusUpdateRequest then
        if n \<ge> 18 then [(''transaction_date'', slice s 0 18)] else []
      else if code = SCStatus then
        if n \<ge> 4 then
          [(''status_code'', slice s 0 1), (''max_print_width'', slice s 1 4)] @
          (if n \<ge> 8 then [(''protocol_version'', slice s 4 8)] else [])
        else []
      else [])"

definition ExtractFixedFields :: "Message \<Rightarrow> (string \<rightharpoonup> string)" where
  "ExtractFixedFields msg =
     (if length (RawMessage msg) < 2 then Map.empty
      else map_of (fixed_fields (Code msg) (drop 2 (RawMessage msg))))"

text \<open>Step 1: the validation of the checksum and the removal of its fields.\<close>

definition checksum_stage ::
  "encoder \<Rightarrow> TenantConfig \<Rightarrow> string \<Rightarrow> (string, string \<times> string \<times> bool) go_result" where
  "checksum_stage enc cfg raw =
     (if \<not> ErrorDetectionEnabled cfg then Ok (raw, [], False)
      else case GetEncoder (Charset cfg) of
        Err e \<Rightarrow> Err ''failed to get encoder'' | Panic \<Rightarrow> Panic
      | Ok encoder \<Rightarrow>
          (case ValidateChecksum (enc encoder) raw of
             Err e \<Rightarrow> Err ''checksum validation error'' | Panic \<Rightarrow> Panic
           | Ok r \<Rightarrow> if \<not> Valid r then Err ''checksum validation failed''
                     else Ok (StripChecksum raw, crSequenceNumber r, True)))"

text \<open>Steps 2 to 6, on the message without its checksum fields.\<close>

definition parse_stage ::
  "TenantConfig \<Rightarrow> string \<Rightarrow> string \<Rightarrow> string \<Rightarrow> bool \<Rightarrow> (string, Message) go_result" where
  "parse_stage cfg raw stripped seq valid =
     (if length stripped < 2 then Panic
      else
        let code = take 2 stripped;
            content = drop 2 stripped;
            start = fieldsStart code (length content);
            variable = drop start content;
            msg = \<lparr>Code = code, RawMessage = raw,
                   Fields = (if start < length content then ParseFields variable (FieldDelimiter cfg) else Map.empty),
                   MultiValueFields = (if start < length content
                     then ParseMultiValueFields variable (FieldDelimiter cfg) else Map.empty),
                   msgSequenceNumber = seq, ChecksumValid = valid\<rparr>
        in Ok (msg\<lparr>Fields := Fields msg ++ ExtractFixedFields msg\<rparr>))"

definition Parse :: "encoder \<Rightarrow> TenantConfig \<Rightarrow> string \<Rightarrow> (string, Message) go_result" where
  "Parse enc cfg raw =
     (if length raw < 2 then Err ''message too short: must be at least 2 characters''
      else go_bind (checksum_stage enc cfg raw)
             (\<lambda>(stripped, seq, valid). parse_stage cfg raw stripped seq valid))"

definition msg_GetField :: "Message \<Rightarrow> FieldCode \<Rightarrow> string" where
  "msg_GetField m fieldCode = GetField (Fields m) fieldCode"

definition msg_GetMultiValueField :: "Message \<Rightarrow> FieldCode \<Rightarrow> string list" where
  "msg_GetMultiValueField m fieldCode = GetMultiValueField (MultiValueFields m) fieldCode"

definition HasField :: "Message \<Rightarrow> FieldCode \<Rightarrow> bool" where
  "HasField m fieldCode \<longleftrightarrow> Fields m fieldCode \<noteq> None"

definition StripMessageDelimiter :: "TenantConfig \<Rightarrow> string \<Rightarrow> string" where
  "StripMessageDelimiter cfg message = TrimSuffix message (MessageDelimiter cfg)"

definition ValidateMessage :: "TenantConfig \<Rightarrow> Message \<Rightarrow> string option" where
  "ValidateMessage cfg msg =
     (if \<not> IsRequestMessage (Code msg) \<and> \<not> IsResponseMessage (Code msg)
      then Some (''invalid message code: '' @ Code msg)
      else if \<not> IsMessageSupported cfg (Code msg)
      then Some (''message type '' @ Code msg @ '' ('' @ MessageName (Code msg) @
                 '') is not enabled in configuration'')
      else None)"

subsection \<open>Panics\<close>

lemma checksum_stage_not_Panic: "checksum_stage enc cfg raw \<noteq> Panic"
  using ValidateChecksum_not_Panic
  by (auto simp: checksum_stage_def GetEncoder_def split: go_result.split)

lemma checksum_stage_cases:
  assumes "checksum_stage enc cfg raw = Ok (stripped, seq, valid)"
  shows "if ErrorDetectionEnabled cfg then stripped = StripChecksum raw \<and> valid
    else stripped = raw \<and> seq = [] \<and> \<not> valid"
  using assms by (auto simp: checksum_stage_def split: if_splits go_result.splits)

lemma parse_stage_Panic: "parse_stage cfg raw stripped seq valid = Panic \<longleftrightarrow> length stripped < 2"
  by (simp add: parse_stage_def Let_def)

lemma StripChecksum_short:
  "length (StripChecksum s) < 2 \<longleftrightarrow> length s < 2 \<or> take 2 s = ''AY'' \<or> take 2 (drop 1 s) = ''AY''"
proof (cases s rule: StripChecksum.cases)
  case (1 c1 c2 cs)
  then show ?thesis by (cases cs) auto
qed auto

text \<open>The parser panics on exactly these messages.\<close>

theorem Parse_Panic_iff:
  "Parse enc cfg raw = Panic \<longleftrightarrow>
     ErrorDetectionEnabled cfg \<and> is_ok (checksum_stage enc cfg raw) \<and>
     (take 2 raw = ''AY'' \<or> take 2 (drop 1 raw) = ''AY'')"
proof (cases "checksum_stage enc cfg raw")
  case (Ok r)
  obtain stripped seq valid where r: "r = (stripped, seq, valid)" by (cases r) auto
  have l: "length raw < 2 \<Longrightarrow> \<not> (take 2 raw = ''AY'' \<or> take 2 (drop 1 raw) = ''AY'')"
    by (auto dest!: arg_cong [of _ _ length])
  show ?thesis using checksum_stage_cases [OF Ok [unfolded r]] l
    by (auto simp: Parse_def Ok r parse_stage_Panic StripChecksum_short split: if_splits)
qed (auto simp: Parse_def checksum_stage_not_Panic)

lemma Parse_valid:
  "Parse enc cfg raw = Ok m \<Longrightarrow> ChecksumValid m = ErrorDetectionEnabled cfg \<and> RawMessage m = raw"
  by (auto simp: Parse_def parse_stage_def Let_def dest!: checksum_stage_cases split: if_splits)

lemma parse_stage_Code: "parse_stage cfg raw stripped seq valid = Ok m \<Longrightarrow> Code m = take 2 stripped"
  by (auto simp: parse_stage_def Let_def split: if_splits)

subsection \<open>Fixed fields\<close>

text \<open>A fixed field is never named like a field code, so it hides no variable field.\<close>

lemma fixed_fields_names: "p \<in> set (fixed_fields code s) \<Longrightarrow> 2 < length (fst p)"
  by (auto simp: fixed_fields_def Let_def split: if_splits)

lemma ExtractFixedFields_code: "length c = 2 \<Longrightarrow> ExtractFixedFields m c = None"
  using fixed_fields_names by (fastforce simp: ExtractFixedFields_def map_of_eq_None_iff)

text \<open>The number of bytes before the variable fields of a request that has all its fixed fields.\<close>

definition request_width :: "MessageCode \<Rightarrow> nat" where
  "request_width code = fieldsStart code 38"

lemma fieldsStart_full: "request_width code \<le> n \<Longrightarrow> fieldsStart code n = request_width code"
  unfolding request_width_def fieldsStart_def by (auto split: if_splits)

lemma request_width_bound: "request_width code \<le> 38"
  by (simp add: request_width_def fieldsStart_def)

lemma slice_append: "j \<le> length s \<Longrightarrow> slice (s @ t) i j = slice s i j"
  by (simp add: slice_def)

lemma fixed_fields_append:
  assumes "length s = request_width code"
  shows "fixed_fields code (s @ t) = fixed_fields code s"
  using assms by (auto simp: fixed_fields_def request_width_def fieldsStart_def slice_append Let_def)

subsection \<open>Parsing a well-formed request\<close>

text \<open>
  A request with all its fixed fields and with variable fields written by \<open>BuildField\<close>: each
  value comes back, sanitised; the fixed fields are the slices the message code prescribes.
\<close>

definition request_content :: "char \<Rightarrow> string \<Rightarrow> (string \<times> string) list \<Rightarrow> string" where
  "request_content d fixed fs = fixed @ concat (map (\<lambda>(c, v). BuildField c v [d]) fs)"

lemma parse_stage_request:
  assumes "length code = 2" "length fixed = request_width code" "FieldDelimiter cfg = [d]"
    "plain_delim d" "\<forall>(c, v) \<in> set fs. field_code d c" "raw = code @ request_content d fixed fs @ t"
  shows "\<exists>m. parse_stage cfg raw (code @ request_content d fixed fs) seq valid = Ok m \<and>
    Code m = code \<and> msg_GetMultiValueField m c = values_of c (emitted d fs) \<and>
    Fields m = map_of (rev (emitted d fs)) ++ map_of (fixed_fields code fixed) \<and>
    msgSequenceNumber m = seq"
proof -
  define body where "body = concat (map (\<lambda>(c, v). BuildField c v [d]) fs)"
  have st: "fieldsStart code (length fixed + length body) = length fixed"
    using fieldsStart_full [of code "length fixed + length body"] assms(2) by simp
  have f: "ParseFields body [d] = map_of (rev (emitted d fs))"
    "ParseMultiValueFields body [d] = multi_map (emitted d fs)"
    unfolding ParseFields_pairs ParseMultiValueFields_pairs body_def SplitFields_BuildFields [OF assms(4,5)]
    using emitted_no_delim [OF assms(4,5)] by (subst field_pairs_emitted; auto)+
  have e: "body = [] \<Longrightarrow> emitted d fs = []"
    unfolding body_def using concat_BuildField [of d fs] by (cases "emitted d fs") auto
  have x: "fixed_fields code (request_content d fixed fs @ t) = fixed_fields code fixed"
    using fixed_fields_append [OF assms(2)] by (simp add: request_content_def)
  have c: "code @ request_content d fixed fs = code @ fixed @ body"
    by (simp add: request_content_def body_def)
  have "msg_GetMultiValueField m c = values_of c (emitted d fs)"
    if "MultiValueFields m = multi_map (emitted d fs)" for m :: Message
    using that by (simp add: msg_GetMultiValueField_def GetMultiValueField_def multi_map_def)
  moreover have "multi_map (emitted d fs) = Map.empty" if "body = []"
    using e [OF that] by (auto simp: multi_map_def)
  ultimately show ?thesis using assms(1) e f st
    by (cases "body = []") (simp_all add: parse_stage_def Let_def c assms(3,6) ExtractFixedFields_def x)
qed

end
