(* ===== verification/Go_Time.thy ===== *)
theory Go_Time
  imports Go_Strings
begin

text \<open>
  Go's \<open>time.Time\<close> as the program uses it: an instant, in nanoseconds since the start of year 1
  in UTC, with the offset (in seconds) of the zone it is shown in. The zero time is instant 0.
  Dates are those of the proleptic Gregorian calendar, counted with Euclidean division as in the
  standard library. The time zone database is an argument: \<open>tz name\<close> gives the offset in force
  at an instant, \<open>None\<close> for a name it does not know. Then the formatting of SIP2 dates
  (\<open>internal/sip2/protocol/datetime.go\<close>) and the date arithmetic of
  \<open>internal/config/dateutil.go\<close>.
\<close>

record GoTime =
  tm_ns :: int
  tm_off :: int

type_synonym tzdb = "string \<Rightarrow> (int \<Rightarrow> int) option"

definition IsZero :: "GoTime \<Rightarrow> bool" where "IsZero t \<longleftrightarrow> tm_ns t = 0"

definition zero_time :: GoTime where "zero_time = \<lparr>tm_ns = 0, tm_off = 0\<rparr>"

definition Before :: "GoTime \<Rightarrow> GoTime \<Rightarrow> bool" where "Before t u \<longleftrightarrow> tm_ns t < tm_ns u"

definition After :: "GoTime \<Rightarrow> GoTime \<Rightarrow> bool" where "After t u \<longleftrightarrow> tm_ns t > tm_ns u"

definition add_seconds :: "GoTime \<Rightarrow> int \<Rightarrow> GoTime" where
  "add_seconds t s = t\<lparr>tm_ns := tm_ns t + s * 1000000000\<rparr>"

text \<open>Days are counted from 1 January of year 1.\<close>

definition days_from_civil :: "int \<Rightarrow> int \<Rightarrow> int \<Rightarrow> int" where
  "days_from_civil y m d =
     (let y' = (if m \<le> 2 then y - 1 else y);
          era = y' div 400;
          yoe = y' mod 400;
          doy = (153 * (if m > 2 then m - 3 else m + 9) + 2) div 5 + d - 1;
          doe = yoe * 365 + yoe div 4 - yoe div 100 + doy
      in era * 146097 + doe - 306)"

text \<open>
  The way back takes off whole cycles of 400, 100, 4 and 1 years; the years of a cycle start in
  March, so that a leap day ends its cycle.
\<close>

definition year_and_day :: "int \<Rightarrow> int \<times> int" where
  "year_and_day z =
     (let era = z div 146097; doe = z mod 146097;
          c = min (doe div 36524) 3; doc = doe - 36524 * c;
          q = doc div 1461; doq = doc - 1461 * q;
          r = min (doq div 365) 3
      in (400 * era + 100 * c + 4 * q + r, doq - 365 * r))"

definition civil_from_days :: "int \<Rightarrow> int \<times> int \<times> int" where
  "civil_from_days z =
     (case year_and_day (z + 306) of (y, doy) \<Rightarrow>
        let mp = (5 * doy + 2) div 153;
            d = doy - (153 * mp + 2) div 5 + 1;
            m = (if mp < 10 then mp + 3 else mp - 9)
        in (if m \<le> 2 then y + 1 else y, m, d))"

definition local_seconds :: "GoTime \<Rightarrow> int" where
  "local_seconds t = tm_ns t div 1000000000 + tm_off t"

definition date_of :: "GoTime \<Rightarrow> int \<times> int \<times> int" where
  "date_of t = civil_from_days (local_seconds t div 86400)"

text \<open>\<open>time.Date (y, m, d, 0, 0, 0, 0, time.UTC)\<close> normalises months and days out of range.\<close>

definition Date_UTC :: "int \<Rightarrow> int \<Rightarrow> int \<Rightarrow> GoTime" where
  "Date_UTC y m d =
     \<lparr>tm_ns = (days_from_civil (y + (m - 1) div 12) ((m - 1) mod 12 + 1) 1 + d - 1) * 86400 * 1000000000,
      tm_off = 0\<rparr>"

text \<open>
  \<open>AddDate\<close> adds in 64 bits, and a time is a 64-bit count of seconds: for a huge number of years, months or days
  both wrap around. (The library counts days in 64 bits too on its way; from year \<open>10 ^ 16\<close> on this product wraps
  before the seconds do, in a way that differs between versions of Go, and is not modelled.)
\<close>

definition int64 :: "int \<Rightarrow> int" where "int64 i = (i + 2 ^ 63) mod 2 ^ 64 - 2 ^ 63"

definition wrapped_time :: "GoTime \<Rightarrow> GoTime" where
  "wrapped_time t = t\<lparr>tm_ns := int64 (tm_ns t div 1000000000) * 1000000000 + tm_ns t mod 1000000000\<rparr>"

definition AddDate_UTC :: "GoTime \<Rightarrow> int \<Rightarrow> int \<Rightarrow> int \<Rightarrow> GoTime" where
  "AddDate_UTC t years months days =
     (case date_of t of (y, m, d) \<Rightarrow>
        wrapped_time (Date_UTC (int64 (y + years)) (int64 (m + months)) (int64 (d + days))))"

definition LoadLocation :: "tzdb \<Rightarrow> string \<Rightarrow> (int \<Rightarrow> int) option" where
  "LoadLocation tz name = (if name = [] \<or> name = ''UTC'' then Some (\<lambda>_. 0) else tz name)"

text \<open>An unknown zone is UTC.\<close>

definition in_zone :: "tzdb \<Rightarrow> string \<Rightarrow> GoTime \<Rightarrow> GoTime" where
  "in_zone tz timezone t =
     (case LoadLocation tz timezone of
        None \<Rightarrow> t\<lparr>tm_off := 0\<rparr>
      | Some loc \<Rightarrow> t\<lparr>tm_off := loc (tm_ns t div 1000000000)\<rparr>)"

definition pad_nat :: "nat \<Rightarrow> nat \<Rightarrow> string" where
  "pad_nat w n = (let s = nat_str n in replicate (w - length s) CHR ''0'' @ s)"

definition append_int :: "nat \<Rightarrow> int \<Rightarrow> string" where
  "append_int w i = (if i < 0 then ''-'' @ pad_nat w (nat (- i)) else pad_nat w (nat i))"

text \<open>The layouts 20060102 and 20060102    150405.\<close>

definition format_date :: "GoTime \<Rightarrow> string" where
  "format_date t = (case date_of t of (y, m, d) \<Rightarrow> append_int 4 y @ append_int 2 m @ append_int 2 d)"

definition format_date_time :: "GoTime \<Rightarrow> string" where
  "format_date_time t =
     (let s = local_seconds t mod 86400
      in format_date t @ ''    '' @ append_int 2 (s div 3600) @ append_int 2 (s div 60 mod 60) @
         append_int 2 (s mod 60))"

definition FormatSIP2DateTime :: "tzdb \<Rightarrow> GoTime \<Rightarrow> string \<Rightarrow> string" where
  "FormatSIP2DateTime tz t timezone = (if IsZero t then [] else format_date_time (in_zone tz timezone t))"

definition FormatSIP2Date :: "tzdb \<Rightarrow> GoTime \<Rightarrow> string \<Rightarrow> string" where
  "FormatSIP2Date tz t timezone = (if IsZero t then [] else format_date (in_zone tz timezone t))"

lemma length_pad_nat: "n < 10 ^ w \<Longrightarrow> 0 < w \<Longrightarrow> length (pad_nat w n) = w"
  using length_nat_str [of n w] by (simp add: pad_nat_def Let_def)

subsection \<open>The calendar\<close>

lemma capped_div:
  assumes "0 \<le> (x :: int)" "x \<le> 4 * n" "0 < n"
  shows "0 \<le> min (x div n) 3 \<and> min (x div n) 3 \<le> 3 \<and> 0 \<le> x - n * min (x div n) 3 \<and> x - n * min (x div n) 3 \<le> n"
proof -
  have d: "x = n * (x div n) + x mod n" "0 \<le> x mod n" "x mod n < n" using assms(3) by simp_all
  have "0 \<le> x div n" using assms by (simp add: pos_imp_zdiv_nonneg_iff)
  show ?thesis
  proof (cases "x div n \<le> 3")
    case True
    then show ?thesis using d \<open>0 \<le> x div n\<close> by (simp add: min_def minus_mult_div_eq_mod)
  next
    case False
    then have "n * 4 \<le> n * (x div n)" using assms(3) by (intro mult_left_mono) simp_all
    then have "n * 3 \<le> x" using d assms(3) by linarith
    then show ?thesis using False assms by (simp add: min_def)
  qed
qed

lemma year_and_day_bounds:
  assumes "year_and_day z = (y, doy)"
  obtains era c q r where "y = 400 * era + 100 * c + 4 * q + r" "0 \<le> c" "c \<le> 3" "0 \<le> q" "q \<le> 24"
    "0 \<le> r" "r \<le> 3" "0 \<le> doy" "doy \<le> 365"
    "z = 146097 * era + 36524 * c + 1461 * q + 365 * r + doy"
proof -
  define doe where "doe = z mod 146097"
  define c where "c = min (doe div 36524) 3"
  define doc where "doc = doe - 36524 * c"
  define q where "q = doc div 1461"
  define doq where "doq = doc - 1461 * q"
  define r where "r = min (doq div 365) 3"
  have e: "z = 146097 * (z div 146097) + doe" by (simp add: doe_def)
  have "0 \<le> doe" "doe \<le> 4 * 36524" using pos_mod_bound [of 146097 z] by (simp_all add: doe_def)
  then have c: "0 \<le> c" "c \<le> 3" "0 \<le> doc" "doc \<le> 36524"
    using capped_div [of doe 36524] by (simp_all add: c_def doc_def)
  have "doc div 1461 \<le> 36524 div 1461" by (rule zdiv_mono1 [OF c(4)]) simp
  then have "q \<le> 24" by (simp add: q_def)
  have "doq = doc mod 1461" by (simp add: doq_def q_def minus_mult_div_eq_mod)
  then have q: "0 \<le> q" "q \<le> 24" "0 \<le> doq" "doq \<le> 4 * 365"
    using c(3) \<open>q \<le> 24\<close> by (simp_all add: q_def pos_imp_zdiv_nonneg_iff)
  have r: "0 \<le> r" "r \<le> 3" "0 \<le> doq - 365 * r" "doq - 365 * r \<le> 365"
    using capped_div [OF q(3,4)] by (simp_all add: r_def)
  have y: "y = 400 * (z div 146097) + 100 * c + 4 * q + r" "doy = doq - 365 * r"
    using assms unfolding year_and_day_def Let_def doe_def [symmetric] c_def [symmetric]
      doc_def [symmetric] q_def [symmetric] doq_def [symmetric] r_def [symmetric] by blast+
  have "z = 146097 * (z div 146097) + 36524 * c + 1461 * q + 365 * r + doy"
    using e y(2) unfolding doq_def doc_def by linarith
  with y c q r that show ?thesis by blast
qed

lemma int_up_to_11:
  "0 \<le> (i :: int) \<Longrightarrow> i \<le> 11 \<Longrightarrow>
     i = 0 \<or> i = 1 \<or> i = 2 \<or> i = 3 \<or> i = 4 \<or> i = 5 \<or> i = 6 \<or> i = 7 \<or> i = 8 \<or> i = 9 \<or> i = 10 \<or> i = 11"
proof -
  assume "0 \<le> i" "i \<le> 11"
  then have "nat i < 12" by linarith
  then show ?thesis using \<open>0 \<le> i\<close> by (auto simp: less_Suc_eq numeral_eq_Suc nat_eq_iff)
qed

text \<open>The month and the day of the month, from the day of a year that starts in March.\<close>

lemma month_day_bounds:
  assumes "0 \<le> doy" "doy \<le> 365" "mp = (5 * doy + 2) div (153 :: int)"
  shows "0 \<le> mp \<and> mp \<le> 11 \<and> 0 \<le> doy - (153 * mp + 2) div 5 \<and> doy - (153 * mp + 2) div 5 \<le> 30"
proof -
  have b: "153 * mp \<le> 5 * doy + 2" "5 * doy + 2 < 153 * mp + 153"
    using assms(3) div_mult_mod_eq [of "5 * doy + 2" 153] pos_mod_sign [of 153 "5 * doy + 2"]
      pos_mod_bound [of 153 "5 * doy + 2"] by linarith+
  then have m: "0 \<le> mp" "mp \<le> 11" using assms(1,2) by linarith+
  show ?thesis using int_up_to_11 [OF m] b m assms(1,2) by (elim disjE) simp_all
qed

lemma civil_from_days_bounds:
  assumes "civil_from_days z = (y, m, d)"
  shows "1 \<le> m \<and> m \<le> 12 \<and> 1 \<le> d \<and> d \<le> 31"
proof -
  obtain y0 doy where yd: "year_and_day (z + 306) = (y0, doy)" by force
  then have b: "0 \<le> doy" "doy \<le> 365" by (auto elim: year_and_day_bounds)
  define mp where "mp = (5 * doy + 2) div 153"
  show ?thesis using assms month_day_bounds [OF b mp_def] yd by (auto simp: civil_from_days_def Let_def mp_def split: if_splits)
qed

text \<open>Counting the days of the date of a day gives that day back.\<close>

lemma days_from_civil_from_days:
  assumes "civil_from_days z = (y, m, d)"
  shows "days_from_civil y m d = z"
proof -
  obtain y0 doy where yd: "year_and_day (z + 306) = (y0, doy)" by force
  then obtain era c q r where b: "y0 = 400 * era + 100 * c + 4 * q + r" "0 \<le> c" "c \<le> 3" "0 \<le> q"
    "q \<le> 24" "0 \<le> r" "r \<le> 3" "0 \<le> doy" "doy \<le> 365"
    "z + 306 = 146097 * era + 36524 * c + 1461 * q + 365 * r + doy"
    by (rule year_and_day_bounds)
  define mp where "mp = (5 * doy + 2) div 153"
  have mp: "0 \<le> mp" "mp \<le> 11" using month_day_bounds [OF b(8,9) mp_def] by auto
  have ym: "(if m \<le> 2 then y - 1 else y) = y0" "(if m > 2 then m - 3 else m + 9) = mp"
    "d - 1 = doy - (153 * mp + 2) div 5"
    using assms yd mp by (auto simp: civil_from_days_def Let_def mp_def split: if_splits)
  define k where "k = 100 * c + 4 * q + r"
  have k: "0 \<le> k" "k < 400" "y0 = k + 400 * era" using b by (simp_all add: k_def)
  then have yoe: "y0 mod 400 = k" "y0 div 400 = era" by simp_all
  have "k = r + 4 * (25 * c + q)" "k = (4 * q + r) + 100 * c" by (simp_all add: k_def)
  then have "k div 4 = 25 * c + q" "k div 100 = c" using b by simp_all
  then show ?thesis using ym b(10) by (simp add: days_from_civil_def Let_def yoe k_def)
qed

lemma int64_id [simp]: "- (2 ^ 63) \<le> i \<Longrightarrow> i < 2 ^ 63 \<Longrightarrow> int64 i = i"
  by (simp add: int64_def)

lemma wrapped_time_id:
  assumes "- (2 ^ 63) \<le> tm_ns t div 1000000000" "tm_ns t div 1000000000 < 2 ^ 63"
  shows "wrapped_time t = t"
  using assms by (simp add: wrapped_time_def)

text \<open>In the years 0 to 9999 a SIP2 time takes 18 bytes and a date 8.\<close>

lemma length_append_int: "0 \<le> i \<Longrightarrow> i < 10 ^ w \<Longrightarrow> 0 < w \<Longrightarrow> length (append_int w i) = w"
  by (simp add: append_int_def length_pad_nat nat_less_iff)

lemma length_format_date:
  assumes "date_of t = (y, m, d)" "0 \<le> y" "y \<le> 9999"
  shows "length (format_date t) = 8"
proof -
  have "1 \<le> m" "m \<le> 12" "1 \<le> d" "d \<le> 31"
    using civil_from_days_bounds assms(1) unfolding date_of_def by blast+
  then show ?thesis using assms by (simp add: format_date_def length_append_int)
qed

lemma length_format_date_time:
  assumes "date_of t = (y, m, d)" "0 \<le> y" "y \<le> 9999"
  shows "length (format_date_time t) = 18"
proof -
  define s where "s = local_seconds t mod 86400"
  have s: "0 \<le> s" "s < 86400" by (simp_all add: s_def)
  have "s div 3600 \<le> 86399 div 3600" by (rule zdiv_mono1) (use s in simp_all)
  then have h: "0 \<le> s div 3600" "s div 3600 < 24" using s by (simp_all add: pos_imp_zdiv_nonneg_iff)
  have l: "length (append_int 2 i) = 2" if "0 \<le> i" "i < 60" for i
    using that by (simp add: length_append_int)
  have "length (append_int 2 (s div 3600)) = 2" using h by (intro l) simp_all
  moreover have "length (append_int 2 (s div 60 mod 60)) = 2" "length (append_int 2 (s mod 60)) = 2"
    by (intro l pos_mod_sign pos_mod_bound; simp)+
  ultimately show ?thesis using length_format_date [OF assms]
    by (simp only: format_date_time_def Let_def s_def [symmetric] length_append) simp
qed

lemma days_examples:
  "days_from_civil 1 1 1 = 0" "days_from_civil 1970 1 1 = 719162" "days_from_civil 2024 2 29 = 738944"
  "civil_from_days 738944 = (2024, 2, 29)" "civil_from_days 738945 = (2024, 3, 1)"
  "civil_from_days 0 = (1, 1, 1)"
  by (simp_all add: days_from_civil_def civil_from_days_def year_and_day_def)

end
