(* ===== verification/Builder.thy ===== *)
theory Builder
  imports Sip_Parser Go_Time
begin

text \<open>
  \<open>internal/sip2/builder/builder.go\<close>: the response builder. \<open>Build\<close> frames a response: the
  sequence number, the checksum where the tenant has error detection, and the message
  delimiter. The other builders lay out the fixed and the variable fields of one message each.
  The parameters are those of the source, in its order; \<open>tz\<close> is the time zone database.
\<close>

definition Build ::
  "encoder \<Rightarrow> TenantConfig \<Rightarrow> MessageCode \<Rightarrow> string \<Rightarrow> string \<Rightarrow> (string, string) go_result" where
  "Build enc cfg code content sequenceNumber =
     (let response = code @ content;
          delim = FieldDelimiter cfg
      in if ErrorDetectionEnabled cfg \<or> sequenceNumber \<noteq> [] then
           let checksumContent = (if suffix delim content then TrimSuffix content delim else content);
               response1 = (if suffix delim response then response else response @ delim) @ ''AY'' @ sequenceNumber
           in if ErrorDetectionEnabled cfg then
                (case GetEncoder (Charset cfg) of
                   Err e \<Rightarrow> Err ''failed to get encoder'' | Panic \<Rightarrow> Panic
                 | Ok encoder \<Rightarrow>
                     (case CalculateChecksum (enc encoder) (code @ checksumContent) sequenceNumber delim of
                        Err e \<Rightarrow> Err ''failed to calculate checksum'' | Panic \<Rightarrow> Panic
                      | Ok checksum \<Rightarrow> Ok (response1 @ ''AZ'' @ checksum @ MessageDelimiter cfg)))
              else Ok (response1 @ MessageDelimiter cfg)
         else Ok (response @ MessageDelimiter cfg))"

text \<open>Variable fields in sequence, each omitted when its value is empty.\<close>

definition build_fields :: "string \<Rightarrow> (string \<times> string) list \<Rightarrow> string" where
  "build_fields delim fs = concat (map (\<lambda>(c, v). BuildField c v delim) fs)"

definition only_if :: "bool \<Rightarrow> 'a list \<Rightarrow> 'a list" where
  "only_if b xs = (if b then xs else [])"

definition each :: "string \<Rightarrow> string list \<Rightarrow> (string \<times> string) list" where
  "each code vs = map (Pair code) vs"

lemma only_if_simps [simp]: "only_if True xs = xs" "only_if False xs = []"
  by (simp_all add: only_if_def)

lemma build_fields_simps [simp]: "build_fields delim [] = []"
  "build_fields delim ((c, v) # fs) = BuildField c v delim @ build_fields delim fs"
  "build_fields delim (fs @ gs) = build_fields delim fs @ build_fields delim gs"
  by (simp_all add: build_fields_def)

definition BuildLoginResponse ::
  "encoder \<Rightarrow> TenantConfig \<Rightarrow> bool \<Rightarrow> string \<Rightarrow> (string, string) go_result" where
  "BuildLoginResponse enc cfg ok sequenceNumber =
     Build enc cfg LoginResponse (if ok then ''1'' else ''0'') sequenceNumber"

definition BuildPatronStatusResponse ::
  "encoder \<Rightarrow> tzdb \<Rightarrow> TenantConfig \<Rightarrow> string \<Rightarrow> string \<Rightarrow> GoTime \<Rightarrow> string \<Rightarrow> string \<Rightarrow> string \<Rightarrow> bool \<Rightarrow> bool \<Rightarrow>
     string \<Rightarrow> string \<Rightarrow> string \<Rightarrow> (string, string) go_result" where
  "BuildPatronStatusResponse enc tz cfg patronStatus language transactionDate institutionID patronID
     personalName validPatron validPatronPassword currencyType feeAmount sequenceNumber =
     Build enc cfg PatronStatusResponse
       (patronStatus @ language @ FormatSIP2DateTime tz transactionDate (Timezone cfg) @
        build_fields (FieldDelimiter cfg)
          ([(F_InstitutionID, institutionID), (F_PatronIdentifier, patronID), (F_PersonalName, personalName)] @
           only_if validPatron [(F_ValidPatron, ''Y'')] @
           only_if validPatronPassword [(F_ValidPatronPassword, ''Y'')] @
           only_if (currencyType \<noteq> []) [(F_CurrencyType, currencyType)] @
           only_if (feeAmount \<noteq> []) [(F_FeeAmount, feeAmount)]))
       sequenceNumber"

definition BuildCheckoutResponse where
  "BuildCheckoutResponse enc tz cfg ok renewalOK magneticMedia desensitize transactionDate institutionID
     patronID itemID titleID dueDate feeType securityInhibit currencyType feeAmount mediaType
     itemProperties transactionID screenMessage printLine sequenceNumber =
     (let delimiter = FieldDelimiter cfg in
      Build enc cfg CheckoutResponse
       ((if ok then ''1'' else ''0'') @ BuildYNField renewalOK @
        (if magneticMedia then ''Y'' else ''U'') @ (if desensitize then ''Y'' else ''U'') @
        FormatSIP2DateTime tz transactionDate (Timezone cfg) @
        build_fields delimiter
          ([(F_InstitutionID, institutionID), (F_PatronIdentifier, patronID), (F_ItemIdentifier, itemID),
            (F_TitleIdentifier, titleID)] @
           only_if (\<not> IsZero dueDate) [(F_DueDate, FormatSIP2DateTime tz dueDate (Timezone cfg))] @
           [(F_FeeType, feeType)]) @
        (if securityInhibit then ''CI'' @ ''Y'' @ delimiter else []) @
        build_fields delimiter
          ([(F_CurrencyType, currencyType), (F_FeeAmount, feeAmount), (F_MediaType, mediaType),
            (''BV'', itemProperties), (F_TransactionID, transactionID)] @
           each F_ScreenMessage screenMessage @ each F_PrintLine printLine))
       sequenceNumber)"

definition BuildRenewResponse ::
  "encoder \<Rightarrow> tzdb \<Rightarrow> TenantConfig \<Rightarrow> bool \<Rightarrow> bool \<Rightarrow> bool \<Rightarrow> bool \<Rightarrow> GoTime \<Rightarrow> string \<Rightarrow> string \<Rightarrow> string \<Rightarrow>
     string \<Rightarrow> GoTime \<Rightarrow> string list \<Rightarrow> string list \<Rightarrow> string \<Rightarrow> (string, string) go_result" where
  "BuildRenewResponse enc tz cfg ok renewalOK magneticMedia desensitize transactionDate institutionID
     patronID itemID titleID dueDate screenMessage printLine sequenceNumber =
     Build enc cfg RenewResponse
       ((if ok then ''1'' else ''0'') @ BuildYNField renewalOK @
        (if magneticMedia then ''Y'' else ''U'') @ (if desensitize then ''Y'' else ''U'') @
        FormatSIP2DateTime tz transactionDate (Timezone cfg) @
        build_fields (FieldDelimiter cfg)
          ([(F_InstitutionID, institutionID), (F_PatronIdentifier, patronID), (F_ItemIdentifier, itemID)] @
           only_if (titleID \<noteq> []) [(F_TitleIdentifier, titleID)] @
           only_if (\<not> IsZero dueDate) [(F_DueDate, FormatSIP2DateTime tz dueDate (Timezone cfg))] @
           each F_ScreenMessage screenMessage @ each F_PrintLine printLine))
       sequenceNumber"

definition BuildCheckinResponse where
  "BuildCheckinResponse enc tz cfg ok resensitize magneticMedia alert transactionDate institutionID itemID
     permanentLocation currentLocation titleID materialType mediaType callNumber alertType
     destinationLocation sortBin patronID itemProperties checkinNotes holdShelfExpiration requestorName
     screenMessage printLine sequenceNumber =
     (let delimiter = FieldDelimiter cfg in
      Build enc cfg CheckinResponse
       ((if ok then ''1'' else ''0'') @ BuildYNField resensitize @ BuildYNField magneticMedia @
        BuildYNField alert @ FormatSIP2DateTime tz transactionDate (Timezone cfg) @
        build_fields delimiter [(F_InstitutionID, institutionID), (F_ItemIdentifier, itemID)] @
        BuildRequiredField F_PermanentLocation permanentLocation delimiter @
        BuildRequiredField F_CurrentLocation currentLocation delimiter @
        BuildField F_TitleIdentifier (if titleID \<noteq> [] then titleID else itemID) delimiter @
        BuildRequiredField F_MediaType mediaType delimiter @
        BuildRequiredField F_CurrentItemType materialType delimiter @
        BuildRequiredField F_CallNumber callNumber delimiter @
        BuildRequiredField F_AlertType alertType delimiter @
        BuildRequiredField F_PickupServicePoint destinationLocation delimiter @
        build_fields delimiter
          ([(''CL'', sortBin), (F_PatronIdentifier, patronID), (''BV'', itemProperties)] @
           each ''AG'' checkinNotes @
           only_if (IsFieldEnabled cfg ''09'' ''CM'' \<and> holdShelfExpiration \<noteq> [])
             [(F_HoldShelfExpirationDate, holdShelfExpiration)] @
           only_if (IsFieldEnabled cfg ''09'' ''DA'' \<and> requestorName \<noteq> []) [(F_TransactionDate, requestorName)] @
           each F_ScreenMessage screenMessage @ each F_PrintLine printLine))
       sequenceNumber)"

definition BuildPatronInformationResponse where
  "BuildPatronInformationResponse enc tz cfg patronStatus language transactionDate holdItemsCount
     overdueItemsCount chargedItemsCount fineItemsCount recallItemsCount unavailableHoldsCount institutionID
     patronID personalName holdItemsLimit overdueItemsLimit chargedItemsLimit validPatron validPatronPassword
     currencyType feeAmount feeLimit holdItems overdueItems chargedItems fineItems recallItems
     unavailableHolds homeAddress emailAddress homePhoneNumber screenMessage printLine sequenceNumber =
     Build enc cfg PatronInformationResponse
       (patronStatus @ language @ FormatSIP2DateTime tz transactionDate (Timezone cfg) @
        pad_int 4 holdItemsCount @ pad_int 4 overdueItemsCount @ pad_int 4 chargedItemsCount @
        pad_int 4 fineItemsCount @ pad_int 4 recallItemsCount @ pad_int 4 unavailableHoldsCount @
        build_fields (FieldDelimiter cfg)
          ([(F_InstitutionID, institutionID), (F_PatronIdentifier, patronID), (F_PersonalName, personalName)] @
           only_if (holdItemsLimit > 0) [(''BZ'', pad_int 4 holdItemsLimit)] @
           only_if (overdueItemsLimit > 0) [(''CA'', pad_int 4 overdueItemsLimit)] @
           only_if (chargedItemsLimit > 0) [(''CB'', pad_int 4 chargedItemsLimit)] @
           only_if validPatron [(F_ValidPatron, ''Y'')] @
           only_if validPatronPassword [(F_ValidPatronPassword, ''Y'')] @
           [(F_CurrencyType, currencyType), (F_FeeAmount, feeAmount), (''CC'', feeLimit)] @
           each ''AS'' holdItems @ each ''AT'' overdueItems @ each ''AU'' chargedItems @
           each ''AV'' fineItems @ each ''BU'' recallItems @ each ''CD'' unavailableHolds @
           [(F_HomeAddress, homeAddress), (F_EmailAddress, emailAddress), (F_HomePhoneNumber, homePhoneNumber)] @
           each F_ScreenMessage screenMessage @ each F_PrintLine printLine))
       sequenceNumber"

definition BuildACSStatusResponse ::
  "encoder \<Rightarrow> tzdb \<Rightarrow> TenantConfig \<Rightarrow> bool \<Rightarrow> bool \<Rightarrow> bool \<Rightarrow> bool \<Rightarrow> bool \<Rightarrow> bool \<Rightarrow> int \<Rightarrow> int \<Rightarrow> GoTime \<Rightarrow>
     string \<Rightarrow> string \<Rightarrow> string \<Rightarrow> string \<Rightarrow> string \<Rightarrow> string list \<Rightarrow> string list \<Rightarrow> string \<Rightarrow>
     (string, string) go_result" where
  "BuildACSStatusResponse enc tz cfg onlineStatus checkinOK checkoutOK acsRenewalPolicy statusUpdateOK
     offlineOK timeoutPeriod retriesAllowed dateTimeSync protocolVersion institutionID libraryName
     supportedMessages terminalLocation screenMessage printLine sequenceNumber =
     Build enc cfg ACSStatus
       (BuildYNField onlineStatus @ BuildYNField checkinOK @ BuildYNField checkoutOK @
        BuildYNField acsRenewalPolicy @ BuildYNField statusUpdateOK @ BuildYNField offlineOK @
        pad_int 3 timeoutPeriod @ pad_int 3 retriesAllowed @
        FormatSIP2DateTime tz dateTimeSync (Timezone cfg) @ protocolVersion @
        build_fields (FieldDelimiter cfg)
          ([(F_InstitutionID, institutionID), (F_LibraryName, libraryName), (''BX'', supportedMessages),
            (F_TerminalLocation, terminalLocation)] @
           each F_ScreenMessage screenMessage @ each F_PrintLine printLine))
       sequenceNumber"

definition BuildSupportedMessagesString :: "MessageCode list \<Rightarrow> string" where
  "BuildSupportedMessagesString supportedMessages =
     map (\<lambda>msg. if list_ex (\<lambda>supported_msg. msg = supported_msg) supportedMessages then CHR ''Y'' else CHR ''N'')
       [PatronStatusRequest, CheckoutRequest, CheckinRequest, BlockPatron, SCStatus, RequestACSResend,
        LoginRequest, PatronInformationRequest, EndPatronSessionRequest, FeePaidRequest,
        ItemInformationRequest, ItemStatusUpdateRequest, PatronEnableRequest, HoldRequest, RenewRequest,
        RenewAllRequest]"

definition BuildItemInformationResponse where
  "BuildItemInformationResponse enc tz cfg circulationStatus securityMarker feeType transactionDate
     institutionID itemID title permanentLocation currentLocation dueDate mediaType materialType callNumber
     routingLocation holdQueueLength primaryContributor workDescription isbns upcs holdShelfExpiration
     requestorBarcode requestorName checkinNotes screenMessage printLine sequenceNumber =
     (let delimiter = (if FieldDelimiter cfg = [] then ''|'' else FieldDelimiter cfg);
          enabled = IsFieldEnabled cfg ''17''
      in Build enc cfg ItemInformationResponse
       (circulationStatus @ securityMarker @ feeType @ FormatSIP2DateTime tz transactionDate (Timezone cfg) @
        build_fields delimiter
          ([(F_InstitutionID, institutionID), (F_ItemIdentifier, itemID)] @
           only_if (enabled ''AJ'') [(F_TitleIdentifier, title)] @
           only_if (enabled ''AQ'') [(F_PermanentLocation, permanentLocation)] @
           only_if (enabled ''AP'') [(F_CurrentLocation, currentLocation)] @
           only_if (enabled ''AH'' \<and> dueDate \<noteq> []) [(F_DueDate, dueDate)] @
           only_if (enabled ''CK'') [(F_MediaType, mediaType)] @
           only_if (enabled ''CH'') [(F_CurrentItemType, materialType)] @
           only_if (enabled ''CS'') [(F_CallNumber, callNumber)] @
           only_if (enabled ''CT'') [(F_PickupServicePoint, routingLocation)] @
           only_if (enabled ''CF'') [(F_HoldQueueLength, holdQueueLength)] @
           only_if (enabled ''EA'' \<and> primaryContributor \<noteq> []) [(F_PrimaryContributor, primaryContributor)] @
           only_if (enabled ''DE'' \<and> workDescription \<noteq> []) [(F_WorkDescription, workDescription)] @
           only_if (enabled ''IN'') (each F_ISBNIdentifier isbns) @
           only_if (enabled ''NB'') (each F_OtherStandardID upcs) @
           only_if (enabled ''CM'' \<and> holdShelfExpiration \<noteq> []) [(F_HoldShelfExpirationDate, holdShelfExpiration)] @
           only_if (enabled ''CY'' \<and> requestorBarcode \<noteq> []) [(F_RequestorBarcode, requestorBarcode)] @
           only_if (enabled ''DA'' \<and> requestorName \<noteq> []) [(F_TransactionDate, requestorName)] @
           only_if (enabled ''AG'') (each ''AG'' checkinNotes) @
           each F_ScreenMessage screenMessage @ each F_PrintLine printLine))
       sequenceNumber)"

text \<open>The lists of item identifiers are parameters that the source does not use.\<close>

definition BuildRenewAllResponse ::
  "encoder \<Rightarrow> tzdb \<Rightarrow> TenantConfig \<Rightarrow> bool \<Rightarrow> int \<Rightarrow> int \<Rightarrow> GoTime \<Rightarrow> string \<Rightarrow> string \<Rightarrow> string list \<Rightarrow>
     string list \<Rightarrow> string list \<Rightarrow> string \<Rightarrow> (string, string) go_result" where
  "BuildRenewAllResponse enc tz cfg ok renewedCount unrenewedCount transactionDate institutionID patronID
     renewedItems unrenewedItems screenMessage sequenceNumber =
     Build enc cfg RenewAllResponse
       (BuildYNField ok @ pad_int 4 renewedCount @ pad_int 4 unrenewedCount @
        FormatSIP2DateTime tz transactionDate (Timezone cfg) @
        build_fields (FieldDelimiter cfg)
          ([(F_InstitutionID, institutionID), (F_PatronIdentifier, patronID),
            (''BM'', pad_int 4 renewedCount), (''BN'', pad_int 4 unrenewedCount)] @
           each F_ScreenMessage screenMessage))
       sequenceNumber"

text \<open>The fourteen flags in the order of the parameters of the source.\<close>

definition BuildPatronStatusString ::
  "bool \<Rightarrow> bool \<Rightarrow> bool \<Rightarrow> bool \<Rightarrow> bool \<Rightarrow> bool \<Rightarrow> bool \<Rightarrow> bool \<Rightarrow> bool \<Rightarrow> bool \<Rightarrow> bool \<Rightarrow> bool \<Rightarrow> bool \<Rightarrow>
     bool \<Rightarrow> string" where
  "BuildPatronStatusString chargePrivilegesDenied renewalPrivilegesDenied recallPrivilegesDenied
     holdPrivilegesDenied cardReportedLost tooManyItemsCharged tooManyItemsOverdue tooManyRenewals
     tooManyClaimsReturned tooManyItemsLost excessiveOutstandingFines excessiveOutstandingFees recallOverdue
     tooManyItemsBilled =
     map (\<lambda>flag. if flag then CHR ''Y'' else CHR '' '')
       [chargePrivilegesDenied, renewalPrivilegesDenied, recallPrivilegesDenied, holdPrivilegesDenied,
        cardReportedLost, tooManyItemsCharged, tooManyItemsOverdue, tooManyRenewals, tooManyClaimsReturned,
        tooManyItemsLost, excessiveOutstandingFines, excessiveOutstandingFees, recallOverdue,
        tooManyItemsBilled]"

subsection \<open>Framing\<close>

text \<open>A response carries no control character before its message delimiter.\<close>

definition clean :: "string \<Rightarrow> bool" where
  "clean s \<longleftrightarrow> list_all (\<lambda>c. \<not> control_byte c) s"

lemma clean_simps [simp]: "clean []" "clean (c # s) \<longleftrightarrow> \<not> control_byte c \<and> clean s"
  "clean (s @ t) \<longleftrightarrow> clean s \<and> clean t"
  by (simp_all add: clean_def)

lemma clean_iff: "clean s \<longleftrightarrow> (\<forall>c \<in> set s. \<not> control_byte c)"
  by (simp add: clean_def list_all_iff)

lemma control_byte_simps [simp]: "control_byte c \<longleftrightarrow> byte c \<le> 31 \<or> byte c = 127"
  by (simp add: control_byte_def)

lemma SanitizeFieldValue_clean_bytes [framing]: "clean (SanitizeFieldValue v delim)"
  using SanitizeFieldValue_no_control by (auto simp: clean_iff)

lemma BuildField_clean [framing]: "clean code \<Longrightarrow> clean delim \<Longrightarrow> clean (BuildField code v delim)"
  by (simp add: BuildField_def Let_def SanitizeFieldValue_clean_bytes)

lemma BuildRequiredField_clean [framing]: "clean code \<Longrightarrow> clean delim \<Longrightarrow> clean (BuildRequiredField code v delim)"
  by (simp add: BuildRequiredField_def SanitizeFieldValue_clean_bytes)

lemma build_fields_clean [framing]:
  "list_all (\<lambda>(c, v). clean c) fs \<Longrightarrow> clean delim \<Longrightarrow> clean (build_fields delim fs)"
  by (induction fs) (auto simp: BuildField_clean)

lemma nat_str_clean [framing]: "clean (nat_str n)"
  using nat_str_digits [of _ n] by (fastforce simp: clean_iff)

lemma replicate_clean [simp]: "clean (replicate n c) \<longleftrightarrow> n = 0 \<or> \<not> control_byte c"
  by (auto simp: clean_iff)

lemma pad_clean [framing]: "clean (pad_nat w n)" "clean (append_int w i)" "clean (pad_int w i)"
  by (simp_all add: pad_nat_def append_int_def pad_int_def Let_def nat_str_clean)

lemma format_date_clean [framing]: "clean (format_date t)" "clean (format_date_time t)"
  by (simp_all add: format_date_def format_date_time_def Let_def pad_clean split: prod.split)

lemma FormatSIP2DateTime_clean [framing]: "clean (FormatSIP2DateTime tz t timezone)"
  by (simp add: FormatSIP2DateTime_def format_date_clean)

lemma BuildYNField_clean [framing]: "clean (BuildYNField b)"
  by (simp add: BuildYNField_def)

lemma hex4_clean [framing]: "n < 65536 \<Longrightarrow> clean (hex4 n)"
proof -
  assume "n < 65536"
  then have "n div 4096 < 16" by (simp add: less_mult_imp_div_less)
  moreover have "\<not> control_byte (hex_digit d)" if "d < 16" for d
    using that by (simp add: hex_digit_def)
  ultimately show ?thesis by (simp add: hex4_def del: control_byte_simps)
qed

lemma only_if_all [simp]: "list_all P (only_if b xs) \<longleftrightarrow> (b \<longrightarrow> list_all P xs)"
  by (simp add: only_if_def)

lemma each_all [simp]: "list_all (\<lambda>(c, v). clean c) (each code vs) \<longleftrightarrow> vs = [] \<or> clean code"
  by (auto simp: each_def list_all_iff)

lemma Build_clean:
  assumes "Build enc cfg code content seq = Ok r" "clean code" "clean content" "clean seq"
    "clean (FieldDelimiter cfg)"
  shows "\<exists>body. r = body @ MessageDelimiter cfg \<and> clean body \<and> prefix (code @ content) body"
proof -
  have cs: "clean c" if "CalculateChecksum e m s d = Ok c" for e m s d c
    using that by (auto simp: CalculateChecksum_def hex4_clean split: option.splits)
  show ?thesis using assms
    by (auto simp: Build_def Let_def cs split: if_splits go_result.splits)
qed

text \<open>A response on one line: it ends with the message delimiter and nothing before it breaks the line.\<close>

definition one_line :: "TenantConfig \<Rightarrow> string \<Rightarrow> bool" where
  "one_line cfg r \<longleftrightarrow>
     suffix (MessageDelimiter cfg) r \<and> clean (take (length r - length (MessageDelimiter cfg)) r)"

lemma Build_one_line:
  assumes "Build enc cfg code content seq = Ok r" "clean code" "clean content" "clean seq"
    "clean (FieldDelimiter cfg)"
  shows "one_line cfg r"
  using Build_clean [OF assms] by (auto simp: one_line_def)

lemma BuildLoginResponse_one_line:
  "BuildLoginResponse enc cfg ok seq = Ok r \<Longrightarrow> clean seq \<Longrightarrow> clean (FieldDelimiter cfg) \<Longrightarrow> one_line cfg r"
  unfolding BuildLoginResponse_def by (erule Build_one_line) simp_all

lemma BuildPatronStatusResponse_one_line:
  assumes "BuildPatronStatusResponse enc tz cfg ps lang t ao aa ae vp vpp by bv seq = Ok r"
    "clean ps" "clean lang" "clean seq" "clean (FieldDelimiter cfg)"
  shows "one_line cfg r"
  using assms(1) unfolding BuildPatronStatusResponse_def
  by (rule Build_one_line) (use assms(2-) in \<open>simp_all add: framing\<close>)

lemma BuildCheckoutResponse_one_line:
  assumes "BuildCheckoutResponse enc tz cfg ok ren mag des t ao aa ab aj due bt ci by bv ck ip bk af ag seq = Ok r"
    "clean seq" "clean (FieldDelimiter cfg)"
  shows "one_line cfg r"
  using assms(1) unfolding BuildCheckoutResponse_def Let_def
  by (rule Build_one_line) (use assms(2-) in \<open>simp_all add: framing\<close>)

lemma BuildRenewResponse_one_line:
  assumes "BuildRenewResponse enc tz cfg ok ren mag des t ao aa ab aj due af ag seq = Ok r"
    "clean seq" "clean (FieldDelimiter cfg)"
  shows "one_line cfg r"
  using assms(1) unfolding BuildRenewResponse_def
  by (rule Build_one_line) (use assms(2-) in \<open>simp_all add: framing\<close>)

lemma BuildCheckinResponse_one_line:
  assumes "BuildCheckinResponse enc tz cfg ok res mag al t ao ab aq ap aj ch ck cs cv ct cl aa ip notes hse rn
      af ag seq = Ok r" "clean seq" "clean (FieldDelimiter cfg)"
  shows "one_line cfg r"
  using assms(1) unfolding BuildCheckinResponse_def Let_def
  by (rule Build_one_line) (use assms(2-) in \<open>simp_all add: framing\<close>)

lemma BuildPatronInformationResponse_one_line:
  assumes "BuildPatronInformationResponse enc tz cfg ps lang t n1 n2 n3 n4 n5 n6 ao aa ae l1 l2 l3 vp vpp by bv fl
      hs os cs fs rs us ha ea hp af ag seq = Ok r"
    "clean ps" "clean lang" "clean seq" "clean (FieldDelimiter cfg)"
  shows "one_line cfg r"
  using assms(1) unfolding BuildPatronInformationResponse_def
  by (rule Build_one_line) (use assms(2-) in \<open>simp_all add: framing\<close>)

lemma BuildACSStatusResponse_one_line:
  assumes "BuildACSStatusResponse enc tz cfg b1 b2 b3 b4 b5 b6 tp ra t pv ao am bx an af ag seq = Ok r"
    "clean pv" "clean seq" "clean (FieldDelimiter cfg)"
  shows "one_line cfg r"
  using assms(1) unfolding BuildACSStatusResponse_def
  by (rule Build_one_line) (use assms(2-) in \<open>simp_all add: framing\<close>)

lemma BuildItemInformationResponse_one_line:
  assumes "BuildItemInformationResponse enc tz cfg cs sm ft t ao ab aj aq ap ah ck ch csn ct cf ea de isbns upcs hse
      rb rn notes af ag seq = Ok r"
    "clean cs" "clean sm" "clean ft" "clean seq" "clean (FieldDelimiter cfg)"
  shows "one_line cfg r"
proof -
  have "clean ''|''" by simp
  then show ?thesis
    using assms(1) unfolding BuildItemInformationResponse_def Let_def
    by - (rule Build_one_line, assumption, use assms(2-) in \<open>simp_all add: framing\<close>)
qed

lemma BuildRenewAllResponse_one_line:
  assumes "BuildRenewAllResponse enc tz cfg ok n m t ao aa ri ui af seq = Ok r" "clean seq"
    "clean (FieldDelimiter cfg)"
  shows "one_line cfg r"
  using assms(1) unfolding BuildRenewAllResponse_def
  by (rule Build_one_line) (use assms(2-) in \<open>simp_all add: framing\<close>)

lemmas responses_one_line = BuildLoginResponse_one_line BuildPatronStatusResponse_one_line
  BuildCheckoutResponse_one_line BuildRenewResponse_one_line BuildCheckinResponse_one_line
  BuildPatronInformationResponse_one_line BuildACSStatusResponse_one_line
  BuildItemInformationResponse_one_line BuildRenewAllResponse_one_line

subsection \<open>A built response validates\<close>

lemma Build_shape:
  assumes "Build enc cfg code content seq = Ok r" "ErrorDetectionEnabled cfg" "FieldDelimiter cfg = [d]"
    "GetEncoder (Charset cfg) = Ok e" "d \<notin> set code"
  obtains m cs where "r = m @ [d] @ ''AY'' @ seq @ ''AZ'' @ cs @ MessageDelimiter cfg"
    "CalculateChecksum (enc e) m seq [d] = Ok cs" "m = code @ TrimSuffix content [d]"
proof (cases "suffix [d] content")
  case True
  then obtain c where c: "content = c @ [d]" by (auto simp: suffix_def)
  moreover have "suffix [d] (code @ c @ [d])" by (simp add: suffix_def)
  ultimately show ?thesis using assms that by (auto simp: Build_def Let_def split: go_result.splits)
next
  case False
  then have "\<not> suffix [d] (code @ content)" using assms(5)
    by (cases content rule: rev_cases; cases code rule: rev_cases) (auto simp: append_assoc [symmetric] simp del: append_assoc)
  then show ?thesis using assms that False by (auto simp: Build_def Let_def split: go_result.splits)
qed

theorem Build_validates:
  assumes "Build enc cfg code content seq = Ok r" "ErrorDetectionEnabled cfg" "FieldDelimiter cfg = [d]"
    "GetEncoder (Charset cfg) = Ok e" "d \<notin> set code" "\<not> sublist ''AY'' seq"
    "\<not> sublist ''AZ'' (code @ TrimSuffix content [d] @ [d] @ ''AY'' @ seq @ ''A'')"
  shows "\<exists>body cs. r = body @ MessageDelimiter cfg \<and>
    ValidateChecksum (enc e) body = Ok \<lparr>Valid = True, crSequenceNumber = seq, ChecksumValue = cs\<rparr>"
proof -
  obtain m cs where m: "r = m @ [d] @ ''AY'' @ seq @ ''AZ'' @ cs @ MessageDelimiter cfg"
    "CalculateChecksum (enc e) m seq [d] = Ok cs" "m = code @ TrimSuffix content [d]"
    by (rule Build_shape [OF assms(1-5)])
  have "ValidateChecksum (enc e) (m @ [d] @ ''AY'' @ seq @ ''AZ'' @ cs) =
    Ok \<lparr>Valid = True, crSequenceNumber = seq, ChecksumValue = cs\<rparr>"
    using assms(6,7) by (intro ValidateChecksum_CalculateChecksum [OF m(2)]) (simp_all add: m(3))
  then show ?thesis using m(1) by (intro exI [of _ "m @ [d] @ ''AY'' @ seq @ ''AZ'' @ cs"] exI [of _ cs]) simp
qed

subsection \<open>What the builder frames, the parser reads\<close>

lemma request_content_last:
  assumes "emitted d fs \<noteq> []"
  obtains c where "request_content d fixed fs = c @ [d]"
proof -
  have "\<exists>c. concat (map (\<lambda>w. w @ [d]) ws) = c @ [d]" if "ws \<noteq> []" for ws
    using that by (induction ws rule: rev_induct) auto
  from this [of "map (\<lambda>(c, v). c @ v) (emitted d fs)"] assms that show ?thesis
    by (auto simp: request_content_def concat_BuildField)
qed

theorem Parse_Build:
  assumes "Build enc cfg code (request_content d fixed fs) seq = Ok r" "ErrorDetectionEnabled cfg"
    and "FieldDelimiter cfg = [d]" "plain_delim d" "length code = 2" "d \<notin> set code"
    and "length fixed = request_width code" "\<forall>(c, v) \<in> set fs. field_code d c" "emitted d fs \<noteq> []"
    and "\<not> sublist ''AY'' seq" "\<not> sublist ''AY'' (code @ request_content d fixed fs @ ''A'')"
    and "\<not> sublist ''AZ'' (code @ request_content d fixed fs @ ''AY'' @ seq @ ''A'')"
  shows "\<exists>body m. r = body @ MessageDelimiter cfg \<and> Parse enc cfg body = Ok m \<and> Code m = code \<and>
    msgSequenceNumber m = seq \<and> Fields m = map_of (rev (emitted d fs)) ++ map_of (fixed_fields code fixed)"
proof -
  obtain c where c: "request_content d fixed fs = c @ [d]" by (rule request_content_last [OF assms(9)])
  obtain e where e: "GetEncoder (Charset cfg) = Ok e"
    using assms(1,2) by (auto simp: Build_def Let_def split: go_result.splits)
  obtain m cs where m: "r = m @ [d] @ ''AY'' @ seq @ ''AZ'' @ cs @ MessageDelimiter cfg"
    "CalculateChecksum (enc e) m seq [d] = Ok cs" "m = code @ c"
    using Build_shape [OF assms(1-3) e assms(6)] by (metis c TrimSuffix_append)
  define raw where "raw = (m @ [d]) @ ''AY'' @ seq @ ''AZ'' @ cs"
  have md: "m @ [d] = code @ request_content d fixed fs" by (simp add: m(3) c)
  have v: "ValidateChecksum (enc e) raw = Ok \<lparr>Valid = True, crSequenceNumber = seq, ChecksumValue = cs\<rparr>"
    unfolding raw_def using ValidateChecksum_CalculateChecksum [OF m(2)] assms(10,12)
    by (simp add: md [simplified] m(3) c)
  have strip: "StripChecksum raw = code @ request_content d fixed fs"
    unfolding raw_def md using assms(11) by (intro StripChecksum_append) simp
  have st: "checksum_stage enc cfg raw = Ok (code @ request_content d fixed fs, seq, True)"
    by (simp add: checksum_stage_def assms(2) e v strip)
  obtain msg where msg: "parse_stage cfg raw (code @ request_content d fixed fs) seq True = Ok msg"
    "Code msg = code" "msgSequenceNumber msg = seq"
    "Fields msg = map_of (rev (emitted d fs)) ++ map_of (fixed_fields code fixed)"
    using parse_stage_request [OF assms(5,7,3,4,8), of raw "''AY'' @ seq @ ''AZ'' @ cs" seq True]
    by (auto simp: raw_def md)
  have "Parse enc cfg raw = Ok msg"
    using st msg(1) assms(5) by (simp add: Parse_def raw_def m(3))
  then show ?thesis using msg(2-) m(1) by (intro exI [of _ raw] exI [of _ msg]) (simp add: raw_def)
qed

end
