(* ===== verification/Session.thy ===== *)
theory Session
  imports Tenant_Config Go_Time "HOL-Library.Multiset"
begin

text \<open>
  \<open>internal/types/session.go\<close>: the state of one kiosk connection. Every method takes the
  session's lock, so each is one atomic step on the record; the clock reading of a method is
  its argument \<open>now\<close>. The token pair and the custody of refresh tokens under any interleaving
  of the methods are what the lemmas are about.
\<close>

definition TokenExpiryBuffer :: int where "TokenExpiryBuffer = 90"

record TokenPair =
  AccessToken :: string
  AccessExpiresAt :: GoTime
  RefreshToken :: string
  RefreshExpiresAt :: GoTime
  pairOkapiURL :: string
  pairOkapiTenant :: string

definition pair_IsEmpty :: "TokenPair \<Rightarrow> bool" where
  "pair_IsEmpty p \<longleftrightarrow> RefreshToken p = []"

definition empty_pair :: TokenPair where
  "empty_pair = \<lparr>AccessToken = [], AccessExpiresAt = zero_time, RefreshToken = [],
     RefreshExpiresAt = zero_time, pairOkapiURL = [], pairOkapiTenant = []\<rparr>"

record Session =
  sessID :: string
  sessTenant :: "TenantConfig option"
  AuthToken :: string
  TokenExpiresAt :: GoTime
  PatronID :: string
  PatronBarcode :: string
  Username :: string
  password :: string
  LocationCode :: string
  IsAuthenticated :: bool
  CreatedAt :: GoTime
  LastActivity :: GoTime
  refreshToken :: string
  refreshTokenExpiresAt :: GoTime
  tokenOkapiURL :: string
  tokenTenant :: string

definition NewSession :: "GoTime \<Rightarrow> string \<Rightarrow> TenantConfig option \<Rightarrow> Session" where
  "NewSession now i tenantConfig =
     \<lparr>sessID = i, sessTenant = tenantConfig, AuthToken = [], TokenExpiresAt = zero_time, PatronID = [],
      PatronBarcode = [], Username = [], password = [], LocationCode = [], IsAuthenticated = False,
      CreatedAt = now, LastActivity = now, refreshToken = [], refreshTokenExpiresAt = zero_time,
      tokenOkapiURL = [], tokenTenant = []\<rparr>"

definition SetAuthenticated ::
  "GoTime \<Rightarrow> string \<Rightarrow> string \<Rightarrow> string \<Rightarrow> string \<Rightarrow> GoTime \<Rightarrow> Session \<Rightarrow> Session" where
  "SetAuthenticated now username patronID patronBarcode authToken expiresAt s =
     s\<lparr>IsAuthenticated := True, Username := username, PatronID := patronID, PatronBarcode := patronBarcode,
       AuthToken := authToken, TokenExpiresAt := expiresAt, LastActivity := now\<rparr>"

definition SetAuthCredentials :: "string \<Rightarrow> Session \<Rightarrow> Session" where
  "SetAuthCredentials pw s = s\<lparr>password := pw\<rparr>"

definition HasAuthCredentials :: "Session \<Rightarrow> bool" where
  "HasAuthCredentials s \<longleftrightarrow> Username s \<noteq> [] \<and> password s \<noteq> []"

definition storeTokensLocked ::
  "GoTime \<Rightarrow> string \<Rightarrow> GoTime \<Rightarrow> string \<Rightarrow> GoTime \<Rightarrow> Session \<Rightarrow> Session" where
  "storeTokensLocked now accessToken accessExpiresAt refresh refreshExpiresAt s =
     s\<lparr>AuthToken := accessToken, TokenExpiresAt := accessExpiresAt, refreshToken := refresh,
       refreshTokenExpiresAt := refreshExpiresAt,
       tokenOkapiURL := (case sessTenant s of None \<Rightarrow> [] | Some tc \<Rightarrow> OkapiURL tc),
       tokenTenant := (case sessTenant s of None \<Rightarrow> [] | Some tc \<Rightarrow> OkapiTenant tc),
       LastActivity := now\<rparr>"

definition tokenPairLocked :: "Session \<Rightarrow> TokenPair" where
  "tokenPairLocked s =
     \<lparr>AccessToken = AuthToken s, AccessExpiresAt = TokenExpiresAt s, RefreshToken = refreshToken s,
      RefreshExpiresAt = refreshTokenExpiresAt s, pairOkapiURL = tokenOkapiURL s, pairOkapiTenant = tokenTenant s\<rparr>"

definition clearTokensLocked :: "Session \<Rightarrow> Session" where
  "clearTokensLocked s =
     s\<lparr>AuthToken := [], TokenExpiresAt := zero_time, refreshToken := [], refreshTokenExpiresAt := zero_time,
       tokenOkapiURL := [], tokenTenant := []\<rparr>"

definition UpdateTokens ::
  "GoTime \<Rightarrow> string \<Rightarrow> GoTime \<Rightarrow> string \<Rightarrow> GoTime \<Rightarrow> Session \<Rightarrow> Session" where
  "UpdateTokens now accessToken accessExpiresAt refresh refreshExpiresAt s =
     storeTokensLocked now accessToken accessExpiresAt refresh refreshExpiresAt s"

definition SwapTokens ::
  "GoTime \<Rightarrow> string \<Rightarrow> GoTime \<Rightarrow> string \<Rightarrow> GoTime \<Rightarrow> Session \<Rightarrow> TokenPair \<times> Session" where
  "SwapTokens now accessToken accessExpiresAt refresh refreshExpiresAt s =
     (tokenPairLocked s, storeTokensLocked now accessToken accessExpiresAt refresh refreshExpiresAt s)"

definition TakeTokens :: "Session \<Rightarrow> TokenPair \<times> Session" where
  "TakeTokens s = (tokenPairLocked s, clearTokensLocked s)"

definition HasTokensFromOtherTenant :: "Session \<Rightarrow> bool" where
  "HasTokensFromOtherTenant s =
     (if refreshToken s = [] then False
      else case sessTenant s of
        None \<Rightarrow> False
      | Some tc \<Rightarrow> tokenOkapiURL s \<noteq> OkapiURL tc \<or> tokenTenant s \<noteq> OkapiTenant tc)"

definition HasValidRefreshToken :: "GoTime \<Rightarrow> int \<Rightarrow> Session \<Rightarrow> bool" where
  "HasValidRefreshToken now buffer s =
     (if refreshToken s = [] \<or> IsZero (refreshTokenExpiresAt s) then False
      else Before (add_seconds now buffer) (refreshTokenExpiresAt s))"

definition UpdateActivity :: "GoTime \<Rightarrow> Session \<Rightarrow> Session" where
  "UpdateActivity now s = s\<lparr>LastActivity := now\<rparr>"

definition SetLocationCode :: "string \<Rightarrow> Session \<Rightarrow> Session" where
  "SetLocationCode l s = s\<lparr>LocationCode := l\<rparr>"

definition SetPatronID :: "string \<Rightarrow> Session \<Rightarrow> Session" where
  "SetPatronID i s = s\<lparr>PatronID := i\<rparr>"

definition SetPatronBarcode :: "string \<Rightarrow> Session \<Rightarrow> Session" where
  "SetPatronBarcode b s = s\<lparr>PatronBarcode := b\<rparr>"

definition IsTokenExpired :: "GoTime \<Rightarrow> Session \<Rightarrow> bool" where
  "IsTokenExpired now s =
     (if IsZero (TokenExpiresAt s) then True
      else After (add_seconds now TokenExpiryBuffer) (TokenExpiresAt s))"

definition Clear :: "GoTime \<Rightarrow> Session \<Rightarrow> Session" where
  "Clear now s =
     (clearTokensLocked (s\<lparr>IsAuthenticated := False, Username := [], password := [], PatronID := [],
        PatronBarcode := []\<rparr>))\<lparr>LastActivity := now\<rparr>"

definition ClearPatron :: "GoTime \<Rightarrow> Session \<Rightarrow> Session" where
  "ClearPatron now s = s\<lparr>PatronID := [], PatronBarcode := [], LastActivity := now\<rparr>"

definition GetAuthCredentials :: "Session \<Rightarrow> string \<times> string" where
  "GetAuthCredentials s = (Username s, password s)"

definition GetRefreshToken :: "Session \<Rightarrow> string \<times> GoTime" where
  "GetRefreshToken s = (refreshToken s, refreshTokenExpiresAt s)"

definition GetAuthToken :: "Session \<Rightarrow> string" where "GetAuthToken s = AuthToken s"

definition GetTokenExpiresAt :: "Session \<Rightarrow> GoTime" where "GetTokenExpiresAt s = TokenExpiresAt s"

definition GetPatronID :: "Session \<Rightarrow> string" where "GetPatronID s = PatronID s"

definition GetPatronBarcode :: "Session \<Rightarrow> string" where "GetPatronBarcode s = PatronBarcode s"

definition GetUsername :: "Session \<Rightarrow> string" where "GetUsername s = Username s"

definition GetLocationCode :: "Session \<Rightarrow> string" where "GetLocationCode s = LocationCode s"

definition IsAuth :: "Session \<Rightarrow> bool" where "IsAuth s = IsAuthenticated s"

text \<open>\<open>time.Since\<close>, in nanoseconds; a duration that does not fit saturates.\<close>

definition time_since :: "GoTime \<Rightarrow> GoTime \<Rightarrow> int" where
  "time_since now t = max (- (2 ^ 63)) (min (2 ^ 63 - 1) (tm_ns now - tm_ns t))"

definition GetDuration :: "GoTime \<Rightarrow> Session \<Rightarrow> int" where "GetDuration now s = time_since now (CreatedAt s)"

definition GetIdleTime :: "GoTime \<Rightarrow> Session \<Rightarrow> int" where "GetIdleTime now s = time_since now (LastActivity s)"

definition GetTenant :: "Session \<Rightarrow> TenantConfig option" where "GetTenant s = sessTenant s"

definition UpdateTenant :: "TenantConfig option \<Rightarrow> Session \<Rightarrow> Session" where
  "UpdateTenant tc s = s\<lparr>sessTenant := tc\<rparr>"

definition Clone :: "Session \<Rightarrow> Session" where
  "Clone s = s\<lparr>password := [], refreshToken := [], refreshTokenExpiresAt := zero_time,
     tokenOkapiURL := [], tokenTenant := []\<rparr>"

subsection \<open>Custody of refresh tokens\<close>

text \<open>
  What a keeper of one token promises: taking hands out the token it holds and leaves none, swapping hands
  out the token it replaces, replacing and forgetting discard it, and looking hands out a copy. Under any
  sequence of these operations every token that was put in leaves exactly once, handed out or discarded, or is
  still held; and once it has left, no operation hands it out or shows it again.
\<close>

datatype ('r, 'n, 'u) token_op = Take | Swap 'r | Replace 'r | Forget 'n | Look | Touch 'u

datatype 't custody = Handed 't | Discarded 't | Copied 't

fun token_in :: "'t custody \<Rightarrow> 't" where
  "token_in (Handed t) = t"
| "token_in (Discarded t) = t"
| "token_in (Copied t) = t"

fun left_tokens :: "'t custody list \<Rightarrow> 't list" where
  "left_tokens [] = []"
| "left_tokens (Copied t # es) = left_tokens es"
| "left_tokens (e # es) = token_in e # left_tokens es"

text \<open>No token is seen after it has left.\<close>

fun gone_for_good :: "'t custody list \<Rightarrow> bool" where
  "gone_for_good [] = True"
| "gone_for_good (Copied t # es) = gone_for_good es"
| "gone_for_good (e # es) = (token_in e \<notin> token_in ` set es \<and> gone_for_good es)"

definition kept :: "'t option \<Rightarrow> 't list" where
  "kept x = (case x of None \<Rightarrow> [] | Some t \<Rightarrow> [t])"

lemma kept_simps [simp]: "kept None = []" "kept (Some t) = [t]"
  by (simp_all add: kept_def)

lemma left_tokens_append [simp]: "left_tokens (es @ es') = left_tokens es @ left_tokens es'"
  by (induction es rule: left_tokens.induct) simp_all

lemma left_tokens_kept [simp]:
  "left_tokens (map Handed xs) = xs" "left_tokens (map Discarded xs) = xs" "left_tokens (map Copied xs) = []"
  by (induction xs) simp_all

lemma gone_kept:
  "gone_for_good (map Handed (kept x) @ es) \<longleftrightarrow> (\<forall>t \<in> set (kept x). t \<notin> token_in ` set es) \<and> gone_for_good es"
  "gone_for_good (map Discarded (kept x) @ es) \<longleftrightarrow> (\<forall>t \<in> set (kept x). t \<notin> token_in ` set es) \<and> gone_for_good es"
  "gone_for_good (map Copied (kept x) @ es) \<longleftrightarrow> gone_for_good es"
  by (cases x; simp)+

lemma token_in_kept [simp]:
  "token_in ` set (map Handed xs) = set xs" "token_in ` set (map Discarded xs) = set xs"
  "token_in ` set (map Copied xs) = set xs"
  by (simp_all add: image_image)

locale token_keeper =
  fixes held :: "'s \<Rightarrow> 't option"
    and take_out :: "'s \<Rightarrow> 't option \<times> 's"
    and put_in :: "'r \<Rightarrow> 's \<Rightarrow> 't option \<times> 's"
    and replace :: "'r \<Rightarrow> 's \<Rightarrow> 's"
    and forget :: "'n \<Rightarrow> 's \<Rightarrow> 's"
    and look :: "'s \<Rightarrow> 't option"
    and touch :: "'u \<Rightarrow> 's \<Rightarrow> 's"
    and token_of :: "'r \<Rightarrow> 't option"
  assumes take_held: "fst (take_out s) = held s" "held (snd (take_out s)) = None"
    and put_held: "fst (put_in r s) = held s" "held (snd (put_in r s)) = token_of r"
    and replace_held: "held (replace r s) = token_of r"
    and forget_held: "held (forget n s) = None"
    and look_held: "look s = held s"
    and touch_held: "held (touch u s) = held s"
begin

fun run_keeper :: "('r, 'n, 'u) token_op list \<Rightarrow> 's \<Rightarrow> 't custody list \<times> 's" where
  "run_keeper [] s = ([], s)"
| "run_keeper (Take # ops) s =
     (let r = take_out s; rest = run_keeper ops (snd r) in (map Handed (kept (fst r)) @ fst rest, snd rest))"
| "run_keeper (Swap x # ops) s =
     (let r = put_in x s; rest = run_keeper ops (snd r) in (map Handed (kept (fst r)) @ fst rest, snd rest))"
| "run_keeper (Replace x # ops) s =
     (let rest = run_keeper ops (replace x s) in (map Discarded (kept (held s)) @ fst rest, snd rest))"
| "run_keeper (Forget n # ops) s =
     (let rest = run_keeper ops (forget n s) in (map Discarded (kept (held s)) @ fst rest, snd rest))"
| "run_keeper (Look # ops) s =
     (let rest = run_keeper ops s in (map Copied (kept (look s)) @ fst rest, snd rest))"
| "run_keeper (Touch u # ops) s = run_keeper ops (touch u s)"

fun tokens_in :: "('r, 'n, 'u) token_op list \<Rightarrow> 't list" where
  "tokens_in [] = []"
| "tokens_in (Swap x # ops) = kept (token_of x) @ tokens_in ops"
| "tokens_in (Replace x # ops) = kept (token_of x) @ tokens_in ops"
| "tokens_in (op # ops) = tokens_in ops"

lemmas keeper_laws = take_held put_held replace_held forget_held touch_held

lemma custody:
  "mset (left_tokens (fst (run_keeper ops s)) @ kept (held (snd (run_keeper ops s)))) =
   mset (kept (held s) @ tokens_in ops)"
proof (induction ops s rule: run_keeper.induct)
  case (6 ops s)
  then show ?case by (simp add: Let_def)
qed (simp_all add: Let_def keeper_laws)

lemma seen_was_known:
  "token_in ` set (fst (run_keeper ops s)) \<subseteq> set (kept (held s) @ tokens_in ops)"
proof (induction ops s rule: run_keeper.induct)
  case (6 ops s)
  then show ?case using look_held [of s] by (auto simp: Let_def image_Un)
qed (auto simp: Let_def keeper_laws image_Un)

lemma never_seen_again:
  "distinct (kept (held s) @ tokens_in ops) \<Longrightarrow> gone_for_good (fst (run_keeper ops s))"
proof (induction ops s rule: run_keeper.induct)
  case (2 ops s)
  then show ?case using seen_was_known [of ops "snd (take_out s)"] by (fastforce simp: Let_def keeper_laws gone_kept)
next
  case (3 x ops s)
  then show ?case using seen_was_known [of ops "snd (put_in x s)"] by (fastforce simp: Let_def keeper_laws gone_kept)
next
  case (4 x ops s)
  then show ?case using seen_was_known [of ops "replace x s"] by (fastforce simp: Let_def keeper_laws gone_kept)
next
  case (5 n ops s)
  then show ?case using seen_was_known [of ops "forget n s"] by (fastforce simp: Let_def keeper_laws gone_kept)
qed (simp_all add: Let_def keeper_laws gone_kept)

end

text \<open>The session keeps its refresh token that way.\<close>

record TokenGrant =
  gNow :: GoTime
  gAccess :: string
  gAccessExpires :: GoTime
  gRefresh :: string
  gRefreshExpires :: GoTime

datatype session_touch =
    TouchAuthenticated GoTime string string string string GoTime
  | TouchCredentials string | TouchActivity GoTime | TouchLocation string | TouchPatronID string
  | TouchPatronBarcode string | TouchClearPatron GoTime | TouchTenant "TenantConfig option"

fun apply_touch :: "session_touch \<Rightarrow> Session \<Rightarrow> Session" where
  "apply_touch (TouchAuthenticated now u i b tok e) s = SetAuthenticated now u i b tok e s"
| "apply_touch (TouchCredentials pw) s = SetAuthCredentials pw s"
| "apply_touch (TouchActivity now) s = UpdateActivity now s"
| "apply_touch (TouchLocation l) s = SetLocationCode l s"
| "apply_touch (TouchPatronID i) s = SetPatronID i s"
| "apply_touch (TouchPatronBarcode b) s = SetPatronBarcode b s"
| "apply_touch (TouchClearPatron now) s = ClearPatron now s"
| "apply_touch (TouchTenant tc) s = UpdateTenant tc s"

definition known_token :: "string \<Rightarrow> string option" where
  "known_token t = (if t = [] then None else Some t)"

definition held_refresh :: "Session \<Rightarrow> string option" where
  "held_refresh s = known_token (refreshToken s)"

definition take_refresh :: "Session \<Rightarrow> string option \<times> Session" where
  "take_refresh s = (let r = TakeTokens s in (known_token (RefreshToken (fst r)), snd r))"

definition swap_refresh :: "TokenGrant \<Rightarrow> Session \<Rightarrow> string option \<times> Session" where
  "swap_refresh g s =
     (let r = SwapTokens (gNow g) (gAccess g) (gAccessExpires g) (gRefresh g) (gRefreshExpires g) s
      in (known_token (RefreshToken (fst r)), snd r))"

definition update_refresh :: "TokenGrant \<Rightarrow> Session \<Rightarrow> Session" where
  "update_refresh g s = UpdateTokens (gNow g) (gAccess g) (gAccessExpires g) (gRefresh g) (gRefreshExpires g) s"

definition look_refresh :: "Session \<Rightarrow> string option" where
  "look_refresh s = known_token (fst (GetRefreshToken s))"

interpretation session_tokens:
  token_keeper held_refresh take_refresh swap_refresh update_refresh Clear look_refresh apply_touch
    "\<lambda>g. known_token (gRefresh g)"
proof
  fix s u now and g :: TokenGrant
  show "fst (take_refresh s) = held_refresh s" "held_refresh (snd (take_refresh s)) = None"
    by (simp_all add: take_refresh_def TakeTokens_def tokenPairLocked_def clearTokensLocked_def
        held_refresh_def known_token_def Let_def)
  show "fst (swap_refresh g s) = held_refresh s" "held_refresh (snd (swap_refresh g s)) = known_token (gRefresh g)"
    by (simp_all add: swap_refresh_def SwapTokens_def tokenPairLocked_def storeTokensLocked_def
        held_refresh_def Let_def)
  show "held_refresh (update_refresh g s) = known_token (gRefresh g)"
    by (simp add: update_refresh_def UpdateTokens_def storeTokensLocked_def held_refresh_def)
  show "held_refresh (Clear now s) = None"
    by (simp add: Clear_def clearTokensLocked_def held_refresh_def known_token_def)
  show "look_refresh s = held_refresh s"
    by (simp add: look_refresh_def GetRefreshToken_def held_refresh_def)
  show "held_refresh (apply_touch u s) = held_refresh s"
    by (cases u) (simp_all add: held_refresh_def SetAuthenticated_def SetAuthCredentials_def
        UpdateActivity_def SetLocationCode_def SetPatronID_def SetPatronBarcode_def ClearPatron_def
        UpdateTenant_def)
qed

subsection \<open>Which parts a method leaves alone\<close>

lemma ClearPatron_frame [session_frame]:
  "AuthToken (ClearPatron now s) = AuthToken s" "refreshToken (ClearPatron now s) = refreshToken s"
  "IsAuthenticated (ClearPatron now s) = IsAuthenticated s" "Username (ClearPatron now s) = Username s"
  "password (ClearPatron now s) = password s" "sessTenant (ClearPatron now s) = sessTenant s"
  "PatronID (ClearPatron now s) = []" "PatronBarcode (ClearPatron now s) = []"
  by (simp_all add: ClearPatron_def)

lemma Clear_frame [session_frame]:
  "AuthToken (Clear now s) = []" "refreshToken (Clear now s) = []" "password (Clear now s) = []"
  "Username (Clear now s) = []" "IsAuthenticated (Clear now s) = False" "PatronID (Clear now s) = []"
  "PatronBarcode (Clear now s) = []" "sessTenant (Clear now s) = sessTenant s"
  "LocationCode (Clear now s) = LocationCode s"
  by (simp_all add: Clear_def clearTokensLocked_def)

lemma SetPatron_frame [session_frame]:
  "AuthToken (SetPatronID i s) = AuthToken s" "sessTenant (SetPatronID i s) = sessTenant s"
  "refreshToken (SetPatronID i s) = refreshToken s" "IsAuthenticated (SetPatronID i s) = IsAuthenticated s"
  "AuthToken (SetPatronBarcode b s) = AuthToken s" "sessTenant (SetPatronBarcode b s) = sessTenant s"
  "refreshToken (SetPatronBarcode b s) = refreshToken s"
  "IsAuthenticated (SetPatronBarcode b s) = IsAuthenticated s"
  by (simp_all add: SetPatronID_def SetPatronBarcode_def)

lemma Clone_no_credentials: "password (Clone s) = [] \<and> refreshToken (Clone s) = []"
  by (simp add: Clone_def)

lemma TakeTokens_twice: "pair_IsEmpty (fst (TakeTokens (snd (TakeTokens s))))"
  by (simp add: TakeTokens_def tokenPairLocked_def clearTokensLocked_def pair_IsEmpty_def)

text \<open>A pair stored under one tenant is recognised as foreign after the session moves.\<close>

lemma HasTokensFromOtherTenant_move:
  assumes "sessTenant s = Some tc" "r \<noteq> []"
  shows "HasTokensFromOtherTenant (UpdateTenant (Some tc') (snd (SwapTokens now a ae r re s))) \<longleftrightarrow>
    OkapiURL tc \<noteq> OkapiURL tc' \<or> OkapiTenant tc \<noteq> OkapiTenant tc'"
  using assms by (simp add: HasTokensFromOtherTenant_def UpdateTenant_def SwapTokens_def storeTokensLocked_def)

end
