(* ===== verification/Cql.thy ===== *)
theory Cql
  imports Go_Strings
begin

text \<open>
  \<open>internal/folio/cql.go\<close> and the escaping of query strings: how a text that a kiosk sends gets
  into a FOLIO query. The lemmas read the result back the way the other side does: a quoted CQL
  term is read with its escapes and its three active characters, a query parameter with its
  percent escapes.
\<close>

definition cqlEscaper :: "char \<Rightarrow> string" where
  "cqlEscaper c =
     (if c \<in> {CHR 0x5C, CHR 0x22, CHR ''*'', CHR ''?'', CHR ''^''} then [CHR 0x5C, c] else [c])"

definition cqlQuote :: "string \<Rightarrow> string" where
  "cqlQuote v = [CHR 0x22] @ concat (map cqlEscaper v) @ [CHR 0x22]"

definition hex_letter :: "char \<Rightarrow> bool" where
  "hex_letter c \<longleftrightarrow> c \<in> set ''abcdefABCDEF0123456789''"

text \<open>The pattern of a FOLIO UUID: the character classes of its 36 positions.\<close>

definition uuidPattern :: "(char \<Rightarrow> bool) list" where
  "uuidPattern =
     replicate 8 hex_letter @ [\<lambda>c. c = CHR ''-''] @ replicate 4 hex_letter @ [\<lambda>c. c = CHR ''-''] @
     [\<lambda>c. c \<in> set ''12345''] @ replicate 3 hex_letter @ [\<lambda>c. c = CHR ''-''] @
     [\<lambda>c. c \<in> set ''89abAB''] @ replicate 3 hex_letter @ [\<lambda>c. c = CHR ''-''] @ replicate 12 hex_letter"

definition isUUID :: "string \<Rightarrow> bool" where
  "isUUID v \<longleftrightarrow> list_all2 (\<lambda>p c. p c) uuidPattern v"

text \<open>\<open>url.QueryEscape\<close>.\<close>

definition unreserved :: "char \<Rightarrow> bool" where
  "unreserved c \<longleftrightarrow>
     (let b = byte c in (97 \<le> b \<and> b \<le> 122) \<or> (65 \<le> b \<and> b \<le> 90) \<or> (48 \<le> b \<and> b \<le> 57)) \<or> c \<in> set ''-_.~''"

definition escape_byte :: "char \<Rightarrow> string" where
  "escape_byte c =
     (if unreserved c then [c] else if c = CHR '' '' then ''+''
      else [CHR ''%'', hex_digit (byte c div 16), hex_digit (byte c mod 16)])"

definition QueryEscape :: "string \<Rightarrow> string" where
  "QueryEscape s = concat (map escape_byte s)"

text \<open>\<open>url.PathEscape\<close>, for one segment of a path.\<close>

definition path_byte :: "char \<Rightarrow> string" where
  "path_byte c =
     (if unreserved c \<or> c \<in> set ''$&+=:@'' then [c]
      else [CHR ''%'', hex_digit (byte c div 16), hex_digit (byte c mod 16)])"

definition PathEscape :: "string \<Rightarrow> string" where
  "PathEscape s = concat (map path_byte s)"

subsection \<open>A quoted term stands for its text\<close>

text \<open>
  FOLIO's reader of a quoted CQL term is not part of the repository: it is a parameter, a function \<open>rd\<close> that
  reads what follows the opening quote and returns the elements of the term and the rest of the query.
  \<open>reads_cql\<close> states what the comment at \<open>cqlQuote\<close> documents of it, and was confirmed there against
  FOLIO: a quote ends the term; a backslash in front of one of the five special characters makes it a
  literal; a character that is not special is a literal. Nothing is said of an unescaped special one.
\<close>

definition cql_special :: "char \<Rightarrow> bool" where
  "cql_special c \<longleftrightarrow> c \<in> {CHR 0x5C, CHR 0x22, CHR ''*'', CHR ''?'', CHR ''^''}"

definition reads_cql :: "(string \<Rightarrow> ('a list \<times> string) option) \<Rightarrow> (char \<Rightarrow> 'a) \<Rightarrow> bool" where
  "reads_cql rd literal \<longleftrightarrow>
     (\<forall>s. rd (CHR 0x22 # s) = Some ([], s)) \<and>
     (\<forall>c s. cql_special c \<longrightarrow> rd (CHR 0x5C # c # s) = map_option (apfst (Cons (literal c))) (rd s)) \<and>
     (\<forall>c s. \<not> cql_special c \<longrightarrow> rd (c # s) = map_option (apfst (Cons (literal c))) (rd s))"

lemma reads_cqlEscaper:
  assumes "reads_cql rd literal"
  shows "rd (cqlEscaper c @ s) = map_option (apfst (Cons (literal c))) (rd s)"
  using assms by (cases "cql_special c") (auto simp: reads_cql_def cqlEscaper_def cql_special_def)

lemma reads_escaped:
  assumes "reads_cql rd literal"
  shows "rd (concat (map cqlEscaper v) @ CHR 0x22 # rest) = Some (map literal v, rest)"
proof (induction v)
  case Nil
  then show ?case using assms by (simp add: reads_cql_def)
qed (simp add: reads_cqlEscaper [OF assms])

subsection \<open>UUIDs\<close>

lemma length_uuidPattern [simp]: "length uuidPattern = 36"
  by (simp add: uuidPattern_def)

lemma isUUID_length: "isUUID v \<Longrightarrow> length v = 36"
  by (auto simp: isUUID_def dest: list_all2_lengthD)

lemma uuidPattern_chars: "p \<in> set uuidPattern \<Longrightarrow> p c \<Longrightarrow> hex_letter c \<or> c = CHR ''-''"
  by (auto simp: uuidPattern_def hex_letter_def)

lemma isUUID_chars: "isUUID v \<Longrightarrow> c \<in> set v \<Longrightarrow> hex_letter c \<or> c = CHR ''-''"
  unfolding isUUID_def list_all2_conv_all_nth in_set_conv_nth by (metis uuidPattern_chars nth_mem)

subsection \<open>Query parameters\<close>

fun QueryUnescape :: "string \<Rightarrow> string option" where
  "QueryUnescape [] = Some []"
| "QueryUnescape (c # s) =
     (if c = CHR ''%'' then
        (case s of h # l # t \<Rightarrow>
           (case (digit_value h, digit_value l) of
              (Some a, Some b) \<Rightarrow>
                if a < 16 \<and> b < 16 then map_option (Cons (char_of (16 * a + b))) (QueryUnescape t) else None
            | _ \<Rightarrow> None)
         | _ \<Rightarrow> None)
      else map_option (Cons (if c = CHR ''+'' then CHR '' '' else c)) (QueryUnescape s))"

lemma byte_high [simp]: "byte c div 16 < 16"
  by (rule less_mult_imp_div_less) simp

lemma hex_byte: "digit_value (hex_digit (byte c div 16)) = Some (byte c div 16)"
  "digit_value (hex_digit (byte c mod 16)) = Some (byte c mod 16)"
  by (simp_all add: hex_digit_value)

lemma char_of_byte: "char_of (16 * (byte c div 16) + byte c mod 16) = c"
proof -
  have "16 * (byte c div 16) + byte c mod 16 = byte c" by simp
  then show ?thesis by (metis char_of_char)
qed

lemma QueryUnescape_escape: "QueryUnescape (escape_byte c @ s) = map_option (Cons c) (QueryUnescape s)"
proof (cases "unreserved c")
  case True
  moreover from this have "c \<noteq> CHR ''%''" "c \<noteq> CHR ''+''" by (auto simp: unreserved_def)
  ultimately show ?thesis by (simp add: escape_byte_def)
next
  case False
  then show ?thesis using hex_byte [of c] char_of_byte [of c] by (simp add: escape_byte_def)
qed

lemma QueryUnescape_QueryEscape: "QueryUnescape (QueryEscape s) = Some s"
  by (induction s) (simp_all add: QueryEscape_def QueryUnescape_escape)

lemma QueryEscape_append [simp]: "QueryEscape (s @ t) = QueryEscape s @ QueryEscape t"
  by (simp add: QueryEscape_def)

lemma hex_digit_alnum: "d < 16 \<Longrightarrow> unreserved (hex_digit d)"
  by (auto simp: unreserved_def hex_digit_def Let_def)

lemma QueryEscape_chars:
  assumes "c \<in> set (QueryEscape s)"
  shows "unreserved c \<or> c = CHR ''%'' \<or> c = CHR ''+''"
proof -
  have "unreserved (hex_digit (byte x div 16)) \<and> unreserved (hex_digit (byte x mod 16))" for x
    by (simp add: hex_digit_alnum)
  then show ?thesis using assms by (auto simp: QueryEscape_def escape_byte_def split: if_splits)
qed

end
