(* ===== verification/Samples.thy ===== *)
theory Samples
  imports Builder Session Cql
begin

text \<open>
  Concrete inputs for the witnesses: a tenant configuration, an encoder that leaves its text
  alone (the encoders of the program do so on ASCII), a session of that tenant, and the
  facts about them that several witnesses use.
\<close>

definition sample_enc :: encoder where
  "sample_enc e s = Some s"

definition sample_config :: TenantConfig where
  "sample_config =
     \<lparr>Tenant = ''main'', cfgInstitutionID = [], cfgLibraryName = [], ErrorDetectionEnabled = True,
      MessageDelimiter = [CHR 0x0D], FieldDelimiter = ''|'', Charset = ''UTF-8'', Timezone = ''UTC'',
      LogLevel = ''Full'', OkapiURL = ''https://folio'', OkapiTenant = ''diku'',
      SupportedMessages = [\<lparr>ms_Code = ''93'', ms_Enabled = True, ms_Fields = []\<rparr>],
      PatronPasswordVerificationRequired = True, UsePinForPatronVerification = False,
      InvalidCheckinStatuses = [], ClaimedReturnedResolution = [], StatusUpdateOk = True, OfflineOk = False,
      TimeoutPeriod = 30, RetriesAllowed = 3, Currency = ''USD'', CirculationStatusMapping = [],
      RenewAllMaxItems = 0, PatronItemsLimit = 0, AcceptBulkPayment = True, PaymentMethod = [],
      NotifyPatron = False, RollingRenewals = None, PatronCustomFields = None\<rparr>"

lemma sample_config_simps [simp]:
  "ErrorDetectionEnabled sample_config" "MessageDelimiter sample_config = [CHR 0x0D]"
  "FieldDelimiter sample_config = ''|''" "Charset sample_config = ''UTF-8''" "Tenant sample_config = ''main''"
  "OkapiURL sample_config = ''https://folio''" "OkapiTenant sample_config = ''diku''"
  "LogLevel sample_config = ''Full''" "Timezone sample_config = ''UTC''"
  "PatronPasswordVerificationRequired sample_config" "\<not> UsePinForPatronVerification sample_config"
  by (simp_all add: sample_config_def)

lemma sample_enc_simps [simp]: "sample_enc e s = Some s" "GetEncoder ''UTF-8'' = Ok UTF8"
  by (simp_all add: sample_enc_def GetEncoder_def)

definition sample_time :: GoTime where
  "sample_time = \<lparr>tm_ns = 63000000000000000000, tm_off = 0\<rparr>"

definition sample_session :: Session where
  "sample_session = NewSession sample_time ''s1'' (Some sample_config)"

lemma sample_field:
  assumes "\<forall>c \<in> set v. 32 \<le> byte c \<and> byte c < 127" "d \<notin> set v"
  shows "SanitizeFieldValue v [d] = v"
proof (rule SanitizeFieldValue_clean)
  have "\<forall>c \<in> set v. byte c < 0x80" using assms(1) by fastforce
  then show "valid_utf8 v" using ascii_valid by blast
  show "\<forall>c \<in> set v. \<not> control_byte c" using assms(1) by fastforce
  show "\<not> sublist [d] v \<or> [d] = []" using assms(2) by (simp add: sublist_singleton)
qed

lemma sample_Build:
  "\<exists>r. Build sample_enc sample_config code content seq = Ok r"
  by (simp add: Build_def Let_def CalculateChecksum_def)

text \<open>Nine bytes whose checksum is right and whose message is empty without it.\<close>

lemma ValidateChecksum_AY1:
  "enc ''AY1AZ'' = Some ''AY1AZ'' \<Longrightarrow> ValidateChecksum enc ''AY1AZFE9A'' =
     Ok \<lparr>Valid = True, crSequenceNumber = ''1'', ChecksumValue = ''FE9A''\<rparr>"
  by (simp add: ValidateChecksum_def byte_sum_def ParseInt_def digit_value_def Let_def)

lemma Parse_AY1:
  assumes "ErrorDetectionEnabled cfg" "GetEncoder (Charset cfg) = Ok e" "enc e ''AY1AZ'' = Some ''AY1AZ''"
  shows "Parse enc cfg ''AY1AZFE9A'' = Panic"
  using assms by (simp add: Parse_Panic_iff checksum_stage_def ValidateChecksum_AY1)

text \<open>One reader of quoted CQL terms with the documented laws, which tells the active characters from literals.\<close>

datatype cql_char = Literal char | AnyText | AnyChar | Anchor

fun read_term :: "string \<Rightarrow> (cql_char list \<times> string) option" where
  "read_term [] = None"
| "read_term (c # s) =
     (if c = CHR 0x22 then Some ([], s)
      else if c = CHR 0x5C then (case s of [] \<Rightarrow> None | d # t \<Rightarrow> map_option (apfst (Cons (Literal d))) (read_term t))
      else map_option (apfst (Cons
             (if c = CHR ''*'' then AnyText else if c = CHR ''?'' then AnyChar
              else if c = CHR ''^'' then Anchor else Literal c))) (read_term s))"

lemma read_term_reads: "reads_cql read_term Literal"
  by (simp add: reads_cql_def cql_special_def)

end
