(* ===== verification/Folio_User.thy ===== *)
theory Folio_User
  imports Go_Time
begin

text \<open>
  \<open>internal/folio/models/user.go\<close>: the parts of a FOLIO user that the program reads, and the
  functions on them. Pointers are options; the JSON values of custom fields are \<open>json\<close>.
\<close>

datatype json = JNull | JBool bool | JNum int | JFloat string | JStr string | JArr "json list"
  | JObj "(string \<times> json) list"

record Address =
  CountryID :: string
  AddressLine1 :: string
  AddressLine2 :: string
  City :: string
  Region :: string
  PostalCode :: string
  PrimaryAddress :: bool

record PersonalInfo =
  LastName :: string
  FirstName :: string
  piPreferredFirstName :: string
  MiddleName :: string
  Email :: string
  Phone :: string
  MobilePhone :: string
  DateOfBirth :: "GoTime option"
  Addresses :: "Address list"

record User =
  userID :: string
  userUsername :: string
  Barcode :: string
  Active :: bool
  PatronGroup :: string
  Personal :: PersonalInfo
  ExpirationDate :: "GoTime option"
  CustomFields :: "(string \<times> json) list"

record ManualBlock =
  mbDesc :: string
  mbPatronMessage :: string
  Borrowing :: bool
  Renewals :: bool
  Requests :: bool

record AutomatedBlock =
  BlockBorrowing :: bool
  BlockRenewals :: bool
  BlockRequests :: bool
  abMessage :: string

definition GetFullName :: "User \<Rightarrow> string" where
  "GetFullName u =
     (let p = Personal u in
      FirstName p @ (if MiddleName p \<noteq> [] then '' '' @ MiddleName p else []) @ '' '' @ LastName p)"

definition GetPrimaryAddress :: "User \<Rightarrow> Address option" where
  "GetPrimaryAddress u =
     (let as = Addresses (Personal u) in
      case find PrimaryAddress as of
        Some a \<Rightarrow> Some a
      | None \<Rightarrow> (case as of a # _ \<Rightarrow> Some a | [] \<Rightarrow> None))"

definition user_IsExpired :: "GoTime \<Rightarrow> User \<Rightarrow> bool" where
  "user_IsExpired now u = (case ExpirationDate u of None \<Rightarrow> False | Some e \<Rightarrow> Before e now)"

definition GetCustomField :: "User \<Rightarrow> string \<Rightarrow> json option" where
  "GetCustomField u key = map_of (CustomFields u) key"

lemma GetPrimaryAddress_None: "GetPrimaryAddress u = None \<longleftrightarrow> Addresses (Personal u) = []"
  by (auto simp: GetPrimaryAddress_def Let_def find_None_iff split: option.splits list.splits)

lemma GetPrimaryAddress_primary:
  "GetPrimaryAddress u = Some a \<Longrightarrow> \<exists>b \<in> set (Addresses (Personal u)). PrimaryAddress b \<Longrightarrow> PrimaryAddress a"
  by (auto simp: GetPrimaryAddress_def Let_def find_None_iff find_Some_iff split: option.splits)

end
