(* ===== verification/Float64.thy ===== *)
theory Float64
  imports Complex_Main Go_Time Helpers
begin

text \<open>
  Go's \<open>float64\<close> where the program uses it: amounts of money. A value is a sign and a magnitude,
  an infinity or NaN; arithmetic is exact and then rounded to 53 bits, ties to even, as IEEE 754
  has it; \<open>%.2f\<close> is the exact value rounded to hundredths. The lemmas are about what the
  program relies on: the printed text has no byte that could break a message, and it is within
  half a hundredth of the value.
\<close>

datatype f64 = Fin bool rat | Inf bool | NaN

function bitlen :: "int \<Rightarrow> int" where
  "bitlen n = (if n \<le> 0 then 0 else 1 + bitlen (n div 2))"
  by auto
termination by (relation "measure nat") auto

declare bitlen.simps [simp del]

definition pow2 :: "int \<Rightarrow> rat" where
  "pow2 k = (if k \<ge> 0 then 2 ^ nat k else 1 / 2 ^ nat (- k))"

text \<open>The exponent of the leading bit of a positive number.\<close>

definition exponent :: "rat \<Rightarrow> int" where
  "exponent q =
     (case quotient_of q of (n, d) \<Rightarrow>
        let k = bitlen n - bitlen d in if pow2 k \<le> q then k else k - 1)"

definition half_even :: "rat \<Rightarrow> int" where
  "half_even x =
     (let n = \<lfloor>x\<rfloor>; r = x - of_int n
      in if r < 1 / 2 then n else if r > 1 / 2 then n + 1 else if even n then n else n + 1)"

definition round64 :: "bool \<Rightarrow> rat \<Rightarrow> f64" where
  "round64 s q =
     (if q = 0 then Fin s 0
      else let ulp = pow2 (max (exponent q) (- 1022) - 52);
               m = of_int (half_even (q / ulp)) * ulp
           in if m \<ge> pow2 1024 then Inf s else Fin s m)"

definition signed :: "bool \<Rightarrow> rat \<Rightarrow> rat" where "signed s m = (if s then - m else m)"

fun f_add :: "f64 \<Rightarrow> f64 \<Rightarrow> f64" where
  "f_add NaN y = NaN"
| "f_add x NaN = NaN"
| "f_add (Inf s) (Inf t) = (if s = t then Inf s else NaN)"
| "f_add (Inf s) (Fin t n) = Inf s"
| "f_add (Fin s m) (Inf t) = Inf t"
| "f_add (Fin s m) (Fin t n) =
     (let r = signed s m + signed t n in if r = 0 then Fin (s \<and> t) 0 else round64 (r < 0) (abs r))"

fun f_neg :: "f64 \<Rightarrow> f64" where
  "f_neg NaN = NaN"
| "f_neg (Inf s) = Inf (\<not> s)"
| "f_neg (Fin s m) = Fin (\<not> s) m"

definition f_sub :: "f64 \<Rightarrow> f64 \<Rightarrow> f64" where "f_sub x y = f_add x (f_neg y)"

fun f_div :: "f64 \<Rightarrow> f64 \<Rightarrow> f64" where
  "f_div NaN y = NaN"
| "f_div x NaN = NaN"
| "f_div (Inf s) (Inf t) = NaN"
| "f_div (Inf s) (Fin t n) = Inf (s \<noteq> t)"
| "f_div (Fin s m) (Inf t) = Fin (s \<noteq> t) 0"
| "f_div (Fin s m) (Fin t n) =
     (if n = 0 then (if m = 0 then NaN else Inf (s \<noteq> t)) else round64 (s \<noteq> t) (m / n))"

fun f_less :: "f64 \<Rightarrow> f64 \<Rightarrow> bool" where
  "f_less NaN y = False"
| "f_less x NaN = False"
| "f_less (Inf s) (Inf t) = (s \<and> \<not> t)"
| "f_less (Inf s) (Fin t n) = s"
| "f_less (Fin s m) (Inf t) = (\<not> t)"
| "f_less (Fin s m) (Fin t n) = (signed s m < signed t n)"

definition f_zero :: f64 where "f_zero = Fin False 0"

definition f_is_zero :: "f64 \<Rightarrow> bool" where
  "f_is_zero x = (case x of Fin s m \<Rightarrow> m = 0 | _ \<Rightarrow> False)"

text \<open>\<open>x <= 0\<close>, which NaN is not.\<close>

definition f_not_positive :: "f64 \<Rightarrow> bool" where
  "f_not_positive x \<longleftrightarrow> f_less x f_zero \<or> f_is_zero x"

definition f_of_nat :: "nat \<Rightarrow> f64" where "f_of_nat n = round64 False (of_nat n)"

text \<open>\<open>FormatFloat (x, 'f', 2, 64)\<close> and \<open>%.2f\<close>.\<close>

fun format_2f :: "f64 \<Rightarrow> string" where
  "format_2f NaN = ''NaN''"
| "format_2f (Inf s) = (if s then ''-Inf'' else ''+Inf'')"
| "format_2f (Fin s m) =
     (let h = nat (half_even (m * 100))
      in (if s then ''-'' else []) @ nat_str (h div 100) @ ''.'' @ pad_nat 2 (h mod 100))"

definition f_sum :: "f64 list \<Rightarrow> f64" where
  "f_sum xs = foldl f_add f_zero xs"

subsection \<open>What the text contains\<close>

definition amount_char :: "char \<Rightarrow> bool" where
  "amount_char c \<longleftrightarrow> (48 \<le> byte c \<and> byte c \<le> 57) \<or> c \<in> set ''.-+NaInf''"

lemma nat_str_amount: "list_all amount_char (nat_str n)"
  using nat_str_digits by (auto simp: list_all_iff amount_char_def)

lemma pad_nat_amount: "list_all amount_char (pad_nat w n)"
  using nat_str_amount [of n] by (auto simp: pad_nat_def Let_def list_all_iff) (simp add: amount_char_def)

lemma format_2f_chars: "list_all amount_char (format_2f x)"
proof (cases x)
  case (Fin s m)
  then show ?thesis using nat_str_amount pad_nat_amount by (simp add: Let_def) (simp add: amount_char_def)
qed (simp_all add: amount_char_def)

lemma amount_char_safe: "amount_char c \<Longrightarrow> \<not> control_byte c \<and> c \<noteq> CHR ''|''"
  by (auto simp: amount_char_def control_byte_def)

subsection \<open>Rounding\<close>

lemma half_even_near: "\<bar>of_int (half_even x) - x\<bar> \<le> 1 / 2"
proof -
  define n where "n = \<lfloor>x\<rfloor>"
  have "of_int n \<le> x" "x < of_int n + 1" unfolding n_def by linarith+
  then show ?thesis unfolding half_even_def Let_def n_def [symmetric] by (auto simp: abs_if)
qed

lemma half_even_int [simp]: "half_even (of_int n) = n"
  by (simp add: half_even_def Let_def)

lemma half_even_mono_nonneg: "0 \<le> x \<Longrightarrow> 0 \<le> half_even x"
  by (simp add: half_even_def Let_def)

text \<open>The hundredths that are printed are the nearest ones.\<close>

lemma format_2f_near:
  assumes "0 \<le> m"
  shows "\<exists>h. format_2f (Fin s m) = (if s then ''-'' else []) @ nat_str (h div 100) @ ''.'' @ pad_nat 2 (h mod 100) \<and>
    \<bar>of_nat h / 100 - m\<bar> \<le> 1 / 200"
proof -
  let ?h = "nat (half_even (m * 100))"
  have "of_nat ?h = (of_int (half_even (m * 100)) :: rat)"
    using assms half_even_mono_nonneg [of "m * 100"] by simp
  then have "\<bar>of_nat ?h - m * 100\<bar> \<le> 1 / 2" using half_even_near [of "m * 100"] by simp
  then have "\<bar>of_nat ?h / 100 - m\<bar> \<le> 1 / 200" by (simp add: abs_le_iff field_simps)
  then show ?thesis by (intro exI [of _ ?h]) (simp add: Let_def)
qed

text \<open>Not a number is neither positive nor not positive.\<close>

lemma NaN_passes: "\<not> f_not_positive NaN"
  by (simp add: f_not_positive_def f_is_zero_def f_zero_def)

end
