(* ===== verification/Folio_Models.thy ===== *)
theory Folio_Models
  imports Folio_User Float64
begin

text \<open>
  \<open>internal/folio/models\<close>: items, instances, holdings, locations, loans, requests, patron
  groups and fee accounts. Of each struct the fields that the program reads; pointers are options. The methods
  on them follow.
\<close>

record CallNumberComponents =
  cnCallNumber :: string
  cnPrefix :: string
  cnSuffix :: string

record Identifier =
  idValue :: string
  IdentifierTypeID :: string

record Contributor =
  contributorName :: string
  Primary :: bool

record Note =
  NoteTypeID :: string
  noteText :: string

record Instance =
  instanceID :: string
  Title :: string
  Identifiers :: "Identifier list"
  Contributors :: "Contributor list"
  Notes :: "Note list"

record Holdings =
  holdingsID :: string
  hInstanceID :: string

record Location =
  locationID :: string
  locationName :: string

record MaterialType =
  materialTypeID :: string
  materialTypeName :: string

record ServicePoint =
  servicePointID :: string
  servicePointName :: string

record CirculationNote =
  NoteType :: string
  cnNote :: string

record Item =
  itemID :: string
  HoldingsRecordID :: string
  InstanceID :: string
  itemTitle :: string
  itemCallNumber :: string
  itemBarcode :: string
  EffectiveCallNumberComponents :: CallNumberComponents
  StatusName :: string
  MaterialTypeID :: string
  PermanentLocationID :: string
  EffectiveLocationID :: string
  InTransitDestinationServicePointID :: string
  CirculationNotes :: "CirculationNote list"
  itemInstance :: "Instance option"
  itemLocation :: "Location option"
  itemMaterialType :: "MaterialType option"

record Loan =
  loanID :: string
  loanUserID :: string
  loanItemID :: string
  LoanStatusName :: string
  DueDate :: "GoTime option"
  ReturnDate :: "GoTime option"
  loanItem :: "Item option"

record RequestRequester =
  rqrFirstName :: string
  rqrLastName :: string
  rqrBarcode :: string

record RequestItem =
  riBarcode :: string
  riTitle :: string

record Request =
  requestID :: string
  RequestType :: string
  RequesterID :: string
  reqItemID :: string
  reqInstanceID :: string
  reqStatus :: string
  reqItem :: "RequestItem option"
  Requester :: "RequestRequester option"
  HoldShelfExpirationDate :: "GoTime option"
  PickupServicePointID :: string

record PatronGroup =
  groupID :: string
  Group :: string
  Desc :: string

record Account =
  accountID :: string
  FeeFineID :: string
  FeeFineType :: string
  Remaining :: f64
  accountTitle :: string
  AccountStatusName :: string
  PaymentStatusName :: string

definition account_IsOpen :: "Account \<Rightarrow> bool" where
  "account_IsOpen a \<longleftrightarrow> AccountStatusName a = ''Open''"

definition account_IsPaid :: "Account \<Rightarrow> bool" where
  "account_IsPaid a \<longleftrightarrow> PaymentStatusName a = ''Paid fully''"

definition GetOpenAccounts :: "Account list \<Rightarrow> Account list" where
  "GetOpenAccounts as = filter account_IsOpen as"

definition IsAvailable :: "Item \<Rightarrow> bool" where
  "IsAvailable i \<longleftrightarrow> StatusName i = ''Available''"

definition IsCheckedOut :: "Item \<Rightarrow> bool" where
  "IsCheckedOut i \<longleftrightarrow> StatusName i = ''Checked out''"

definition GetEffectiveCallNumber :: "Item \<Rightarrow> string" where
  "GetEffectiveCallNumber i =
     (let c = EffectiveCallNumberComponents i in
      if cnCallNumber c \<noteq> [] then
        (if cnPrefix c \<noteq> [] then cnPrefix c @ '' '' else []) @ cnCallNumber c @
        (if cnSuffix c \<noteq> [] then '' '' @ cnSuffix c else [])
      else itemCallNumber i)"

definition GetTitle :: "Item \<Rightarrow> string" where
  "GetTitle i =
     (if itemTitle i \<noteq> [] then itemTitle i
      else case itemInstance i of None \<Rightarrow> [] | Some inst \<Rightarrow> Title inst)"

definition GetCheckinNotes :: "Item \<Rightarrow> string list" where
  "GetCheckinNotes i = map cnNote (filter (\<lambda>n. NoteType n = ''Check in'') (CirculationNotes i))"

definition loan_IsOpen :: "Loan \<Rightarrow> bool" where
  "loan_IsOpen l \<longleftrightarrow> LoanStatusName l = ''Open''"

definition IsOverdue :: "GoTime \<Rightarrow> Loan \<Rightarrow> bool" where
  "IsOverdue now l =
     (if \<not> loan_IsOpen l then False
      else case DueDate l of None \<Rightarrow> False | Some d \<Rightarrow> Before d now)"

definition CanRenew :: "Loan \<Rightarrow> bool" where
  "CanRenew l \<longleftrightarrow> loan_IsOpen l \<and> ReturnDate l = None"

definition IsOpen :: "Request \<Rightarrow> bool" where
  "IsOpen r \<longleftrightarrow> reqStatus r = ''Open - Not yet filled'' \<or> reqStatus r = ''Open - Awaiting pickup'' \<or>
     reqStatus r = ''Open - In transit''"

definition IsAwaitingPickup :: "Request \<Rightarrow> bool" where
  "IsAwaitingPickup r \<longleftrightarrow> reqStatus r = ''Open - Awaiting pickup''"

definition IsHold :: "Request \<Rightarrow> bool" where
  "IsHold r \<longleftrightarrow> RequestType r = ''Hold'' \<or> RequestType r = ''Recall''"

lemma IsAwaitingPickup_open: "IsAwaitingPickup r \<Longrightarrow> IsOpen r"
  by (simp add: IsAwaitingPickup_def IsOpen_def)

lemma IsOverdue_open: "IsOverdue now l \<Longrightarrow> loan_IsOpen l"
  by (simp add: IsOverdue_def split: if_splits)

subsection \<open>Amounts in JSON\<close>

text \<open>
  \<open>FlexibleFloat\<close>: a number, or a string that holds one. A null is decoded into the number and leaves it 0.
  The parser of decimal numbers is strconv.ParseFloat.
\<close>

definition FlexibleFloat_UnmarshalJSON :: "(string \<Rightarrow> f64 option) \<Rightarrow> json \<Rightarrow> (string, f64) go_result" where
  "FlexibleFloat_UnmarshalJSON parse data =
     (let neither = Err ''value is neither a number nor a string'';
          number = (\<lambda>s. case parse s of Some x \<Rightarrow> Ok x | None \<Rightarrow> neither)
      in case data of
          JNull \<Rightarrow> Ok f_zero
        | JNum n \<Rightarrow> number (int_str n)
        | JFloat s \<Rightarrow> number s
        | JStr s \<Rightarrow> (case parse s of Some x \<Rightarrow> Ok x | None \<Rightarrow> Err ''failed to parse string as float'')
        | _ \<Rightarrow> neither)"

text \<open>The amount is the same whether FOLIO sends a number or the text of the same number.\<close>

lemma FlexibleFloat_quoted:
  assumes "parse s = Some x"
  shows "FlexibleFloat_UnmarshalJSON parse (JFloat s) = FlexibleFloat_UnmarshalJSON parse (JStr s)"
  using assms by (simp add: FlexibleFloat_UnmarshalJSON_def)

text \<open>
  Writing an amount: encoding/json has no text for an infinity or NaN; its text of a finite number is the
  argument \<open>number_text\<close>.
\<close>

definition FlexibleFloat_MarshalJSON :: "(f64 \<Rightarrow> string) \<Rightarrow> f64 \<Rightarrow> (string, json) go_result" where
  "FlexibleFloat_MarshalJSON number_text f =
     (case f of Fin _ _ \<Rightarrow> Ok (JFloat (number_text f)) | _ \<Rightarrow> Err ''json: unsupported value'')"

definition FlexibleFloat_Float64 :: "f64 \<Rightarrow> f64" where
  "FlexibleFloat_Float64 f = f"

text \<open>An amount that is written is read back, where the text of a number is parsed to that number.\<close>

lemma FlexibleFloat_roundtrip:
  assumes "FlexibleFloat_MarshalJSON number_text f = Ok j" "parse (number_text f) = Some f"
  shows "FlexibleFloat_UnmarshalJSON parse j = Ok f"
  using assms by (auto simp: FlexibleFloat_MarshalJSON_def FlexibleFloat_UnmarshalJSON_def split: f64.splits)

text \<open>
  The subjects and series of an instance come as a text or as an object with the member \<open>value\<close>. The name of
  the member is matched without regard to the case of its letters and the last one counts; a null leaves
  the text as it is, any other value is an error.
\<close>

definition lower_ascii :: "char \<Rightarrow> char" where
  "lower_ascii c = (if 65 \<le> byte c \<and> byte c \<le> 90 then char_of (byte c + 32) else c)"

fun value_member :: "string \<Rightarrow> (string \<times> json) list \<Rightarrow> (string, string) go_result" where
  "value_member v [] = Ok v"
| "value_member v ((name, x) # ms) =
     (if map lower_ascii name = ''value'' then
        (case x of
           JStr s \<Rightarrow> value_member s ms
         | JNull \<Rightarrow> value_member v ms
         | _ \<Rightarrow> Err ''cannot unmarshal into Go struct field of type string'')
      else value_member v ms)"

definition text_or_object :: "json \<Rightarrow> (string, string) go_result" where
  "text_or_object data =
     (case data of
        JStr s \<Rightarrow> Ok s
      | JNull \<Rightarrow> Ok []
      | JObj ms \<Rightarrow> value_member [] ms
      | _ \<Rightarrow> Err ''cannot unmarshal into Go value'')"

record Subject =
  subjectValue :: string

record Series =
  seriesValue :: string

definition Subject_UnmarshalJSON :: "json \<Rightarrow> (string, Subject) go_result" where
  "Subject_UnmarshalJSON data = go_bind (text_or_object data) (\<lambda>v. Ok \<lparr>subjectValue = v\<rparr>)"

definition Series_UnmarshalJSON :: "json \<Rightarrow> (string, Series) go_result" where
  "Series_UnmarshalJSON data = go_bind (text_or_object data) (\<lambda>v. Ok \<lparr>seriesValue = v\<rparr>)"

text \<open>Both shapes are read alike, whatever else the object holds.\<close>

lemma value_member_other:
  "\<forall>m \<in> set ms. map lower_ascii (fst m) \<noteq> ''value'' \<Longrightarrow> value_member v ms = Ok v"
  by (induction v ms rule: value_member.induct) auto

lemma value_member_append:
  "\<forall>m \<in> set ms. map lower_ascii (fst m) \<noteq> ''value'' \<Longrightarrow> value_member v (ms @ ns) = value_member v ns"
  by (induction v ms rule: value_member.induct) auto

lemma text_and_object_agree:
  assumes "\<forall>m \<in> set ms \<union> set ns. map lower_ascii (fst m) \<noteq> ''value''"
  shows "Subject_UnmarshalJSON (JObj (ms @ (''value'', JStr v) # ns)) = Subject_UnmarshalJSON (JStr v)"
    "Series_UnmarshalJSON (JObj (ms @ (''value'', JStr v) # ns)) = Series_UnmarshalJSON (JStr v)"
proof -
  have "map lower_ascii ''value'' = ''value''" by (simp add: lower_ascii_def)
  moreover have "value_member [] (ms @ (''value'', JStr v) # ns) = value_member [] ((''value'', JStr v) # ns)"
    using assms by (intro value_member_append) auto
  moreover have "value_member v ns = Ok v" using assms by (intro value_member_other) auto
  ultimately have "text_or_object (JObj (ms @ (''value'', JStr v) # ns)) = text_or_object (JStr v)"
    by (simp add: text_or_object_def)
  then show "Subject_UnmarshalJSON (JObj (ms @ (''value'', JStr v) # ns)) = Subject_UnmarshalJSON (JStr v)"
    "Series_UnmarshalJSON (JObj (ms @ (''value'', JStr v) # ns)) = Series_UnmarshalJSON (JStr v)"
    by (simp_all add: Subject_UnmarshalJSON_def Series_UnmarshalJSON_def)
qed

end
