(* ===== verification/Capabilities.thy ===== *)
theory Capabilities
  imports Go_Strings
begin

text \<open>
  \<open>internal/folio/capabilities.go\<close>: the table of the FOLIO endpoints that the program calls and
  of the permission, capability and role that grants each (without its column of remarks), and
  the look-up that names what a refused call was missing.
\<close>

datatype CapabilityUsage = UsageDirect | UsageTransitive | UsagePublic | UsageFuture

record CapabilityEntry =
  ceMethod :: string
  PathPattern :: string
  OkapiPermission :: string
  Capability :: string
  Role :: string
  Usage :: CapabilityUsage

definition RoleSIP2Service :: string where "RoleSIP2Service = ''SIP2 Service''"

definition RoleSIP2RollingRenewal :: string where "RoleSIP2RollingRenewal = ''SIP2 Rolling Renewal''"

definition entry :: "string \<Rightarrow> string \<Rightarrow> string \<Rightarrow> string \<Rightarrow> string \<Rightarrow> CapabilityUsage \<Rightarrow> CapabilityEntry" where
  "entry m p perm c r u =
     \<lparr>ceMethod = m, PathPattern = p, OkapiPermission = perm, Capability = c, Role = r, Usage = u\<rparr>"

definition Capabilities :: "CapabilityEntry list" where
  "Capabilities =
    [entry ''POST'' ''/authn/login-with-expiry''
       []
       [] [] UsagePublic,
     entry ''POST'' ''/authn/refresh''
       []
       [] [] UsagePublic,
     entry ''POST'' ''/authn/logout''
       []
       [] [] UsagePublic,
     entry ''POST'' ''/circulation/check-out-by-barcode''
       ''circulation.check-out-by-barcode.post''
       ''circulation_check-out-by-barcode.execute'' RoleSIP2Service UsageDirect,
     entry ''POST'' ''/circulation/check-in-by-barcode''
       ''circulation.check-in-by-barcode.post''
       ''circulation_check-in-by-barcode.execute'' RoleSIP2Service UsageDirect,
     entry ''POST'' ''/circulation/renew-by-barcode''
       ''circulation.renew-by-barcode.post''
       ''circulation_renew-by-barcode.execute'' RoleSIP2Service UsageDirect,
     entry ''POST'' ''/circulation/renew-by-id''
       ''circulation.renew-by-id.post''
       ''circulation_renew-by-id.execute'' RoleSIP2Service UsageDirect,
     entry ''GET'' ''/circulation/loans''
       ''circulation.loans.collection.get''
       ''circulation_loans_collection.view'' RoleSIP2Service UsageDirect,
     entry ''GET'' ''/circulation/requests''
       ''circulation.requests.collection.get''
       ''circulation_requests_collection.view'' RoleSIP2Service UsageDirect,
     entry ''GET'' ''/accounts''
       ''accounts.collection.get''
       ''accounts_collection.view'' RoleSIP2Service UsageDirect,
     entry ''POST'' ''/accounts/{id}/pay''
       ''feesfines.accounts.pay.post''
       ''feesfines_accounts_pay.execute'' RoleSIP2Service UsageDirect,
     entry ''POST'' ''/accounts-bulk/pay''
       ''feesfines.accounts-bulk.pay.post''
       ''feesfines_accounts-bulk_pay.execute'' RoleSIP2Service UsageDirect,
     entry ''GET'' ''/manualblocks''
       ''manualblocks.collection.get''
       ''manualblocks_collection.view'' RoleSIP2Service UsageDirect,
     entry ''GET'' ''/automated-patron-blocks/{id}''
       ''patron-blocks.automated-patron-blocks.collection.get''
       ''patron-blocks_automated-patron-blocks_collection.view'' RoleSIP2Service UsageDirect,
     entry ''GET'' ''/inventory/items''
       ''inventory.items.collection.get''
       ''inventory_items_collection.view'' RoleSIP2Service UsageDirect,
     entry ''GET'' ''/inventory/items/{id}''
       ''inventory.items.item.get''
       ''inventory_items_item.view'' RoleSIP2Service UsageDirect,
     entry ''GET'' ''/inventory/instances/{id}''
       ''inventory.instances.item.get''
       ''inventory_instances_item.view'' RoleSIP2Service UsageDirect,
     entry ''GET'' ''/holdings-storage/holdings/{id}''
       ''inventory-storage.holdings.item.get''
       ''inventory-storage_holdings_item.view'' RoleSIP2Service UsageDirect,
     entry ''GET'' ''/locations/{id}''
       ''inventory-storage.locations.item.get''
       ''inventory-storage_locations_item.view'' RoleSIP2Service UsageDirect,
     entry ''GET'' ''/material-types/{id}''
       ''inventory-storage.material-types.item.get''
       ''inventory-storage_material-types_item.view'' RoleSIP2Service UsageDirect,
     entry ''GET'' ''/service-points/{id}''
       ''inventory-storage.service-points.item.get''
       ''inventory-storage_service-points_item.view'' RoleSIP2Service UsageDirect,
     entry ''GET'' ''/users''
       ''users.collection.get''
       ''users_collection.view'' RoleSIP2Service UsageDirect,
     entry ''GET'' ''/users/{id}''
       ''users.item.get''
       ''users_item.view'' RoleSIP2Service UsageDirect,
     entry ''GET'' ''/groups/{id}''
       ''usergroups.item.get''
       ''usergroups_item.view'' RoleSIP2Service UsageDirect,
     entry ''POST'' ''/patron-pin/verify''
       ''patron-pin.validate''
       ''patron-pin_validate.execute'' RoleSIP2Service UsageDirect,
     entry [] []
       ''manualblocks.item.get''
       ''manualblocks_item.view'' RoleSIP2Service UsageTransitive,
     entry [] []
       ''usergroups.collection.get''
       ''usergroups_collection.view'' RoleSIP2Service UsageTransitive,
     entry [] []
       ''feefines.collection.get''
       ''feefines_collection.view'' RoleSIP2Service UsageTransitive,
     entry [] []
       ''configuration.entries.collection.get''
       ''configuration_entries_collection.view'' RoleSIP2Service UsageTransitive,
     entry [] []
       ''configuration.entries.item.get''
       ''configuration_entries_item.view'' RoleSIP2Service UsageTransitive,
     entry [] []
       ''accounts.item.get''
       ''accounts_item.view'' RoleSIP2Service UsageTransitive,
     entry [] []
       ''users-bl.item.get''
       ''users-bl_item.view'' RoleSIP2Service UsageTransitive,
     entry [] []
       ''search.instances.collection.get''
       ''search_instances_collection.view'' RoleSIP2Service UsageTransitive,
     entry ''GET'' ''/users/{id}''
       ''users.item.get''
       ''users_item.view'' RoleSIP2RollingRenewal UsageDirect,
     entry ''PUT'' ''/users/{id}''
       ''users.item.put''
       ''users_item.edit'' RoleSIP2RollingRenewal UsageDirect,
     entry ''POST'' ''/circulation/requests''
       ''circulation.requests.item.post''
       ''circulation_requests_item.create'' [] UsageFuture,
     entry ''GET'' ''/circulation/requests/{id}''
       ''circulation.requests.item.get''
       ''circulation_requests_item.view'' [] UsageFuture,
     entry ''PUT'' ''/circulation/requests/{id}''
       ''circulation.requests.item.put''
       ''circulation_requests_item.edit'' [] UsageFuture,
     entry ''POST'' ''/inventory/items/{id}/mark-{status}''
       ''inventory.items.item.mark-{status}.post''
       ''inventory_items_item_mark-{status}.execute'' [] UsageFuture,
     entry ''GET'' ''/search/instances''
       ''search.instances.collection.get''
       ''search_instances_collection.view'' [] UsageFuture,
     entry ''GET'' ''/users''
       ''users.collection.get''
       ''users_collection.view'' [] UsageFuture,
     entry ''POST'' ''/circulation/renew-by-barcode-all''
       []
       [] [] UsageFuture]"

definition OkapiPermissionAliases :: "(string \<times> string) list" where
  "OkapiPermissionAliases =
     [(''feesfines.accounts.pay.post'', ''accounts.pay.post''),
      (''patron-blocks.automated-patron-blocks.collection.get'', ''automated-patron-blocks.collection.get'')]"

text \<open>\<open>strings.Trim (s, "/")\<close>.\<close>

definition trim_slashes :: "string \<Rightarrow> string" where
  "trim_slashes s = rev (dropWhile (\<lambda>c. c = CHR ''/'') (rev (dropWhile (\<lambda>c. c = CHR ''/'') s)))"

text \<open>A segment of a pattern against a segment of a path: a \<open>{name}\<close> matches any non-empty one.\<close>

definition segment_matches :: "string \<Rightarrow> string \<Rightarrow> bool" where
  "segment_matches p x =
     (if prefix ''{'' p \<and> suffix ''}'' p \<and> CHR ''{'' \<notin> set (tl p) then x \<noteq> [] else p = x)"

definition pathMatches :: "string \<Rightarrow> string \<Rightarrow> bool" where
  "pathMatches pattern path =
     list_all2 segment_matches (Split (trim_slashes pattern) ''/'') (Split (trim_slashes path) ''/'')"

definition without_query :: "string \<Rightarrow> string" where
  "without_query path = takeWhile (\<lambda>c. c \<noteq> CHR ''?'') path"

text \<open>The methods are ASCII, where \<open>strings.EqualFold\<close> compares lower-cased text.\<close>

definition LookupCapability :: "string \<Rightarrow> string \<Rightarrow> CapabilityEntry option" where
  "LookupCapability meth path =
     find (\<lambda>e. (Usage e = UsageDirect \<or> Usage e = UsagePublic) \<and>
               ToLower (\<lambda>r. r) (ceMethod e) = ToLower (\<lambda>r. r) meth \<and>
               pathMatches (PathPattern e) (without_query path)) Capabilities"

definition roleColumn :: "string \<Rightarrow> (CapabilityEntry \<Rightarrow> string) \<Rightarrow> string list" where
  "roleColumn role col =
     fold (\<lambda>e out. if Role e \<noteq> role \<or> Role e = [] then out
                    else if col e \<noteq> [] \<and> col e \<notin> set out then out @ [col e] else out) Capabilities []"

definition RoleCapabilities :: "string \<Rightarrow> string list" where
  "RoleCapabilities role = roleColumn role Capability"

definition RolePermissions :: "string \<Rightarrow> string list" where
  "RolePermissions role = roleColumn role OkapiPermission"

subsection \<open>What the look-up returns\<close>

lemma LookupCapability_Some:
  assumes "LookupCapability meth path = Some e"
  shows "e \<in> set Capabilities \<and> (Usage e = UsageDirect \<or> Usage e = UsagePublic) \<and>
    pathMatches (PathPattern e) (without_query path)"
  using assms by (auto simp: LookupCapability_def find_Some_iff in_set_conv_nth)

lemma without_query_simps [simp]:
  "without_query [] = []"
  "without_query (c # s) = (if c = CHR ''?'' then [] else c # without_query s)"
  by (simp_all add: without_query_def)

lemma roleColumn_fold:
  "distinct out \<Longrightarrow> distinct (fold (\<lambda>e out. if Role e \<noteq> role \<or> Role e = [] then out
        else if col e \<noteq> [] \<and> col e \<notin> set out then out @ [col e] else out) es out)"
  by (induction es arbitrary: out) auto

lemma RoleCapabilities_distinct: "distinct (RoleCapabilities role)" "distinct (RolePermissions role)"
  unfolding RoleCapabilities_def RolePermissions_def roleColumn_def by (rule roleColumn_fold, simp)+

text \<open>Every endpoint that the program calls itself is granted by a role or needs no permission.\<close>

lemma Capabilities_granted:
  "e \<in> set Capabilities \<Longrightarrow> Usage e = UsageDirect \<Longrightarrow> Role e \<noteq> [] \<and> Capability e \<noteq> [] \<and> OkapiPermission e \<noteq> []"
proof -
  have "list_all (\<lambda>e. Usage e = UsageDirect \<longrightarrow> Role e \<noteq> [] \<and> Capability e \<noteq> [] \<and> OkapiPermission e \<noteq> []) Capabilities"
    by (simp add: Capabilities_def entry_def RoleSIP2Service_def RoleSIP2RollingRenewal_def)
  then show "e \<in> set Capabilities \<Longrightarrow> Usage e = UsageDirect \<Longrightarrow> Role e \<noteq> [] \<and> Capability e \<noteq> [] \<and> OkapiPermission e \<noteq> []"
    by (auto simp: list_all_iff)
qed

end
