(* ===== verification/Folio_Http.thy ===== *)
theory Folio_Http
  imports Protocol Session Folio_Models Capabilities "HOL-Library.State_Monad"
begin

text \<open>
  \<open>internal/folio/client.go\<close>: one HTTP exchange with FOLIO, and the errors it can end in. FOLIO
  is an argument: what it answers to a request may depend on every request sent before. The
  requests are kept, in order, in the state of the connection, so that statements about what
  the program sends are statements about that list. Errors are kept as the cause that
  \<open>errors.Is\<close> and \<open>errors.As\<close> find; the texts wrapped around a cause are not.
\<close>

record http_request =
  rqMethod :: string
  rqBase :: string
  rqPath :: string
  rqTenant :: string
  rqToken :: string
  rqAccept :: string
  rqCookies :: "(string \<times> string) list"
  rqBody :: "json option"

record http_response =
  rsStatus :: int
  rsBody :: string
  rsCookies :: "(string \<times> string) list"

datatype folio_error =
    HTTPError (ErrStatus: int) (ErrBody: string)
  | PermissionError (PermOperation: string) (PermMethod: string) (PermPath: string)
      (PermEntry: "CapabilityEntry option") (PermBody: string)
  | ErrNoRefreshToken | ErrInvalidRefreshToken | ErrNoAccessToken
  | ErrAmbiguousBarcode | ErrItemNotFound | ErrNotImplemented | ErrNoCredentials
  | ErrVerificationRequired | ErrVerificationFailed
  | DeadlineExceeded | Canceled | OtherError string

datatype http_outcome = Response http_response | NoResponse folio_error

text \<open>
  The decoders of \<open>encoding/json\<close> into the types of the program (\<open>None\<close> when the text does not
  fit). The collections come with their total; \<open>jsonRemaining\<close> is the remaining amount of a payment
  response, \<open>jsonObject\<close> is an arbitrary object or null, \<open>jsonMessage\<close> and \<open>jsonErrors\<close> decode the two
  shapes of a FOLIO error.
\<close>

record json_library =
  jsonExpirations :: "string \<Rightarrow> (GoTime \<times> GoTime) option"
  jsonUsers :: "string \<Rightarrow> (User list \<times> int) option"
  jsonUser :: "string \<Rightarrow> User option"
  jsonGroup :: "string \<Rightarrow> PatronGroup option"
  jsonManualBlocks :: "string \<Rightarrow> ManualBlock list option"
  jsonAutomatedBlocks :: "string \<Rightarrow> AutomatedBlock list option"
  jsonItems :: "string \<Rightarrow> (Item list \<times> int) option"
  jsonItem :: "string \<Rightarrow> Item option"
  jsonInstance :: "string \<Rightarrow> Instance option"
  jsonHoldings :: "string \<Rightarrow> Holdings option"
  jsonLocation :: "string \<Rightarrow> Location option"
  jsonMaterialType :: "string \<Rightarrow> MaterialType option"
  jsonServicePoint :: "string \<Rightarrow> ServicePoint option"
  jsonLoan :: "string \<Rightarrow> Loan option"
  jsonLoans :: "string \<Rightarrow> (Loan list \<times> int) option"
  jsonRequests :: "string \<Rightarrow> (Request list \<times> int) option"
  jsonAccounts :: "string \<Rightarrow> (Account list \<times> int) option"
  jsonRemaining :: "string \<Rightarrow> string option"
  jsonObject :: "string \<Rightarrow> (string \<times> json) list option option"
  jsonMessage :: "string \<Rightarrow> string option"
  jsonErrors :: "string \<Rightarrow> string list option"

text \<open>
  What the program finds around it: FOLIO, the clock (read between two requests), the
  cancellation of the connection's context, what \<open>net/url\<close> accepts, the character encoders, the
  time zones, the Unicode case table, \<open>strconv.ParseFloat\<close> and the decoders.
\<close>

record env =
  Serve :: "http_request list \<Rightarrow> http_request \<Rightarrow> http_outcome"
  Clock :: "http_request list \<Rightarrow> GoTime"
  Cancelled :: "http_request list \<Rightarrow> folio_error option"
  UrlOk :: "string \<Rightarrow> bool"
  Encoders :: encoder
  Zones :: tzdb
  Unicode :: "nat \<Rightarrow> nat"
  ParseFloat :: "string \<Rightarrow> f64 option"
  Json :: json_library

text \<open>
  The state of a connection while it handles a message: the session, the requests sent so far
  and the token pairs handed to a background logout, with the reason.
\<close>

record world =
  wSession :: Session
  wSent :: "http_request list"
  wBackground :: "(TokenPair \<times> string) list"

type_synonym 'a io = "(world, 'a) state"

definition get_session :: "Session io" where
  "get_session = State (\<lambda>w. (wSession w, w))"

definition put_session :: "(Session \<Rightarrow> Session) \<Rightarrow> unit io" where
  "put_session f = State (\<lambda>w. ((), w\<lparr>wSession := f (wSession w)\<rparr>))"

text \<open>A method of the session that also returns a value.\<close>

definition update_session :: "(Session \<Rightarrow> 'a \<times> Session) \<Rightarrow> 'a io" where
  "update_session f = State (\<lambda>w. (fst (f (wSession w)), w\<lparr>wSession := snd (f (wSession w))\<rparr>))"

definition time_now :: "env \<Rightarrow> GoTime io" where
  "time_now e = State (\<lambda>w. (Clock e (wSent w), w))"

definition check_cancelled :: "env \<Rightarrow> folio_error option io" where
  "check_cancelled e = State (\<lambda>w. (Cancelled e (wSent w), w))"

definition in_background :: "TokenPair \<Rightarrow> string \<Rightarrow> unit io" where
  "in_background pair reason = State (\<lambda>w. ((), w\<lparr>wBackground := wBackground w @ [(pair, reason)]\<rparr>))"

definition send :: "env \<Rightarrow> http_request \<Rightarrow> http_outcome io" where
  "send e rq = State (\<lambda>w. (Serve e (wSent w) rq, w\<lparr>wSent := wSent w @ [rq]\<rparr>))"

subsection \<open>Errors\<close>

text \<open>\<open>errors.As (err, *HTTPError)\<close>: a permission error wraps the 403 it came from.\<close>

fun as_http :: "folio_error \<Rightarrow> (int \<times> string) option" where
  "as_http (HTTPError st b) = Some (st, b)"
| "as_http (PermissionError oper m p c b) = Some (403, b)"
| "as_http _ = None"

fun IsPermissionError :: "folio_error \<Rightarrow> bool" where
  "IsPermissionError (PermissionError oper m p c b) = True"
| "IsPermissionError _ = False"

text \<open>\<open>err.(*HTTPError)\<close>, which does not look inside a wrapped error, with its status.\<close>

fun status_is :: "int \<Rightarrow> folio_error \<Rightarrow> bool" where
  "status_is st (HTTPError st' b) \<longleftrightarrow> st' = st"
| "status_is st _ \<longleftrightarrow> False"

definition isClientError :: "folio_error \<Rightarrow> bool" where
  "isClientError e = (case as_http e of None \<Rightarrow> False | Some (st, _) \<Rightarrow> st \<ge> 400 \<and> st < 500)"

definition isUnauthorized :: "folio_error \<Rightarrow> bool" where
  "isUnauthorized e = (case as_http e of None \<Rightarrow> False | Some (st, _) \<Rightarrow> st = 401)"

definition ParseErrorMessage :: "json_library \<Rightarrow> string \<Rightarrow> string" where
  "ParseErrorMessage js body =
     (if body = [] then ''Unknown error''
      else case jsonMessage js body of
        Some m \<Rightarrow> if m \<noteq> [] then m else
          (case jsonErrors js body of
             Some (m' # _) \<Rightarrow> if m' \<noteq> [] then m' else if length body > 200 then take 200 body @ ''...'' else body
           | _ \<Rightarrow> if length body > 200 then take 200 body @ ''...'' else body)
      | None \<Rightarrow>
          (case jsonErrors js body of
             Some (m' # _) \<Rightarrow> if m' \<noteq> [] then m' else if length body > 200 then take 200 body @ ''...'' else body
           | _ \<Rightarrow> if length body > 200 then take 200 body @ ''...'' else body))"

definition ExtractFolioErrorMessage :: "env \<Rightarrow> folio_error \<Rightarrow> string \<Rightarrow> string" where
  "ExtractFolioErrorMessage e err fallback =
     (case as_http err of
        None \<Rightarrow> fallback
      | Some (_, body) \<Rightarrow> (let m = ParseErrorMessage (Json e) body in if m \<noteq> [] then m else fallback))"

definition permissionError :: "string \<Rightarrow> string \<Rightarrow> string \<Rightarrow> folio_error" where
  "permissionError meth path body =
     PermissionError [] meth (without_query path) (LookupCapability meth (without_query path)) body"

subsection \<open>The exchange\<close>

record Client =
  baseURL :: string
  clientTenant :: string

definition NewClient :: "string \<Rightarrow> string \<Rightarrow> Client" where
  "NewClient base tenant = \<lparr>baseURL = base, clientTenant = tenant\<rparr>"

definition json_accept :: string where "json_accept = ''application/json''"

definition read_response ::
  "string \<Rightarrow> string \<Rightarrow> string \<Rightarrow> (string \<Rightarrow> 'a option) \<Rightarrow> 'a \<Rightarrow> http_outcome \<Rightarrow>
     (folio_error, 'a \<times> (string \<times> string) list) go_result" where
  "read_response meth path accept decode zero outcome =
     (case outcome of
        NoResponse err \<Rightarrow> Err err
      | Response r \<Rightarrow>
          if rsStatus r < 200 \<or> rsStatus r \<ge> 300 then
            Err (if rsStatus r = 403 then permissionError meth path (rsBody r)
                 else HTTPError (rsStatus r) (rsBody r))
          else if rsBody r \<noteq> [] \<and> accept = json_accept then
            (case decode (rsBody r) of
               None \<Rightarrow> Err (OtherError ''failed to parse response'')
             | Some x \<Rightarrow> Ok (x, rsCookies r))
          else Ok (zero, rsCookies r))"

definition request ::
  "Client \<Rightarrow> string \<Rightarrow> string \<Rightarrow> string \<Rightarrow> json option \<Rightarrow> string \<Rightarrow> (string \<times> string) list \<Rightarrow> http_request" where
  "request cl meth path token body accept cookies =
     \<lparr>rqMethod = meth, rqBase = baseURL cl, rqPath = path, rqTenant = clientTenant cl, rqToken = token,
      rqAccept = accept, rqCookies = cookies, rqBody = body\<rparr>"

definition client_do ::
  "env \<Rightarrow> Client \<Rightarrow> string \<Rightarrow> string \<Rightarrow> string \<Rightarrow> json option \<Rightarrow> string \<Rightarrow> (string \<times> string) list \<Rightarrow>
     (string \<Rightarrow> 'a option) \<Rightarrow> 'a \<Rightarrow> (folio_error, 'a \<times> (string \<times> string) list) go_result io" where
  "client_do e cl meth path token body accept cookies decode zero =
     (if \<not> UrlOk e (baseURL cl @ path) then State_Monad.return (Err (OtherError ''failed to create request''))
      else do {
        outcome \<leftarrow> send e (request cl meth path token body accept cookies);
        State_Monad.return (read_response meth path accept decode zero outcome)
      })"

definition drop_cookies :: "('e, 'a \<times> (string \<times> string) list) go_result \<Rightarrow> ('e, 'a) go_result" where
  "drop_cookies r = go_bind r (\<lambda>(x, _). Ok x)"

definition client_Get ::
  "env \<Rightarrow> Client \<Rightarrow> string \<Rightarrow> string \<Rightarrow> (string \<Rightarrow> 'a option) \<Rightarrow> 'a \<Rightarrow> (folio_error, 'a) go_result io" where
  "client_Get e cl path token decode zero = do {
     r \<leftarrow> client_do e cl ''GET'' path token None json_accept [] decode zero;
     State_Monad.return (drop_cookies r)
   }"

definition client_Post ::
  "env \<Rightarrow> Client \<Rightarrow> string \<Rightarrow> string \<Rightarrow> json \<Rightarrow> (string \<Rightarrow> 'a option) \<Rightarrow> 'a \<Rightarrow> (folio_error, 'a) go_result io" where
  "client_Post e cl path token body decode zero = do {
     r \<leftarrow> client_do e cl ''POST'' path token (Some body) json_accept [] decode zero;
     State_Monad.return (drop_cookies r)
   }"

text \<open>A call whose result is not read decodes nothing.\<close>

definition no_result :: "string \<Rightarrow> unit option" where "no_result body = Some ()"

definition PostWithTextPlainAccept ::
  "env \<Rightarrow> Client \<Rightarrow> string \<Rightarrow> string \<Rightarrow> json \<Rightarrow> (folio_error, unit) go_result io" where
  "PostWithTextPlainAccept e cl path token body = do {
     r \<leftarrow> client_do e cl ''POST'' path token (Some body) ''text/plain'' [] no_result ();
     State_Monad.return (drop_cookies r)
   }"

definition PutWithTextPlainAccept ::
  "env \<Rightarrow> Client \<Rightarrow> string \<Rightarrow> string \<Rightarrow> json \<Rightarrow> (folio_error, unit) go_result io" where
  "PutWithTextPlainAccept e cl path token body = do {
     r \<leftarrow> client_do e cl ''PUT'' path token (Some body) ''text/plain'' [] no_result ();
     State_Monad.return (drop_cookies r)
   }"

definition PostWithCookies ::
  "env \<Rightarrow> Client \<Rightarrow> string \<Rightarrow> string \<Rightarrow> json option \<Rightarrow> (string \<Rightarrow> 'a option) \<Rightarrow> 'a \<Rightarrow> (string \<times> string) list \<Rightarrow>
     (folio_error, 'a \<times> (string \<times> string) list) go_result io" where
  "PostWithCookies e cl path token body decode zero reqCookies =
     client_do e cl ''POST'' path token body json_accept reqCookies decode zero"

subsection \<open>Invariants of the connection's state\<close>

text \<open>
  \<open>keeps P m\<close>: the operation \<open>m\<close> leaves \<open>P\<close> true. The rules follow the shape of a program, so
  that an invariant of every operation is a matter of the requests it sends.
\<close>

definition keeps :: "(world \<Rightarrow> bool) \<Rightarrow> 'a io \<Rightarrow> bool" where
  "keeps P m \<longleftrightarrow> (\<forall>w. P w \<longrightarrow> P (snd (run_state m w)))"

named_theorems keeping \<open>operations that keep an invariant\<close>

lemma keeps_return [keeping]: "keeps P (State_Monad.return x)"
  by (simp add: keeps_def)

lemma keeps_bind [keeping]: "keeps P m \<Longrightarrow> (\<And>x. keeps P (f x)) \<Longrightarrow> keeps P (m \<bind> f)"
  by (simp add: keeps_def split: prod.split) (metis prod.collapse snd_conv)

lemma keeps_if [keeping]: "(b \<Longrightarrow> keeps P m) \<Longrightarrow> (\<not> b \<Longrightarrow> keeps P n) \<Longrightarrow> keeps P (if b then m else n)"
  by simp

lemma keeps_case_result [keeping]:
  "(\<And>x. r = Ok x \<Longrightarrow> keeps P (f x)) \<Longrightarrow> (\<And>x. r = Err x \<Longrightarrow> keeps P (g x)) \<Longrightarrow> keeps P k \<Longrightarrow>
     keeps P (case r of Ok x \<Rightarrow> f x | Err x \<Rightarrow> g x | Panic \<Rightarrow> k)"
  by (cases r) simp_all

lemma keeps_case_option [keeping]:
  "(r = None \<Longrightarrow> keeps P m) \<Longrightarrow> (\<And>x. r = Some x \<Longrightarrow> keeps P (f x)) \<Longrightarrow>
     keeps P (case r of None \<Rightarrow> m | Some x \<Rightarrow> f x)"
  by (cases r) simp_all

lemma keeps_case_prod [keeping]: "(\<And>x y. p = (x, y) \<Longrightarrow> keeps P (f x y)) \<Longrightarrow> keeps P (case p of (x, y) \<Rightarrow> f x y)"
  by (cases p) simp

lemma keeps_let [keeping]: "keeps P (f x) \<Longrightarrow> keeps P (let y = x in f y)"
  by simp

lemma keeps_reads [keeping]: "keeps P get_session" "keeps P (time_now e)" "keeps P (check_cancelled e)"
  by (simp_all add: keeps_def get_session_def time_now_def check_cancelled_def)

lemma keepsD: "keeps P m \<Longrightarrow> run_state m w = (x, w') \<Longrightarrow> P w \<Longrightarrow> P w'"
  by (metis keeps_def snd_conv)

text \<open>Statements about the requests alone are kept by what does not send.\<close>

definition sent_only :: "(http_request \<Rightarrow> bool) \<Rightarrow> world \<Rightarrow> bool" where
  "sent_only allowed w \<longleftrightarrow> list_all allowed (wSent w)"

lemma keeps_put_session [keeping]: "keeps (sent_only allowed) (put_session f)"
  by (simp add: keeps_def put_session_def sent_only_def)

lemma keeps_update_session [keeping]: "keeps (sent_only allowed) (update_session f)"
  by (simp add: keeps_def update_session_def sent_only_def)

lemma keeps_in_background [keeping]: "keeps (sent_only allowed) (in_background p r)"
  by (simp add: keeps_def in_background_def sent_only_def)

lemma keeps_send: "allowed rq \<Longrightarrow> keeps (sent_only allowed) (send e rq)"
  by (simp add: keeps_def send_def sent_only_def)

lemma keeps_client_do:
  "allowed (request cl meth path token body accept cookies) \<Longrightarrow>
     keeps (sent_only allowed) (client_do e cl meth path token body accept cookies decode zero)"
  unfolding client_do_def by (intro keeping keeps_send)

text \<open>A call to FOLIO changes neither the session nor the background work.\<close>

definition local_state :: "Session \<Rightarrow> (TokenPair \<times> string) list \<Rightarrow> world \<Rightarrow> bool" where
  "local_state s b w \<longleftrightarrow> wSession w = s \<and> wBackground w = b"

lemma keeps_send_local [keeping]: "keeps (local_state s b) (send e rq)"
  by (simp add: keeps_def send_def local_state_def)

lemma keeps_client_local [keeping]:
  "keeps (local_state s b) (client_do e cl meth path token body accept cookies decode zero)"
  "keeps (local_state s b) (client_Get e cl path token decode zero)"
  "keeps (local_state s b) (client_Post e cl path token jbody decode zero)"
  "keeps (local_state s b) (PostWithTextPlainAccept e cl path token jbody)"
  "keeps (local_state s b) (PutWithTextPlainAccept e cl path token jbody)"
  "keeps (local_state s b) (PostWithCookies e cl path token body decode zero cookies)"
  unfolding client_Get_def client_Post_def PostWithTextPlainAccept_def PutWithTextPlainAccept_def
    PostWithCookies_def client_do_def
  by (intro keeping)+

lemma local_stateD:
  assumes "\<And>s b. keeps (local_state s b) m" "run_state m w = (x, w')"
  shows "wSession w' = wSession w \<and> wBackground w' = wBackground w"
  using keepsD [OF assms(1) [of "wSession w" "wBackground w"] assms(2)] by (simp add: local_state_def)

subsection \<open>How many requests an operation sends, and which\<close>

text \<open>
  A token pair that is handed to a background logout counts for the three requests that this logout can send.
\<close>

definition sends :: "nat \<Rightarrow> (http_request \<Rightarrow> bool) \<Rightarrow> 'a io \<Rightarrow> bool" where
  "sends n Q m \<longleftrightarrow>
     (\<forall>w. \<exists>rqs pairs. wSent (snd (run_state m w)) = wSent w @ rqs \<and>
        wBackground (snd (run_state m w)) = wBackground w @ pairs \<and>
        length rqs + 3 * length pairs \<le> n \<and> list_all Q rqs)"

named_theorems sending \<open>how many requests an operation sends\<close>

lemma sends_return [sending]: "sends n Q (State_Monad.return x)"
  by (simp add: sends_def)

lemma sends_bind:
  assumes "sends n Q m" "\<And>x. sends k Q (f x)"
  shows "sends (n + k) Q (m \<bind> f)"
  unfolding sends_def
proof
  fix w
  obtain x w1 where m: "run_state m w = (x, w1)" by fastforce
  obtain y w2 where f: "run_state (f x) w1 = (y, w2)" by fastforce
  obtain r1 b1 where 1: "wSent w1 = wSent w @ r1" "wBackground w1 = wBackground w @ b1"
    "length r1 + 3 * length b1 \<le> n" "list_all Q r1"
    using assms(1) m unfolding sends_def by (metis snd_conv)
  obtain r2 b2 where 2: "wSent w2 = wSent w1 @ r2" "wBackground w2 = wBackground w1 @ b2"
    "length r2 + 3 * length b2 \<le> k" "list_all Q r2"
    using assms(2) [of x] f unfolding sends_def by (metis snd_conv)
  show "\<exists>rqs pairs. wSent (snd (run_state (m \<bind> f) w)) = wSent w @ rqs \<and>
      wBackground (snd (run_state (m \<bind> f) w)) = wBackground w @ pairs \<and>
      length rqs + 3 * length pairs \<le> n + k \<and> list_all Q rqs"
    using 1 2 m f by (intro exI [of _ "r1 @ r2"] exI [of _ "b1 @ b2"]) simp
qed

lemma sends_mono: "sends n Q m \<Longrightarrow> n \<le> k \<Longrightarrow> sends k Q m"
  unfolding sends_def by (meson le_trans)

lemma sends_reads [sending]: "sends n Q get_session" "sends n Q (time_now e)" "sends n Q (check_cancelled e)"
  "sends n Q (put_session g)" "sends n Q (update_session h)"
  by (simp_all add: sends_def get_session_def time_now_def check_cancelled_def put_session_def
      update_session_def)

lemma sends_in_background [sending]: "3 \<le> n \<Longrightarrow> sends n Q (in_background p r)"
  by (simp add: sends_def in_background_def)

lemma sends_seq: "sends n Q m \<Longrightarrow> (\<And>x. sends k Q (f x)) \<Longrightarrow> n + k \<le> t \<Longrightarrow> sends t Q (m \<bind> f)"
  using sends_mono [OF sends_bind] .

lemma sends_bind_read: "sends 0 Q m \<Longrightarrow> (\<And>x. sends k Q (f x)) \<Longrightarrow> sends k Q (m \<bind> f)"
  using sends_bind [of 0 Q m k f] by simp

lemma sends_bind_last: "sends n Q m \<Longrightarrow> (\<And>x. sends 0 Q (f x)) \<Longrightarrow> sends n Q (m \<bind> f)"
  using sends_bind [of n Q m 0 f] by simp

lemma sends_if [sending]: "(b \<Longrightarrow> sends n Q m) \<Longrightarrow> (\<not> b \<Longrightarrow> sends n Q k) \<Longrightarrow> sends n Q (if b then m else k)"
  by simp

lemma sends_case_result [sending]:
  "(\<And>x. r = Ok x \<Longrightarrow> sends n Q (f x)) \<Longrightarrow> (\<And>x. r = Err x \<Longrightarrow> sends n Q (g x)) \<Longrightarrow> sends n Q k \<Longrightarrow>
     sends n Q (case r of Ok x \<Rightarrow> f x | Err x \<Rightarrow> g x | Panic \<Rightarrow> k)"
  by (cases r) simp_all

lemma sends_case_option [sending]:
  "sends n Q m \<Longrightarrow> (\<And>x. sends n Q (f x)) \<Longrightarrow> sends n Q (case r of None \<Rightarrow> m | Some x \<Rightarrow> f x)"
  by (cases r) simp_all

lemma sends_case_prod [sending]: "(\<And>x y. p = (x, y) \<Longrightarrow> sends n Q (f x y)) \<Longrightarrow> sends n Q (case p of (x, y) \<Rightarrow> f x y)"
  by (cases p) simp

lemma sends_let [sending]: "sends n Q (f x) \<Longrightarrow> sends n Q (let y = x in f y)"
  by simp

lemma sends_client_do:
  "Q (request cl meth path token body accept cookies) \<Longrightarrow>
     sends 1 Q (client_do e cl meth path token body accept cookies decode zero)"
  by (simp add: sends_def client_do_def send_def)

lemma sends_weaken: "sends n Q m \<Longrightarrow> (\<And>rq. Q rq \<Longrightarrow> R rq) \<Longrightarrow> sends n R m"
  unfolding sends_def by (metis (no_types, lifting) list.pred_mono_strong)

lemma sendsD:
  assumes "sends n Q m" "run_state m w = (x, w')"
  obtains rqs where "wSent w' = wSent w @ rqs" "length rqs \<le> n" "list_all Q rqs"
  using assms unfolding sends_def by (metis snd_conv add_leD1)

lemma sends_requests:
  assumes "sends n Q m"
  shows "length (wSent (snd (run_state m w))) + 3 * length (wBackground (snd (run_state m w))) \<le>
      length (wSent w) + 3 * length (wBackground w) + n"
    "set (wSent w) \<subseteq> set (wSent (snd (run_state m w)))"
proof -
  obtain rqs pairs where "wSent (snd (run_state m w)) = wSent w @ rqs"
    "wBackground (snd (run_state m w)) = wBackground w @ pairs" "length rqs + 3 * length pairs \<le> n"
    using assms unfolding sends_def by blast
  then show "length (wSent (snd (run_state m w))) + 3 * length (wBackground (snd (run_state m w))) \<le>
      length (wSent w) + 3 * length (wBackground w) + n" "set (wSent w) \<subseteq> set (wSent (snd (run_state m w)))"
    by simp_all
qed

end
