(* ===== verification/Endpoints.thy ===== *)
theory Endpoints
  imports Capabilities
begin

text \<open>
  The endpoints of the table of \<open>internal/folio/capabilities.go\<close>: a request is made at one of them when its method is that of an entry that
  the program calls and its path, without the query, is that of the entry, with some text where the
  pattern has a parameter. The paths that the clients make are such, and where the parameter is one segment
  the look-up finds the permission that the call needs.
\<close>

definition instantiate :: "string \<Rightarrow> string \<Rightarrow> string" where
  "instantiate pattern v =
     (if CHR ''{'' \<in> set pattern then
        takeWhile (\<lambda>c. c \<noteq> CHR ''{'') pattern @ v @ tl (dropWhile (\<lambda>c. c \<noteq> CHR ''}'') pattern)
      else pattern)"

definition called :: "CapabilityEntry \<Rightarrow> bool" where
  "called e \<longleftrightarrow> Usage e = UsageDirect \<or> Usage e = UsagePublic"

definition in_table :: "string \<Rightarrow> string \<Rightarrow> bool" where
  "in_table meth path \<longleftrightarrow>
     (\<exists>e \<in> set Capabilities. called e \<and> ceMethod e = meth \<and> (\<exists>v. without_query path = instantiate (PathPattern e) v))"

lemma called_entries:
  "map (\<lambda>e. (ceMethod e, PathPattern e)) (filter called Capabilities) =
     [(''POST'', ''/authn/login-with-expiry''), (''POST'', ''/authn/refresh''), (''POST'', ''/authn/logout''),
      (''POST'', ''/circulation/check-out-by-barcode''), (''POST'', ''/circulation/check-in-by-barcode''),
      (''POST'', ''/circulation/renew-by-barcode''), (''POST'', ''/circulation/renew-by-id''),
      (''GET'', ''/circulation/loans''), (''GET'', ''/circulation/requests''), (''GET'', ''/accounts''),
      (''POST'', ''/accounts/{id}/pay''), (''POST'', ''/accounts-bulk/pay''), (''GET'', ''/manualblocks''),
      (''GET'', ''/automated-patron-blocks/{id}''), (''GET'', ''/inventory/items''), (''GET'', ''/inventory/items/{id}''),
      (''GET'', ''/inventory/instances/{id}''), (''GET'', ''/holdings-storage/holdings/{id}''), (''GET'', ''/locations/{id}''),
      (''GET'', ''/material-types/{id}''), (''GET'', ''/service-points/{id}''), (''GET'', ''/users''), (''GET'', ''/users/{id}''),
      (''GET'', ''/groups/{id}''), (''POST'', ''/patron-pin/verify''), (''GET'', ''/users/{id}''), (''PUT'', ''/users/{id}'')]"
  by (simp add: Capabilities_def entry_def called_def)

lemma in_table_entries:
  "in_table meth path \<longleftrightarrow>
     list_ex (\<lambda>(m, p). m = meth \<and> (\<exists>v. without_query path = instantiate p v))
       (map (\<lambda>e. (ceMethod e, PathPattern e)) (filter called Capabilities))"
  by (auto simp: in_table_def list_ex_iff)

lemmas in_table_eval = in_table_entries [unfolded called_entries]

lemma without_query_append: "CHR ''?'' \<notin> set x \<Longrightarrow> without_query (x @ y) = x @ without_query y"
  by (induction x) auto

text \<open>The paths that the clients make.\<close>

lemma endpoints_in_table:
  "in_table ''POST'' ''/authn/login-with-expiry''" "in_table ''POST'' ''/authn/refresh''" "in_table ''POST'' ''/authn/logout''"
  "in_table ''POST'' ''/circulation/check-out-by-barcode''" "in_table ''POST'' ''/circulation/check-in-by-barcode''"
  "in_table ''POST'' ''/circulation/renew-by-barcode''" "in_table ''POST'' ''/circulation/renew-by-id''"
  "in_table ''POST'' ''/accounts-bulk/pay''" "in_table ''POST'' ''/patron-pin/verify''"
  by (simp_all add: in_table_eval instantiate_def)

lemma queries_in_table:
  "in_table ''GET'' (''/users?query='' @ q)" "in_table ''GET'' (''/manualblocks?limit='' @ q)"
  "in_table ''GET'' (''/circulation/loans?limit='' @ q)" "in_table ''GET'' (''/circulation/loans?query='' @ q)"
  "in_table ''GET'' (''/circulation/requests?limit='' @ q)" "in_table ''GET'' (''/circulation/requests?query='' @ q)"
  "in_table ''GET'' (''/inventory/items?query='' @ q)" "in_table ''GET'' (''/accounts?limit='' @ q)"
  "in_table ''GET'' (''/accounts?query='' @ q)"
  by (simp_all add: in_table_eval instantiate_def)

lemma items_in_table:
  "in_table ''GET'' (''/users/'' @ v)" "in_table ''PUT'' (''/users/'' @ v)" "in_table ''GET'' (''/groups/'' @ v)"
  "in_table ''GET'' (''/automated-patron-blocks/'' @ v)" "in_table ''GET'' (''/inventory/items/'' @ v)"
  "in_table ''GET'' (''/inventory/instances/'' @ v)" "in_table ''GET'' (''/holdings-storage/holdings/'' @ v)"
  "in_table ''GET'' (''/locations/'' @ v)" "in_table ''GET'' (''/material-types/'' @ v)" "in_table ''GET'' (''/service-points/'' @ v)"
  by (simp_all add: in_table_eval instantiate_def)

lemma pay_in_table: "CHR ''?'' \<notin> set v \<Longrightarrow> in_table ''POST'' (''/accounts/'' @ v @ ''/pay'')"
  by (simp add: in_table_eval instantiate_def without_query_append)

text \<open>Where the parameter is one segment of a path, the look-up of the permission finds an entry.\<close>

definition one_segment :: "string \<Rightarrow> bool" where
  "one_segment v \<longleftrightarrow> v \<noteq> [] \<and> CHR ''/'' \<notin> set v"

lemma segment_matches_refl: "segment_matches x x"
  by (cases x) (simp_all add: segment_matches_def)

lemma segment_matches_id: "v \<noteq> [] \<Longrightarrow> segment_matches ''{id}'' v"
proof -
  have "suffix ''}'' ''{id}''" by (simp add: suffix_def)
  then show "v \<noteq> [] \<Longrightarrow> segment_matches ''{id}'' v" by (simp add: segment_matches_def)
qed

lemma trim_path: "s \<noteq> [] \<Longrightarrow> hd s \<noteq> CHR ''/'' \<Longrightarrow> last s \<noteq> CHR ''/'' \<Longrightarrow> trim_slashes (CHR ''/'' # s) = s"
proof -
  assume s: "s \<noteq> []" "hd s \<noteq> CHR ''/''" "last s \<noteq> CHR ''/''"
  then have "dropWhile (\<lambda>c. c = CHR ''/'') s = s" by (cases s) simp_all
  moreover have "dropWhile (\<lambda>c. c = CHR ''/'') (rev s) = rev s" using s by (cases s rule: rev_cases) simp_all
  ultimately show ?thesis by (simp add: trim_slashes_def)
qed

lemma split_on_last: "d \<notin> set v \<Longrightarrow> split_on [d] (y @ d # v) = split_on [d] y @ [v]"
proof (induction y)
  case (Cons c y)
  then show ?case by (cases "split_on [d] y") (auto split: list.splits)
qed simp

lemma matches_plain: "pathMatches p p"
  by (simp add: pathMatches_def segment_matches_refl list.rel_refl)

lemma matches_id:
  assumes "y \<noteq> []" "hd y \<noteq> CHR ''/''" "one_segment v"
  shows "pathMatches (CHR ''/'' # y @ ''/{id}'') (CHR ''/'' # y @ CHR ''/'' # v)"
proof -
  have v: "v \<noteq> []" "CHR ''/'' \<notin> set v" using assms(3) by (simp_all add: one_segment_def)
  then have "last v \<noteq> CHR ''/''" using last_in_set by metis
  then have "trim_slashes (CHR ''/'' # y @ CHR ''/'' # v) = y @ CHR ''/'' # v" using assms v by (intro trim_path) simp_all
  moreover have "trim_slashes (CHR ''/'' # y @ ''/{id}'') = y @ ''/{id}''" using assms by (intro trim_path) simp_all
  ultimately show ?thesis
    using v split_on_last [of "CHR ''/''" v y] split_on_last [of "CHR ''/''" "''{id}''" y]
    by (simp add: pathMatches_def Split_def list_all2_appendI list.rel_refl segment_matches_refl segment_matches_id)
qed

lemma matches_pay: "one_segment v \<Longrightarrow> pathMatches ''/accounts/{id}/pay'' (''/accounts/'' @ v @ ''/pay'')"
proof -
  assume v: "one_segment v"
  have "trim_slashes (''/accounts/'' @ v @ ''/pay'') = ''accounts/'' @ v @ ''/pay''"
    using trim_path [of "''accounts/'' @ v @ ''/pay''"] by simp
  moreover have "trim_slashes ''/accounts/{id}/pay'' = ''accounts/{id}/pay''"
    using trim_path [of "''accounts/{id}/pay''"] by simp
  moreover have "split_on ''/'' (v @ ''/pay'') = [v, ''pay'']"
    using v split_on_single_append [of "CHR ''/''" v "''pay''"] by (simp add: one_segment_def)
  ultimately show ?thesis using v
    by (simp add: pathMatches_def Split_def segment_matches_refl segment_matches_id one_segment_def)
qed

definition id_paths :: "string list" where
  "id_paths = [''automated-patron-blocks'', ''inventory/items'', ''inventory/instances'', ''holdings-storage/holdings'',
     ''locations'', ''material-types'', ''service-points'', ''users'', ''groups'']"

lemma called_patterns:
  "list_all (\<lambda>(m, p). CHR ''{'' \<notin> set p \<or> p = ''/accounts/{id}/pay'' \<or> p \<in> set (map (\<lambda>y. CHR ''/'' # y @ ''/{id}'') id_paths))
     (map (\<lambda>e. (ceMethod e, PathPattern e)) (filter called Capabilities))"
  unfolding called_entries id_paths_def by simp

lemma instantiate_id:
  "CHR ''{'' \<notin> set y \<Longrightarrow> CHR ''}'' \<notin> set y \<Longrightarrow>
     instantiate (CHR ''/'' # y @ ''/{id}'') v = CHR ''/'' # y @ CHR ''/'' # v"
  by (simp add: instantiate_def takeWhile_append dropWhile_append)

lemma lookup_in_table:
  assumes e: "e \<in> set Capabilities" "called e" "ceMethod e = meth"
    and path: "without_query path = instantiate (PathPattern e) v" "one_segment v"
  shows "LookupCapability meth path \<noteq> None"
proof -
  let ?p = "PathPattern e"
  have "CHR ''{'' \<notin> set ?p \<or> ?p = ''/accounts/{id}/pay'' \<or> ?p \<in> set (map (\<lambda>y. CHR ''/'' # y @ ''/{id}'') id_paths)"
    using called_patterns e by (force simp: list_all_iff)
  then have "pathMatches ?p (instantiate ?p v)"
  proof (elim disjE)
    assume "?p \<in> set (map (\<lambda>y. CHR ''/'' # y @ ''/{id}'') id_paths)"
    then obtain y where y: "?p = CHR ''/'' # y @ ''/{id}''" "y \<in> set id_paths" by auto
    then have "y \<noteq> []" "hd y \<noteq> CHR ''/''" "CHR ''{'' \<notin> set y" "CHR ''}'' \<notin> set y" by (auto simp: id_paths_def)
    then show ?thesis using matches_id path(2) instantiate_id by (simp add: y(1))
  qed (use matches_plain matches_pay [OF path(2)] in \<open>simp_all add: instantiate_def\<close>)
  then show ?thesis using e path(1) by (auto simp: LookupCapability_def find_None_iff called_def)
qed

end
