(* ===== verification/Folio_Auth.thy ===== *)
theory Folio_Auth
  imports Folio_Http Endpoints
begin

text \<open>
  \<open>internal/folio/auth.go\<close>: login, refresh and logout. Tokens travel in cookies. A logout whose
  refresh token is blank would end the sessions of every kiosk of the user, so the guards of
  \<open>Logout\<close> are what the lemmas are about: the locale \<open>world_policy\<close> states what a
  predicate on the state of a connection has to admit for every operation to keep it.
\<close>

definition AccessTokenCookie :: string where "AccessTokenCookie = ''folioAccessToken''"

definition RefreshTokenCookie :: string where "RefreshTokenCookie = ''folioRefreshToken''"

record AuthResponse =
  OkapiToken :: string
  lrRefreshToken :: string
  ExpiresAt :: GoTime
  RefreshTokenExpiration :: GoTime

definition NewAuthClient :: "string \<Rightarrow> string \<Rightarrow> Client" where
  "NewAuthClient base tenant = NewClient base tenant"

text \<open>The first non-empty cookie of each name; an error names the one that is missing.\<close>

definition extract_step :: "string \<times> string \<Rightarrow> string \<times> string \<Rightarrow> string \<times> string" where
  "extract_step cookie tokens =
     (case (cookie, tokens) of ((name, val), (access, refresh)) \<Rightarrow>
        if name = AccessTokenCookie then (if access = [] then val else access, refresh)
        else if name = RefreshTokenCookie then (access, if refresh = [] then val else refresh)
        else (access, refresh))"

definition extractTokens :: "(string \<times> string) list \<Rightarrow> (folio_error, string \<times> string) go_result" where
  "extractTokens cookies =
     (case fold extract_step cookies ([], []) of (access, refresh) \<Rightarrow>
        if access = [] then Err (OtherError (''response has no '' @ AccessTokenCookie @ '' cookie''))
        else if refresh = [] then Err (OtherError (''response has no '' @ RefreshTokenCookie @ '' cookie''))
        else Ok (access, refresh))"

definition fillTokens ::
  "GoTime \<times> GoTime \<Rightarrow> (string \<times> string) list \<Rightarrow> (folio_error, AuthResponse) go_result" where
  "fillTokens resp cookies =
     go_bind (extractTokens cookies) (\<lambda>(access, refresh).
       if IsZero (fst resp) then Err (OtherError ''response has no accessTokenExpiration'')
       else Ok \<lparr>OkapiToken = access, lrRefreshToken = refresh, ExpiresAt = fst resp,
                RefreshTokenExpiration = snd resp\<rparr>)"

definition login_body :: "string \<Rightarrow> string \<Rightarrow> json" where
  "login_body username pw = JObj [(''username'', JStr username), (''password'', JStr pw)]"

definition Login :: "env \<Rightarrow> Client \<Rightarrow> string \<Rightarrow> string \<Rightarrow> (folio_error, AuthResponse) go_result io" where
  "Login e ac username pw = do {
     r \<leftarrow> PostWithCookies e ac ''/authn/login-with-expiry'' [] (Some (login_body username pw))
            (jsonExpirations (Json e)) (zero_time, zero_time) [];
     State_Monad.return (go_bind r (\<lambda>(resp, cookies). fillTokens resp cookies))
   }"

definition Refresh :: "env \<Rightarrow> Client \<Rightarrow> string \<Rightarrow> (folio_error, AuthResponse) go_result io" where
  "Refresh e ac token =
     (if token = [] then State_Monad.return (Err ErrNoRefreshToken)
      else do {
        r \<leftarrow> PostWithCookies e ac ''/authn/refresh'' [] None (jsonExpirations (Json e)) (zero_time, zero_time)
               [(RefreshTokenCookie, token)];
        State_Monad.return (go_bind r (\<lambda>(resp, cookies). fillTokens resp cookies))
      })"

text \<open>A token of three or five segments, none empty but the second of five.\<close>

definition segments_filled :: "string list \<Rightarrow> bool" where
  "segments_filled segs \<longleftrightarrow>
     list_all (\<lambda>(i, segment). segment \<noteq> [] \<or> (length segs = 5 \<and> i = 1)) (enumerate 0 segs)"

definition token_whitespace :: "string \<Rightarrow> bool" where
  "token_whitespace token \<longleftrightarrow> list_ex (\<lambda>c. c \<in> {CHR '' '', CHR 0x09, CHR 0x0D, CHR 0x0A}) token"

definition isJWTShaped :: "string \<Rightarrow> bool" where
  "isJWTShaped token =
     (if token_whitespace token then False
      else let segs = Split token ''.'' in
        if length segs \<noteq> 3 \<and> length segs \<noteq> 5 then False else segments_filled segs)"

definition TokenShape :: "string \<Rightarrow> string" where
  "TokenShape token =
     (let segs = Split token ''.'';
          empties = map (\<lambda>(i, _). nat_str (i + 1)) (filter (\<lambda>(i, s). s = []) (enumerate 0 segs))
      in nat_str (length segs) @ '' segments, length '' @ nat_str (length token) @
         (if empties \<noteq> [] then '', empty: '' @ join '','' empties else []) @
         (if token_whitespace token then '', contains whitespace'' else []))"

definition Logout :: "env \<Rightarrow> Client \<Rightarrow> string \<Rightarrow> string \<Rightarrow> (folio_error, unit) go_result io" where
  "Logout e ac accessToken refreshTok =
     (if TrimSpace refreshTok = [] then State_Monad.return (Err ErrNoRefreshToken)
      else if \<not> isJWTShaped refreshTok then State_Monad.return (Err ErrInvalidRefreshToken)
      else if TrimSpace accessToken = [] then State_Monad.return (Err ErrNoAccessToken)
      else do {
        r \<leftarrow> PostWithCookies e ac ''/authn/logout'' [] None no_result ()
               [(RefreshTokenCookie, refreshTok), (AccessTokenCookie, accessToken)];
        State_Monad.return (drop_cookies r)
      })"

subsection \<open>What the operations of this component send\<close>

text \<open>A logout request that can only end the session of its own refresh token.\<close>

definition guarded_logout :: "http_request \<Rightarrow> bool" where
  "guarded_logout rq \<longleftrightarrow> rqToken rq = [] \<and>
     (case rqCookies rq of
        [(n, r), (m, a)] \<Rightarrow> n = RefreshTokenCookie \<and> m = AccessTokenCookie \<and> TrimSpace r \<noteq> [] \<and>
          isJWTShaped r \<and> TrimSpace a \<noteq> []
      | _ \<Rightarrow> False)"

text \<open>A request to one of the endpoints that the capability table lists as called by the program.\<close>

definition at_endpoint :: "http_request \<Rightarrow> bool" where
  "at_endpoint rq \<longleftrightarrow> in_table (rqMethod rq) (rqPath rq)"

text \<open>
  An invariant of the connection's state that every operation of the program keeps: it allows, at the
  endpoints of the table, the requests without cookies other than a logout, the login and the refresh, which carry no
  access token, and the guarded logouts; and it allows every change of the session that leaves
  the tenant alone. That each operation keeps such an invariant is shown in this locale, where
  the operation is defined.
\<close>

locale world_policy =
  fixes P :: "world \<Rightarrow> bool"
  assumes plain_kept: "rqCookies rq = [] \<Longrightarrow> rqPath rq \<noteq> ''/authn/logout'' \<Longrightarrow> at_endpoint rq \<Longrightarrow> keeps P (send e rq)"
    and auth_kept: "rqToken rq = [] \<Longrightarrow> rqPath rq = ''/authn/refresh'' \<Longrightarrow> at_endpoint rq \<Longrightarrow> keeps P (send e rq)"
    and logout_kept: "rqPath rq = ''/authn/logout'' \<Longrightarrow> guarded_logout rq \<Longrightarrow> at_endpoint rq \<Longrightarrow> keeps P (send e rq)"
    and session_kept: "(\<And>s. sessTenant (f s) = sessTenant s) \<Longrightarrow> keeps P (put_session f)"
    and updated_kept: "(\<And>s. sessTenant (snd (g s :: TokenPair \<times> Session)) = sessTenant s) \<Longrightarrow>
      keeps P (update_session g)"
    and background_kept: "keeps P (in_background pair reason)"
begin

lemma keeps_session_changes [keeping]:
  "keeps P (put_session (SetPatronID i))" "keeps P (put_session (SetPatronBarcode i))"
  "keeps P (put_session (SetLocationCode i))" "keeps P (put_session (SetAuthCredentials i))"
  "keeps P (put_session (SetAuthenticated now u i b t x))"
  "keeps P (put_session (\<lambda>s. SetAuthenticated now (u' s) i b (t' s) (x' s) s))"
  "keeps P (put_session (UpdateTokens now t x r rx))" "keeps P (put_session (UpdateActivity now))"
  "keeps P (put_session (Clear now))" "keeps P (put_session (ClearPatron now))"
  "keeps P (update_session (SwapTokens now t x r rx))" "keeps P (update_session TakeTokens)"
  by (intro session_kept updated_kept, simp add: SetPatronID_def SetPatronBarcode_def SetLocationCode_def
      SetAuthCredentials_def SetAuthenticated_def UpdateTokens_def UpdateActivity_def Clear_def ClearPatron_def
      SwapTokens_def TakeTokens_def storeTokensLocked_def clearTokensLocked_def Let_def)+

lemma keeps_background [keeping]: "keeps P (in_background pair reason)"
  by (rule background_kept)

lemma keeps_do:
  "keeps P (send e (request cl meth path token body accept cookies)) \<Longrightarrow>
     keeps P (client_do e cl meth path token body accept cookies decode zero)"
  unfolding client_do_def by (intro keeping)

lemma keeps_Get: "path \<noteq> ''/authn/logout'' \<Longrightarrow> in_table ''GET'' path \<Longrightarrow> keeps P (client_Get e cl path token decode zero)"
  unfolding client_Get_def by (intro keeping keeps_do plain_kept) (simp_all add: request_def at_endpoint_def endpoints_in_table)

lemma keeps_Post:
  "path \<noteq> ''/authn/logout'' \<Longrightarrow> in_table ''POST'' path \<Longrightarrow> keeps P (client_Post e cl path token body decode zero)"
  unfolding client_Post_def by (intro keeping keeps_do plain_kept) (simp_all add: request_def at_endpoint_def endpoints_in_table)

lemma keeps_text_plain:
  "path \<noteq> ''/authn/logout'' \<Longrightarrow> in_table ''POST'' path \<Longrightarrow> keeps P (PostWithTextPlainAccept e cl path token body)"
  "path \<noteq> ''/authn/logout'' \<Longrightarrow> in_table ''PUT'' path \<Longrightarrow> keeps P (PutWithTextPlainAccept e cl path token body)"
  unfolding PostWithTextPlainAccept_def PutWithTextPlainAccept_def
  by (intro keeping keeps_do plain_kept; simp add: request_def at_endpoint_def)+

lemma keeps_Login [keeping]: "keeps P (Login e ac username pw)"
  unfolding Login_def PostWithCookies_def
  by (intro keeping keeps_do plain_kept) (simp_all add: request_def at_endpoint_def endpoints_in_table)

lemma keeps_Refresh [keeping]: "keeps P (Refresh e ac token)"
  unfolding Refresh_def PostWithCookies_def
  by (intro keeping keeps_do auth_kept) (simp_all add: request_def at_endpoint_def endpoints_in_table)

lemma keeps_Logout [keeping]: "keeps P (Logout e ac accessToken refreshTok)"
  unfolding Logout_def PostWithCookies_def
  by (intro keeping keeps_do logout_kept) (simp_all add: request_def at_endpoint_def endpoints_in_table guarded_logout_def)

end

text \<open>A rule on requests is such an invariant when it admits those requests.\<close>

locale request_policy =
  fixes allowed :: "http_request \<Rightarrow> bool"
  assumes plain_allowed: "rqCookies rq = [] \<Longrightarrow> rqPath rq \<noteq> ''/authn/logout'' \<Longrightarrow> at_endpoint rq \<Longrightarrow> allowed rq"
    and auth_allowed: "rqToken rq = [] \<Longrightarrow> rqPath rq = ''/authn/refresh'' \<Longrightarrow> at_endpoint rq \<Longrightarrow> allowed rq"
    and logout_allowed: "rqPath rq = ''/authn/logout'' \<Longrightarrow> guarded_logout rq \<Longrightarrow> at_endpoint rq \<Longrightarrow> allowed rq"

sublocale request_policy \<subseteq> world_policy "sent_only allowed"
  by unfold_locales
    (intro keeping keeps_send plain_allowed auth_allowed logout_allowed; assumption)+

text \<open>The two rules: every logout is guarded, and no request carries two kinds of token.\<close>

definition logout_guarded :: "http_request \<Rightarrow> bool" where
  "logout_guarded rq \<longleftrightarrow> (rqPath rq = ''/authn/logout'' \<longrightarrow> guarded_logout rq)"

definition one_token_kind :: "http_request \<Rightarrow> bool" where
  "one_token_kind rq \<longleftrightarrow> rqToken rq = [] \<or> rqCookies rq = []"

interpretation guarded: request_policy logout_guarded
  by unfold_locales (simp_all add: logout_guarded_def)

text \<open>The third rule: no request goes to an endpoint that is not in the table.\<close>

interpretation catalogued: request_policy at_endpoint
  by unfold_locales

interpretation one_kind: request_policy one_token_kind
  by unfold_locales (simp_all add: one_token_kind_def guarded_logout_def)

text \<open>The other instance: the tenant of the session.\<close>

definition of_tenant :: "TenantConfig option \<Rightarrow> world \<Rightarrow> bool" where
  "of_tenant t w \<longleftrightarrow> sessTenant (wSession w) = t"

interpretation tenant_kept: world_policy "of_tenant t" for t
  by unfold_locales (simp_all add: keeps_def of_tenant_def send_def put_session_def update_session_def in_background_def)

subsection \<open>Results\<close>

lemma keeps_auth_local [keeping]: "keeps (local_state s b) (Login e ac username pw)"
  "keeps (local_state s b) (Refresh e ac token)" "keeps (local_state s b) (Logout e ac a r)"
  unfolding Login_def Refresh_def Logout_def by (intro keeping)+

text \<open>A call to the authentication interface, under the client it was given.\<close>

definition to_client :: "Client \<Rightarrow> string list \<Rightarrow> http_request \<Rightarrow> bool" where
  "to_client cl paths rq \<longleftrightarrow> rqBase rq = baseURL cl \<and> rqTenant rq = clientTenant cl \<and> rqPath rq \<in> set paths"

lemma sends_auth:
  "''/authn/login-with-expiry'' \<in> set paths \<Longrightarrow> sends 1 (to_client ac paths) (Login e ac username pw)"
  "''/authn/refresh'' \<in> set paths \<Longrightarrow> sends 1 (to_client ac paths) (Refresh e ac token)"
  "''/authn/logout'' \<in> set paths \<Longrightarrow> sends 1 (to_client ac paths) (Logout e ac a r)"
  unfolding Login_def Refresh_def Logout_def PostWithCookies_def
  by (intro sending sends_bind_last sends_client_do; simp add: request_def to_client_def)+

lemma read_response_not_Panic [simp]: "read_response m p a d z out \<noteq> Panic"
  by (auto simp: read_response_def split: http_outcome.splits option.splits)

lemma client_do_not_Panic: "fst (run_state (client_do e cl m p t b a c d z) w) \<noteq> Panic"
  by (simp add: client_do_def split: prod.split)

lemma extractTokens_Ok: "extractTokens cookies = Ok (a, r) \<Longrightarrow> a \<noteq> [] \<and> r \<noteq> []"
  by (auto simp: extractTokens_def split: prod.splits if_splits)

lemma fillTokens_Ok:
  "fillTokens resp cookies = Ok r \<Longrightarrow> OkapiToken r \<noteq> [] \<and> lrRefreshToken r \<noteq> [] \<and> \<not> IsZero (ExpiresAt r)"
  by (auto simp: fillTokens_def extractTokens_Ok split: if_splits dest!: extractTokens_Ok)

lemma fillTokens_not_Panic [simp]: "fillTokens resp cookies \<noteq> Panic"
  by (auto simp: fillTokens_def extractTokens_def go_bind_eq_Panic split: prod.splits if_splits)

lemma Login_Ok:
  assumes "run_state (Login e ac username pw) w = (Ok r, w')"
  shows "OkapiToken r \<noteq> [] \<and> lrRefreshToken r \<noteq> [] \<and> \<not> IsZero (ExpiresAt r)"
  using assms by (auto simp: Login_def split: prod.splits dest: fillTokens_Ok)

lemma Refresh_Ok:
  assumes "run_state (Refresh e ac token) w = (Ok r, w')"
  shows "OkapiToken r \<noteq> [] \<and> lrRefreshToken r \<noteq> [] \<and> \<not> IsZero (ExpiresAt r)"
  using assms by (auto simp: Refresh_def split: prod.splits if_splits dest: fillTokens_Ok)

lemma auth_not_Panic: "fst (run_state (Login e ac username pw) w) \<noteq> Panic"
  "fst (run_state (Refresh e ac token) w) \<noteq> Panic" "fst (run_state (Logout e ac a r) w) \<noteq> Panic"
  by (auto simp: Login_def Refresh_def Logout_def PostWithCookies_def drop_cookies_def go_bind_eq_Panic
      split: prod.splits dest!: arg_cong [where f = fst]) (metis client_do_not_Panic fst_conv)+

text \<open>The guards of \<open>Logout\<close> run before any request.\<close>

lemma Logout_guards:
  assumes "TrimSpace r = [] \<or> \<not> isJWTShaped r \<or> TrimSpace a = []"
  shows "\<exists>err. run_state (Logout e ac a r) w = (Err err, w)"
  using assms by (auto simp: Logout_def)

end
