(* ===== verification/Token_Auth.thy ===== *)
theory Token_Auth
  imports Folio_Auth
begin

text \<open>
  The life of a connection's tokens: \<open>internal/handlers/session_logout.go\<close> (ending the Keycloak
  session of a token pair) and the token part of \<open>internal/handlers/base.go\<close> (renewal by refresh
  or by a new login). A read of \<open>session.TenantConfig\<close> when it is nil panics, so it is \<open>Panic\<close>
  here. The renewal lock serialises renewals of one session, each of which is one operation.
\<close>

definition LogoutReasonClientClosed :: string where "LogoutReasonClientClosed = ''client_closed''"
definition LogoutReasonReadTimeout :: string where "LogoutReasonReadTimeout = ''read_timeout''"
definition LogoutReasonContextCancelled :: string where "LogoutReasonContextCancelled = ''context_cancelled''"
definition LogoutReasonError :: string where "LogoutReasonError = ''error''"
definition LogoutReasonRelogin93 :: string where "LogoutReasonRelogin93 = ''relogin_93''"
definition LogoutReasonTenantChanged :: string where "LogoutReasonTenantChanged = ''tenant_changed''"
definition LogoutReasonRenewalFallback :: string where "LogoutReasonRenewalFallback = ''renewal_fallback''"

subsection \<open>Logout\<close>

text \<open>What a logout logs about its end.\<close>

datatype logout_log =
    LogoutSkipped string
  | LogoutFailedAtRefresh folio_error
  | LogoutAccepted bool
  | LogoutRefused folio_error
  | LogoutRejected folio_error
  | LogoutFailed folio_error

definition logout_end :: "bool \<Rightarrow> (folio_error, unit) go_result \<Rightarrow> logout_log" where
  "logout_end refreshedFirst r =
     (case r of
        Ok _ \<Rightarrow> LogoutAccepted refreshedFirst
      | Panic \<Rightarrow> LogoutFailed (OtherError [])
      | Err err \<Rightarrow>
          if err = ErrNoRefreshToken \<or> err = ErrInvalidRefreshToken \<or> err = ErrNoAccessToken then LogoutRefused err
          else if isClientError err then LogoutRejected err
          else LogoutFailed err)"

definition refreshPair :: "env \<Rightarrow> Client \<Rightarrow> string \<Rightarrow> (logout_log, string \<times> string) go_result io" where
  "refreshPair e ac token = do {
     r \<leftarrow> Refresh e ac token;
     State_Monad.return (case r of
         Ok resp \<Rightarrow> Ok (OkapiToken resp, lrRefreshToken resp)
       | Err err \<Rightarrow> Err (if isClientError err then LogoutSkipped ''refresh_rejected'' else LogoutFailedAtRefresh err)
       | Panic \<Rightarrow> Panic)
   }"

text \<open>The logout itself, with one refresh and retry when the access token was not current.\<close>

definition logout_retry :: "env \<Rightarrow> Client \<Rightarrow> string \<Rightarrow> logout_log io" where
  "logout_retry e ac token = do {
     again \<leftarrow> refreshPair e ac token;
     (case again of
        Ok p \<Rightarrow> do {
          r \<leftarrow> Logout e ac (fst p) (snd p);
          State_Monad.return (logout_end True r)
        }
      | Err l \<Rightarrow> State_Monad.return l
      | Panic \<Rightarrow> State_Monad.return (LogoutFailed (OtherError [])))
   }"

definition logout_request :: "env \<Rightarrow> Client \<Rightarrow> string \<Rightarrow> string \<Rightarrow> bool \<Rightarrow> logout_log io" where
  "logout_request e ac accessToken token refreshedFirst = do {
     r \<leftarrow> Logout e ac accessToken token;
     (case r of
        Err err \<Rightarrow>
          if isUnauthorized err \<and> \<not> refreshedFirst then logout_retry e ac token
          else State_Monad.return (logout_end refreshedFirst (Err err))
      | Ok u \<Rightarrow> State_Monad.return (logout_end refreshedFirst (Ok u))
      | Panic \<Rightarrow> State_Monad.return (LogoutFailed (OtherError [])))
   }"

definition refresh_first :: "env \<Rightarrow> Client \<Rightarrow> string \<Rightarrow> logout_log io" where
  "refresh_first e ac token = do {
     first \<leftarrow> refreshPair e ac token;
     (case first of
        Ok p \<Rightarrow> logout_request e ac (fst p) (snd p) True
      | Err l \<Rightarrow> State_Monad.return l
      | Panic \<Rightarrow> State_Monad.return (LogoutFailed (OtherError [])))
   }"

definition LogoutTokens :: "env \<Rightarrow> TokenPair \<Rightarrow> logout_log io" where
  "LogoutTokens e pair =
     (if TrimSpace (RefreshToken pair) = [] then State_Monad.return (LogoutSkipped ''no_refresh_token'')
      else do {
        now \<leftarrow> time_now e;
        if \<not> IsZero (RefreshExpiresAt pair) \<and> After now (RefreshExpiresAt pair) then
          State_Monad.return (LogoutSkipped ''refresh_token_expired'')
        else if pairOkapiURL pair = [] then State_Monad.return (LogoutSkipped ''no_issuer'')
        else if AccessToken pair = [] \<or> \<not> Before now (AccessExpiresAt pair) then
          refresh_first e (NewAuthClient (pairOkapiURL pair) (pairOkapiTenant pair)) (RefreshToken pair)
        else logout_request e (NewAuthClient (pairOkapiURL pair) (pairOkapiTenant pair))
               (AccessToken pair) (RefreshToken pair) False
      })"

definition LogoutSession :: "env \<Rightarrow> logout_log io" where
  "LogoutSession e = do {
     pair \<leftarrow> update_session TakeTokens;
     LogoutTokens e pair
   }"

text \<open>The logout that runs in the background does nothing for an empty pair.\<close>

definition logoutReplacedTokens :: "TokenPair \<Rightarrow> string \<Rightarrow> unit io" where
  "logoutReplacedTokens pair reason =
     (if pair_IsEmpty pair then State_Monad.return () else in_background pair reason)"

subsection \<open>Renewal\<close>

definition isTransientFailure :: "folio_error option \<Rightarrow> bool" where
  "isTransientFailure err =
     (case err of None \<Rightarrow> False | Some er \<Rightarrow> \<not> isClientError er \<and> er \<noteq> ErrNoRefreshToken)"

definition tryTokenRefresh :: "env \<Rightarrow> TenantConfig \<Rightarrow> (folio_error, string) go_result io" where
  "tryTokenRefresh e tc = do {
     s \<leftarrow> get_session;
     r \<leftarrow> Refresh e (NewAuthClient (OkapiURL tc) (OkapiTenant tc)) (refreshToken s);
     (case r of
        Ok resp \<Rightarrow> do {
          now \<leftarrow> time_now e;
          put_session (UpdateTokens now (OkapiToken resp) (ExpiresAt resp) (lrRefreshToken resp)
            (RefreshTokenExpiration resp));
          State_Monad.return (Ok (OkapiToken resp))
        }
      | Err err \<Rightarrow> State_Monad.return (Err err)
      | Panic \<Rightarrow> State_Monad.return Panic)
   }"

definition store_login :: "env \<Rightarrow> AuthResponse \<Rightarrow> TokenPair io" where
  "store_login e resp = do {
     now \<leftarrow> time_now e;
     update_session (SwapTokens now (OkapiToken resp) (ExpiresAt resp) (lrRefreshToken resp)
       (RefreshTokenExpiration resp))
   }"

text \<open>
  The attempts of a new login, \<open>n\<close> of them left: each after the first waits, and gives up when the
  connection is being closed. A login that succeeds hands out the pair it replaces.
\<close>

fun relogin_attempts ::
  "env \<Rightarrow> Client \<Rightarrow> string \<Rightarrow> string \<Rightarrow> bool \<Rightarrow> nat \<Rightarrow> folio_error \<Rightarrow> (folio_error, string \<times> TokenPair) go_result io"
where
  "relogin_attempts e ac username pw waits 0 lastErr = State_Monad.return (Err lastErr)"
| "relogin_attempts e ac username pw waits (Suc n) lastErr = do {
     c \<leftarrow> (if waits then check_cancelled e else State_Monad.return None);
     (case c of
        Some err \<Rightarrow> State_Monad.return (Err err)
      | None \<Rightarrow> do {
          r \<leftarrow> Login e ac username pw;
          (case r of
             Ok resp \<Rightarrow> do {
               pair \<leftarrow> store_login e resp;
               State_Monad.return (Ok (OkapiToken resp, pair))
             }
           | Err err \<Rightarrow> relogin_attempts e ac username pw True n err
           | Panic \<Rightarrow> State_Monad.return Panic)
        })
   }"

definition tryRelogin :: "env \<Rightarrow> TenantConfig \<Rightarrow> (folio_error, string \<times> TokenPair) go_result io" where
  "tryRelogin e tc = do {
     s \<leftarrow> get_session;
     if \<not> HasAuthCredentials s then State_Monad.return (Err ErrNoCredentials)
     else relogin_attempts e (NewAuthClient (OkapiURL tc) (OkapiTenant tc)) (Username s) (password s) False 3
            (OtherError [])
   }"

definition relogin_fallback :: "env \<Rightarrow> TenantConfig \<Rightarrow> folio_error option \<Rightarrow> (folio_error, string) go_result io" where
  "relogin_fallback e tc refreshErr = do {
     r \<leftarrow> tryRelogin e tc;
     (case r of
        Ok p \<Rightarrow> do {
          _ \<leftarrow> (if isTransientFailure refreshErr then logoutReplacedTokens (snd p) LogoutReasonRenewalFallback
                else State_Monad.return ());
          State_Monad.return (Ok (fst p))
        }
      | Err err \<Rightarrow> State_Monad.return (Err err)
      | Panic \<Rightarrow> State_Monad.return Panic)
   }"

definition refresh_or_login :: "env \<Rightarrow> TenantConfig \<Rightarrow> (folio_error, string) go_result io" where
  "refresh_or_login e tc = do {
     r \<leftarrow> tryTokenRefresh e tc;
     (case r of
        Ok token \<Rightarrow> State_Monad.return (Ok token)
      | Err err \<Rightarrow> relogin_fallback e tc (Some err)
      | Panic \<Rightarrow> State_Monad.return Panic)
   }"

definition renewToken :: "env \<Rightarrow> TenantConfig \<Rightarrow> (folio_error, string) go_result io" where
  "renewToken e tc = do {
     s \<leftarrow> get_session;
     now \<leftarrow> time_now e;
     if \<not> IsTokenExpired now s then State_Monad.return (Ok (AuthToken s))
     else if HasValidRefreshToken now TokenExpiryBuffer s then refresh_or_login e tc
     else relogin_fallback e tc None
   }"

definition getAuthenticatedFolioClient :: "env \<Rightarrow> (folio_error, string) go_result io" where
  "getAuthenticatedFolioClient e = do {
     s \<leftarrow> get_session;
     (case sessTenant s of
        None \<Rightarrow> State_Monad.return (Err (OtherError ''tenant config not set in session''))
      | Some tc \<Rightarrow> do {
          now \<leftarrow> time_now e;
          if AuthToken s \<noteq> [] \<and> \<not> IsTokenExpired now s then State_Monad.return (Ok (AuthToken s))
          else if AuthToken s \<noteq> [] then do {
            r \<leftarrow> renewToken e tc;
            State_Monad.return (case r of
                Ok token \<Rightarrow> Ok token
              | Err err \<Rightarrow> Err (OtherError ''no authentication token available'')
              | Panic \<Rightarrow> Panic)
          }
          else State_Monad.return (Err (OtherError ''no authentication token available''))
        })
   }"

subsection \<open>What is sent\<close>

context world_policy
begin

lemma keeps_refreshPair [keeping]: "keeps P (refreshPair e ac token)"
  unfolding refreshPair_def by (intro keeping)

lemma keeps_logout_request [keeping]: "keeps P (logout_request e ac a r b)"
  unfolding logout_request_def logout_retry_def by (intro keeping)

lemma keeps_LogoutTokens [keeping]: "keeps P (LogoutTokens e pair)"
  unfolding LogoutTokens_def refresh_first_def by (intro keeping)

lemma keeps_LogoutSession [keeping]: "keeps P (LogoutSession e)"
  unfolding LogoutSession_def by (intro keeping)

lemma keeps_relogin_attempts [keeping]: "keeps P (relogin_attempts e ac u p b n err)"
  unfolding store_login_def
  by (induction n arbitrary: b err) (auto simp: store_login_def intro!: keeping)

lemma keeps_renewToken [keeping]: "keeps P (renewToken e tc)"
  unfolding renewToken_def refresh_or_login_def tryTokenRefresh_def relogin_fallback_def tryRelogin_def logoutReplacedTokens_def
  by (intro keeping)

lemma keeps_getAuthenticatedFolioClient [keeping]: "keeps P (getAuthenticatedFolioClient e)"
  unfolding getAuthenticatedFolioClient_def by (intro keeping)

end

text \<open>
  Every request of a logout goes to the tenant that issued the pair, and there are three at
  most.
\<close>

lemma sends_refreshPair: "''/authn/refresh'' \<in> set paths \<Longrightarrow> sends 1 (to_client ac paths) (refreshPair e ac token)"
  unfolding refreshPair_def by (intro sends_bind_last sends_auth sending)

lemma sends_logout_request:
  assumes "''/authn/logout'' \<in> set paths" "''/authn/refresh'' \<in> set paths"
  shows "sends 1 (to_client ac paths) (logout_request e ac a r True)"
    "sends 3 (to_client ac paths) (logout_request e ac a r b)"
proof -
  have retry: "sends 2 (to_client ac paths) (logout_retry e ac r)"
    unfolding logout_retry_def using assms
    by (rule_tac sends_seq [of 1 _ _ 1]) (auto intro!: sends_refreshPair sending sends_bind_last sends_auth simp del: One_nat_def)
  show "sends 1 (to_client ac paths) (logout_request e ac a r True)"
    unfolding logout_request_def using assms
    by (rule_tac sends_seq [of 1 _ _ 0]) (auto intro!: sending sends_auth split: go_result.split simp del: One_nat_def)
  show "sends 3 (to_client ac paths) (logout_request e ac a r b)"
    unfolding logout_request_def using assms
    by (rule_tac sends_seq [of 1 _ _ 2]) (auto intro!: sending sends_auth retry simp del: One_nat_def)
qed

lemma sends_LogoutTokens:
  "sends 3 (to_client (NewAuthClient (pairOkapiURL pair) (pairOkapiTenant pair)) [''/authn/logout'', ''/authn/refresh''])
     (LogoutTokens e pair)"
  (is "sends 3 ?Q _")
proof -
  have first: "sends 3 ?Q (refresh_first e (NewAuthClient (pairOkapiURL pair) (pairOkapiTenant pair)) (RefreshToken pair))"
    unfolding refresh_first_def
    by (rule sends_seq [of 1 _ _ 1]) (auto intro!: sends_refreshPair sends_logout_request(1) sending simp del: One_nat_def)
  show ?thesis unfolding LogoutTokens_def
    by (intro sending sends_bind_read first sends_logout_request(2)) auto
qed

text \<open>
  A renewal asks the tenant's login interface at most four times, one refresh and three logins, and can replace one
  token pair, whose background logout counts for three requests.
\<close>

lemma sends_relogin_attempts:
  "''/authn/login-with-expiry'' \<in> set paths \<Longrightarrow> sends n (to_client ac paths) (relogin_attempts e ac u p b n err)"
proof (induction n arbitrary: b err)
  case (Suc n)
  have "sends (Suc n) (to_client ac paths) (Login e ac u p \<bind> (\<lambda>r. case r of
      Ok resp \<Rightarrow> store_login e resp \<bind> (\<lambda>pair. State_Monad.return (Ok (OkapiToken resp, pair)))
    | Err err \<Rightarrow> relogin_attempts e ac u p True n err | Panic \<Rightarrow> State_Monad.return Panic))"
    unfolding store_login_def using Suc by (intro sends_seq [of 1 _ _ n] sends_auth sending sends_bind_read) auto
  then show ?case unfolding relogin_attempts.simps
    by (rule_tac sends_bind_read, intro sends_if sends_reads sends_return)
       (rule sends_case_option, assumption, rule sends_return)
qed (simp add: sending)

lemma sends_renewToken:
  "sends 7 (to_client (NewAuthClient (OkapiURL tc) (OkapiTenant tc)) [''/authn/refresh'', ''/authn/login-with-expiry''])
     (renewToken e tc)"
  (is "sends 7 ?Q _")
proof -
  have relogin: "sends 6 ?Q (relogin_fallback e tc err)" for err
  proof -
    have "sends 3 ?Q (tryRelogin e tc)"
      unfolding tryRelogin_def by (intro sending sends_bind_read sends_relogin_attempts) auto
    then show ?thesis
      unfolding relogin_fallback_def logoutReplacedTokens_def
      by (rule sends_seq [where k = 3]) ((intro sending sends_bind_last; simp; fail)+, simp)
  qed
  have refresh: "sends 1 ?Q (tryTokenRefresh e tc)"
    unfolding tryTokenRefresh_def by (intro sends_bind_read [OF sends_reads(1)] sends_bind_last sends_auth sending) auto
  have "sends 7 ?Q (refresh_or_login e tc)"
    unfolding refresh_or_login_def by (rule sends_seq [of 1 _ _ 6]) (auto intro!: refresh relogin sending simp del: One_nat_def)
  then show ?thesis unfolding renewToken_def
    by (intro sending sends_bind_read) (simp_all add: sends_mono [OF relogin])
qed

subsection \<open>What a renewal leaves in the session\<close>

lemma session_Refresh: "run_state (Refresh e ac token) w = (r, w') \<Longrightarrow> wSession w' = wSession w \<and> wBackground w' = wBackground w"
  by (rule local_stateD [OF keeps_auth_local(2)])

lemma session_Login: "run_state (Login e ac u p) w = (r, w') \<Longrightarrow> wSession w' = wSession w \<and> wBackground w' = wBackground w"
  by (rule local_stateD [OF keeps_auth_local(1)])

text \<open>
  The result of an operation that may store a new pair: an error leaves the session alone, a
  token is the one the session now holds, and with a new token came a refresh token of the
  tenant the session belongs to.
\<close>

definition tokens_replaced :: "Session \<Rightarrow> Session \<Rightarrow> bool" where
  "tokens_replaced s s' \<longleftrightarrow> AuthToken s' \<noteq> [] \<and> refreshToken s' \<noteq> [] \<and> \<not> IsZero (TokenExpiresAt s') \<and>
     \<not> HasTokensFromOtherTenant s' \<and>
     s' = s\<lparr>AuthToken := AuthToken s', TokenExpiresAt := TokenExpiresAt s', refreshToken := refreshToken s',
       refreshTokenExpiresAt := refreshTokenExpiresAt s', tokenOkapiURL := tokenOkapiURL s',
       tokenTenant := tokenTenant s', LastActivity := LastActivity s'\<rparr>"

lemma storeTokens_token [simp]: "AuthToken (storeTokensLocked now a ae r re s) = a"
  by (simp add: storeTokensLocked_def)

lemma storeTokens_replaced:
  assumes "OkapiToken r \<noteq> [] \<and> lrRefreshToken r \<noteq> [] \<and> \<not> IsZero (ExpiresAt r)"
  shows "tokens_replaced s (storeTokensLocked now (OkapiToken r) (ExpiresAt r) (lrRefreshToken r) re s)"
  using assms by (simp add: tokens_replaced_def storeTokensLocked_def HasTokensFromOtherTenant_def split: option.split)

lemma tryTokenRefresh_cases:
  assumes "run_state (tryTokenRefresh e tc) w = (r, w')"
  shows "(\<exists>err. r = Err err \<and> wSession w' = wSession w) \<or>
    (r = Ok (AuthToken (wSession w')) \<and> tokens_replaced (wSession w) (wSession w'))"
proof -
  obtain r1 w1 where R: "run_state (Refresh e (NewAuthClient (OkapiURL tc) (OkapiTenant tc))
      (refreshToken (wSession w))) w = (r1, w1)" by fastforce
  note same = session_Refresh [OF R]
  show ?thesis
  proof (cases r1)
    case (Ok resp)
    with R have "tokens_replaced s (storeTokensLocked now (OkapiToken resp) (ExpiresAt resp) (lrRefreshToken resp) re s)"
      for s now re using Refresh_Ok storeTokens_replaced by blast
    then show ?thesis using assms R same Ok
      by (auto simp: tryTokenRefresh_def get_session_def time_now_def put_session_def UpdateTokens_def)
  next
    case Panic
    then show ?thesis using auth_not_Panic(2) R by (metis fst_conv)
  qed (use assms R same in \<open>auto simp: tryTokenRefresh_def get_session_def\<close>)
qed

lemma relogin_attempts_cases:
  assumes "run_state (relogin_attempts e ac u p b n lastErr) w = (r, w')"
  shows "(\<exists>err. r = Err err \<and> wSession w' = wSession w) \<or>
    (\<exists>pair. r = Ok (AuthToken (wSession w'), pair) \<and> pair = tokenPairLocked (wSession w) \<and>
       tokens_replaced (wSession w) (wSession w'))"
  using assms
proof (induction n arbitrary: b lastErr w)
  case (Suc n)
  obtain r1 w1 where L: "run_state (Login e ac u p) w = (r1, w1)" by fastforce
  note same = session_Login [OF L]
  have np: "r1 \<noteq> Panic" using auth_not_Panic(1) L by (metis fst_conv)
  show ?case
  proof (cases "b \<and> Cancelled e (wSent w) \<noteq> None")
    case True
    then show ?thesis using Suc.prems by (auto simp: check_cancelled_def)
  next
    case False
    then have run: "run_state (case r1 of Ok resp \<Rightarrow> store_login e resp \<bind> (\<lambda>pair. State_Monad.return (Ok (OkapiToken resp, pair)))
        | Err err \<Rightarrow> relogin_attempts e ac u p True n err | Panic \<Rightarrow> State_Monad.return Panic) w1 = (r, w')"
      using Suc.prems L by (auto simp: check_cancelled_def split: if_splits)
    show ?thesis
    proof (cases r1)
      case (Ok resp)
      with L have "tokens_replaced s (storeTokensLocked now (OkapiToken resp) (ExpiresAt resp) (lrRefreshToken resp) re s)"
        for s now re using Login_Ok storeTokens_replaced by blast
      then show ?thesis using run same Ok
        by (auto simp: store_login_def time_now_def update_session_def SwapTokens_def)
    next
      case (Err err)
      then show ?thesis using run Suc.IH [of True err w1] same by simp
    qed (use np in simp)
  qed
qed auto

lemma tryRelogin_cases:
  assumes "run_state (tryRelogin e tc) w = (r, w')"
  shows "(\<exists>err. r = Err err \<and> wSession w' = wSession w) \<or>
    (\<exists>pair. r = Ok (AuthToken (wSession w'), pair) \<and> pair = tokenPairLocked (wSession w) \<and>
       tokens_replaced (wSession w) (wSession w'))"
  using assms relogin_attempts_cases [of e _ _ _ _ _ _ w r w']
  by (auto simp: tryRelogin_def get_session_def split: if_splits)

lemma relogin_fallback_cases:
  assumes "run_state (relogin_fallback e tc err) w = (r, w')"
  shows "(\<exists>err. r = Err err \<and> wSession w' = wSession w) \<or>
    (r = Ok (AuthToken (wSession w')) \<and> tokens_replaced (wSession w) (wSession w'))"
proof -
  obtain r1 w1 where R: "run_state (tryRelogin e tc) w = (r1, w1)" by fastforce
  from tryRelogin_cases [OF R] show ?thesis
    using assms R
    by (auto simp: relogin_fallback_def logoutReplacedTokens_def in_background_def split: if_splits)
qed

lemma renewToken_cases:
  assumes "run_state (renewToken e tc) w = (r, w')"
  shows "(\<exists>err. r = Err err \<and> wSession w' = wSession w) \<or>
    (r = Ok (AuthToken (wSession w')) \<and>
       (wSession w' = wSession w \<and> \<not> IsTokenExpired (Clock e (wSent w)) (wSession w) \<or>
        tokens_replaced (wSession w) (wSession w')))"
proof (cases "IsTokenExpired (Clock e (wSent w)) (wSession w) \<and>
    HasValidRefreshToken (Clock e (wSent w)) TokenExpiryBuffer (wSession w)")
  case True
  obtain r1 w1 where R: "run_state (tryTokenRefresh e tc) w = (r1, w1)" by fastforce
  from tryTokenRefresh_cases [OF R] show ?thesis
    using assms R True relogin_fallback_cases [of e tc _ w1 r w']
    by (auto simp: renewToken_def refresh_or_login_def get_session_def time_now_def)
next
  case False
  then show ?thesis using assms relogin_fallback_cases [of e tc None w r w']
    by (auto simp: renewToken_def get_session_def time_now_def split: if_splits)
qed

text \<open>An authenticated client has the token the session holds; it is not empty.\<close>

lemma getAuthenticatedFolioClient_cases:
  assumes "run_state (getAuthenticatedFolioClient e) w = (r, w')"
  shows "(\<exists>err. r = Err err \<and> wSession w' = wSession w) \<or>
    (r = Ok (AuthToken (wSession w')) \<and> AuthToken (wSession w') \<noteq> [] \<and>
       (wSession w' = wSession w \<or> tokens_replaced (wSession w) (wSession w')))"
proof (cases "sessTenant (wSession w)")
  case (Some tc)
  obtain r1 w1 where R: "run_state (renewToken e tc) w = (r1, w1)" by fastforce
  from renewToken_cases [OF R] show ?thesis
    using assms R Some
    by (auto simp: getAuthenticatedFolioClient_def get_session_def time_now_def tokens_replaced_def split: if_splits)
qed (use assms in \<open>auto simp: getAuthenticatedFolioClient_def get_session_def\<close>)

lemma tokens_replaced_frame:
  assumes "tokens_replaced s s'"
  shows "sessTenant s' = sessTenant s" "PatronID s' = PatronID s" "PatronBarcode s' = PatronBarcode s"
    "Username s' = Username s" "password s' = password s" "LocationCode s' = LocationCode s"
    "IsAuthenticated s' = IsAuthenticated s" "sessID s' = sessID s"
proof -
  have "s' = s\<lparr>AuthToken := AuthToken s', TokenExpiresAt := TokenExpiresAt s', refreshToken := refreshToken s',
       refreshTokenExpiresAt := refreshTokenExpiresAt s', tokenOkapiURL := tokenOkapiURL s',
       tokenTenant := tokenTenant s', LastActivity := LastActivity s'\<rparr>" (is "_ = ?s")
    using assms by (simp add: tokens_replaced_def)
  note upd = this
  show "sessTenant s' = sessTenant s" using arg_cong [OF upd, of sessTenant] by simp
  show "PatronID s' = PatronID s" using arg_cong [OF upd, of PatronID] by simp
  show "PatronBarcode s' = PatronBarcode s" using arg_cong [OF upd, of PatronBarcode] by simp
  show "Username s' = Username s" using arg_cong [OF upd, of Username] by simp
  show "password s' = password s" using arg_cong [OF upd, of password] by simp
  show "LocationCode s' = LocationCode s" using arg_cong [OF upd, of LocationCode] by simp
  show "IsAuthenticated s' = IsAuthenticated s" using arg_cong [OF upd, of IsAuthenticated] by simp
  show "sessID s' = sessID s" using arg_cong [OF upd, of sessID] by simp
qed

end
