(* ===== verification/Go_Parse.thy ===== *)
theory Go_Parse
  imports Go_Time
begin

text \<open>
  The parsing half of \<open>internal/sip2/protocol/datetime.go\<close> and \<open>parseExpirationDate\<close> of
  \<open>internal/folio/patron.go\<close>, on the part of \<open>time.Parse\<close> that their layouts use: what each chunk of
  a layout accepts, the leniency about spaces, the fraction of a second that a layout need not
  mention, the range checks, and the time zone of the result. A date that was formatted is
  parsed back.
\<close>

datatype chunk =
    Lit string | LongYear | ZeroMonth | ZeroDay | Hour | ZeroMinute | ZeroSecond
  | FracSecond nat | NumColonTZ | ISO8601ColonTZ

record parsed =
  pYear :: int
  pMonth :: int
  pDay :: int
  pHour :: int
  pMin :: int
  pSec :: int
  pNsec :: int
  pOffset :: "int option"

definition dec :: "char \<Rightarrow> int option" where
  "dec c = (if 48 \<le> byte c \<and> byte c \<le> 57 then Some (int (byte c) - 48) else None)"

fun decs :: "int \<Rightarrow> string \<Rightarrow> int option" where
  "decs acc [] = Some acc"
| "decs acc (c # cs) = (case dec c of None \<Rightarrow> None | Some d \<Rightarrow> decs (10 * acc + d) cs)"

text \<open>\<open>atoi\<close> of package time takes a sign.\<close>

definition go_atoi :: "string \<Rightarrow> int option" where
  "go_atoi s =
     (case s of
        [] \<Rightarrow> None
      | c # cs \<Rightarrow> if c = CHR ''-'' then (if cs = [] then None else map_option uminus (decs 0 cs))
                else if c = CHR ''+'' then (if cs = [] then None else decs 0 cs)
                else decs 0 s)"

definition getnum :: "bool \<Rightarrow> string \<Rightarrow> (int \<times> string) option" where
  "getnum fixed s =
     (case s of
        [] \<Rightarrow> None
      | c # cs \<Rightarrow> (case dec c of
            None \<Rightarrow> None
          | Some a \<Rightarrow> (case cs of
                [] \<Rightarrow> if fixed then None else Some (a, [])
              | c' # cs' \<Rightarrow> (case dec c' of
                    None \<Rightarrow> if fixed then None else Some (a, cs)
                  | Some b \<Rightarrow> Some (10 * a + b, cs')))))"

definition ranged :: "int \<Rightarrow> int \<Rightarrow> (int \<times> string) option \<Rightarrow> (int \<times> string) option" where
  "ranged lo hi r = Option.bind r (\<lambda>(n, s). if lo \<le> n \<and> n < hi then Some (n, s) else None)"

definition cut_space :: "string \<Rightarrow> string" where "cut_space s = dropWhile (\<lambda>c. c = CHR '' '') s"

function skip_literal :: "string \<Rightarrow> string \<Rightarrow> string option" where
  "skip_literal [] s = Some s"
| "skip_literal (p # ps) s =
     (if p = CHR '' '' then
        (if s \<noteq> [] \<and> hd s \<noteq> CHR '' '' then None else skip_literal (cut_space ps) (cut_space s))
      else if s = [] \<or> hd s \<noteq> p then None
      else skip_literal ps (tl s))"
  by pat_completeness auto
termination
  by (relation "measure (length \<circ> fst)") (auto simp: cut_space_def le_imp_less_Suc length_dropWhile_le)

definition comma_or_period :: "char \<Rightarrow> bool" where
  "comma_or_period c \<longleftrightarrow> c = CHR ''.'' \<or> c = CHR '',''"

text \<open>The nanoseconds of a fraction of \<open>n\<close> bytes, its point included; at most nine digits count.\<close>

definition nanoseconds :: "nat \<Rightarrow> string \<Rightarrow> int option" where
  "nanoseconds n s =
     (if s = [] \<or> \<not> comma_or_period (hd s) then None
      else let k = min n 10
           in Option.bind (go_atoi (drop 1 (take k s))) (\<lambda>v. if v < 0 then None else Some (v * 10 ^ (10 - k))))"

definition digits_len :: "string \<Rightarrow> nat" where
  "digits_len s = length (takeWhile (\<lambda>c. dec c \<noteq> None) s)"

fun next_is_frac :: "chunk list \<Rightarrow> bool" where
  "next_is_frac [] = False"
| "next_is_frac (FracSecond _ # cs) = True"
| "next_is_frac (Lit _ # cs) = next_is_frac cs"
| "next_is_frac (c # cs) = False"

text \<open>Seconds may carry a fraction that the layout does not mention.\<close>

definition stray_fraction :: "chunk list \<Rightarrow> string \<Rightarrow> (int option \<times> string) option" where
  "stray_fraction rest s =
     (case s of
        c # d # _ \<Rightarrow>
          if comma_or_period c \<and> dec d \<noteq> None \<and> \<not> next_is_frac rest then
            (let n = 1 + digits_len (tl s)
             in map_option (\<lambda>v. (Some v, drop n s)) (nanoseconds n s))
          else Some (None, s)
      | _ \<Rightarrow> Some (None, s))"

definition zone_offset :: "string \<Rightarrow> (int \<times> string) option" where
  "zone_offset s =
     (if length s < 6 \<or> s ! 3 \<noteq> CHR '':'' \<or> (s ! 0 \<noteq> CHR ''+'' \<and> s ! 0 \<noteq> CHR ''-'') then None
      else Option.bind (getnum True (take 2 (drop 1 s))) (\<lambda>(h, _).
           Option.bind (getnum True (take 2 (drop 4 s))) (\<lambda>(m, _).
             if h > 24 \<or> m > 60 then None
             else Some (let v = (h * 60 + m) * 60 in if s ! 0 = CHR ''-'' then - v else v, drop 6 s))))"

fun parse_chunks :: "chunk list \<Rightarrow> string \<Rightarrow> parsed \<Rightarrow> parsed option" where
  "parse_chunks [] s p = (if s = [] then Some p else None)"
| "parse_chunks (Lit l # cs) s p = Option.bind (skip_literal l s) (\<lambda>s'. parse_chunks cs s' p)"
| "parse_chunks (LongYear # cs) s p =
     (if length s < 4 \<or> dec (hd s) = None then None
      else Option.bind (go_atoi (take 4 s)) (\<lambda>y. parse_chunks cs (drop 4 s) (p\<lparr>pYear := y\<rparr>)))"
| "parse_chunks (ZeroMonth # cs) s p =
     Option.bind (ranged 1 13 (getnum True s)) (\<lambda>(n, s'). parse_chunks cs s' (p\<lparr>pMonth := n\<rparr>))"
| "parse_chunks (ZeroDay # cs) s p =
     Option.bind (getnum True s) (\<lambda>(n, s'). parse_chunks cs s' (p\<lparr>pDay := n\<rparr>))"
| "parse_chunks (Hour # cs) s p =
     Option.bind (ranged 0 24 (getnum False s)) (\<lambda>(n, s'). parse_chunks cs s' (p\<lparr>pHour := n\<rparr>))"
| "parse_chunks (ZeroMinute # cs) s p =
     Option.bind (ranged 0 60 (getnum True s)) (\<lambda>(n, s'). parse_chunks cs s' (p\<lparr>pMin := n\<rparr>))"
| "parse_chunks (ZeroSecond # cs) s p =
     Option.bind (ranged 0 60 (getnum True s)) (\<lambda>(n, s').
       Option.bind (stray_fraction cs s') (\<lambda>(f, s'').
         parse_chunks cs s'' (p\<lparr>pSec := n, pNsec := (case f of None \<Rightarrow> pNsec p | Some v \<Rightarrow> v)\<rparr>)))"
| "parse_chunks (FracSecond n # cs) s p =
     (if length s < n + 1 then None
      else Option.bind (nanoseconds (n + 1) s) (\<lambda>v. parse_chunks cs (drop (n + 1) s) (p\<lparr>pNsec := v\<rparr>)))"
| "parse_chunks (NumColonTZ # cs) s p =
     Option.bind (zone_offset s) (\<lambda>(v, s'). parse_chunks cs s' (p\<lparr>pOffset := Some v\<rparr>))"
| "parse_chunks (ISO8601ColonTZ # cs) s p =
     (if s \<noteq> [] \<and> hd s = CHR ''Z'' then parse_chunks cs (tl s) (p\<lparr>pOffset := Some 0\<rparr>)
      else Option.bind (zone_offset s) (\<lambda>(v, s'). parse_chunks cs s' (p\<lparr>pOffset := Some v\<rparr>)))"

definition is_leap :: "int \<Rightarrow> bool" where
  "is_leap y \<longleftrightarrow> y mod 4 = 0 \<and> (y mod 100 \<noteq> 0 \<or> y mod 400 = 0)"

definition days_in :: "int \<Rightarrow> int \<Rightarrow> int" where
  "days_in y m = (if m = 2 then if is_leap y then 29 else 28 else if m \<in> {4, 6, 9, 11} then 30 else 31)"

definition wall_seconds :: "parsed \<Rightarrow> int" where
  "wall_seconds p =
     days_from_civil (pYear p) (pMonth p) (pDay p) * 86400 + pHour p * 3600 + pMin p * 60 + pSec p"

text \<open>
  \<open>time.Date\<close> in a zone looks up the offset at the wall time, and again at the instant that gives.
\<close>

definition zone_seconds :: "(int \<Rightarrow> int) \<Rightarrow> int \<Rightarrow> int" where
  "zone_seconds loc wall = (if loc wall = 0 then wall else wall - loc (wall - loc wall))"

definition go_parse_in :: "chunk list \<Rightarrow> (int \<Rightarrow> int) \<Rightarrow> string \<Rightarrow> GoTime option" where
  "go_parse_in layout loc s =
     Option.bind
       (parse_chunks layout s \<lparr>pYear = 0, pMonth = 1, pDay = 1, pHour = 0, pMin = 0, pSec = 0, pNsec = 0, pOffset = None\<rparr>)
       (\<lambda>p. if pDay p < 1 \<or> pDay p > days_in (pYear p) (pMonth p) then None
            else Some (case pOffset p of
                Some off \<Rightarrow> \<lparr>tm_ns = (wall_seconds p - off) * 1000000000 + pNsec p, tm_off = off\<rparr>
              | None \<Rightarrow> (let u = zone_seconds loc (wall_seconds p)
                        in \<lparr>tm_ns = u * 1000000000 + pNsec p, tm_off = loc u\<rparr>)))"

definition SIP2DateTimeFormat :: "chunk list" where
  "SIP2DateTimeFormat = [LongYear, ZeroMonth, ZeroDay, Lit ''    '', Hour, ZeroMinute, ZeroSecond]"

definition SIP2DateFormat :: "chunk list" where
  "SIP2DateFormat = [LongYear, ZeroMonth, ZeroDay]"

definition location_or_UTC :: "tzdb \<Rightarrow> string \<Rightarrow> int \<Rightarrow> int" where
  "location_or_UTC tz timezone = (case LoadLocation tz timezone of None \<Rightarrow> (\<lambda>_. 0) | Some loc \<Rightarrow> loc)"

definition ParseSIP2DateTime :: "tzdb \<Rightarrow> string \<Rightarrow> string \<Rightarrow> GoTime option" where
  "ParseSIP2DateTime tz s timezone =
     (if s = [] then Some zero_time else go_parse_in SIP2DateTimeFormat (location_or_UTC tz timezone) s)"

definition ParseSIP2Date :: "tzdb \<Rightarrow> string \<Rightarrow> string \<Rightarrow> GoTime option" where
  "ParseSIP2Date tz s timezone =
     (if s = [] then Some zero_time else go_parse_in SIP2DateFormat (location_or_UTC tz timezone) s)"

definition date_time_chunks :: "chunk list" where
  "date_time_chunks =
     [LongYear, Lit ''-'', ZeroMonth, Lit ''-'', ZeroDay, Lit ''T'', Hour, Lit '':'', ZeroMinute, Lit '':'', ZeroSecond]"

definition expiration_formats :: "chunk list list" where
  "expiration_formats =
     [date_time_chunks @ [FracSecond 3, NumColonTZ], date_time_chunks @ [FracSecond 3, Lit ''Z''],
      date_time_chunks @ [NumColonTZ], date_time_chunks @ [Lit ''Z''], date_time_chunks @ [ISO8601ColonTZ]]"

text \<open>The first layout that fits; a text without a zone is in UTC.\<close>

fun first_parse :: "chunk list list \<Rightarrow> string \<Rightarrow> GoTime option" where
  "first_parse [] s = None"
| "first_parse (l # ls) s = (case go_parse_in l (\<lambda>_. 0) s of Some t \<Rightarrow> Some t | None \<Rightarrow> first_parse ls s)"

definition parseExpirationDate :: "string \<Rightarrow> GoTime option" where
  "parseExpirationDate s = first_parse expiration_formats s"

text \<open>The layout \<open>2006-01-02T15:04:05.000-07:00\<close>.\<close>

definition format_folio_date :: "GoTime \<Rightarrow> string" where
  "format_folio_date t =
     (let s = local_seconds t mod 86400; off = abs (tm_off t) div 60
      in (case date_of t of (y, m, d) \<Rightarrow> append_int 4 y @ ''-'' @ append_int 2 m @ ''-'' @ append_int 2 d) @ ''T'' @
         append_int 2 (s div 3600) @ '':'' @ append_int 2 (s div 60 mod 60) @ '':'' @ append_int 2 (s mod 60) @ ''.'' @
         pad_nat 3 (nat (tm_ns t mod 1000000000 div 1000000)) @
         (if tm_off t < 0 \<and> off > 0 then ''-'' else ''+'') @ append_int 2 (off div 60) @ '':'' @ append_int 2 (off mod 60))"

subsection \<open>The date of a day exists\<close>

text \<open>A year that starts in March has a 366th day only when the February that ends it has 29.\<close>

lemma leap_day:
  assumes "year_and_day z = (y, 365)"
  shows "is_leap (y + 1)"
proof -
  define doe where "doe = z mod 146097"
  define c where "c = min (doe div 36524) 3"
  define doc where "doc = doe - 36524 * c"
  define q where "q = doc div 1461"
  define doq where "doq = doc - 1461 * q"
  define r where "r = min (doq div 365) 3"
  have y: "y = 400 * (z div 146097) + 100 * c + 4 * q + r" "365 = doq - 365 * r"
    using assms unfolding year_and_day_def Let_def doe_def [symmetric] c_def [symmetric]
      doc_def [symmetric] q_def [symmetric] doq_def [symmetric] r_def [symmetric] by simp_all
  have "0 \<le> doe" "doe \<le> 4 * 36524" using pos_mod_bound [of 146097 z] by (simp_all add: doe_def)
  then have c: "0 \<le> c" "c \<le> 3" "0 \<le> doc" "doc \<le> 36524"
    using capped_div [of doe 36524] by (simp_all add: c_def doc_def)
  have "doc div 1461 \<le> 36524 div 1461" by (rule zdiv_mono1 [OF c(4)]) simp
  then have q24: "0 \<le> q" "q \<le> 24" using c(3) by (simp_all add: q_def pos_imp_zdiv_nonneg_iff)
  have "r = 3"
  proof (rule ccontr)
    assume "r \<noteq> 3"
    then have "r = doq div 365" unfolding r_def by (simp add: min_def split: if_splits)
    then have "doq - 365 * r = doq mod 365" by (simp add: minus_mult_div_eq_mod)
    then show False using y(2) pos_mod_bound [of 365 doq] by simp
  qed
  have "c = 3" if "q = 24"
  proof (rule ccontr)
    assume "c \<noteq> 3"
    then have "c = doe div 36524" unfolding c_def by (simp add: min_def split: if_splits)
    then have "doc = doe mod 36524" by (simp add: doc_def minus_mult_div_eq_mod)
    then have "doc < 36524" using pos_mod_bound [of 36524 doe] by simp
    then show False using y(2) \<open>r = 3\<close> that by (simp add: doq_def)
  qed
  then show ?thesis
  proof (cases "q = 24")
    case True
    then have "y + 1 = 400 * (z div 146097 + 1)" using y(1) \<open>r = 3\<close> \<open>q = 24 \<Longrightarrow> c = 3\<close> by simp
    then show ?thesis by (simp add: is_leap_def)
  next
    case False
    define k where "k = 4 * (z div 146097) + c"
    have y1: "y + 1 = 4 * (q + 1) + k * 100" using y(1) \<open>r = 3\<close> by (simp add: k_def)
    have "(y + 1) mod 100 = 4 * (q + 1)"
      unfolding y1 mod_mult_self1 using False q24 by simp
    then have "(y + 1) mod 100 \<noteq> 0" using q24 by simp
    moreover have "y + 1 = 4 * (q + 1 + 25 * k)" using y1 by simp
    then have "(y + 1) mod 4 = 0" by simp
    ultimately show ?thesis unfolding is_leap_def by blast
  qed
qed

lemma civil_from_days_valid:
  assumes "civil_from_days z = (y, m, d)"
  shows "1 \<le> d \<and> d \<le> days_in y m"
proof -
  obtain y0 doy where yd: "year_and_day (z + 306) = (y0, doy)" by force
  then have b: "0 \<le> doy" "doy \<le> 365" by (auto elim: year_and_day_bounds)
  define mp where "mp = (5 * doy + 2) div 153"
  note mb = month_day_bounds [OF b mp_def]
  have mp: "0 \<le> mp" "mp \<le> 11" using mb by auto
  have ym: "m = (if mp < 10 then mp + 3 else mp - 9)" "y = (if m \<le> 2 then y0 + 1 else y0)"
    "d = doy - (153 * mp + 2) div 5 + 1"
    using assms yd by (auto simp: civil_from_days_def Let_def mp_def split: if_splits)
  have l: "153 * mp \<le> 5 * doy + 2" "5 * doy + 2 < 153 * mp + 153"
    using mp_def div_mult_mod_eq [of "5 * doy + 2" 153] pos_mod_sign [of 153 "5 * doy + 2"]
      pos_mod_bound [of 153 "5 * doy + 2"] by linarith+
  have feb: "mp = 11 \<Longrightarrow> doy = 365 \<Longrightarrow> is_leap y"
    using leap_day yd ym by simp
  then have "mp = 11 \<Longrightarrow> \<not> is_leap y \<Longrightarrow> doy \<le> 364" using b(2) by (cases "doy = 365") auto
  then show ?thesis using int_up_to_11 [OF mp] ym l b mb by (elim disjE) (auto simp: days_in_def)
qed

subsection \<open>Numbers are read back\<close>

lemma dec_digit: "d < 10 \<Longrightarrow> dec (char_of (48 + d)) = Some (int d)"
  by (simp add: dec_def)

lemma decs_append: "decs acc (x @ y) = Option.bind (decs acc x) (\<lambda>a. decs a y)"
  by (induction acc x rule: decs.induct) (auto split: option.splits)

lemma tens_ones: "10 * int (n div 10) + int (n mod 10) = int n"
  by (simp add: zdiv_int zmod_int)

lemma char_zero: "char_of (48 :: nat) = CHR ''0''"
  by (simp add: char_of_eq_iff)

lemma decs_nat_str: "decs 0 (nat_str n) = Some (int n)"
proof (induction n rule: nat_str.induct)
  case (1 n)
  then show ?case by (subst nat_str.simps) (auto simp: decs_append dec_digit tens_ones)
qed

lemma decs_zeros: "decs 0 (replicate k CHR ''0'' @ s) = decs 0 s"
  by (induction k) (simp_all add: dec_def)

lemma decs_pad_nat: "decs 0 (pad_nat w n) = Some (int n)"
  by (simp add: pad_nat_def Let_def decs_zeros decs_nat_str)

lemma pad_nat_two: "n < 100 \<Longrightarrow> pad_nat 2 n = [char_of (48 + n div 10), char_of (48 + n mod 10)]"
  by (cases "n < 10") (simp_all add: pad_nat_def Let_def nat_str.simps [of n] nat_str.simps [of "n div 10"]
      less_mult_imp_div_less char_zero)

lemma getnum_two: "0 \<le> i \<Longrightarrow> i < 100 \<Longrightarrow> getnum fixed (append_int 2 i @ s) = Some (i, s)"
proof -
  assume i: "0 \<le> i" "i < 100"
  then have "nat i < 100" by simp
  then have "append_int 2 i = [char_of (48 + nat i div 10), char_of (48 + nat i mod 10)]"
    using i by (simp add: append_int_def pad_nat_two)
  moreover have "nat i div 10 < 10" "nat i mod 10 < 10" using i by (simp_all add: less_mult_imp_div_less)
  moreover have "10 * int (nat i div 10) + int (nat i mod 10) = i" using i tens_ones [of "nat i"] by simp
  ultimately show ?thesis by (simp add: getnum_def dec_digit)
qed

lemma pad_nat_digits: "c \<in> set (pad_nat w n) \<Longrightarrow> dec c \<noteq> None"
  using nat_str_digits by (fastforce simp: pad_nat_def Let_def dec_def)

lemma go_atoi_digits: "s \<noteq> [] \<Longrightarrow> dec (hd s) \<noteq> None \<Longrightarrow> go_atoi s = decs 0 s"
  by (cases s) (auto simp: go_atoi_def dec_def split: if_splits)

lemma read_year:
  assumes "0 \<le> y" "y \<le> 9999"
  shows "length (append_int 4 y) = 4" "dec (hd (append_int 4 y @ s)) \<noteq> None" "go_atoi (append_int 4 y) = Some y"
proof -
  show l: "length (append_int 4 y) = 4" using assms by (simp add: length_append_int)
  have a: "append_int 4 y = pad_nat 4 (nat y)" using assms by (simp add: append_int_def)
  have "append_int 4 y \<noteq> []" using l by auto
  then have h: "dec (hd (append_int 4 y)) \<noteq> None" using pad_nat_digits a by (metis hd_in_set)
  then show "dec (hd (append_int 4 y @ s)) \<noteq> None" using \<open>append_int 4 y \<noteq> []\<close> by simp
  show "go_atoi (append_int 4 y) = Some y"
    using go_atoi_digits [OF \<open>append_int 4 y \<noteq> []\<close> h] a assms decs_pad_nat by simp
qed

lemma two_digits_hd: "0 \<le> i \<Longrightarrow> i < 100 \<Longrightarrow> append_int 2 i @ s \<noteq> [] \<and> hd (append_int 2 i @ s) \<noteq> CHR '' ''"
proof -
  assume i: "0 \<le> i" "i < 100"
  then have "nat i div 10 < 10" by (simp add: less_mult_imp_div_less)
  then have "dec (char_of (48 + nat i div 10)) \<noteq> None" by (simp add: dec_digit)
  moreover have "dec (CHR '' '') = None" by (simp add: dec_def)
  ultimately have "char_of (48 + nat i div 10) \<noteq> CHR '' ''" by metis
  then show ?thesis using i by (simp add: append_int_def pad_nat_two nat_less_iff)
qed


subsection \<open>A formatted date is parsed back\<close>

lemma day_seconds:
  fixes x :: int
  shows "x div 86400 * 86400 + x mod 86400 div 3600 * 3600 + x mod 86400 div 60 mod 60 * 60 + x mod 86400 mod 60 = x"
    "0 \<le> x mod 86400 div 3600" "x mod 86400 div 3600 < 24"
proof -
  define s where "s = x mod 86400"
  have s: "0 \<le> s" "s < 86400" by (simp_all add: s_def)
  have "s div 3600 = s div 60 div 60" by (simp add: zdiv_zmult2_eq [symmetric])
  then have "s div 3600 * 3600 + s div 60 mod 60 * 60 + s mod 60 = s"
    using div_mult_mod_eq [of s 60] div_mult_mod_eq [of "s div 60" 60] by linarith
  then show "x div 86400 * 86400 + x mod 86400 div 3600 * 3600 + x mod 86400 div 60 mod 60 * 60 + x mod 86400 mod 60 = x"
    using div_mult_mod_eq [of x 86400] unfolding s_def [symmetric] by linarith
  have "s div 3600 \<le> 86399 div 3600" by (rule zdiv_mono1) (use s in simp_all)
  then show "0 \<le> x mod 86400 div 3600" "x mod 86400 div 3600 < 24"
    using s unfolding s_def [symmetric] by (simp_all add: pos_imp_zdiv_nonneg_iff)
qed

lemma wall_of_date:
  assumes "date_of t = (y, m, d)"
  shows "days_from_civil y m d * 86400 + local_seconds t mod 86400 div 3600 * 3600 +
    local_seconds t mod 86400 div 60 mod 60 * 60 + local_seconds t mod 86400 mod 60 = local_seconds t"
  using days_from_civil_from_days [of "local_seconds t div 86400"] assms day_seconds(1) [of "local_seconds t"]
  by (simp add: date_of_def)

lemma parse_date_chunks:
  assumes "0 \<le> y" "y \<le> 9999" "1 \<le> m" "m \<le> 12" "1 \<le> d" "d \<le> 31"
  shows "parse_chunks (LongYear # ZeroMonth # ZeroDay # cs) (append_int 4 y @ append_int 2 m @ append_int 2 d @ s) p =
    parse_chunks cs s (p\<lparr>pYear := y, pMonth := m, pDay := d\<rparr>)"
  using assms read_year(1,3) [of y] read_year(2) [of y "append_int 2 m @ append_int 2 d @ s"]
  by (auto simp: getnum_two ranged_def)

lemma parse_time_chunks:
  assumes "0 \<le> h" "h < 24" "0 \<le> mi" "mi < 60" "0 \<le> sec" "sec < 60"
  shows "parse_chunks [Lit ''    '', Hour, ZeroMinute, ZeroSecond]
      (''    '' @ append_int 2 h @ append_int 2 mi @ append_int 2 sec) p =
    Some (p\<lparr>pHour := h, pMin := mi, pSec := sec\<rparr>)"
proof -
  have "getnum True (append_int 2 sec) = Some (sec, [])"
    using getnum_two [of sec True "[]"] assms by simp
  moreover have "skip_literal ''    '' (''    '' @ append_int 2 h @ append_int 2 mi @ append_int 2 sec) =
      Some (append_int 2 h @ append_int 2 mi @ append_int 2 sec)"
    using two_digits_hd [of h "append_int 2 mi @ append_int 2 sec"] assms
    by (cases "append_int 2 h @ append_int 2 mi @ append_int 2 sec") (simp_all add: cut_space_def)
  ultimately show ?thesis using assms
    by (simp add: getnum_two ranged_def stray_fraction_def)
qed

text \<open>
  In a zone of a fixed offset, a time of the years 0 to 9999 that is formatted and parsed is the
  same instant, without its fraction of a second.
\<close>

lemma parse_formatted:
  assumes "LoadLocation tz timezone = Some (\<lambda>_. off)" "\<not> IsZero t"
    and "date_of (in_zone tz timezone t) = (y, m, d)" "0 \<le> y" "y \<le> 9999"
  shows "ParseSIP2DateTime tz (FormatSIP2DateTime tz t timezone) timezone =
    Some \<lparr>tm_ns = tm_ns t div 1000000000 * 1000000000, tm_off = off\<rparr>"
proof -
  let ?t = "in_zone tz timezone t"
  let ?s = "local_seconds ?t mod 86400"
  have "civil_from_days (local_seconds ?t div 86400) = (y, m, d)" using assms(3) by (simp add: date_of_def)
  then have v: "1 \<le> m" "m \<le> 12" "1 \<le> d" "d \<le> days_in y m" "d \<le> 31"
    using civil_from_days_bounds civil_from_days_valid by blast+
  have formatted: "FormatSIP2DateTime tz t timezone =
      append_int 4 y @ append_int 2 m @ append_int 2 d @ ''    '' @ append_int 2 (?s div 3600) @
      append_int 2 (?s div 60 mod 60) @ append_int 2 (?s mod 60)"
    using assms(2,3) by (simp add: FormatSIP2DateTime_def format_date_time_def format_date_def Let_def)
  have "append_int 4 y \<noteq> []" using read_year(1) [OF assms(4,5)] by auto
  then have ne: "FormatSIP2DateTime tz t timezone \<noteq> []" using formatted by simp
  have tb: "0 \<le> ?s div 3600" "?s div 3600 < 24" "0 \<le> ?s div 60 mod 60" "?s div 60 mod 60 < 60"
    "0 \<le> ?s mod 60" "?s mod 60 < 60" using day_seconds by simp_all
  have loc: "location_or_UTC tz timezone = (\<lambda>_. off)" "tm_off ?t = off" "tm_ns ?t = tm_ns t"
    using assms(1) by (simp_all add: location_or_UTC_def in_zone_def)
  let ?p = "\<lparr>pYear = y, pMonth = m, pDay = d, pHour = ?s div 3600, pMin = ?s div 60 mod 60, pSec = ?s mod 60,
      pNsec = 0, pOffset = None\<rparr>"
  have chunks: "parse_chunks SIP2DateTimeFormat (FormatSIP2DateTime tz t timezone)
      \<lparr>pYear = 0, pMonth = 1, pDay = 1, pHour = 0, pMin = 0, pSec = 0, pNsec = 0, pOffset = None\<rparr> = Some ?p"
    unfolding SIP2DateTimeFormat_def formatted parse_date_chunks [OF assms(4,5) v(1,2,3,5)] parse_time_chunks [OF tb]
    by simp
  have wall: "wall_seconds ?p = tm_ns t div 1000000000 + off"
    using wall_of_date [OF assms(3)] by (simp add: wall_seconds_def) (simp add: local_seconds_def loc)
  obtain p where p: "p = ?p" by blast
  have f: "pDay p = d" "pYear p = y" "pMonth p = m" "pNsec p = 0" "pOffset p = None" by (simp_all only: p parsed.simps)
  have "ParseSIP2DateTime tz (FormatSIP2DateTime tz t timezone) timezone =
      go_parse_in SIP2DateTimeFormat (\<lambda>_. off) (FormatSIP2DateTime tz t timezone)"
    using ne loc(1) by (simp only: ParseSIP2DateTime_def if_False)
  also have "\<dots> = Some \<lparr>tm_ns = tm_ns t div 1000000000 * 1000000000, tm_off = off\<rparr>"
    unfolding go_parse_in_def chunks p [symmetric] using v f wall [folded p]
    by (simp add: zone_seconds_def Let_def)
  finally show ?thesis .
qed

end
