(* ===== verification/Folio_Clients.thy ===== *)
theory Folio_Clients
  imports Token_Auth Cql Go_Parse
begin

text \<open>
  \<open>internal/folio/patron.go\<close>, \<open>circulation.go\<close>, \<open>inventory.go\<close> and \<open>fees.go\<close>: the calls of the handlers as
  the requests they send and what they make of the answers. A collection whose total is one
  and whose list is empty makes the look-up by barcode panic, as its index does. A result that
  the answer does not fill is the zero value of its type.
\<close>

subsection \<open>Zero values\<close>

definition zero_personal :: PersonalInfo where
  "zero_personal = \<lparr>LastName = [], FirstName = [], piPreferredFirstName = [], MiddleName = [], Email = [],
     Phone = [], MobilePhone = [], DateOfBirth = None, Addresses = []\<rparr>"

definition zero_user :: User where
  "zero_user = \<lparr>userID = [], userUsername = [], Barcode = [], Active = False, PatronGroup = [],
     Personal = zero_personal, ExpirationDate = None, CustomFields = []\<rparr>"

definition zero_group :: PatronGroup where "zero_group = \<lparr>groupID = [], Group = [], Desc = []\<rparr>"

definition zero_item :: Item where
  "zero_item = \<lparr>itemID = [], HoldingsRecordID = [], InstanceID = [], itemTitle = [], itemCallNumber = [],
     itemBarcode = [], EffectiveCallNumberComponents = \<lparr>cnCallNumber = [], cnPrefix = [], cnSuffix = []\<rparr>,
     StatusName = [], MaterialTypeID = [], PermanentLocationID = [], EffectiveLocationID = [],
     InTransitDestinationServicePointID = [], CirculationNotes = [], itemInstance = None,
     itemLocation = None, itemMaterialType = None\<rparr>"

definition zero_instance :: Instance where
  "zero_instance = \<lparr>instanceID = [], Title = [], Identifiers = [], Contributors = [], Notes = []\<rparr>"

definition zero_holdings :: Holdings where "zero_holdings = \<lparr>holdingsID = [], hInstanceID = []\<rparr>"

definition zero_location :: Location where "zero_location = \<lparr>locationID = [], locationName = []\<rparr>"

definition zero_material_type :: MaterialType where
  "zero_material_type = \<lparr>materialTypeID = [], materialTypeName = []\<rparr>"

definition zero_service_point :: ServicePoint where
  "zero_service_point = \<lparr>servicePointID = [], servicePointName = []\<rparr>"

definition zero_loan :: Loan where
  "zero_loan = \<lparr>loanID = [], loanUserID = [], loanItemID = [], LoanStatusName = [], DueDate = None,
     ReturnDate = None, loanItem = None\<rparr>"

subsection \<open>Patrons\<close>

text \<open>
  The user of a barcode: no match, one match, or a refusal to act on the first of several. The
  index into an empty list panics.
\<close>

definition only_match :: "folio_error \<Rightarrow> 'a list \<times> int \<Rightarrow> (folio_error, 'a) go_result" where
  "only_match not_found found =
     (if snd found = 0 then Err not_found
      else if snd found > 1 then Err ErrAmbiguousBarcode
      else case fst found of [] \<Rightarrow> Panic | x # _ \<Rightarrow> Ok x)"

definition GetUserByBarcode :: "env \<Rightarrow> Client \<Rightarrow> string \<Rightarrow> string \<Rightarrow> (folio_error, User) go_result io" where
  "GetUserByBarcode e pc token barcode = do {
     r \<leftarrow> client_Get e pc (''/users?query='' @ QueryEscape (''barcode=='' @ cqlQuote barcode)) token
            (jsonUsers (Json e)) ([], 0);
     State_Monad.return (go_bind r (only_match (OtherError ''user not found with barcode'')))
   }"

definition GetUserByID :: "env \<Rightarrow> Client \<Rightarrow> string \<Rightarrow> string \<Rightarrow> (folio_error, User) go_result io" where
  "GetUserByID e pc token userID' = client_Get e pc (''/users/'' @ userID') token (jsonUser (Json e)) zero_user"

definition GetManualBlocks :: "env \<Rightarrow> Client \<Rightarrow> string \<Rightarrow> string \<Rightarrow> (folio_error, ManualBlock list) go_result io" where
  "GetManualBlocks e pc token userID' =
     client_Get e pc (''/manualblocks?limit='' @ int_str OKAPIUnlimitedLimit @ ''&query='' @
       QueryEscape (''userId=='' @ userID')) token (jsonManualBlocks (Json e)) []"

text \<open>A 404 means that the user has no automated blocks.\<close>

definition GetAutomatedPatronBlocks ::
  "env \<Rightarrow> Client \<Rightarrow> string \<Rightarrow> string \<Rightarrow> (folio_error, AutomatedBlock list) go_result io" where
  "GetAutomatedPatronBlocks e pc token userID' = do {
     r \<leftarrow> client_Get e pc (''/automated-patron-blocks/'' @ userID') token (jsonAutomatedBlocks (Json e)) [];
     State_Monad.return (case r of Err err \<Rightarrow> if status_is 404 err then Ok [] else Err err | Ok bs \<Rightarrow> Ok bs | Panic \<Rightarrow> Panic)
   }"

definition VerifyPatronPasswordWithLogin ::
  "env \<Rightarrow> Client \<Rightarrow> string \<Rightarrow> string \<Rightarrow> (folio_error, bool) go_result io" where
  "VerifyPatronPasswordWithLogin e pc username pw = do {
     r \<leftarrow> client_Post e pc ''/authn/login-with-expiry'' [] (login_body username pw) no_result ();
     State_Monad.return (case r of
         Ok u \<Rightarrow> Ok True
       | Err err \<Rightarrow> if status_is 401 err \<or> status_is 422 err then Ok False else Err err
       | Panic \<Rightarrow> Panic)
   }"

definition VerifyPatronPin ::
  "env \<Rightarrow> Client \<Rightarrow> string \<Rightarrow> string \<Rightarrow> string \<Rightarrow> (folio_error, bool) go_result io" where
  "VerifyPatronPin e pc token userID' pin = do {
     r \<leftarrow> PostWithTextPlainAccept e pc ''/patron-pin/verify'' token (JObj [(''id'', JStr userID'), (''pin'', JStr pin)]);
     State_Monad.return (case r of
         Ok u \<Rightarrow> Ok True
       | Err err \<Rightarrow> if status_is 422 err then Ok False else Err err
       | Panic \<Rightarrow> Panic)
   }"

definition GetPatronGroupByID :: "env \<Rightarrow> Client \<Rightarrow> string \<Rightarrow> string \<Rightarrow> (folio_error, PatronGroup) go_result io" where
  "GetPatronGroupByID e pc token groupID' =
     client_Get e pc (''/groups/'' @ groupID') token (jsonGroup (Json e)) zero_group"

text \<open>
  The record of a user is read, its expiration date replaced, and it is written back. A user
  that decodes to null is a nil map, and the assignment to it panics.
\<close>

definition expired_user :: "string \<Rightarrow> bool \<Rightarrow> (string \<times> json) list \<Rightarrow> (string \<times> json) list" where
  "expired_user date reactivate userData =
     (let u = AList.update ''expirationDate'' (JStr date) userData
      in if reactivate then AList.update ''active'' (JBool True) u else u)"

fun update_error :: "folio_error \<Rightarrow> folio_error" where
  "update_error (PermissionError oper m p c b) = PermissionError ''update user expiration'' m p c b"
| "update_error err = err"

definition UpdateUserExpiration ::
  "env \<Rightarrow> Client \<Rightarrow> string \<Rightarrow> string \<Rightarrow> string \<Rightarrow> bool \<Rightarrow> (folio_error, unit) go_result io" where
  "UpdateUserExpiration e pc token userID' newExpiration reactivate = do {
     r \<leftarrow> client_Get e pc (''/users/'' @ userID') token (jsonObject (Json e)) None;
     (case r of
        Err err \<Rightarrow> State_Monad.return (Err err)
      | Panic \<Rightarrow> State_Monad.return Panic
      | Ok userData \<Rightarrow>
          (case parseExpirationDate newExpiration of
             None \<Rightarrow> State_Monad.return (Err (OtherError ''failed to parse expiration date''))
           | Some t \<Rightarrow> (case userData of
                 None \<Rightarrow> State_Monad.return Panic
               | Some u \<Rightarrow> do {
                   r2 \<leftarrow> PutWithTextPlainAccept e pc (''/users/'' @ userID') token
                          (JObj (expired_user (format_folio_date t) reactivate u));
                   State_Monad.return (case r2 of Err err \<Rightarrow> Err (update_error err) | r3 \<Rightarrow> r3)
                 })))
   }"

subsection \<open>Circulation\<close>

record CheckoutReq =
  coItemBarcode :: string
  coUserBarcode :: string
  coServicePointID :: string
  coLoanDate :: string

record CheckinReq =
  ciItemBarcode :: string
  ciServicePointID :: string
  ciCheckInDate :: string
  ciClaimedReturnedResolution :: string

record RenewReq =
  rwItemBarcode :: string
  rwUserBarcode :: string

record RenewByIDReq =
  rbItemID :: string
  rbUserID :: string

text \<open>A member of a JSON object that is left out when it is empty.\<close>

definition omitempty :: "string \<Rightarrow> string \<Rightarrow> (string \<times> json) list" where
  "omitempty name v = (if v = [] then [] else [(name, JStr v)])"

definition circ_Checkout :: "env \<Rightarrow> Client \<Rightarrow> string \<Rightarrow> CheckoutReq \<Rightarrow> (folio_error, Loan) go_result io" where
  "circ_Checkout e cc token req =
     client_Post e cc ''/circulation/check-out-by-barcode'' token
       (JObj ([(''itemBarcode'', JStr (coItemBarcode req)), (''userBarcode'', JStr (coUserBarcode req)),
               (''servicePointId'', JStr (coServicePointID req))] @ omitempty ''loanDate'' (coLoanDate req)))
       (jsonLoan (Json e)) zero_loan"

definition circ_Checkin :: "env \<Rightarrow> Client \<Rightarrow> string \<Rightarrow> CheckinReq \<Rightarrow> (folio_error, Loan) go_result io" where
  "circ_Checkin e cc token req =
     client_Post e cc ''/circulation/check-in-by-barcode'' token
       (JObj ([(''itemBarcode'', JStr (ciItemBarcode req)), (''servicePointId'', JStr (ciServicePointID req))] @
               omitempty ''checkInDate'' (ciCheckInDate req) @
               omitempty ''claimedReturnedResolution'' (ciClaimedReturnedResolution req)))
       (jsonLoan (Json e)) zero_loan"

definition circ_Renew :: "env \<Rightarrow> Client \<Rightarrow> string \<Rightarrow> RenewReq \<Rightarrow> (folio_error, Loan) go_result io" where
  "circ_Renew e cc token req =
     client_Post e cc ''/circulation/renew-by-barcode'' token
       (JObj [(''itemBarcode'', JStr (rwItemBarcode req)), (''userBarcode'', JStr (rwUserBarcode req))])
       (jsonLoan (Json e)) zero_loan"

definition circ_RenewByID :: "env \<Rightarrow> Client \<Rightarrow> string \<Rightarrow> RenewByIDReq \<Rightarrow> (folio_error, Loan) go_result io" where
  "circ_RenewByID e cc token req =
     client_Post e cc ''/circulation/renew-by-id'' token
       (JObj [(''itemId'', JStr (rbItemID req)), (''userId'', JStr (rbUserID req))])
       (jsonLoan (Json e)) zero_loan"

definition GetOpenLoansByUser ::
  "env \<Rightarrow> Client \<Rightarrow> string \<Rightarrow> string \<Rightarrow> int \<Rightarrow> (folio_error, Loan list \<times> int) go_result io" where
  "GetOpenLoansByUser e cc token userID' limit =
     client_Get e cc (''/circulation/loans?limit='' @ int_str limit @ ''&query='' @
       QueryEscape (''userId=='' @ userID' @ '' and status.name==Open'')) token (jsonLoans (Json e)) ([], 0)"

definition quoted :: "string \<Rightarrow> string" where "quoted s = [CHR 0x22] @ s @ [CHR 0x22]"

definition GetAvailableHolds ::
  "env \<Rightarrow> Client \<Rightarrow> string \<Rightarrow> string \<Rightarrow> int \<Rightarrow> (folio_error, Request list \<times> int) go_result io" where
  "GetAvailableHolds e cc token userID' limit =
     client_Get e cc (''/circulation/requests?limit='' @ int_str limit @ ''&query='' @
       QueryEscape (''requesterId=='' @ quoted userID' @ '' and status=='' @ quoted ''Open - Awaiting pickup''))
       token (jsonRequests (Json e)) ([], 0)"

definition GetUnavailableHolds ::
  "env \<Rightarrow> Client \<Rightarrow> string \<Rightarrow> string \<Rightarrow> int \<Rightarrow> (folio_error, Request list \<times> int) go_result io" where
  "GetUnavailableHolds e cc token userID' limit =
     client_Get e cc (''/circulation/requests?limit='' @ int_str limit @ ''&query='' @
       QueryEscape (''requesterId=='' @ quoted userID' @ '' and (status=='' @ quoted ''Open - Not yet filled'' @
         '' or status=='' @ quoted ''Open - In transit'' @ '')''))
       token (jsonRequests (Json e)) ([], 0)"

definition GetLoansByItem ::
  "env \<Rightarrow> Client \<Rightarrow> string \<Rightarrow> string \<Rightarrow> (folio_error, Loan list \<times> int) go_result io" where
  "GetLoansByItem e cc token itemID' =
     client_Get e cc (''/circulation/loans?query='' @
       QueryEscape (''itemId=='' @ itemID' @ '' and status.name=='' @ quoted ''Open''))
       token (jsonLoans (Json e)) ([], 0)"

definition GetRequestsByItem ::
  "env \<Rightarrow> Client \<Rightarrow> string \<Rightarrow> string \<Rightarrow> (folio_error, Request list \<times> int) go_result io" where
  "GetRequestsByItem e cc token itemID' =
     client_Get e cc (''/circulation/requests?query='' @
       QueryEscape (''(itemId=='' @ itemID' @ '') and (status==('' @ quoted ''Open - In transit'' @ '' or '' @
         quoted ''Open - Awaiting pickup'' @ '')) sortby requestDate/sort.descending'') @ ''&limit=20'')
       token (jsonRequests (Json e)) ([], 0)"

subsection \<open>Inventory\<close>

definition GetItemByID :: "env \<Rightarrow> Client \<Rightarrow> string \<Rightarrow> string \<Rightarrow> (folio_error, Item) go_result io" where
  "GetItemByID e ic token itemID' =
     client_Get e ic (''/inventory/items/'' @ itemID') token (jsonItem (Json e)) zero_item"

definition GetItemByBarcode :: "env \<Rightarrow> Client \<Rightarrow> string \<Rightarrow> string \<Rightarrow> (folio_error, Item) go_result io" where
  "GetItemByBarcode e ic token barcode = do {
     r \<leftarrow> client_Get e ic (''/inventory/items?query='' @ QueryEscape (''barcode=='' @ cqlQuote barcode)) token
            (jsonItems (Json e)) ([], 0);
     (case go_bind r (only_match ErrItemNotFound) of
        Ok item \<Rightarrow> GetItemByID e ic token (itemID item)
      | Err err \<Rightarrow> State_Monad.return (Err err)
      | Panic \<Rightarrow> State_Monad.return Panic)
   }"

definition GetInstanceByID :: "env \<Rightarrow> Client \<Rightarrow> string \<Rightarrow> string \<Rightarrow> (folio_error, Instance) go_result io" where
  "GetInstanceByID e ic token instanceID' =
     client_Get e ic (''/inventory/instances/'' @ instanceID') token (jsonInstance (Json e)) zero_instance"

definition GetHoldingsByID :: "env \<Rightarrow> Client \<Rightarrow> string \<Rightarrow> string \<Rightarrow> (folio_error, Holdings) go_result io" where
  "GetHoldingsByID e ic token holdingsID' =
     client_Get e ic (''/holdings-storage/holdings/'' @ holdingsID') token (jsonHoldings (Json e)) zero_holdings"

definition GetLocationByID :: "env \<Rightarrow> Client \<Rightarrow> string \<Rightarrow> string \<Rightarrow> (folio_error, Location) go_result io" where
  "GetLocationByID e ic token locationID' =
     client_Get e ic (''/locations/'' @ locationID') token (jsonLocation (Json e)) zero_location"

definition GetMaterialTypeByID ::
  "env \<Rightarrow> Client \<Rightarrow> string \<Rightarrow> string \<Rightarrow> (folio_error, MaterialType) go_result io" where
  "GetMaterialTypeByID e ic token materialTypeID' =
     client_Get e ic (''/material-types/'' @ materialTypeID') token (jsonMaterialType (Json e)) zero_material_type"

definition GetServicePointByID ::
  "env \<Rightarrow> Client \<Rightarrow> string \<Rightarrow> string \<Rightarrow> (folio_error, ServicePoint) go_result io" where
  "GetServicePointByID e ic token servicePointID' =
     client_Get e ic (''/service-points/'' @ servicePointID') token (jsonServicePoint (Json e)) zero_service_point"

subsection \<open>Fees\<close>

definition eligibleAccountCQL :: string where
  "eligibleAccountCQL = ''status.name=='' @ quoted ''Open'' @ '' and paymentStatus.name<>'' @ quoted ''Suspended claim returned''"

definition GetOpenAccountsExcludingSuspended ::
  "env \<Rightarrow> Client \<Rightarrow> string \<Rightarrow> string \<Rightarrow> (folio_error, Account list) go_result io" where
  "GetOpenAccountsExcludingSuspended e fc token userID' = do {
     r \<leftarrow> client_Get e fc (''/accounts?limit='' @ int_str OKAPIUnlimitedLimit @ ''&query='' @
       QueryEscape (''userId=='' @ cqlQuote userID' @ '' and '' @ eligibleAccountCQL)) token (jsonAccounts (Json e)) ([], 0);
     State_Monad.return (go_bind r (\<lambda>found. Ok (fst found)))
   }"

text \<open>The account to pay: none when the identifier is not a UUID, and nothing is asked for then.\<close>

definition GetEligibleAccountByID ::
  "env \<Rightarrow> Client \<Rightarrow> string \<Rightarrow> string \<Rightarrow> string \<Rightarrow> (folio_error, Account option) go_result io" where
  "GetEligibleAccountByID e fc token userID' account =
     (if \<not> isUUID account then State_Monad.return (Ok None)
      else do {
        r \<leftarrow> client_Get e fc (''/accounts?query='' @
          QueryEscape (''id=='' @ cqlQuote account @ '' and userId=='' @ cqlQuote userID' @ '' and '' @ eligibleAccountCQL))
          token (jsonAccounts (Json e)) ([], 0);
        State_Monad.return (go_bind r (\<lambda>found. Ok (case fst found of [] \<Rightarrow> None | a # _ \<Rightarrow> Some a)))
      })"

record Payment =
  payAmount :: string
  payServicePointID :: string
  payUserName :: string
  payMethod :: string
  payNotifyPatron :: bool

definition payment_json :: "Payment \<Rightarrow> (string \<times> json) list" where
  "payment_json p =
     [(''amount'', JStr (payAmount p)), (''notifyPatron'', JBool (payNotifyPatron p)),
      (''servicePointId'', JStr (payServicePointID p)), (''userName'', JStr (payUserName p)),
      (''paymentMethod'', JStr (payMethod p))]"

definition PayBulkAccounts ::
  "env \<Rightarrow> Client \<Rightarrow> string \<Rightarrow> Payment \<Rightarrow> string list \<Rightarrow> (folio_error, unit) go_result io" where
  "PayBulkAccounts e fc token p accountIds =
     client_Post e fc ''/accounts-bulk/pay'' token
       (JObj (payment_json p @ [(''accountIds'', JArr (map JStr accountIds))])) no_result ()"

text \<open>The result is the remaining amount.\<close>

definition PayAccount ::
  "env \<Rightarrow> Client \<Rightarrow> string \<Rightarrow> string \<Rightarrow> Payment \<Rightarrow> (folio_error, string) go_result io" where
  "PayAccount e fc token account p =
     client_Post e fc (''/accounts/'' @ PathEscape account @ ''/pay'') token (JObj (payment_json p))
       (jsonRemaining (Json e)) []"

subsection \<open>What the calls send and keep\<close>

lemma PathEscape_query: "CHR ''?'' \<notin> set (PathEscape s)"
proof -
  have q: "\<not> unreserved (CHR ''?'')" by (simp add: unreserved_def)
  have "CHR ''?'' \<notin> set (path_byte c)" for c
  proof (cases "unreserved c \<or> c \<in> set ''$&+=:@''")
    case True
    then have "c \<noteq> CHR ''?''" using q by auto
    then show ?thesis using True by (simp only: path_byte_def if_True) simp
  next
    case False
    have "unreserved (hex_digit (byte c div 16))" "unreserved (hex_digit (byte c mod 16))" by (simp_all add: hex_digit_alnum)
    then have "hex_digit (byte c div 16) \<noteq> CHR ''?''" "hex_digit (byte c mod 16) \<noteq> CHR ''?''" using q by metis+
    then show ?thesis using False by (simp only: path_byte_def if_False) simp
  qed
  then show ?thesis by (simp add: PathEscape_def)
qed

lemmas client_endpoints = endpoints_in_table queries_in_table items_in_table pay_in_table [OF PathEscape_query]

context world_policy
begin

lemma keeps_patron_calls [keeping]:
  "keeps P (GetUserByBarcode e c token b)" "keeps P (GetUserByID e c token b)"
  "keeps P (GetManualBlocks e c token b)"
  "keeps P (GetAutomatedPatronBlocks e c token b)"
  "keeps P (VerifyPatronPasswordWithLogin e c username pw)"
  "keeps P (VerifyPatronPin e c token b pin)"
  "keeps P (GetPatronGroupByID e c token b)"
  unfolding GetUserByBarcode_def GetUserByID_def GetManualBlocks_def GetAutomatedPatronBlocks_def
    VerifyPatronPasswordWithLogin_def VerifyPatronPin_def GetPatronGroupByID_def
  by (intro keeping keeps_Get keeps_Post keeps_text_plain client_endpoints; simp)+

lemma keeps_circulation_calls [keeping]:
  "keeps P (circ_Checkout e c token co)" "keeps P (circ_Checkin e c token ci)"
  "keeps P (circ_Renew e c token rw)" "keeps P (circ_RenewByID e c token rb)"
  "keeps P (GetOpenLoansByUser e c token b n)"
  "keeps P (GetAvailableHolds e c token b n)"
  "keeps P (GetUnavailableHolds e c token b n)"
  "keeps P (GetLoansByItem e c token b)" "keeps P (GetRequestsByItem e c token b)"
  unfolding circ_Checkout_def circ_Checkin_def circ_Renew_def circ_RenewByID_def GetOpenLoansByUser_def
    GetAvailableHolds_def GetUnavailableHolds_def GetLoansByItem_def GetRequestsByItem_def
  by (intro keeping keeps_Get keeps_Post client_endpoints; simp)+

lemma keeps_fees_calls [keeping]:
  "keeps P (GetOpenAccountsExcludingSuspended e c token b)"
  "keeps P (GetEligibleAccountByID e c token b a)"
  "keeps P (PayBulkAccounts e c token p ids)" "keeps P (PayAccount e c token a p)"
  "keeps P (UpdateUserExpiration e c token b x reactivate)"
  unfolding GetOpenAccountsExcludingSuspended_def GetEligibleAccountByID_def PayBulkAccounts_def PayAccount_def
    UpdateUserExpiration_def
  by (intro keeping keeps_Get keeps_Post keeps_text_plain client_endpoints; simp)+

lemma keeps_inventory_calls [keeping]:
  "keeps P (GetItemByID e c token b)" "keeps P (GetItemByBarcode e c token b)"
  "keeps P (GetInstanceByID e c token b)" "keeps P (GetHoldingsByID e c token b)"
  "keeps P (GetLocationByID e c token b)"
  "keeps P (GetMaterialTypeByID e c token b)"
  "keeps P (GetServicePointByID e c token b)"
  unfolding GetItemByBarcode_def GetItemByID_def GetInstanceByID_def GetHoldingsByID_def GetLocationByID_def
    GetMaterialTypeByID_def GetServicePointByID_def
  by (intro keeping keeps_Get client_endpoints; simp)+

end

lemma keeps_calls_local [keeping]:
  "keeps (local_state s b) (GetUserByBarcode e c token x)" "keeps (local_state s b) (GetUserByID e c token x)"
  "keeps (local_state s b) (GetManualBlocks e c token x)"
  "keeps (local_state s b) (GetAutomatedPatronBlocks e c token x)"
  "keeps (local_state s b) (VerifyPatronPasswordWithLogin e c username pw)"
  "keeps (local_state s b) (VerifyPatronPin e c token x pin)"
  "keeps (local_state s b) (GetPatronGroupByID e c token x)"
  "keeps (local_state s b) (circ_Checkout e c token co)" "keeps (local_state s b) (circ_Checkin e c token ci)"
  "keeps (local_state s b) (circ_Renew e c token rw)" "keeps (local_state s b) (circ_RenewByID e c token rb)"
  "keeps (local_state s b) (GetOpenLoansByUser e c token x n)"
  "keeps (local_state s b) (GetAvailableHolds e c token x n)"
  "keeps (local_state s b) (GetUnavailableHolds e c token x n)"
  "keeps (local_state s b) (GetLoansByItem e c token x)" "keeps (local_state s b) (GetRequestsByItem e c token x)"
  "keeps (local_state s b) (GetItemByID e c token x)" "keeps (local_state s b) (GetItemByBarcode e c token x)"
  "keeps (local_state s b) (GetInstanceByID e c token x)" "keeps (local_state s b) (GetHoldingsByID e c token x)"
  "keeps (local_state s b) (GetLocationByID e c token x)" "keeps (local_state s b) (GetMaterialTypeByID e c token x)"
  "keeps (local_state s b) (GetServicePointByID e c token x)"
  unfolding GetUserByBarcode_def GetUserByID_def GetManualBlocks_def GetAutomatedPatronBlocks_def
    VerifyPatronPasswordWithLogin_def VerifyPatronPin_def GetPatronGroupByID_def circ_Checkout_def circ_Checkin_def
    circ_Renew_def circ_RenewByID_def GetOpenLoansByUser_def GetAvailableHolds_def GetUnavailableHolds_def
    GetLoansByItem_def GetRequestsByItem_def GetItemByBarcode_def GetItemByID_def GetInstanceByID_def
    GetHoldingsByID_def GetLocationByID_def GetMaterialTypeByID_def GetServicePointByID_def
  by (intro keeping)+

lemma keeps_fees_local [keeping]:
  "keeps (local_state s b) (GetOpenAccountsExcludingSuspended e c token x)"
  "keeps (local_state s b) (GetEligibleAccountByID e c token x a)"
  "keeps (local_state s b) (PayBulkAccounts e c token p ids)" "keeps (local_state s b) (PayAccount e c token a p)"
  "keeps (local_state s b) (UpdateUserExpiration e c token x d reactivate)"
  unfolding GetOpenAccountsExcludingSuspended_def GetEligibleAccountByID_def PayBulkAccounts_def PayAccount_def
    UpdateUserExpiration_def
  by (intro keeping)+

text \<open>The barcode of a look-up reaches FOLIO as one literal term.\<close>

lemma GetUserByBarcode_query:
  "\<exists>q. wSent (snd (run_state (GetUserByBarcode e pc token barcode) w)) = wSent w @ q \<and>
     (\<forall>rq \<in> set q. rqPath rq = ''/users?query='' @ QueryEscape (''barcode=='' @ cqlQuote barcode)) \<and> length q \<le> 1"
  by (auto simp: GetUserByBarcode_def client_Get_def client_do_def send_def request_def split: prod.split)

lemma only_match_Ok: "only_match nf found = Ok x \<Longrightarrow> x \<in> set (fst found) \<and> snd found \<le> 1"
  by (auto simp: only_match_def split: if_splits list.splits)

text \<open>How many requests a call is.\<close>

lemma sends_client [sending]:
  "sends 1 (\<lambda>_. True) (client_Get e cl path token decode zero)"
  "sends 1 (\<lambda>_. True) (client_Post e cl path token body decode zero)"
  "sends 1 (\<lambda>_. True) (PostWithTextPlainAccept e cl path token body)"
  "sends 1 (\<lambda>_. True) (PutWithTextPlainAccept e cl path token body)"
  unfolding client_Get_def client_Post_def PostWithTextPlainAccept_def PutWithTextPlainAccept_def
  by (intro sends_bind_last sending sends_client_do TrueI)+

lemma sends_calls [sending]:
  "sends 1 (\<lambda>_. True) (GetUserByBarcode e c token x)" "sends 1 (\<lambda>_. True) (GetUserByID e c token x)"
  "sends 1 (\<lambda>_. True) (GetManualBlocks e c token x)" "sends 1 (\<lambda>_. True) (GetAutomatedPatronBlocks e c token x)"
  "sends 1 (\<lambda>_. True) (VerifyPatronPasswordWithLogin e c username pw)"
  "sends 1 (\<lambda>_. True) (VerifyPatronPin e c token x pin)" "sends 1 (\<lambda>_. True) (GetPatronGroupByID e c token x)"
  "sends 1 (\<lambda>_. True) (circ_Checkout e c token co)" "sends 1 (\<lambda>_. True) (circ_Checkin e c token ci)"
  "sends 1 (\<lambda>_. True) (circ_Renew e c token rw)" "sends 1 (\<lambda>_. True) (circ_RenewByID e c token rb)"
  "sends 1 (\<lambda>_. True) (GetOpenLoansByUser e c token x n)" "sends 1 (\<lambda>_. True) (GetAvailableHolds e c token x n)"
  "sends 1 (\<lambda>_. True) (GetUnavailableHolds e c token x n)" "sends 1 (\<lambda>_. True) (GetLoansByItem e c token x)"
  "sends 1 (\<lambda>_. True) (GetRequestsByItem e c token x)" "sends 1 (\<lambda>_. True) (GetItemByID e c token x)"
  "sends 1 (\<lambda>_. True) (GetInstanceByID e c token x)" "sends 1 (\<lambda>_. True) (GetHoldingsByID e c token x)"
  "sends 1 (\<lambda>_. True) (GetLocationByID e c token x)" "sends 1 (\<lambda>_. True) (GetMaterialTypeByID e c token x)"
  "sends 1 (\<lambda>_. True) (GetServicePointByID e c token x)"
  unfolding GetUserByBarcode_def GetUserByID_def GetManualBlocks_def GetAutomatedPatronBlocks_def
    VerifyPatronPasswordWithLogin_def VerifyPatronPin_def GetPatronGroupByID_def circ_Checkout_def circ_Checkin_def
    circ_Renew_def circ_RenewByID_def GetOpenLoansByUser_def GetAvailableHolds_def GetUnavailableHolds_def
    GetLoansByItem_def GetRequestsByItem_def GetItemByID_def GetInstanceByID_def
    GetHoldingsByID_def GetLocationByID_def GetMaterialTypeByID_def GetServicePointByID_def
  by (intro sends_client | rule sends_bind_last [OF sends_client(1)] sends_bind_last [OF sends_client(2)]
      sends_bind_last [OF sends_client(3)], rule sends_return)+

lemma sends_fees_calls [sending]:
  "sends 1 (\<lambda>_. True) (GetOpenAccountsExcludingSuspended e c token x)"
  "sends 1 (\<lambda>_. True) (GetEligibleAccountByID e c token x a)"
  "sends 1 (\<lambda>_. True) (PayBulkAccounts e c token p ids)" "sends 1 (\<lambda>_. True) (PayAccount e c token a p)"
  unfolding GetOpenAccountsExcludingSuspended_def GetEligibleAccountByID_def PayBulkAccounts_def PayAccount_def
  by (intro sending sends_bind_last)+

lemma sends_UpdateUserExpiration [sending]:
  "sends 2 (\<lambda>_. True) (UpdateUserExpiration e c token x d reactivate)"
  unfolding UpdateUserExpiration_def
  by (rule sends_seq [of 1 _ _ 1]) (auto intro!: sending sends_bind_last simp del: One_nat_def
      split: option.split go_result.split)

lemma sends_GetItemByBarcode [sending]: "sends 2 (\<lambda>_. True) (GetItemByBarcode e c token x)"
  unfolding GetItemByBarcode_def by (rule sends_seq [of 1 _ _ 1]) (auto intro!: sending simp del: One_nat_def)

end
