(* ===== verification/Handlers_Core.thy ===== *)
theory Handlers_Core
  imports Folio_Clients Builder
begin

text \<open>
  The handlers' common part (\<open>internal/handlers/base.go\<close>, \<open>verification.go\<close>): required fields, the
  letters of the patron status, names and fee fields. A handler takes the message and works on
  the state of the connection; its result is the response or an error. Each handler first logs
  the tenant of the session, which panics when there is none.
\<close>

type_synonym handler = "env \<Rightarrow> Message \<Rightarrow> (folio_error, string) go_result io"

abbreviation (input) respond :: "string \<Rightarrow> (folio_error, string) go_result io" where
  "respond r \<equiv> State_Monad.return (Ok r)"

definition with_tenant ::
  "(TenantConfig \<Rightarrow> (folio_error, 'a) go_result io) \<Rightarrow> (folio_error, 'a) go_result io" where
  "with_tenant f = do {
     s \<leftarrow> get_session;
     (case sessTenant s of None \<Rightarrow> State_Monad.return Panic | Some tc \<Rightarrow> f tc)
   }"

text \<open>A call, what follows its success and what follows its error; a panic ends the handler.\<close>

definition try_io ::
  "('e, 'a) go_result io \<Rightarrow> ('a \<Rightarrow> ('f, 'b) go_result io) \<Rightarrow> ('e \<Rightarrow> ('f, 'b) go_result io) \<Rightarrow> ('f, 'b) go_result io" where
  "try_io m f g = do {
     r \<leftarrow> m;
     (case r of Ok x \<Rightarrow> f x | Err err \<Rightarrow> g err | Panic \<Rightarrow> State_Monad.return Panic)
   }"

lemma keeps_try_io [keeping]:
  "keeps P m \<Longrightarrow> (\<And>x. keeps P (f x)) \<Longrightarrow> (\<And>err. keeps P (g err)) \<Longrightarrow> keeps P (try_io m f g)"
  unfolding try_io_def by (intro keeping)

lemma keeps_with_tenant [keeping]: "(\<And>tc. keeps P (f tc)) \<Longrightarrow> keeps P (with_tenant f)"
  unfolding with_tenant_def by (intro keeping)

lemma run_try_io:
  "run_state m w = (r, w1) \<Longrightarrow> run_state (try_io m f g) w =
     (case r of Ok x \<Rightarrow> run_state (f x) w1 | Err err \<Rightarrow> run_state (g err) w1 | Panic \<Rightarrow> (Panic, w1))"
  by (simp add: try_io_def split: go_result.split)

lemma run_with_tenant:
  "run_state (with_tenant f) w =
     (case sessTenant (wSession w) of None \<Rightarrow> (Panic, w) | Some tc \<Rightarrow> run_state (f tc) w)"
  by (simp add: with_tenant_def get_session_def split: option.split)

text \<open>A call of at most \<open>n\<close> requests and what follows it.\<close>

lemma sends_try_io:
  "sends n Q m \<Longrightarrow> (\<And>x. sends k Q (f x)) \<Longrightarrow> (\<And>err. sends k Q (g err)) \<Longrightarrow> n + k \<le> t \<Longrightarrow> sends t Q (try_io m f g)"
  unfolding try_io_def by (rule sends_seq) (auto intro: sending)

lemma sends_with_tenant [sending]: "(\<And>tc. sends n Q (f tc)) \<Longrightarrow> sends n Q (with_tenant f)"
  unfolding with_tenant_def by (intro sends_bind_read sending)

lemma run_unit: obtains w' where "run_state m w = ((), w')"
  by (metis (full_types) old.unit.exhaust surj_pair)

subsection \<open>Required fields, names, blocks\<close>

definition validateRequiredField :: "Message \<Rightarrow> FieldCode \<Rightarrow> bool" where
  "validateRequiredField msg code \<longleftrightarrow> msg_GetField msg code \<noteq> []"

text \<open>The fields are looked at in no particular order; the error is only logged.\<close>

definition validateRequiredFields :: "Message \<Rightarrow> FieldCode list \<Rightarrow> bool" where
  "validateRequiredFields msg codes \<longleftrightarrow> list_all (validateRequiredField msg) codes"

definition mark :: "nat \<Rightarrow> bool \<Rightarrow> string \<Rightarrow> string" where
  "mark i b s = (if b then s[i := CHR ''Y''] else s)"

definition manual_marks :: "ManualBlock \<Rightarrow> string \<Rightarrow> string" where
  "manual_marks b s = mark 3 (Requests b) (mark 1 (Renewals b) (mark 0 (Borrowing b) s))"

definition automated_marks :: "AutomatedBlock \<Rightarrow> string \<Rightarrow> string" where
  "automated_marks b s = mark 3 (BlockRequests b) (mark 1 (BlockRenewals b) (mark 0 (BlockBorrowing b) s))"

definition patronStatusString ::
  "bool \<Rightarrow> User option \<Rightarrow> ManualBlock list option \<Rightarrow> AutomatedBlock list option \<Rightarrow> string" where
  "patronStatusString valid user manualBlocks automatedBlocks =
     (if \<not> valid \<or> user = None then replicate 14 CHR ''Y''
      else fold automated_marks (case automatedBlocks of None \<Rightarrow> [] | Some bs \<Rightarrow> bs)
             (fold manual_marks (case manualBlocks of None \<Rightarrow> [] | Some bs \<Rightarrow> bs) (replicate 14 CHR '' '')))"

text \<open>
  What the 14 letters say: a patron is denied what one of the blocks denies, and everything when
  the patron is not valid.
\<close>

definition blocks_of :: "'a list option \<Rightarrow> 'a list" where
  "blocks_of bs = (case bs of None \<Rightarrow> [] | Some xs \<Rightarrow> xs)"

definition privilege_denied :: "ManualBlock list \<Rightarrow> AutomatedBlock list \<Rightarrow> nat \<Rightarrow> bool" where
  "privilege_denied ms as j \<longleftrightarrow>
     j = 0 \<and> (list_ex Borrowing ms \<or> list_ex BlockBorrowing as) \<or>
     j = 1 \<and> (list_ex Renewals ms \<or> list_ex BlockRenewals as) \<or>
     j = 3 \<and> (list_ex Requests ms \<or> list_ex BlockRequests as)"

lemma mark_spec: "mark i b (map f [0..<14]) = map (\<lambda>j. if j = i \<and> b then CHR ''Y'' else f j) [0..<14]"
  by (auto simp: mark_def nth_list_update intro!: nth_equalityI)

lemma marks_spec:
  "fold manual_marks ms (map f [0..<14]) =
     map (\<lambda>j. if privilege_denied ms [] j then CHR ''Y'' else f j) [0..<14]"
  "fold automated_marks as (map f [0..<14]) =
     map (\<lambda>j. if privilege_denied [] as j then CHR ''Y'' else f j) [0..<14]"
proof -
  show "fold manual_marks ms (map f [0..<14]) =
      map (\<lambda>j. if privilege_denied ms [] j then CHR ''Y'' else f j) [0..<14]"
  proof (induction ms arbitrary: f)
    case (Cons b ms)
    then show ?case
      by (simp only: fold_Cons comp_apply manual_marks_def mark_spec) (auto simp: privilege_denied_def)
  qed (simp add: privilege_denied_def)
  show "fold automated_marks as (map f [0..<14]) =
      map (\<lambda>j. if privilege_denied [] as j then CHR ''Y'' else f j) [0..<14]"
  proof (induction as arbitrary: f)
    case (Cons b "as")
    then show ?case
      by (simp only: fold_Cons comp_apply automated_marks_def mark_spec) (auto simp: privilege_denied_def)
  qed (simp add: privilege_denied_def)
qed

lemma patronStatusString_spec:
  "patronStatusString valid user mb ab =
     map (\<lambda>j. if valid \<and> user \<noteq> None \<and> \<not> privilege_denied (blocks_of mb) (blocks_of ab) j then CHR '' '' else CHR ''Y'')
       [0..<14]"
proof -
  have "replicate 14 c = map (\<lambda>j. c) [0..<14]" for c :: char by (rule nth_equalityI) simp_all
  then show ?thesis
    by (auto simp: patronStatusString_def marks_spec blocks_of_def [symmetric]) (auto simp: privilege_denied_def)
qed

definition formatPatronName :: "User option \<Rightarrow> bool \<Rightarrow> string" where
  "formatPatronName user usePreferred =
     (case user of
        None \<Rightarrow> []
      | Some u \<Rightarrow>
          (let p = Personal u;
               firstName = (if usePreferred \<and> piPreferredFirstName p \<noteq> [] then piPreferredFirstName p else FirstName p)
           in if LastName p \<noteq> [] \<or> firstName \<noteq> [] then
                if firstName \<noteq> [] \<and> LastName p \<noteq> [] then LastName p @ '', '' @ firstName
                else if LastName p \<noteq> [] then LastName p
                else firstName
              else userUsername u))"

definition formatRequestorName :: "RequestRequester option \<Rightarrow> string" where
  "formatRequestorName requester =
     (case requester of
        None \<Rightarrow> []
      | Some r \<Rightarrow> if rqrLastName r = [] then []
                  else if rqrFirstName r \<noteq> [] then rqrLastName r @ '', '' @ rqrFirstName r
                  else rqrLastName r)"

subsection \<open>Titles\<close>

definition the_client :: "TenantConfig \<Rightarrow> Client" where
  "the_client tc = NewClient (OkapiURL tc) (OkapiTenant tc)"

definition fetchItemTitle :: "env \<Rightarrow> Client \<Rightarrow> string \<Rightarrow> string \<Rightarrow> (folio_error, string) go_result io" where
  "fetchItemTitle e ic token barcode =
     try_io (GetItemByBarcode e ic token barcode)
       (\<lambda>item. if HoldingsRecordID item = [] then State_Monad.return (Err (OtherError ''item has no holdings record ID''))
         else try_io (GetHoldingsByID e ic token (HoldingsRecordID item))
           (\<lambda>holdings. if hInstanceID holdings = [] then
                State_Monad.return (Err (OtherError ''holdings record has no instance ID''))
              else try_io (GetInstanceByID e ic token (hInstanceID holdings))
                (\<lambda>inst. State_Monad.return (Ok (Title inst)))
                (\<lambda>err. State_Monad.return (Err err)))
           (\<lambda>err. State_Monad.return (Err err)))
       (\<lambda>err. State_Monad.return (Err err))"

subsection \<open>Verification of a patron\<close>

record VerificationResult =
  Verified :: bool
  Required :: bool
  VerifyError :: "folio_error option"

definition verified_by :: "(folio_error, bool) go_result \<Rightarrow> (folio_error, VerificationResult) go_result" where
  "verified_by r =
     (case r of
        Ok b \<Rightarrow> Ok (if b then \<lparr>Verified = True, Required = True, VerifyError = None\<rparr>
                    else \<lparr>Verified = False, Required = True, VerifyError = Some ErrVerificationFailed\<rparr>)
      | Err err \<Rightarrow> Ok \<lparr>Verified = False, Required = True, VerifyError = Some err\<rparr>
      | Panic \<Rightarrow> Panic)"

definition VerifyPatronCredentials ::
  "env \<Rightarrow> TenantConfig \<Rightarrow> string \<Rightarrow> string \<Rightarrow> string \<Rightarrow> string \<Rightarrow> (folio_error, VerificationResult) go_result io" where
  "VerifyPatronCredentials e tc token uid patronIdentifier patronPassword =
     (if \<not> PatronPasswordVerificationRequired tc then
        State_Monad.return (Ok \<lparr>Verified = True, Required = False, VerifyError = None\<rparr>)
      else if patronPassword = [] then
        State_Monad.return (Ok \<lparr>Verified = False, Required = True, VerifyError = Some ErrVerificationRequired\<rparr>)
      else if UsePinForPatronVerification tc then do {
        r \<leftarrow> VerifyPatronPin e (the_client tc) token uid patronPassword;
        State_Monad.return (verified_by r)
      }
      else do {
        r \<leftarrow> VerifyPatronPasswordWithLogin e (the_client tc) patronIdentifier patronPassword;
        State_Monad.return (verified_by r)
      })"

definition GetVerificationErrorMessage :: string where
  "GetVerificationErrorMessage =
     ''Your library card number cannot be located. Please see a staff member for assistance.''"

end
