(* ===== verification/Handlers_Session.thy ===== *)
theory Handlers_Session
  imports Handlers_Core
begin

text \<open>
  The handlers of the connection itself: \<open>internal/handlers/login.go\<close> (93), \<open>end_session.go\<close> (35),
  \<open>resend.go\<close> (97), \<open>sc_status.go\<close> (99) and \<open>item_status_update.go\<close> (19), and what they do to the
  session.
\<close>

text \<open>A response that the builder refuses falls back to a text without framing.\<close>

definition or_else :: "('e, string) go_result \<Rightarrow> string \<Rightarrow> ('f, string) go_result" where
  "or_else r fallback = (case r of Ok x \<Rightarrow> Ok x | Err err \<Rightarrow> Ok fallback | Panic \<Rightarrow> Panic)"

subsection \<open>Login\<close>

definition buildLoginResponse ::
  "env \<Rightarrow> TenantConfig \<Rightarrow> bool \<Rightarrow> string \<Rightarrow> (folio_error, string) go_result" where
  "buildLoginResponse e tc ok sequenceNumber =
     (let content = (if ok then ''1'' else ''0'') @ ''00''
      in or_else (Build (Encoders e) tc LoginResponse content sequenceNumber) (''94'' @ content))"

definition sessionCredentialsMatch :: "Session \<Rightarrow> string \<Rightarrow> string \<Rightarrow> bool" where
  "sessionCredentialsMatch s username pw =
     (if password s = [] \<or> username \<noteq> Username s then False else pw = password s)"

text \<open>
  The end of a login that FOLIO refused: a pair of the tenant the session was moved away from is
  taken out, the authentication dropped, and the pair's Keycloak session ended in the background.
\<close>

definition login_refused :: "env \<Rightarrow> unit io" where
  "login_refused e = do {
     s \<leftarrow> get_session;
     if HasTokensFromOtherTenant s then do {
       replaced \<leftarrow> update_session TakeTokens;
       now \<leftarrow> time_now e;
       put_session (Clear now);
       logoutReplacedTokens replaced LogoutReasonTenantChanged
     }
     else State_Monad.return ()
   }"

definition login_accepted :: "env \<Rightarrow> string \<Rightarrow> string \<Rightarrow> AuthResponse \<Rightarrow> unit io" where
  "login_accepted e username pw resp = do {
     replaced \<leftarrow> store_login e resp;
     now \<leftarrow> time_now e;
     put_session (SetAuthenticated now username [] [] (OkapiToken resp) (ExpiresAt resp));
     put_session (SetAuthCredentials pw);
     logoutReplacedTokens replaced LogoutReasonRelogin93
   }"

definition login_attempt ::
  "env \<Rightarrow> TenantConfig \<Rightarrow> Message \<Rightarrow> (folio_error, string) go_result io" where
  "login_attempt e tc msg =
     (let username = msg_GetField msg F_LoginUserID;
          pw = msg_GetField msg F_LoginPassword
      in try_io (Login e (NewAuthClient (OkapiURL tc) (OkapiTenant tc)) username pw)
        (\<lambda>resp. do {
           u \<leftarrow> login_accepted e username pw resp;
           State_Monad.return (buildLoginResponse e tc True (msgSequenceNumber msg))
         })
        (\<lambda>err. do {
           u \<leftarrow> login_refused e;
           State_Monad.return (buildLoginResponse e tc False (msgSequenceNumber msg))
         }))"

definition set_location :: "string \<Rightarrow> unit io" where
  "set_location l = (if l \<noteq> [] then put_session (SetLocationCode l) else State_Monad.return ())"

definition LoginHandler_Handle :: handler where
  "LoginHandler_Handle e msg = with_tenant (\<lambda>tc.
     if \<not> validateRequiredFields msg [F_LoginUserID, F_LoginPassword] then
       State_Monad.return (buildLoginResponse e tc False (msgSequenceNumber msg))
     else do {
       u \<leftarrow> set_location (msg_GetField msg F_LocationCode);
       s \<leftarrow> get_session;
       now \<leftarrow> time_now e;
       if IsAuthenticated s \<and> \<not> IsTokenExpired now s \<and> \<not> HasTokensFromOtherTenant s \<and>
          sessionCredentialsMatch s (msg_GetField msg F_LoginUserID) (msg_GetField msg F_LoginPassword) then
         State_Monad.return (buildLoginResponse e tc True (msgSequenceNumber msg))
       else login_attempt e tc msg
     })"

subsection \<open>End of a patron session\<close>

definition buildEndSessionResponse :: "env \<Rightarrow> bool \<Rightarrow> string \<Rightarrow> string \<Rightarrow> string io" where
  "buildEndSessionResponse e ok institutionID patronIdentifier = do {
     now \<leftarrow> time_now e;
     State_Monad.return
       (''36'' @ (if ok then ''Y'' else ''N'') @ FormatSIP2DateTime (Zones e) now ''    '' @
        BuildPrefixedField ''AO'' institutionID ''|'' @
        BuildPrefixedField ''AA'' patronIdentifier ''|'' @
        (if ok then ''|AFSession ended successfully'' else ''|AFFailed to end session''))
   }"

definition EndSessionHandler_Handle :: handler where
  "EndSessionHandler_Handle e msg = with_tenant (\<lambda>tc.
     if \<not> validateRequiredFields msg [F_PatronIdentifier] then do {
       r \<leftarrow> buildEndSessionResponse e False [] [];
       respond r
     }
     else do {
       now \<leftarrow> time_now e;
       put_session (ClearPatron now);
       r \<leftarrow> buildEndSessionResponse e True (msg_GetField msg F_InstitutionID) (msg_GetField msg F_PatronIdentifier);
       respond r
     })"

subsection \<open>Resend\<close>

definition buildResendResponse :: string where "buildResendResponse = ''96''"

definition ResendHandler_Handle :: handler where
  "ResendHandler_Handle e msg = with_tenant (\<lambda>tc. respond buildResendResponse)"

subsection \<open>Status of the service\<close>

definition acs_status_content :: "env \<Rightarrow> TenantConfig \<Rightarrow> Session \<Rightarrow> GoTime \<Rightarrow> string" where
  "acs_status_content e tc s now =
     ''Y'' @
     (if IsMessageSupported tc ''09'' then ''Y'' else ''N'') @
     (if IsMessageSupported tc ''11'' then ''Y'' else ''N'') @
     ''N'' @
     (if StatusUpdateOk tc then ''Y'' else ''N'') @
     (if OfflineOk tc then ''Y'' else ''N'') @
     GetTimeoutPeriod tc @
     GetRetriesAllowed tc @
     FormatSIP2DateTime (Zones e) now ''    '' @
     ''2.00'' @
     BuildPrefixedField ''AO'' (GetInstitutionID tc) ''|'' @
     BuildPrefixedField ''AM'' (GetLibraryName tc) ''|'' @
     BuildPrefixedField ''BX'' (BuildSupportedMessages tc) ''|'' @
     (if LocationCode s \<noteq> [] then BuildPrefixedField ''AN'' (LocationCode s) ''|'' else [])"

definition buildACSStatusResponse ::
  "env \<Rightarrow> TenantConfig \<Rightarrow> string \<Rightarrow> (folio_error, string) go_result io" where
  "buildACSStatusResponse e tc sequenceNumber = do {
     now \<leftarrow> time_now e;
     s \<leftarrow> get_session;
     (let content = acs_status_content e tc s now
      in State_Monad.return (or_else (Build (Encoders e) tc ACSStatus content sequenceNumber) (''98'' @ content)))
   }"

definition SCStatusHandler_Handle :: handler where
  "SCStatusHandler_Handle e msg = with_tenant (\<lambda>tc. buildACSStatusResponse e tc (msgSequenceNumber msg))"

subsection \<open>Status of an item\<close>

definition buildItemStatusUpdateResponse :: "env \<Rightarrow> bool \<Rightarrow> string \<Rightarrow> string \<Rightarrow> string io" where
  "buildItemStatusUpdateResponse e ok institutionID itemIdentifier = do {
     now \<leftarrow> time_now e;
     State_Monad.return
       (''20'' @ (if ok then ''1'' else ''0'') @ FormatSIP2DateTime (Zones e) now ''    '' @
        BuildPrefixedField ''AB'' itemIdentifier ''|'' @
        BuildPrefixedField ''AO'' institutionID ''|'' @
        BuildPrefixedField ''AJ'' itemIdentifier ''|'' @
        (if ok then ''|AFItem properties updated'' else ''|AFItem properties update failed''))
   }"

definition answer_item_status :: "env \<Rightarrow> bool \<Rightarrow> string \<Rightarrow> string \<Rightarrow> (folio_error, string) go_result io" where
  "answer_item_status e ok institutionID itemIdentifier = do {
     r \<leftarrow> buildItemStatusUpdateResponse e ok institutionID itemIdentifier;
     respond r
   }"

definition ItemStatusUpdateHandler_Handle :: handler where
  "ItemStatusUpdateHandler_Handle e msg = with_tenant (\<lambda>tc.
     if \<not> validateRequiredFields msg [F_ItemIdentifier] then answer_item_status e False [] []
     else
       (let institutionID = msg_GetField msg F_InstitutionID;
            itemIdentifier = msg_GetField msg F_ItemIdentifier
        in try_io (getAuthenticatedFolioClient e)
          (\<lambda>token. try_io (GetItemByBarcode e (the_client tc) token itemIdentifier)
             (\<lambda>item. answer_item_status e True institutionID itemIdentifier)
             (\<lambda>err. answer_item_status e False institutionID itemIdentifier))
          (\<lambda>err. answer_item_status e False institutionID itemIdentifier)))"

subsection \<open>What is sent\<close>

context world_policy
begin

lemma keeps_verify [keeping]: "keeps P (VerifyPatronCredentials e tc token uid p pw)"
  unfolding VerifyPatronCredentials_def by (intro keeping)

lemma keeps_fetchItemTitle [keeping]: "keeps P (fetchItemTitle e c token b)"
  unfolding fetchItemTitle_def by (intro keeping)

lemma keeps_logoutReplacedTokens [keeping]: "keeps P (logoutReplacedTokens p r)"
  unfolding logoutReplacedTokens_def by (intro keeping)

lemma keeps_LoginHandler [keeping]: "keeps P (LoginHandler_Handle e msg)"
  unfolding LoginHandler_Handle_def set_location_def login_attempt_def login_refused_def login_accepted_def
    store_login_def Let_def
  by (intro keeping)

lemma keeps_session_handlers [keeping]:
  "keeps P (EndSessionHandler_Handle e msg)"
  "keeps P (ResendHandler_Handle e msg)"
  "keeps P (SCStatusHandler_Handle e msg)"
  "keeps P (ItemStatusUpdateHandler_Handle e msg)"
  unfolding EndSessionHandler_Handle_def ResendHandler_Handle_def SCStatusHandler_Handle_def
    ItemStatusUpdateHandler_Handle_def buildEndSessionResponse_def buildACSStatusResponse_def
    answer_item_status_def buildItemStatusUpdateResponse_def Let_def
  by (intro keeping)+

end

subsection \<open>What a login does to the session\<close>

lemma SetLocationCode_frame [simp]:
  "HasTokensFromOtherTenant (SetLocationCode l s) = HasTokensFromOtherTenant s"
  "IsAuthenticated (SetLocationCode l s) = IsAuthenticated s" "Username (SetLocationCode l s) = Username s"
  "password (SetLocationCode l s) = password s" "refreshToken (SetLocationCode l s) = refreshToken s"
  "RefreshToken (tokenPairLocked s) = refreshToken s"
  by (simp_all add: SetLocationCode_def HasTokensFromOtherTenant_def tokenPairLocked_def split: option.split)

lemma own_tokens_cleared [simp]: "\<not> HasTokensFromOtherTenant (Clear now s)"
  by (simp add: Clear_def clearTokensLocked_def HasTokensFromOtherTenant_def)

text \<open>
  The state after FOLIO accepted the credentials: both tokens of the tenant the session belongs
  to, the credentials for a later renewal, no patron; the pair that was replaced is handed to a
  background logout.
\<close>

definition logged_in :: "string \<Rightarrow> string \<Rightarrow> world \<Rightarrow> world \<Rightarrow> bool" where
  "logged_in username pw w w' \<longleftrightarrow>
     (let s = wSession w; s' = wSession w' in
      IsAuthenticated s' \<and> AuthToken s' \<noteq> [] \<and> refreshToken s' \<noteq> [] \<and> \<not> HasTokensFromOtherTenant s' \<and>
      Username s' = username \<and> password s' = pw \<and> PatronID s' = [] \<and> PatronBarcode s' = [] \<and>
      sessTenant s' = sessTenant s \<and> LocationCode s' = LocationCode s \<and>
      wBackground w' = wBackground w @
        (if refreshToken s = [] then [] else [(tokenPairLocked s, LogoutReasonRelogin93)]))"

text \<open>
  The state after a refusal: as before, unless the session held a pair of another tenant, which
  is then logged out with the authentication dropped.
\<close>

definition login_dropped :: "world \<Rightarrow> world \<Rightarrow> bool" where
  "login_dropped w w' \<longleftrightarrow>
     (if HasTokensFromOtherTenant (wSession w) then
        (\<exists>now. wSession w' = Clear now (clearTokensLocked (wSession w))) \<and>
        wBackground w' = wBackground w @ [(tokenPairLocked (wSession w), LogoutReasonTenantChanged)]
      else wSession w' = wSession w \<and> wBackground w' = wBackground w)"

lemma login_accepted_cases:
  assumes "run_state (login_accepted e username pw resp) w = (u, w')"
    and "OkapiToken resp \<noteq> [] \<and> lrRefreshToken resp \<noteq> [] \<and> \<not> IsZero (ExpiresAt resp)"
  shows "logged_in username pw w w'"
  using assms
  by (auto simp: login_accepted_def store_login_def time_now_def update_session_def put_session_def SwapTokens_def
      logoutReplacedTokens_def in_background_def pair_IsEmpty_def tokenPairLocked_def storeTokensLocked_def
      SetAuthenticated_def SetAuthCredentials_def logged_in_def HasTokensFromOtherTenant_def
      split: if_splits option.splits)

lemma login_refused_cases:
  assumes "run_state (login_refused e) w = (u, w')"
  shows "login_dropped w w'"
proof (cases "HasTokensFromOtherTenant (wSession w)")
  case True
  then have "refreshToken (wSession w) \<noteq> []" by (auto simp: HasTokensFromOtherTenant_def)
  then show ?thesis using assms True
    by (auto simp: login_refused_def get_session_def time_now_def update_session_def put_session_def TakeTokens_def
        logoutReplacedTokens_def in_background_def pair_IsEmpty_def tokenPairLocked_def login_dropped_def)
qed (use assms in \<open>auto simp: login_refused_def get_session_def login_dropped_def\<close>)

lemma login_attempt_cases:
  assumes "run_state (login_attempt e tc msg) w = (r, w')"
  shows "(r = buildLoginResponse e tc True (msgSequenceNumber msg) \<and>
      logged_in (msg_GetField msg F_LoginUserID) (msg_GetField msg F_LoginPassword) w w') \<or>
    (r = buildLoginResponse e tc False (msgSequenceNumber msg) \<and> login_dropped w w')"
proof -
  obtain r1 w1 where L: "run_state (Login e (NewAuthClient (OkapiURL tc) (OkapiTenant tc))
      (msg_GetField msg F_LoginUserID) (msg_GetField msg F_LoginPassword)) w = (r1, w1)" by fastforce
  note same = session_Login [OF L]
  note run = assms [unfolded login_attempt_def Let_def run_try_io [OF L]]
  show ?thesis
  proof (cases r1)
    case (Ok resp)
    obtain w2 where A: "run_state (login_accepted e (msg_GetField msg F_LoginUserID)
        (msg_GetField msg F_LoginPassword) resp) w1 = ((), w2)" by (rule run_unit)
    from login_accepted_cases [OF A] Login_Ok L Ok
    have "logged_in (msg_GetField msg F_LoginUserID) (msg_GetField msg F_LoginPassword) w1 w2" by blast
    then show ?thesis using run Ok A same by (simp add: logged_in_def)
  next
    case (Err err)
    obtain w2 where A: "run_state (login_refused e) w1 = ((), w2)" by (rule run_unit)
    have "login_dropped w w2" using login_refused_cases [OF A] same
      by (auto simp: login_dropped_def split: if_splits)
    then show ?thesis using run Err A by simp
  next
    case Panic
    then show ?thesis using auth_not_Panic(1) L by (metis fst_conv)
  qed
qed

lemma LoginHandler_cases:
  assumes "run_state (LoginHandler_Handle e msg) w = (r, w')" "sessTenant (wSession w) = Some tc"
  defines "u \<equiv> msg_GetField msg F_LoginUserID" and "pw \<equiv> msg_GetField msg F_LoginPassword"
    and "located \<equiv> w\<lparr>wSession := (if msg_GetField msg F_LocationCode = [] then wSession w
         else SetLocationCode (msg_GetField msg F_LocationCode) (wSession w))\<rparr>"
  shows "(u = [] \<or> pw = []) \<and> r = buildLoginResponse e tc False (msgSequenceNumber msg) \<and> w' = w \<or>
    r = buildLoginResponse e tc True (msgSequenceNumber msg) \<and> w' = located \<and>
      IsAuthenticated (wSession w) \<and> \<not> HasTokensFromOtherTenant (wSession w) \<and>
      Username (wSession w) = u \<and> password (wSession w) = pw \<or>
    r = buildLoginResponse e tc True (msgSequenceNumber msg) \<and> logged_in u pw located w' \<or>
    r = buildLoginResponse e tc False (msgSequenceNumber msg) \<and> login_dropped located w'"
proof -
  have loc: "run_state (set_location (msg_GetField msg F_LocationCode)) w = ((), located)"
    by (simp add: set_location_def located_def put_session_def)
  show ?thesis
  proof (cases "u = [] \<or> pw = []")
    case True
    then show ?thesis using assms(1,2)
      by (auto simp: LoginHandler_Handle_def run_with_tenant validateRequiredFields_def validateRequiredField_def u_def pw_def)
  next
    case False
    let ?m = "wSession located"
    let ?kept = "IsAuthenticated ?m \<and> \<not> IsTokenExpired (Clock e (wSent located)) ?m \<and>
        \<not> HasTokensFromOtherTenant ?m \<and> sessionCredentialsMatch ?m u pw"
    have run: "run_state (if ?kept then State_Monad.return (buildLoginResponse e tc True (msgSequenceNumber msg))
        else login_attempt e tc msg) located = (r, w')"
      using assms(1,2) False loc
      by (simp add: LoginHandler_Handle_def run_with_tenant validateRequiredFields_def validateRequiredField_def
          get_session_def time_now_def u_def pw_def)
    show ?thesis
    proof (cases ?kept)
      case True
      then show ?thesis using run
        by (auto simp: sessionCredentialsMatch_def located_def split: if_splits)
    next
      case False
      with run have "run_state (login_attempt e tc msg) located = (r, w')" by (simp only: if_False)
      then show ?thesis by (drule_tac login_attempt_cases) (simp add: u_def pw_def)
    qed
  qed
qed

text \<open>
  Every refresh token the program knew is still in the session or with a background logout
  after a login: none is forgotten with its Keycloak session open.
\<close>

definition known_refresh :: "world \<Rightarrow> string set" where
  "known_refresh w = {refreshToken (wSession w)} \<union> RefreshToken ` fst ` set (wBackground w)"

lemma login_keeps_known:
  "logged_in u pw w w' \<Longrightarrow> known_refresh w - {[]} \<subseteq> known_refresh w'"
  "login_dropped w w' \<Longrightarrow> known_refresh w \<subseteq> known_refresh w'"
  by (auto simp: known_refresh_def logged_in_def login_dropped_def Let_def split: if_splits)

lemma Login_keeps_tokens:
  assumes "run_state (LoginHandler_Handle e msg) w = (r, w')" "sessTenant (wSession w) = Some tc"
  shows "known_refresh w - {[]} \<subseteq> known_refresh w'"
proof -
  have known: "known_refresh (w\<lparr>wSession := if b then wSession w else SetLocationCode l (wSession w)\<rparr>) = known_refresh w"
    for b l by (simp add: known_refresh_def)
  show ?thesis
    using LoginHandler_cases [OF assms] login_keeps_known by (elim disjE conjE) (fastforce simp: known)+
qed

text \<open>
  A session holds a whole pair of tokens or none. A login that looks at its credentials leaves no token of
  another tenant: no access token and no refresh token, or a pair of the tenant that the session belongs to.
\<close>

definition whole_pair :: "Session \<Rightarrow> bool" where
  "whole_pair s \<longleftrightarrow> (AuthToken s = [] \<longleftrightarrow> refreshToken s = [])"

definition own_pair :: "TenantConfig \<Rightarrow> Session \<Rightarrow> bool" where
  "own_pair tc s \<longleftrightarrow> AuthToken s = [] \<and> refreshToken s = [] \<or>
     AuthToken s \<noteq> [] \<and> refreshToken s \<noteq> [] \<and> tokenOkapiURL s = OkapiURL tc \<and> tokenTenant s = OkapiTenant tc"

lemma own_pairI:
  assumes "\<not> HasTokensFromOtherTenant s" "whole_pair s" "sessTenant s = Some tc"
  shows "own_pair tc s"
  using assms by (auto simp: HasTokensFromOtherTenant_def whole_pair_def own_pair_def split: if_splits)

lemma own_pair_cleared: "own_pair tc (Clear now s)"
  by (simp add: own_pair_def Clear_def clearTokensLocked_def)

lemma whole_pair_location [simp]:
  "whole_pair (SetLocationCode l s) = whole_pair s" "sessTenant (SetLocationCode l s) = sessTenant s"
  by (simp_all add: whole_pair_def SetLocationCode_def)

lemma Login_leaves_own_tokens:
  assumes "run_state (LoginHandler_Handle e msg) w = (r, w')" "sessTenant (wSession w) = Some tc"
    and "msg_GetField msg F_LoginUserID \<noteq> []" "msg_GetField msg F_LoginPassword \<noteq> []" "whole_pair (wSession w)"
  shows "own_pair tc (wSession w')"
proof -
  let ?w = "w\<lparr>wSession := (if msg_GetField msg F_LocationCode = [] then wSession w
    else SetLocationCode (msg_GetField msg F_LocationCode) (wSession w))\<rparr>"
  have whole: "whole_pair (wSession ?w)" "sessTenant (wSession ?w) = Some tc" using assms(2,5) by simp_all
  have "own_pair tc (wSession w')" if "w' = ?w" "\<not> HasTokensFromOtherTenant (wSession w)"
    using that whole by (intro own_pairI) auto
  moreover have "own_pair tc (wSession w')" if "logged_in u pw ?w w'" for u pw
    using that whole by (intro own_pairI) (auto simp: logged_in_def whole_pair_def Let_def)
  moreover have "own_pair tc (wSession w')" if "login_dropped ?w w'"
    using that whole by (auto simp: login_dropped_def own_pair_cleared intro: own_pairI split: if_splits)
  ultimately show ?thesis using LoginHandler_cases [OF assms(1,2)] assms(3,4) by blast
qed

lemma EndSession_session:
  assumes "run_state (EndSessionHandler_Handle e msg) w = (r, w')" "sessTenant (wSession w) = Some tc"
    and "msg_GetField msg F_PatronIdentifier \<noteq> []"
  shows "\<exists>now. wSession w' = ClearPatron now (wSession w) \<and> wSent w' = wSent w"
  using assms
  by (auto simp: EndSessionHandler_Handle_def run_with_tenant validateRequiredFields_def validateRequiredField_def
      buildEndSessionResponse_def time_now_def put_session_def)

end
