(* ===== verification/Handlers_Circulation.thy ===== *)
theory Handlers_Circulation
  imports Handlers_Session
begin

text \<open>
  The handlers that lend and renew: \<open>internal/handlers/checkout.go\<close> (11), \<open>renew.go\<close> (29) and
  \<open>renew_all.go\<close> (65). The three share their first half: required fields, an authenticated
  client, the patron of the barcode, the patron's verification. What follows is that no loan is
  made or renewed for a patron whose verification failed, and which patron it is made for.
\<close>

text \<open>The layout \<open>time.RFC3339\<close>.\<close>

definition format_rfc3339 :: "GoTime \<Rightarrow> string" where
  "format_rfc3339 t =
     (let s = local_seconds t mod 86400; off = abs (tm_off t) div 60
      in (case date_of t of (y, m, d) \<Rightarrow> append_int 4 y @ ''-'' @ append_int 2 m @ ''-'' @ append_int 2 d) @ ''T'' @
         append_int 2 (s div 3600) @ '':'' @ append_int 2 (s div 60 mod 60) @ '':'' @ append_int 2 (s mod 60) @
         (if tm_off t = 0 then ''Z''
          else (if tm_off t < 0 \<and> off > 0 then ''-'' else ''+'') @ append_int 2 (off div 60) @ '':'' @ append_int 2 (off mod 60)))"

text \<open>
  The FOLIO id of the patron with this barcode: the one kept in the session for the same
  barcode, otherwise that of a look-up, which is then kept.
\<close>

definition patron_id :: "env \<Rightarrow> TenantConfig \<Rightarrow> string \<Rightarrow> string \<Rightarrow> (folio_error, string) go_result io" where
  "patron_id e tc token patronIdentifier = do {
     s \<leftarrow> get_session;
     if PatronID s \<noteq> [] \<and> PatronBarcode s = patronIdentifier then State_Monad.return (Ok (PatronID s))
     else try_io (GetUserByBarcode e (the_client tc) token patronIdentifier)
       (\<lambda>user. do {
          put_session (SetPatronID (userID user));
          put_session (SetPatronBarcode patronIdentifier);
          State_Monad.return (Ok (userID user))
        })
       (\<lambda>err. State_Monad.return (Err err))
   }"

text \<open>
  The patron of a request, verified; the continuation runs with the token and the patron's id.
\<close>

definition with_verified_patron ::
  "env \<Rightarrow> TenantConfig \<Rightarrow> Message \<Rightarrow> (string \<Rightarrow> (folio_error, string) go_result io) \<Rightarrow>
     (string \<Rightarrow> string \<Rightarrow> (folio_error, string) go_result io) \<Rightarrow> string \<Rightarrow> (folio_error, string) go_result io" where
  "with_verified_patron e tc msg refuse go authMessage =
     (let patronIdentifier = msg_GetField msg F_PatronIdentifier
      in try_io (getAuthenticatedFolioClient e)
        (\<lambda>token. try_io (patron_id e tc token patronIdentifier)
           (\<lambda>uid. try_io (VerifyPatronCredentials e tc token uid patronIdentifier (msg_GetField msg F_PatronPassword))
              (\<lambda>v. if Required v \<and> \<not> Verified v then refuse GetVerificationErrorMessage else go token uid)
              (\<lambda>err. State_Monad.return (Err err)))
           (\<lambda>err. refuse GetVerificationErrorMessage))
        (\<lambda>err. refuse authMessage))"

subsection \<open>Checkout\<close>

definition checkout_fallback :: "env \<Rightarrow> TenantConfig \<Rightarrow> GoTime \<Rightarrow> string \<times> string \<times> string \<Rightarrow> string \<Rightarrow> string" where
  "checkout_fallback e tc now ids screenMessage =
     (case ids of (institutionID, patronIdentifier, itemIdentifier) \<Rightarrow>
        ''12NU  '' @ FormatSIP2DateTime (Zones e) now (Timezone tc) @
        FieldDelimiter tc @ ''AO'' @ institutionID @
        FieldDelimiter tc @ ''AA'' @ patronIdentifier @
        FieldDelimiter tc @ ''AB'' @ itemIdentifier @
        FieldDelimiter tc @ ''AF'' @ screenMessage @
        MessageDelimiter tc)"

definition buildCheckoutResponse ::
  "env \<Rightarrow> TenantConfig \<Rightarrow> Message \<Rightarrow> bool \<Rightarrow> string \<times> string \<times> string \<Rightarrow> string \<Rightarrow> GoTime \<Rightarrow> string \<Rightarrow>
     (folio_error, string) go_result io" where
  "buildCheckoutResponse e tc msg ok ids titleID dueDate screenMessage = do {
     now \<leftarrow> time_now e;
     (case ids of (institutionID, patronIdentifier, itemIdentifier) \<Rightarrow>
        State_Monad.return (or_else
          (BuildCheckoutResponse (Encoders e) (Zones e) tc ok False False False now institutionID patronIdentifier
             itemIdentifier titleID dueDate [] False [] [] [] [] [] [screenMessage] [] (msgSequenceNumber msg))
          (checkout_fallback e tc now ids screenMessage)))
   }"

text \<open>The title of an item by its holdings and instance; every error leaves it empty.\<close>

definition checkout_title :: "env \<Rightarrow> Client \<Rightarrow> string \<Rightarrow> Item \<Rightarrow> (folio_error, string) go_result io" where
  "checkout_title e ic token item =
     (if HoldingsRecordID item = [] then State_Monad.return (Ok [])
      else try_io (GetHoldingsByID e ic token (HoldingsRecordID item))
        (\<lambda>holdings. if hInstanceID holdings = [] then State_Monad.return (Ok [])
           else try_io (GetInstanceByID e ic token (hInstanceID holdings))
             (\<lambda>inst. State_Monad.return (Ok (TruncateString (Title inst) 60)))
             (\<lambda>err. State_Monad.return (Ok [])))
        (\<lambda>err. State_Monad.return (Ok [])))"

definition due_or_zero :: "Loan \<Rightarrow> GoTime" where
  "due_or_zero loan = (case DueDate loan of None \<Rightarrow> zero_time | Some d \<Rightarrow> d)"

definition checkout_done ::
  "env \<Rightarrow> TenantConfig \<Rightarrow> Message \<Rightarrow> string \<times> string \<times> string \<Rightarrow> string \<Rightarrow> Loan \<Rightarrow> (folio_error, string) go_result io" where
  "checkout_done e tc msg ids token loan =
     (let barcode = snd (snd ids)
      in try_io (GetItemByBarcode e (the_client tc) token barcode)
        (\<lambda>item. try_io (checkout_title e (the_client tc) token item)
           (\<lambda>title. buildCheckoutResponse e tc msg True ids (if title = [] then barcode else title)
              (due_or_zero loan) ''Checkout successful'')
           (\<lambda>err. State_Monad.return (Err err)))
        (\<lambda>err. buildCheckoutResponse e tc msg True ids barcode (due_or_zero loan) ''Checkout successful''))"

definition checkout_loan ::
  "env \<Rightarrow> TenantConfig \<Rightarrow> Message \<Rightarrow> string \<times> string \<times> string \<Rightarrow> string \<Rightarrow> string \<Rightarrow> (folio_error, string) go_result io" where
  "checkout_loan e tc msg ids location token = do {
     now \<leftarrow> time_now e;
     (case ids of (institutionID, patronIdentifier, itemIdentifier) \<Rightarrow>
        try_io (circ_Checkout e (the_client tc) token
            \<lparr>coItemBarcode = itemIdentifier, coUserBarcode = patronIdentifier,
             coServicePointID = location, coLoanDate = format_rfc3339 now\<rparr>)
          (\<lambda>loan. checkout_done e tc msg ids token loan)
          (\<lambda>err. buildCheckoutResponse e tc msg False ids itemIdentifier zero_time
             (ExtractFolioErrorMessage e err ''Checkout failed'')))
   }"

definition CheckoutHandler_Handle :: handler where
  "CheckoutHandler_Handle e msg = with_tenant (\<lambda>tc.
     if \<not> validateRequiredFields msg [F_PatronIdentifier, F_ItemIdentifier] then
       buildCheckoutResponse e tc msg False ([], [], []) [] zero_time ''Checkout validation failed''
     else do {
       s \<leftarrow> get_session;
       (let item = msg_GetField msg F_ItemIdentifier;
            ids = (msg_GetField msg F_InstitutionID, msg_GetField msg F_PatronIdentifier, item);
            refuse = buildCheckoutResponse e tc msg False ids item zero_time
        in if LocationCode s = [] then refuse ''Checkout failed: service point not configured''
           else with_verified_patron e tc msg refuse
             (\<lambda>token uid. checkout_loan e tc msg ids (LocationCode s) token) ''Authentication failed'')
     })"

subsection \<open>Renewal of one item\<close>

definition or_zero :: "string \<Rightarrow> string" where "or_zero seq = (if seq = [] then ''0'' else seq)"

definition renew_fallback :: "env \<Rightarrow> GoTime \<Rightarrow> string \<times> string \<times> string \<Rightarrow> string \<Rightarrow> string" where
  "renew_fallback e now ids screenMessage =
     (case ids of (institutionID, patronIdentifier, itemIdentifier) \<Rightarrow>
        ''30NN  '' @ FormatSIP2DateTime (Zones e) now ''    '' @
        BuildPrefixedField ''AO'' institutionID ''|'' @
        BuildPrefixedField ''AA'' patronIdentifier ''|'' @
        BuildPrefixedField ''AB'' itemIdentifier ''|'' @
        BuildPrefixedField ''AF'' screenMessage ''|'')"

definition buildRenewResponseWithError ::
  "env \<Rightarrow> TenantConfig \<Rightarrow> Message \<Rightarrow> string \<times> string \<times> string \<Rightarrow> string \<Rightarrow> (folio_error, string) go_result io" where
  "buildRenewResponseWithError e tc msg ids errorMessage = do {
     now \<leftarrow> time_now e;
     (case ids of (institutionID, patronIdentifier, itemIdentifier) \<Rightarrow>
        State_Monad.return (or_else
          (BuildRenewResponse (Encoders e) (Zones e) tc False False False False now institutionID patronIdentifier
             itemIdentifier itemIdentifier zero_time [errorMessage] [] (or_zero (msgSequenceNumber msg)))
          (renew_fallback e now ids errorMessage)))
   }"

definition buildRenewResponse ::
  "env \<Rightarrow> TenantConfig \<Rightarrow> Message \<Rightarrow> bool \<Rightarrow> string \<times> string \<times> string \<Rightarrow> GoTime \<Rightarrow> string \<Rightarrow> (folio_error, string) go_result io" where
  "buildRenewResponse e tc msg ok ids dueDate titleID = do {
     now \<leftarrow> time_now e;
     (case ids of (institutionID, patronIdentifier, itemIdentifier) \<Rightarrow>
        State_Monad.return (or_else
          (BuildRenewResponse (Encoders e) (Zones e) tc ok ok False False now institutionID patronIdentifier
             itemIdentifier (if titleID = [] then itemIdentifier else titleID) dueDate
             [if ok then ''Renewal successful'' else ''Renewal failed''] []
             (or_zero (msgSequenceNumber msg)))
          (renew_fallback e now ids ''Renewal failed - internal error'')))
   }"

text \<open>The instance of a renewed loan: named by the loan, otherwise by its item or its holdings.\<close>

definition renewed_lookup :: "env \<Rightarrow> Client \<Rightarrow> string \<Rightarrow> Loan \<Rightarrow> (folio_error, string) go_result io" where
  "renewed_lookup e ic token loan =
     try_io (GetItemByID e ic token (loanItemID loan))
       (\<lambda>item. if InstanceID item \<noteq> [] then State_Monad.return (Ok (InstanceID item))
          else if HoldingsRecordID item \<noteq> [] then
            try_io (GetHoldingsByID e ic token (HoldingsRecordID item))
              (\<lambda>holdings. State_Monad.return (Ok (hInstanceID holdings)))
              (\<lambda>err. State_Monad.return (Ok []))
          else State_Monad.return (Ok []))
       (\<lambda>err. State_Monad.return (Ok []))"

definition renewed_instance :: "env \<Rightarrow> Client \<Rightarrow> string \<Rightarrow> Loan \<Rightarrow> (folio_error, string) go_result io" where
  "renewed_instance e ic token loan =
     (case loanItem loan of
        None \<Rightarrow> renewed_lookup e ic token loan
      | Some it \<Rightarrow>
          if InstanceID it \<noteq> [] then State_Monad.return (Ok (InstanceID it))
          else renewed_lookup e ic token loan)"

definition instance_title :: "env \<Rightarrow> Client \<Rightarrow> string \<Rightarrow> string \<Rightarrow> (folio_error, string) go_result io" where
  "instance_title e ic token inst =
     (if inst = [] then State_Monad.return (Ok [])
      else try_io (GetInstanceByID e ic token inst)
        (\<lambda>i. State_Monad.return (Ok (TruncateString (Title i) 60)))
        (\<lambda>err. State_Monad.return (Ok [])))"

definition renew_loan ::
  "env \<Rightarrow> TenantConfig \<Rightarrow> Message \<Rightarrow> string \<times> string \<times> string \<Rightarrow> string \<Rightarrow> (folio_error, string) go_result io" where
  "renew_loan e tc msg ids token =
     try_io (circ_Renew e (the_client tc) token
         \<lparr>rwItemBarcode = snd (snd ids), rwUserBarcode = fst (snd ids)\<rparr>)
       (\<lambda>loan. try_io (renewed_instance e (the_client tc) token loan)
          (\<lambda>inst. try_io (instance_title e (the_client tc) token inst)
             (\<lambda>title. buildRenewResponse e tc msg True ids (due_or_zero loan) title)
             (\<lambda>err. State_Monad.return (Err err)))
          (\<lambda>err. State_Monad.return (Err err)))
       (\<lambda>err. buildRenewResponseWithError e tc msg ids (ExtractFolioErrorMessage e err ''Renewal failed''))"

definition RenewHandler_Handle :: handler where
  "RenewHandler_Handle e msg = with_tenant (\<lambda>tc.
     if \<not> validateRequiredFields msg [F_PatronIdentifier, F_ItemIdentifier] then
       buildRenewResponseWithError e tc msg ([], [], []) ''Renewal failed - invalid request''
     else
       (let ids = (msg_GetField msg F_InstitutionID, msg_GetField msg F_PatronIdentifier,
                   msg_GetField msg F_ItemIdentifier)
        in with_verified_patron e tc msg (buildRenewResponseWithError e tc msg ids)
             (\<lambda>token uid. renew_loan e tc msg ids token) ''Renewal failed - authentication error''))"

subsection \<open>Renewal of every loan\<close>

text \<open>What the loop over the loans collects: barcodes renewed and not renewed, the first error.\<close>

record renewal_tally =
  renewedItems :: "string list"
  unrenewedItems :: "string list"
  firstFailureMessage :: string

definition barcode_or_id :: "env \<Rightarrow> Client \<Rightarrow> string \<Rightarrow> string \<Rightarrow> (folio_error, string) go_result io" where
  "barcode_or_id e ic token itemID' =
     try_io (GetItemByID e ic token itemID')
       (\<lambda>item. State_Monad.return (Ok (itemBarcode item)))
       (\<lambda>err. State_Monad.return (Ok itemID'))"

text \<open>The log line of a success reads the due date of the renewed loan, which may be missing.\<close>

definition renew_one ::
  "env \<Rightarrow> TenantConfig \<Rightarrow> string \<Rightarrow> string \<Rightarrow> Loan \<Rightarrow> renewal_tally \<Rightarrow> (folio_error, renewal_tally) go_result io" where
  "renew_one e tc token patronID' loan t =
     try_io (circ_RenewByID e (the_client tc) token \<lparr>rbItemID = loanItemID loan, rbUserID = patronID'\<rparr>)
       (\<lambda>renewed. if DueDate renewed = None then State_Monad.return Panic
          else try_io (barcode_or_id e (the_client tc) token (loanItemID renewed))
            (\<lambda>b. State_Monad.return (Ok (t\<lparr>renewedItems := renewedItems t @ [b]\<rparr>)))
            (\<lambda>err. State_Monad.return (Err err)))
       (\<lambda>err. let t1 = (if firstFailureMessage t = [] then
                          t\<lparr>firstFailureMessage := ExtractFolioErrorMessage e err ''renewal failed''\<rparr> else t)
          in try_io (barcode_or_id e (the_client tc) token (loanItemID loan))
            (\<lambda>b. State_Monad.return (Ok (t1\<lparr>unrenewedItems := unrenewedItems t1 @ [b]\<rparr>)))
            (\<lambda>err. State_Monad.return (Err err)))"

fun renew_each ::
  "env \<Rightarrow> TenantConfig \<Rightarrow> string \<Rightarrow> string \<Rightarrow> Loan list \<Rightarrow> renewal_tally \<Rightarrow> (folio_error, renewal_tally) go_result io" where
  "renew_each e tc token patronID' [] t = State_Monad.return (Ok t)"
| "renew_each e tc token patronID' (loan # loans) t =
     try_io (renew_one e tc token patronID' loan t)
       (\<lambda>t1. renew_each e tc token patronID' loans t1)
       (\<lambda>err. State_Monad.return (Err err))"

definition renew_all_fallback :: "GoTime \<Rightarrow> string \<Rightarrow> string \<Rightarrow> string \<Rightarrow> string" where
  "renew_all_fallback now institutionID patronIdentifier errorMessage =
     ''66N00000000'' @ format_date_time now @
     BuildPrefixedField ''AO'' institutionID ''|'' @
     BuildPrefixedField ''AA'' patronIdentifier ''|'' @
     BuildPrefixedField ''AF'' errorMessage ''|''"

definition renew_all_error ::
  "env \<Rightarrow> TenantConfig \<Rightarrow> Message \<Rightarrow> string \<Rightarrow> (folio_error, string) go_result io" where
  "renew_all_error e tc msg errorMessage = do {
     now \<leftarrow> time_now e;
     (let institutionID = msg_GetField msg F_InstitutionID;
          patronIdentifier = msg_GetField msg F_PatronIdentifier
      in State_Monad.return (or_else
          (BuildRenewAllResponse (Encoders e) (Zones e) tc False 0 0 now institutionID patronIdentifier [] []
             [errorMessage] (msgSequenceNumber msg))
          (renew_all_fallback now institutionID patronIdentifier errorMessage)))
   }"

definition tally_messages :: "renewal_tally \<Rightarrow> string list" where
  "tally_messages t =
     (let more = (if firstFailureMessage t \<noteq> [] then '': '' @ firstFailureMessage t else [])
      in if renewedItems t \<noteq> [] \<and> unrenewedItems t \<noteq> [] then [''Some items could not be renewed'' @ more]
         else if renewedItems t = [] \<and> unrenewedItems t \<noteq> [] then [''No items could be renewed'' @ more]
         else [])"

definition renew_all_response ::
  "env \<Rightarrow> TenantConfig \<Rightarrow> Message \<Rightarrow> renewal_tally \<Rightarrow> (folio_error, string) go_result io" where
  "renew_all_response e tc msg t = do {
     now \<leftarrow> time_now e;
     (case BuildRenewAllResponse (Encoders e) (Zones e) tc (renewedItems t \<noteq> []) (int (length (renewedItems t)))
         (int (length (unrenewedItems t))) now (msg_GetField msg F_InstitutionID) (msg_GetField msg F_PatronIdentifier)
         (renewedItems t) (unrenewedItems t) (tally_messages t) (msgSequenceNumber msg) of
        Ok r \<Rightarrow> respond r
      | Err err \<Rightarrow> renew_all_error e tc msg ''Renewal failed''
      | Panic \<Rightarrow> State_Monad.return Panic)
   }"

definition renew_all_loans ::
  "env \<Rightarrow> TenantConfig \<Rightarrow> Message \<Rightarrow> string \<Rightarrow> string \<Rightarrow> (folio_error, string) go_result io" where
  "renew_all_loans e tc msg token uid =
     try_io (GetOpenLoansByUser e (the_client tc) token uid OKAPIUnlimitedLimit)
       (\<lambda>found. try_io (renew_each e tc token uid (take (nat (GetRenewAllMaxItems tc)) (fst found))
              \<lparr>renewedItems = [], unrenewedItems = [], firstFailureMessage = []\<rparr>)
          (\<lambda>t. renew_all_response e tc msg t)
          (\<lambda>err. State_Monad.return (Err err)))
       (\<lambda>err. renew_all_error e tc msg ''Renewal failed'')"

definition RenewAllHandler_Handle :: handler where
  "RenewAllHandler_Handle e msg = with_tenant (\<lambda>tc.
     if \<not> validateRequiredFields msg [F_PatronIdentifier] then renew_all_error e tc msg ''Renewal failed''
     else with_verified_patron e tc msg (renew_all_error e tc msg)
       (\<lambda>token uid. renew_all_loans e tc msg token uid) ''Renewal failed'')"

subsection \<open>What is sent\<close>

context world_policy
begin

lemma keeps_patron_id [keeping]: "keeps P (patron_id e tc token b)"
  unfolding patron_id_def by (intro keeping)

lemma keeps_with_verified_patron [keeping]:
  "(\<And>m. keeps P (refuse m)) \<Longrightarrow> (\<And>t u. keeps P (go t u)) \<Longrightarrow>
     keeps P (with_verified_patron e tc msg refuse go am)"
  unfolding with_verified_patron_def Let_def by (intro keeping)

lemma keeps_checkout_parts [keeping]:
  "keeps P (buildCheckoutResponse e tc msg ok ids t d m)"
  "keeps P (checkout_loan e tc msg ids sp token)"
  unfolding checkout_loan_def checkout_done_def checkout_title_def buildCheckoutResponse_def Let_def
  by (intro keeping)+

lemma keeps_CheckoutHandler [keeping]: "keeps P (CheckoutHandler_Handle e msg)"
  unfolding CheckoutHandler_Handle_def Let_def by (intro keeping)

lemma keeps_renew_parts [keeping]:
  "keeps P (buildRenewResponseWithError e tc msg ids m)"
  "keeps P (renew_loan e tc msg ids token)"
  unfolding renew_loan_def renewed_instance_def renewed_lookup_def instance_title_def buildRenewResponse_def
    buildRenewResponseWithError_def
  by (intro keeping)+

lemma keeps_RenewHandler [keeping]: "keeps P (RenewHandler_Handle e msg)"
  unfolding RenewHandler_Handle_def Let_def by (intro keeping)

lemma keeps_renew_each [keeping]: "keeps P (renew_each e tc token p loans t)"
  by (induction loans arbitrary: t)
     (auto simp: renew_one_def barcode_or_id_def Let_def intro!: keeping)

lemma keeps_RenewAllHandler [keeping]: "keeps P (RenewAllHandler_Handle e msg)"
  unfolding RenewAllHandler_Handle_def renew_all_loans_def renew_all_error_def renew_all_response_def Let_def
  by (intro keeping)

end

end
