(* ===== verification/Lending.thy ===== *)
theory Lending
  imports Handlers_Circulation
begin

text \<open>
  What the handlers that lend, renew or take a payment guarantee: FOLIO is asked for it only
  after a token was at hand, the patron of the barcode was found and, where the tenant requires
  it, FOLIO accepted the patron's password or PIN; and it is asked for that patron. The requests
  in question are the guarded requests.
\<close>

definition guarded_request :: "http_request \<Rightarrow> bool" where
  "guarded_request rq \<longleftrightarrow> rqPath rq \<in> {''/circulation/check-out-by-barcode'', ''/circulation/renew-by-barcode'',
     ''/circulation/renew-by-id'', ''/accounts-bulk/pay''} \<or>
     prefix ''/accounts/'' (rqPath rq)"

definition verification_request :: "TenantConfig \<Rightarrow> string \<Rightarrow> string \<Rightarrow> string \<Rightarrow> http_request \<Rightarrow> bool" where
  "verification_request tc uid barcode pw rq \<longleftrightarrow>
     rqMethod rq = ''POST'' \<and> rqBase rq = OkapiURL tc \<and> rqTenant rq = OkapiTenant tc \<and>
     (if UsePinForPatronVerification tc then
        rqPath rq = ''/patron-pin/verify'' \<and> rqBody rq = Some (JObj [(''id'', JStr uid), (''pin'', JStr pw)])
      else rqPath rq = ''/authn/login-with-expiry'' \<and> rqBody rq = Some (login_body barcode pw))"

text \<open>FOLIO accepted the request, sent after the requests \<open>pre\<close>.\<close>

definition accepted :: "env \<Rightarrow> http_request list \<Rightarrow> http_request \<Rightarrow> bool" where
  "accepted e pre rq \<longleftrightarrow>
     (\<exists>resp. Serve e pre rq = Response resp \<and> 200 \<le> rsStatus resp \<and> rsStatus resp < 300)"

text \<open>Between two states nothing guarded was asked for.\<close>

definition quiet :: "world \<Rightarrow> world \<Rightarrow> bool" where
  "quiet w w' \<longleftrightarrow> (\<exists>rqs. wSent w' = wSent w @ rqs \<and> list_all (\<lambda>rq. \<not> guarded_request rq) rqs)"

lemma quiet_refl [simp]: "quiet w w"
  by (simp add: quiet_def)

lemma quiet_trans [trans]: "quiet w w1 \<Longrightarrow> quiet w1 w2 \<Longrightarrow> quiet w w2"
  unfolding quiet_def by (metis append.assoc list_all_append)

lemma quiet_sends: "sends n Q m \<Longrightarrow> (\<And>rq. Q rq \<Longrightarrow> \<not> guarded_request rq) \<Longrightarrow> run_state m w = (x, w') \<Longrightarrow> quiet w w'"
  unfolding quiet_def by (metis (mono_tags, lifting) list.pred_mono_strong sendsD)

lemma quiet_cong: "wSent w1 = wSent w2 \<Longrightarrow> quiet w w1 = quiet w w2"
  by (simp add: quiet_def)

lemma sends_auth_client:
  "sends 7 (\<lambda>rq. rqPath rq \<in> {''/authn/refresh'', ''/authn/login-with-expiry''}) (getAuthenticatedFolioClient e)"
proof -
  have "sends 7 (\<lambda>rq. rqPath rq \<in> {''/authn/refresh'', ''/authn/login-with-expiry''}) (renewToken e tc)" for tc
    using sends_renewToken [of tc e] by (rule sends_weaken) (simp add: to_client_def)
  then show ?thesis unfolding getAuthenticatedFolioClient_def
    by (intro sends_bind_read [OF sends_reads(1)] sends_bind_read [OF sends_reads(2)] sending sends_bind_last)
qed


lemma quiet_auth: "run_state (getAuthenticatedFolioClient e) w = (r, w') \<Longrightarrow> quiet w w'"
  by (erule quiet_sends [OF sends_auth_client, rotated]) (auto simp: guarded_request_def)

text \<open>One request, answered in the state it was sent in.\<close>

lemma client_do_run:
  assumes "run_state (client_do e cl meth path token body accept cookies decode zero) w = (r, w')"
  shows "w' = w \<and> (\<exists>err. r = Err err) \<or>
    (let rq = request cl meth path token body accept cookies
     in wSent w' = wSent w @ [rq] \<and> r = read_response meth path accept decode zero (Serve e (wSent w) rq))"
  using assms by (auto simp: client_do_def send_def split: if_splits)

lemma read_response_Ok:
  "read_response meth path accept decode zero outcome = Ok x \<Longrightarrow>
     \<exists>resp. outcome = Response resp \<and> 200 \<le> rsStatus resp \<and> rsStatus resp < 300"
  by (auto simp: read_response_def split: http_outcome.splits if_splits)

text \<open>
  Whose id it is: that of the patron which the session keeps for this very barcode, or of the user that FOLIO
  returned to a look-up of the barcode, made after \<open>w\<close> and among the requests \<open>sent\<close>.
\<close>

definition found_patron :: "env \<Rightarrow> TenantConfig \<Rightarrow> string \<Rightarrow> string \<Rightarrow> world \<Rightarrow> http_request list \<Rightarrow> bool" where
  "found_patron e tc barcode uid w sent \<longleftrightarrow>
     uid \<noteq> [] \<and> PatronID (wSession w) = uid \<and> PatronBarcode (wSession w) = barcode \<or>
     (\<exists>token w1 w2 user. run_state (GetUserByBarcode e (the_client tc) token barcode) w1 = (Ok user, w2) \<and>
        userID user = uid \<and> prefix (wSent w) (wSent w1) \<and> prefix (wSent w2) sent)"

lemma found_patron_later:
  assumes "found_patron e tc b uid w1 sent" "PatronID (wSession w1) = PatronID (wSession w)"
    and "PatronBarcode (wSession w1) = PatronBarcode (wSession w)" "prefix (wSent w) (wSent w1)"
  shows "found_patron e tc b uid w sent"
  using assms prefix_order.trans unfolding found_patron_def by metis

lemma quiet_prefix: "quiet w w' \<Longrightarrow> prefix (wSent w) (wSent w')"
  by (auto simp: quiet_def)

lemma auth_keeps_patron:
  assumes "run_state (getAuthenticatedFolioClient e) w = (r, w')"
  shows "PatronID (wSession w') = PatronID (wSession w)" "PatronBarcode (wSession w') = PatronBarcode (wSession w)"
  using getAuthenticatedFolioClient_cases [OF assms] tokens_replaced_frame(2,3) by (metis, metis)

lemma patron_id_cases:
  assumes "run_state (patron_id e tc token barcode) w = (r, w')"
  shows "quiet w w' \<and> (\<forall>uid. r = Ok uid \<longrightarrow>
    PatronID (wSession w') = uid \<and> PatronBarcode (wSession w') = barcode \<and> found_patron e tc barcode uid w (wSent w'))"
proof (cases "PatronID (wSession w) \<noteq> [] \<and> PatronBarcode (wSession w) = barcode")
  case False
  obtain r1 w1 where G: "run_state (GetUserByBarcode e (the_client tc) token barcode) w = (r1, w1)" by fastforce
  have "quiet w w1" using GetUserByBarcode_query [of e "the_client tc" token barcode w] G
    by (force simp: quiet_def list_all_iff guarded_request_def)
  moreover have "found_patron e tc barcode (userID user) w (wSent w1)" if "r1 = Ok user" for user
    using G that unfolding found_patron_def by blast
  ultimately show ?thesis using assms False
    by (auto simp: patron_id_def get_session_def run_try_io [OF G] put_session_def SetPatronID_def
        SetPatronBarcode_def quiet_def split: go_result.splits)
qed (use assms in \<open>auto simp: patron_id_def get_session_def found_patron_def\<close>)

text \<open>A verification that is required and passes is a request that FOLIO accepted.\<close>

lemma verify_call:
  assumes "run_state (client_do e cl ''POST'' path token (Some body) accept [] decode zero) w = (r, w')"
    and "path \<in> {''/patron-pin/verify'', ''/authn/login-with-expiry''}"
  shows "quiet w w'" "wSession w' = wSession w"
    "r = Ok x \<Longrightarrow> \<exists>rq. rq = request cl ''POST'' path token (Some body) accept [] \<and>
       wSent w' = wSent w @ [rq] \<and> accepted e (wSent w) rq"
proof -
  note run = client_do_run [OF assms(1)]
  have "\<not> guarded_request (request cl ''POST'' path token (Some body) accept [])"
    using assms(2) by (auto simp: guarded_request_def request_def)
  then show "quiet w w'" using run by (auto simp: quiet_def Let_def)
  show "wSession w' = wSession w" using local_stateD [OF keeps_client_local(1) assms(1)] by simp
  show "\<exists>rq. rq = request cl ''POST'' path token (Some body) accept [] \<and>
       wSent w' = wSent w @ [rq] \<and> accepted e (wSent w) rq" if "r = Ok x"
    using run that by (auto simp: Let_def accepted_def dest!: read_response_Ok [OF sym])
qed

lemma verified_passes:
  assumes "verified_by r = Ok v" "\<not> (Required v \<and> \<not> Verified v)"
  shows "r = Ok True"
  using assms by (auto simp: verified_by_def split: go_result.splits if_splits)

lemma Verify_cases:
  assumes "run_state (VerifyPatronCredentials e tc token uid barcode pw) w = (r, w')"
  shows "quiet w w' \<and> wSession w' = wSession w \<and>
    (\<forall>v. r = Ok v \<longrightarrow> \<not> (Required v \<and> \<not> Verified v) \<longrightarrow> PatronPasswordVerificationRequired tc \<longrightarrow>
       (\<exists>rq. wSent w' = wSent w @ [rq] \<and> verification_request tc uid barcode pw rq \<and> accepted e (wSent w) rq))"
proof (cases "PatronPasswordVerificationRequired tc \<and> pw \<noteq> []")
  case False
  then show ?thesis using assms by (auto simp: VerifyPatronCredentials_def split: if_splits)
next
  case req: True
  let ?c = "the_client tc"
  show ?thesis
  proof (cases "UsePinForPatronVerification tc")
    case True
    let ?body = "JObj [(''id'', JStr uid), (''pin'', JStr pw)]"
    obtain r1 w1 where D: "run_state (client_do e ?c ''POST'' ''/patron-pin/verify'' token (Some ?body)
        ''text/plain'' [] no_result ()) w = (r1, w1)" by fastforce
    note call = verify_call [OF D, simplified]
    have "r = verified_by (case drop_cookies r1 of Ok u \<Rightarrow> Ok True
        | Err err \<Rightarrow> if status_is 422 err then Ok False else Err err | Panic \<Rightarrow> Panic)" and "w' = w1"
      using assms req True D by (simp_all add: VerifyPatronCredentials_def VerifyPatronPin_def PostWithTextPlainAccept_def)
    moreover have "verification_request tc uid barcode pw (request ?c ''POST'' ''/patron-pin/verify'' token (Some ?body)
        ''text/plain'' [])"
      using True by (simp add: verification_request_def request_def the_client_def NewClient_def)
    ultimately show ?thesis using call
      by (cases r1) (force dest!: verified_passes simp: drop_cookies_def split: if_splits)+
  next
    case False
    obtain r1 w1 where D: "run_state (client_do e ?c ''POST'' ''/authn/login-with-expiry'' []
      (Some (login_body barcode pw)) json_accept [] no_result ()) w = (r1, w1)" by fastforce
    note call = verify_call [OF D, simplified]
    have "r = verified_by (case drop_cookies r1 of Ok u \<Rightarrow> Ok True
        | Err err \<Rightarrow> if status_is 401 err \<or> status_is 422 err then Ok False else Err err | Panic \<Rightarrow> Panic)" and "w' = w1"
      using assms req False D by (simp_all add: VerifyPatronCredentials_def VerifyPatronPasswordWithLogin_def client_Post_def)
    moreover have "verification_request tc uid barcode pw (request ?c ''POST'' ''/authn/login-with-expiry'' []
        (Some (login_body barcode pw)) json_accept [])"
      using False by (simp add: verification_request_def request_def the_client_def NewClient_def)
    ultimately show ?thesis using call
      by (cases r1) (force dest!: verified_passes simp: drop_cookies_def split: if_splits)+
  qed
qed


text \<open>
  The common half of the lending handlers ends in a refusal before which nothing guarded was asked for,
  or goes on with the patron of the barcode, verified.
\<close>

definition verified_patron :: "env \<Rightarrow> TenantConfig \<Rightarrow> Message \<Rightarrow> string \<Rightarrow> world \<Rightarrow> world \<Rightarrow> bool" where
  "verified_patron e tc msg uid w w' \<longleftrightarrow>
     PatronID (wSession w') = uid \<and> PatronBarcode (wSession w') = msg_GetField msg F_PatronIdentifier \<and>
     (PatronPasswordVerificationRequired tc \<longrightarrow>
        (\<exists>pre rq. wSent w' = pre @ [rq] \<and> length (wSent w) \<le> length pre \<and> accepted e pre rq \<and>
           found_patron e tc (msg_GetField msg F_PatronIdentifier) uid w pre \<and>
           verification_request tc uid (msg_GetField msg F_PatronIdentifier) (msg_GetField msg F_PatronPassword) rq))"

lemma quiet_length: "quiet w w' \<Longrightarrow> length (wSent w) \<le> length (wSent w')"
  by (auto simp: quiet_def)

lemma with_verified_patron_cases:
  assumes "run_state (with_verified_patron e tc msg refuse go am) w = (r, w')"
  shows "(\<exists>w1 m. quiet w w1 \<and> run_state (refuse m) w1 = (r, w')) \<or>
    quiet w w' \<and> (\<forall>x. r \<noteq> Ok x) \<or>
    (\<exists>w1 token uid. quiet w w1 \<and> verified_patron e tc msg uid w w1 \<and> run_state (go token uid) w1 = (r, w'))"
proof -
  let ?b = "msg_GetField msg F_PatronIdentifier"
  obtain r1 w1 where A: "run_state (getAuthenticatedFolioClient e) w = (r1, w1)" by fastforce
  note q1 = quiet_auth [OF A]
  note run1 = assms [unfolded with_verified_patron_def Let_def run_try_io [OF A]]
  show ?thesis
  proof (cases r1)
    case (Ok token)
    obtain r2 w2 where I: "run_state (patron_id e tc token ?b) w1 = (r2, w2)" by fastforce
    note i = patron_id_cases [OF I]
    have q2: "quiet w w2" using q1 i quiet_trans by blast
    note run2 = run1 [unfolded Ok go_result.case run_try_io [OF I]]
    show ?thesis
    proof (cases r2)
      case (Ok uid)
      obtain r3 w3 where V: "run_state (VerifyPatronCredentials e tc token uid ?b
          (msg_GetField msg F_PatronPassword)) w2 = (r3, w3)" by fastforce
      note v = Verify_cases [OF V]
      have q3: "quiet w w3" using q2 v quiet_trans by blast
      note run3 = run2 [unfolded Ok go_result.case run_try_io [OF V]]
      show ?thesis
      proof (cases r3)
        case ok3: (Ok vr)
        show ?thesis
        proof (cases "Required vr \<and> \<not> Verified vr")
          case True
          then show ?thesis using run3 ok3 q3 by (simp add: if_True) blast
        next
          case False
          have "found_patron e tc ?b uid w (wSent w2)"
            using i Ok auth_keeps_patron [OF A] quiet_prefix [OF q1] found_patron_later by metis
          then have "verified_patron e tc msg uid w w3"
            using v ok3 False i Ok quiet_length [OF q2] by (auto simp: verified_patron_def)
          moreover have "run_state (go token uid) w3 = (r, w')" using run3 ok3 False by (simp only: go_result.case if_False)
          ultimately show ?thesis using q3 by blast
        qed
      qed (use run3 q3 in auto)
    qed (use run2 q2 in auto)
  qed (use run1 q1 in auto)
qed

text \<open>Building a response asks FOLIO for nothing.\<close>

lemma build_responses_send [sending]:
  "sends n Q (buildCheckoutResponse e tc msg ok ids t d m)" "sends n Q (buildRenewResponseWithError e tc msg ids m)"
  "sends n Q (buildRenewResponse e tc msg ok ids d t)" "sends n Q (renew_all_error e tc msg m)"
  "sends n Q (renew_all_response e tc msg tally)"
  unfolding buildCheckoutResponse_def buildRenewResponseWithError_def buildRenewResponse_def renew_all_error_def
    renew_all_response_def Let_def
  by (intro sends_bind_read sending)+

lemma after_read: "sends 0 Q m \<Longrightarrow> run_state m w = (r, w') \<Longrightarrow> wSent w' = wSent w"
  by (erule (1) sendsD) simp

text \<open>
  A guarded request of a handler comes after the verification of its patron. The handlers
  end like \<open>with_verified_patron\<close>, in a state they reach quietly.
\<close>

definition lends_verified :: "env \<Rightarrow> TenantConfig \<Rightarrow> Message \<Rightarrow> world \<Rightarrow> world \<Rightarrow> bool" where
  "lends_verified e tc msg w w' \<longleftrightarrow>
     quiet w w' \<or>
     (\<exists>w1 uid rqs. quiet w w1 \<and> verified_patron e tc msg uid w w1 \<and> wSent w' = wSent w1 @ rqs)"

lemma lends_verified_half:
  assumes "run_state (with_verified_patron e tc msg refuse go am) w = (r, w')"
    and refuse: "\<And>m. sends 0 (\<lambda>_. False) (refuse m)" and go: "\<And>t u. \<exists>n. sends n (\<lambda>_. True) (go t u)"
  shows "lends_verified e tc msg w w'"
  using with_verified_patron_cases [OF assms(1)]
proof (elim disjE exE conjE)
  fix w1 m assume "quiet w w1" "run_state (refuse m) w1 = (r, w')"
  then show ?thesis using after_read [OF refuse] by (metis lends_verified_def quiet_cong)
next
  fix w1 token uid assume *: "quiet w w1" "verified_patron e tc msg uid w w1" "run_state (go token uid) w1 = (r, w')"
  obtain n where "sends n (\<lambda>_. True) (go token uid)" using go by blast
  then show ?thesis using * unfolding lends_verified_def by (metis sendsD)
qed (simp add: lends_verified_def)

subsection \<open>How many requests\<close>

lemma sends_half:
  assumes "\<And>m. sends 0 (\<lambda>_. True) (refuse m)" "\<And>t u. sends n (\<lambda>_. True) (go t u)"
  shows "sends (9 + n) (\<lambda>_. True) (with_verified_patron e tc msg refuse go am)"
proof -
  have auth: "sends 7 (\<lambda>_. True) (getAuthenticatedFolioClient e)"
    using sends_auth_client by (rule sends_weaken) simp
  have pid: "sends 1 (\<lambda>_. True) (patron_id e tc token b)" for token b
    unfolding patron_id_def
    by (intro sends_bind_read [OF sends_reads(1)] sending sends_try_io [where n = 1 and k = 0] sends_bind_read) simp_all
  have ver: "sends 1 (\<lambda>_. True) (VerifyPatronCredentials e tc token uid b pw)" for token uid b pw
    unfolding VerifyPatronCredentials_def by (intro sending sends_bind_last)
  have "sends (1 + (1 + n)) (\<lambda>_. True) (try_io (patron_id e tc token b)
      (\<lambda>uid. try_io (VerifyPatronCredentials e tc token uid b pw)
         (\<lambda>v. if Required v \<and> \<not> Verified v then refuse GetVerificationErrorMessage else go token uid)
         (\<lambda>err. State_Monad.return (Err err)))
      (\<lambda>err. refuse GetVerificationErrorMessage))" for token b pw
    by (intro sends_try_io [OF pid, where k = "1 + n"] sends_try_io [OF ver, where k = n] sending assms(2)
        sends_mono [OF assms(1)]) simp_all
  then show ?thesis unfolding with_verified_patron_def Let_def
    by (intro sends_try_io [OF auth, where k = "1 + (1 + n)"] sends_mono [OF assms(1)]) simp_all
qed

lemma sends_checkout_done: "sends 4 (\<lambda>_. True) (checkout_done e tc msg ids token loan)"
proof -
  have title: "sends 2 (\<lambda>_. True) (checkout_title e c token item)" for c item
    unfolding checkout_title_def
    by (intro sending sends_try_io [where n = 1 and k = 1] sends_try_io [where n = 1 and k = 0]) simp_all
  show ?thesis unfolding checkout_done_def Let_def
    by (intro sending sends_try_io [where n = 2 and k = 2] sends_try_io [where n = 2 and k = 0] title) simp_all
qed

lemma sends_checkout_loan: "sends 5 (\<lambda>_. True) (checkout_loan e tc msg ids location token)"
  unfolding checkout_loan_def
  by (intro sends_bind_read [OF sends_reads(2)] sending sends_try_io [where n = 1 and k = 4] sends_checkout_done) simp_all

lemma sends_renew_loan: "sends 4 (\<lambda>_. True) (renew_loan e tc msg ids token)"
proof -
  have lookup: "sends 2 (\<lambda>_. True) (renewed_lookup e c token loan)" for c loan
    unfolding renewed_lookup_def
    by (intro sending sends_try_io [where n = 1 and k = 1] sends_try_io [where n = 1 and k = 0]) simp_all
  have inst: "sends 2 (\<lambda>_. True) (renewed_instance e c token loan)" for c loan
    unfolding renewed_instance_def by (intro sending lookup)
  have title: "sends 1 (\<lambda>_. True) (instance_title e c token i)" for c i
    unfolding instance_title_def by (intro sending sends_try_io [where n = 1 and k = 0]) simp_all
  show ?thesis unfolding renew_loan_def
    by (intro sending sends_try_io [where n = 1 and k = 3] sends_try_io [OF inst, where k = 1]
        sends_try_io [OF title, where k = 0]) simp_all
qed

lemma sends_renew_each: "sends (2 * length loans) (\<lambda>_. True) (renew_each e tc token p loans t)"
proof (induction loans arbitrary: t)
  case (Cons loan loans)
  have b: "sends 1 (\<lambda>_. True) (barcode_or_id e c token i)" for c i
    unfolding barcode_or_id_def by (intro sending sends_try_io [where n = 1 and k = 0]) simp_all
  have "sends 2 (\<lambda>_. True) (renew_one e tc token p loan t)"
    unfolding renew_one_def Let_def
    by (intro sending sends_try_io [where n = 1 and k = 1] sends_try_io [OF b, where k = 0]) simp_all
  then show ?case by (simp add: sends_try_io [OF _ Cons.IH sends_return])
qed (simp add: sending)

lemma sends_renew_all_loans:
  "sends (1 + 2 * nat (GetRenewAllMaxItems tc)) (\<lambda>_. True) (renew_all_loans e tc msg token uid)"
proof -
  have "sends (2 * nat (GetRenewAllMaxItems tc)) (\<lambda>_. True)
      (renew_each e tc token uid (take (nat (GetRenewAllMaxItems tc)) loans) t)" for loans t
    using sends_renew_each by (rule sends_mono) simp
  then show ?thesis unfolding renew_all_loans_def
    by (intro sends_try_io [where n = 1 and k = "2 * nat (GetRenewAllMaxItems tc)"] sending
        sends_try_io [where n = "2 * nat (GetRenewAllMaxItems tc)" and k = 0]) simp_all
qed

subsection \<open>The handlers\<close>

lemma Checkout_sends: "sends 14 (\<lambda>_. True) (CheckoutHandler_Handle e msg)"
  unfolding CheckoutHandler_Handle_def Let_def
  by (intro sends_bind_read sending sends_mono [OF sends_half [OF _ sends_checkout_loan]]) simp_all

lemma Renew_sends: "sends 13 (\<lambda>_. True) (RenewHandler_Handle e msg)"
  unfolding RenewHandler_Handle_def Let_def
  by (intro sending sends_mono [OF sends_half [OF _ sends_renew_loan]]) simp_all

lemma Checkout_verified:
  assumes "run_state (CheckoutHandler_Handle e msg) w = (r, w')" "sessTenant (wSession w) = Some tc"
  shows "lends_verified e tc msg w w'"
proof -
  let ?item = "msg_GetField msg F_ItemIdentifier"
  let ?ids = "(msg_GetField msg F_InstitutionID, msg_GetField msg F_PatronIdentifier, ?item)"
  note half = lends_verified_half [of e tc msg "buildCheckoutResponse e tc msg False ?ids ?item zero_time" _ _ w r w']
  show ?thesis
  proof (cases "validateRequiredFields msg [F_PatronIdentifier, F_ItemIdentifier] \<and> LocationCode (wSession w) \<noteq> []")
    case True
    then show ?thesis using assms
      by (intro half) (auto simp: CheckoutHandler_Handle_def run_with_tenant get_session_def Let_def
          intro!: build_responses_send exI sends_checkout_loan)
  next
    case False
    then have "wSent w' = wSent w"
      using assms by (auto simp: CheckoutHandler_Handle_def run_with_tenant get_session_def Let_def
          dest: after_read [OF build_responses_send(1)] split: if_splits)
    then show ?thesis using quiet_cong quiet_refl by (metis lends_verified_def)
  qed
qed

lemma Renew_verified:
  assumes "run_state (RenewHandler_Handle e msg) w = (r, w')" "sessTenant (wSession w) = Some tc"
  shows "lends_verified e tc msg w w'"
proof (cases "validateRequiredFields msg [F_PatronIdentifier, F_ItemIdentifier]")
  case True
  then show ?thesis using assms
    by (intro lends_verified_half) (auto simp: RenewHandler_Handle_def run_with_tenant Let_def
        intro!: build_responses_send exI sends_renew_loan)
next
  case False
  then have "\<exists>ids m. run_state (buildRenewResponseWithError e tc msg ids m) w = (r, w')"
    using assms by (auto simp: RenewHandler_Handle_def run_with_tenant)
  then show ?thesis using after_read [OF build_responses_send(2)] quiet_cong quiet_refl by (metis lends_verified_def)
qed

lemma RenewAll_verified:
  assumes "run_state (RenewAllHandler_Handle e msg) w = (r, w')" "sessTenant (wSession w) = Some tc"
  shows "lends_verified e tc msg w w'"
proof (cases "validateRequiredFields msg [F_PatronIdentifier]")
  case True
  then show ?thesis using assms
    by (intro lends_verified_half) (auto simp: RenewAllHandler_Handle_def run_with_tenant
        intro!: build_responses_send exI sends_renew_all_loans)
next
  case False
  then have "\<exists>m. run_state (renew_all_error e tc msg m) w = (r, w')"
    using assms by (auto simp: RenewAllHandler_Handle_def run_with_tenant)
  then show ?thesis using after_read [OF build_responses_send(4)] quiet_cong quiet_refl by (metis lends_verified_def)
qed

lemma lends_verifiedD:
  assumes "lends_verified e tc msg w w'" "PatronPasswordVerificationRequired tc"
    and "rq \<in> set (drop (length (wSent w)) (wSent w'))" "guarded_request rq"
  shows "\<exists>pre v rest uid. wSent w' = pre @ [v] @ rest \<and> length (wSent w) \<le> length pre \<and> rq \<in> set rest \<and>
    accepted e pre v \<and> found_patron e tc (msg_GetField msg F_PatronIdentifier) uid w pre \<and>
    verification_request tc uid (msg_GetField msg F_PatronIdentifier) (msg_GetField msg F_PatronPassword) v"
proof -
  have "\<not> quiet w w'" using assms(3,4) by (auto simp: quiet_def list_all_iff)
  then obtain w1 uid rqs where "quiet w w1" "verified_patron e tc msg uid w w1" "wSent w' = wSent w1 @ rqs"
    using assms(1) by (auto simp: lends_verified_def)
  note here = this
  have "rq \<in> set rqs" using here assms(3,4) by (auto simp: quiet_def list_all_iff)
  moreover obtain pre v where "wSent w1 = pre @ [v]" "length (wSent w) \<le> length pre" "accepted e pre v"
    "found_patron e tc (msg_GetField msg F_PatronIdentifier) uid w pre"
    "verification_request tc uid (msg_GetField msg F_PatronIdentifier) (msg_GetField msg F_PatronPassword) v"
    using here(2) assms(2) by (auto simp: verified_patron_def)
  ultimately show ?thesis using here(3) by (metis append.assoc)
qed

end
