(* ===== verification/Custom_Fields.thy ===== *)
theory Custom_Fields
  imports Folio_User Tenant_Config Protocol "HOL-Library.Char_ord" "HOL-Library.List_Lexorder"
begin

text \<open>
  \<open>internal/sip2/customfields/processor.go\<close>: the custom fields of a user as fields of a patron
  information response. The value of a field comes from FOLIO; the lemmas show that what is
  added to the response is one field of its configured length, whatever the value contains.
\<close>

text \<open>
  \<open>fmt.Sprintf ("%v")\<close> of a decoded JSON value. A number carries the text it is printed as: \<open>JNum\<close> an
  integer, \<open>JFloat\<close> any other.
\<close>

fun sprint_v :: "json \<Rightarrow> string" where
  "sprint_v JNull = ''<nil>''"
| "sprint_v (JBool b) = (if b then ''true'' else ''false'')"
| "sprint_v (JNum i) = int_str i"
| "sprint_v (JFloat s) = s"
| "sprint_v (JStr s) = s"
| "sprint_v (JArr vs) = ''['' @ join '' '' (map sprint_v vs) @ '']''"
| "sprint_v (JObj kvs) =
     ''map['' @ join '' '' (map snd (sort_key fst (map (\<lambda>kv. (fst kv, fst kv @ '':'' @ sprint_v (snd kv))) kvs))) @ '']''"

definition formatCustomField :: "CustomFieldMapping \<Rightarrow> json \<Rightarrow> string option" where
  "formatCustomField mapping v =
     (if cfm_Type mapping = ''string'' then
        (case v of JStr s \<Rightarrow> if s = [] then None else Some s | _ \<Rightarrow> Some (sprint_v v))
      else if cfm_Type mapping = ''boolean'' then
        (case v of JBool b \<Rightarrow> Some (if b then ''true'' else ''false'') | _ \<Rightarrow> None)
      else if cfm_Type mapping = ''array'' then
        (case v of
           JArr vs \<Rightarrow> if vs = [] then None
             else Some (join (if ArrayDelimiter mapping = [] then '','' else ArrayDelimiter mapping) (map sprint_v vs))
         | _ \<Rightarrow> None)
      else None)"

definition blank_control :: "nat \<Rightarrow> nat" where
  "blank_control r = (if r < 32 \<and> r \<noteq> 9 then 32 else r)"

definition validateAndSanitize :: "string \<Rightarrow> string \<Rightarrow> string option" where
  "validateAndSanitize v delimiter =
     (if sublist delimiter v then None
      else if CR \<in> set v \<or> LF \<in> set v then None
      else Some (encode_runes (map blank_control (runes v))))"

text \<open>One configured field: left out, or its text. A negative limit panics on a longer value.\<close>

definition custom_field ::
  "(nat \<Rightarrow> nat) \<Rightarrow> string \<Rightarrow> (string \<times> json) list \<Rightarrow> CustomFieldMapping \<Rightarrow> (unit, string option) go_result" where
  "custom_field uni delimiter cfs mapping =
     (case map_of cfs (cfm_Source mapping) of
        None \<Rightarrow> Ok None
      | Some JNull \<Rightarrow> Ok None
      | Some v \<Rightarrow>
          (case formatCustomField mapping v of
             None \<Rightarrow> Ok None
           | Some formatted \<Rightarrow>
               if formatted = [] then Ok None
               else (case validateAndSanitize formatted delimiter of
                   None \<Rightarrow> Ok None
                 | Some sanitized \<Rightarrow>
                     if int (length sanitized) > MaxLength mapping then
                       if MaxLength mapping < 0 then Panic
                       else Ok (Some (delimiter @ ToUpper uni (cfm_Code mapping) @ take (nat (MaxLength mapping)) sanitized))
                     else Ok (Some (delimiter @ ToUpper uni (cfm_Code mapping) @ sanitized)))))"

fun collect_fields :: "(unit, string option) go_result list \<Rightarrow> (unit, string list) go_result" where
  "collect_fields [] = Ok []"
| "collect_fields (r # rs) =
     (case r of
        Ok None \<Rightarrow> collect_fields rs
      | Ok (Some s) \<Rightarrow> go_bind (collect_fields rs) (\<lambda>ss. Ok (s # ss))
      | Err u \<Rightarrow> Err u
      | Panic \<Rightarrow> Panic)"

definition ProcessCustomFields ::
  "(nat \<Rightarrow> nat) \<Rightarrow> User option \<Rightarrow> PatronCustomFieldsConfig option \<Rightarrow> string \<Rightarrow> (unit, string list) go_result" where
  "ProcessCustomFields uni user cfg delimiter =
     (case cfg of
        None \<Rightarrow> Ok []
      | Some c \<Rightarrow>
          if \<not> pcf_Enabled c then Ok []
          else (case user of
              None \<Rightarrow> Ok []
            | Some u \<Rightarrow> collect_fields (map (custom_field uni delimiter (CustomFields u)) (pcf_Fields c))))"

subsection \<open>What a field contains\<close>

lemma blank_control_scalar: "scalar r \<Longrightarrow> scalar (blank_control r)"
  by (auto simp: blank_control_def scalar_def)


lemma sanitized_char:
  assumes "validateAndSanitize v delim = Some s" "c \<in> set s" "byte c < 0x80"
  shows "c = CHR '' '' \<or> c \<in> set v"
proof -
  have "s = encode_runes (map blank_control (runes v))"
    using assms(1) by (auto simp: validateAndSanitize_def split: if_splits)
  then obtain r where r: "r \<in> set (runes v)" "c \<in> set (encode_rune (blank_control r))"
    using assms(2) by (auto simp: encode_runes_def)
  then have "blank_control r = byte c" using encode_rune_ascii_byte assms(3) by blast
  then have "byte c = byte (CHR '' '') \<or> r = byte c" by (auto simp: blank_control_def split: if_splits)
  then show ?thesis
  proof
    assume "r = byte c"
    then show ?thesis using runes_ascii_byte r(1) assms(3) byte_inj by metis
  qed (unfold byte_inj, blast)
qed

lemma validateAndSanitize_clean:
  assumes "validateAndSanitize v [d] = Some s" "plain_delim d"
  shows "d \<notin> set s \<and> CR \<notin> set s \<and> LF \<notin> set s"
proof -
  have "d \<notin> set v" "CR \<notin> set v" "LF \<notin> set v"
    using assms(1) by (auto simp: validateAndSanitize_def sublist_singleton split: if_splits)
  moreover have "byte d < 0x80" "d \<noteq> CHR '' ''" using assms(2) by (simp_all add: plain_delim_def)
  ultimately show ?thesis using sanitized_char [OF assms(1)] by fastforce
qed

lemma custom_field_one:
  assumes "custom_field uni [d] cfs mapping = Ok (Some t)" "plain_delim d" "0 \<le> MaxLength mapping"
  shows "\<exists>v. t = [d] @ ToUpper uni (cfm_Code mapping) @ v \<and> int (length v) \<le> MaxLength mapping \<and>
    d \<notin> set v \<and> CR \<notin> set v \<and> LF \<notin> set v"
proof -
  obtain formatted s where s: "validateAndSanitize formatted [d] = Some s"
    and t: "t = [d] @ ToUpper uni (cfm_Code mapping) @ take (nat (MaxLength mapping)) s \<or>
      (t = [d] @ ToUpper uni (cfm_Code mapping) @ s \<and> int (length s) \<le> MaxLength mapping)"
    using assms(1) by (auto simp: custom_field_def split: option.splits json.splits if_splits)
  note clean = validateAndSanitize_clean [OF s assms(2)]
  from t show ?thesis
  proof
    assume "t = [d] @ ToUpper uni (cfm_Code mapping) @ take (nat (MaxLength mapping)) s"
    then show ?thesis using clean assms(3) by (auto dest: in_set_takeD)
  qed (use clean in blast)
qed

lemma collect_fields_set: "collect_fields rs = Ok ts \<Longrightarrow> t \<in> set ts \<Longrightarrow> Ok (Some t) \<in> set rs"
proof (induction rs arbitrary: ts)
  case (Cons r rs)
  then show ?case by (cases r; cases "collect_fields rs") (auto split: option.splits)
qed simp

lemma ProcessCustomFields_fields:
  assumes "ProcessCustomFields uni user (Some cfg) [d] = Ok ts" "t \<in> set ts" "plain_delim d"
    and "\<forall>m \<in> set (pcf_Fields cfg). 0 \<le> MaxLength m"
  shows "\<exists>m \<in> set (pcf_Fields cfg). \<exists>v. t = [d] @ ToUpper uni (cfm_Code m) @ v \<and> int (length v) \<le> MaxLength m \<and>
    d \<notin> set v \<and> CR \<notin> set v \<and> LF \<notin> set v"
proof -
  have "\<exists>u :: User. collect_fields (map (custom_field uni [d] (CustomFields u)) (pcf_Fields cfg)) = Ok ts"
    using assms(1,2) by (cases user) (auto simp: ProcessCustomFields_def split: if_splits)
  then obtain u :: User where "collect_fields (map (custom_field uni [d] (CustomFields u)) (pcf_Fields cfg)) = Ok ts" ..
  from collect_fields_set [OF this assms(2)]
  obtain m where "m \<in> set (pcf_Fields cfg)" "custom_field uni [d] (CustomFields u) m = Ok (Some t)" by auto
  then show ?thesis using custom_field_one assms(3,4) by blast
qed

text \<open>A validated configuration has positive limits, so nothing panics.\<close>

lemma collect_fields_no_Panic: "(\<And>r. r \<in> set rs \<Longrightarrow> r \<noteq> Panic) \<Longrightarrow> collect_fields rs \<noteq> Panic"
proof (induction rs)
  case (Cons r rs)
  then show ?case by (cases r; cases "collect_fields rs") (auto split: option.splits)
qed simp

lemma custom_field_no_Panic: "0 \<le> MaxLength m \<Longrightarrow> custom_field uni delim cfs m \<noteq> Panic"
  by (simp add: custom_field_def split: option.split json.split)

lemma ProcessCustomFields_no_Panic:
  assumes "\<forall>m \<in> set (pcf_Fields cfg). 0 \<le> MaxLength m"
  shows "ProcessCustomFields uni user (Some cfg) delim \<noteq> Panic"
proof -
  have "collect_fields (map (custom_field uni delim cfs) (pcf_Fields cfg)) \<noteq> Panic" for cfs
    using assms by (intro collect_fields_no_Panic) (auto simp: custom_field_no_Panic)
  then show ?thesis by (simp add: ProcessCustomFields_def split: option.split)
qed

end
