(* ===== verification/Renewal.thy ===== *)
theory Renewal
  imports Tenant_Config Folio_User
begin

text \<open>
  Rolling renewal of patron accounts: the date arithmetic of \<open>internal/config/dateutil.go\<close> and
  the decision of \<open>internal/renewal/service.go\<close>. Dates are compared at midnight UTC of their
  own calendar day.
\<close>

definition StripTime :: "GoTime \<Rightarrow> GoTime" where
  "StripTime t = (case date_of t of (y, m, d) \<Rightarrow> Date_UTC y m d)"

definition AddDuration :: "GoTime \<Rightarrow> int \<Rightarrow> string \<Rightarrow> (string, GoTime) go_result" where
  "AddDuration baseDate v period =
     (if v < 0 then Err ''value must be non-negative''
      else let base = StripTime baseDate in
        if period = ''D'' then Ok (StripTime (AddDate_UTC base 0 0 v))
        else if period = ''M'' then Ok (StripTime (AddDate_UTC base 0 v 0))
        else if period = ''Y'' then Ok (StripTime (AddDate_UTC base v 0 0))
        else Err ''invalid period'')"

definition SubtractDuration :: "GoTime \<Rightarrow> int \<Rightarrow> string \<Rightarrow> (string, GoTime) go_result" where
  "SubtractDuration baseDate v period =
     (if v < 0 then Err ''value must be non-negative''
      else let base = StripTime baseDate in
        if period = ''D'' then Ok (StripTime (AddDate_UTC base 0 0 (int64 (- v))))
        else if period = ''M'' then Ok (StripTime (AddDate_UTC base 0 (int64 (- v)) 0))
        else if period = ''Y'' then Ok (StripTime (AddDate_UTC base (int64 (- v)) 0 0))
        else Err ''invalid period'')"

definition IsWithinPeriod :: "GoTime \<Rightarrow> GoTime \<Rightarrow> string \<Rightarrow> (string, bool) go_result" where
  "IsWithinPeriod expirationDate today renewWithin =
     (case ParseDuration renewWithin of
        Err e \<Rightarrow> Err ''failed to parse renewWithin'' | Panic \<Rightarrow> Panic
      | Ok parsed \<Rightarrow>
          (case AddDuration (StripTime today) (Value parsed) (Period parsed) of
             Err e \<Rightarrow> Err ''failed to calculate threshold date'' | Panic \<Rightarrow> Panic
           | Ok thresholdDate \<Rightarrow> Ok (\<not> After (StripTime expirationDate) thresholdDate)))"

definition IsExpired :: "GoTime \<Rightarrow> GoTime \<Rightarrow> bool" where
  "IsExpired expirationDate today = Before (StripTime expirationDate) (StripTime today)"

text \<open>\<open>FormatDate\<close>: midnight UTC in the layout 2006-01-02T15:04:05.000-07:00.\<close>

definition FormatDate :: "GoTime \<Rightarrow> string" where
  "FormatDate t =
     (case date_of (StripTime t) of (y, m, d) \<Rightarrow>
        append_int 4 y @ ''-'' @ append_int 2 m @ ''-'' @ append_int 2 d @ ''T00:00:00.000+00:00'')"

record RenewalDecision =
  rdShouldRenew :: bool
  rdReason :: string

abbreviation (input) no_renewal :: "string \<Rightarrow> RenewalDecision" where
  "no_renewal reason \<equiv> \<lparr>rdShouldRenew = False, rdReason = reason\<rparr>"

definition expired_too_long :: "RollingRenewalConfig \<Rightarrow> GoTime \<Rightarrow> GoTime \<Rightarrow> RenewalDecision option" where
  "expired_too_long cfg expiration today =
     (case ParseDuration (ExtendExpiredLimits cfg) of
        Ok limit \<Rightarrow>
          (case SubtractDuration today (Value limit) (Period limit) of
             Ok cutoffDate \<Rightarrow>
               if Before expiration cutoffDate
               then Some (no_renewal ''account expired beyond extendExpiredLimits'') else None
           | _ \<Rightarrow> Some (no_renewal ''error calculating extendExpiredLimits cutoff''))
      | _ \<Rightarrow> Some (no_renewal ''error parsing extendExpiredLimits''))"

definition within_window :: "RollingRenewalConfig \<Rightarrow> GoTime \<Rightarrow> GoTime \<Rightarrow> RenewalDecision" where
  "within_window cfg expiration today =
     (case IsWithinPeriod expiration today (RenewWithin cfg) of
        Ok True \<Rightarrow> \<lparr>rdShouldRenew = True, rdReason = ''eligible for renewal''\<rparr>
      | Ok False \<Rightarrow> no_renewal ''expiration date not within renewal window''
      | _ \<Rightarrow> no_renewal ''error checking renewal window'')"

definition ShouldRenew :: "User \<Rightarrow> RollingRenewalConfig \<Rightarrow> GoTime \<Rightarrow> RenewalDecision" where
  "ShouldRenew user cfg today =
     (if \<not> rr_Enabled cfg then no_renewal ''rolling renewals disabled''
      else case ExpirationDate user of
        None \<Rightarrow> no_renewal ''user has no expiration date''
      | Some expiration \<Rightarrow>
        if SelectPatrons cfg \<and> \<not> list_ex (\<lambda>g. PatronGroup user = g) (AllowedPatrons cfg)
        then no_renewal ''patron group not in allowed list''
        else let isExpired = IsExpired expiration today in
          if isExpired \<and> \<not> ExtendExpired cfg then no_renewal ''account expired and extendExpired is false''
          else if isExpired \<and> ExtendExpiredLimits cfg \<noteq> [] then
            (case expired_too_long cfg expiration today of
               Some decision \<Rightarrow> decision
             | None \<Rightarrow> within_window cfg expiration today)
          else within_window cfg expiration today)"

definition CalculateNewExpiration :: "GoTime \<Rightarrow> RollingRenewalConfig \<Rightarrow> (string, GoTime) go_result" where
  "CalculateNewExpiration today cfg =
     (case ParseDuration (ExtendFor cfg) of
        Err e \<Rightarrow> Err ''failed to parse extendFor duration'' | Panic \<Rightarrow> Panic
      | Ok duration \<Rightarrow>
          (case AddDuration today (Value duration) (Period duration) of
             Err e \<Rightarrow> Err ''failed to calculate new expiration'' | Panic \<Rightarrow> Panic
           | Ok t \<Rightarrow> Ok t))"

subsection \<open>The decision\<close>

theorem ShouldRenew_iff:
  "rdShouldRenew (ShouldRenew user cfg today) \<longleftrightarrow>
     rr_Enabled cfg \<and>
     (\<exists>e. ExpirationDate user = Some e \<and>
        (SelectPatrons cfg \<longrightarrow> PatronGroup user \<in> set (AllowedPatrons cfg)) \<and>
        (IsExpired e today \<longrightarrow> ExtendExpired cfg \<and>
          (ExtendExpiredLimits cfg \<noteq> [] \<longrightarrow>
             (\<exists>limit cutoff. ParseDuration (ExtendExpiredLimits cfg) = Ok limit \<and>
                SubtractDuration today (Value limit) (Period limit) = Ok cutoff \<and> \<not> Before e cutoff))) \<and>
        IsWithinPeriod e today (RenewWithin cfg) = Ok True)"
proof -
  have w: "rdShouldRenew (within_window cfg e today) \<longleftrightarrow> IsWithinPeriod e today (RenewWithin cfg) = Ok True" for e
    by (auto simp: within_window_def split: go_result.splits bool.splits)
  have x: "(case expired_too_long cfg e today of Some decision \<Rightarrow> rdShouldRenew decision
        | None \<Rightarrow> rdShouldRenew (within_window cfg e today)) \<longleftrightarrow>
      (\<exists>limit cutoff. ParseDuration (ExtendExpiredLimits cfg) = Ok limit \<and>
         SubtractDuration today (Value limit) (Period limit) = Ok cutoff \<and> \<not> Before e cutoff) \<and>
      IsWithinPeriod e today (RenewWithin cfg) = Ok True" for e
    by (auto simp: expired_too_long_def w split: go_result.splits)
  show ?thesis
    by (auto simp: ShouldRenew_def Let_def w x list_ex_iff option.case_distrib [of rdShouldRenew]
        split: option.split)
qed

lemma AddDuration_ok: "0 \<le> v \<Longrightarrow> p \<in> {''M'', ''D'', ''Y''} \<Longrightarrow> is_ok (AddDuration t v p)"
  by (auto simp: AddDuration_def Let_def)

lemma SubtractDuration_ok: "0 \<le> v \<Longrightarrow> p \<in> {''M'', ''D'', ''Y''} \<Longrightarrow> is_ok (SubtractDuration t v p)"
  by (auto simp: SubtractDuration_def Let_def)

text \<open>With a configuration that validates, the window test never fails with an error.\<close>

lemma IsWithinPeriod_ok:
  assumes "is_ok (ParseDuration w)"
  shows "is_ok (IsWithinPeriod e today w)"
proof -
  obtain d where d: "ParseDuration w = Ok d" using assms by (auto simp: is_ok_iff)
  have "is_ok (AddDuration (StripTime today) (Value d) (Period d))"
    using ParseDuration_bounds [OF d] by (intro AddDuration_ok) auto
  then show ?thesis by (auto simp: IsWithinPeriod_def d is_ok_iff)
qed

lemma CalculateNewExpiration_ok:
  assumes "rr_Validate cfg = None" "rr_Enabled cfg"
  shows "is_ok (CalculateNewExpiration today cfg)"
proof -
  obtain d where d: "ParseDuration (ExtendFor cfg) = Ok d"
    using assms by (auto simp: rr_Validate_def is_ok_iff split: if_splits)
  have "is_ok (AddDuration today (Value d) (Period d))"
    using ParseDuration_bounds [OF d] by (intro AddDuration_ok) auto
  then show ?thesis by (auto simp: CalculateNewExpiration_def d is_ok_iff)
qed

subsection \<open>The calendar moves forward\<close>

text \<open>The days before a year that starts in March, and before a month counted from March of year 0.\<close>

definition year_days :: "int \<Rightarrow> int" where
  "year_days y = 365 * y + y div 4 - y div 100 + y div 400"

definition month_days :: "int \<Rightarrow> int" where
  "month_days n = year_days (n div 12) + (153 * (n mod 12) + 2) div 5"

lemma year_days_split: "year_days y = (y div 400) * 146097 + (y mod 400) * 365 + y mod 400 div 4 - y mod 400 div 100"
proof -
  define e k where "e = y div 400" and "k = y mod 400"
  have y: "y = k + 4 * (100 * e)" "y = k + 100 * (4 * e)" by (simp_all add: e_def k_def)
  have "y div 4 = k div 4 + 100 * e" by (subst y(1)) simp
  moreover have "y div 100 = k div 100 + 4 * e" by (subst y(2)) simp
  ultimately show ?thesis using y(1) unfolding year_days_def e_def [symmetric] k_def [symmetric] by simp
qed

lemma days_from_civil_months:
  assumes "1 \<le> m" "m \<le> 12"
  shows "days_from_civil y m d = month_days (12 * y + m - 3) + d - 307"
proof -
  define y' mp where "y' = (if m \<le> 2 then y - 1 else y)" and "mp = (if m > 2 then m - 3 else m + 9)"
  have n: "12 * y + m - 3 = mp + 12 * y'" "0 \<le> mp" "mp < 12"
    using assms by (auto simp: y'_def mp_def)
  have "(12 * y + m - 3) div 12 = y'" "(12 * y + m - 3) mod 12 = mp"
    using n(2,3) by (simp_all add: n(1))
  then show ?thesis
    unfolding days_from_civil_def Let_def month_days_def year_days_split y'_def [symmetric] mp_def [symmetric]
    by simp
qed

lemma year_days_Suc: "year_days y + 365 \<le> year_days (y + 1)"
proof -
  define q q' where "q = y div 4" and "q' = (y + 1) div 4"
  have h: "y div 100 = q div 25" "(y + 1) div 100 = q' div 25"
    by (simp_all add: q_def q'_def zdiv_zmult2_eq [symmetric])
  have "q \<le> q'" "q' \<le> (y + 4) div 4" by (simp_all add: q_def q'_def zdiv_mono1)
  then have "q' = q \<or> q' = q + 1" by (auto simp: q_def)
  moreover have "(q + 1) div 25 \<le> (q + 25) div 25" by (rule zdiv_mono1) simp_all
  ultimately have "(y + 1) div 100 - y div 100 \<le> q' - q" unfolding h by auto
  then show ?thesis using zdiv_mono1 [of y "y + 1" 400] by (simp add: year_days_def q_def q'_def)
qed

lemma month_days_Suc: "month_days n < month_days (n + 1)"
proof -
  define y k where "y = n div 12" and "k = n mod 12"
  have n: "n = k + 12 * y" "0 \<le> k" "k < 12" by (simp_all add: y_def k_def)
  have m: "month_days n = year_days y + (153 * k + 2) div 5" by (simp add: month_days_def y_def k_def)
  show ?thesis
  proof (cases "k < 11")
    case True
    have d: "n + 1 = (k + 1) + 12 * y" by (simp add: n(1))
    have "(n + 1) div 12 = y" "(n + 1) mod 12 = k + 1"
      using n True unfolding d by simp_all
    then have "month_days (n + 1) = year_days y + (153 * (k + 1) + 2) div 5" by (simp add: month_days_def)
    moreover have "((153 * k + 2) + 1 * 5) div 5 \<le> (153 * (k + 1) + 2) div 5" by (rule zdiv_mono1) simp_all
    moreover have "((153 * k + 2) + 1 * 5) div 5 = (153 * k + 2) div 5 + 1" by (subst div_mult_self1) simp_all
    ultimately show ?thesis unfolding m by linarith
  next
    case False
    then have k: "k = 11" using n by simp
    have d: "n + 1 = 0 + 12 * (y + 1)" using n(1) k by simp
    have "(n + 1) div 12 = y + 1" "(n + 1) mod 12 = 0" unfolding d by simp_all
    then have "month_days (n + 1) = year_days (y + 1)" by (simp add: month_days_def)
    then show ?thesis unfolding m k using year_days_Suc [of y] by simp
  qed
qed

lemma month_days_mono: "n < n' \<Longrightarrow> month_days n < month_days n'"
proof (induction n' rule: int_gr_induct)
  case base
  show ?case by (rule month_days_Suc)
next
  case (step i)
  then show ?case using month_days_Suc [of i] by simp
qed

lemma Date_UTC_days:
  "tm_ns (Date_UTC y m d) = (month_days (12 * y + m - 3) + d - 307) * 86400 * 1000000000"
proof -
  have "days_from_civil (y + (m - 1) div 12) ((m - 1) mod 12 + 1) 1 =
    month_days (12 * (y + (m - 1) div 12) + ((m - 1) mod 12 + 1) - 3) + 1 - 307"
    by (rule days_from_civil_months) (simp_all add: add1_zle_eq)
  moreover have "12 * (y + (m - 1) div 12) + ((m - 1) mod 12 + 1) - 3 = 12 * y + m - 3"
    using mult_div_mod_eq [of 12 "m - 1"] by (simp add: algebra_simps)
  ultimately show ?thesis by (simp add: Date_UTC_def algebra_simps)
qed

text \<open>Midnight UTC of the calendar day of an instant, and the dates after it.\<close>

lemma StripTime_days: "StripTime t = \<lparr>tm_ns = local_seconds t div 86400 * 86400 * 1000000000, tm_off = 0\<rparr>"
proof -
  obtain y m d where c: "civil_from_days (local_seconds t div 86400) = (y, m, d)" by (metis prod_cases3)
  then have m: "1 \<le> m" "m \<le> 12" using civil_from_days_bounds by blast+
  have "month_days (12 * y + m - 3) + d - 307 = local_seconds t div 86400"
    using days_from_civil_from_days [OF c] days_from_civil_months [OF m] by simp
  then have "tm_ns (Date_UTC y m d) = local_seconds t div 86400 * 86400 * 1000000000"
    by (simp add: Date_UTC_days)
  then show ?thesis by (simp add: StripTime_def date_of_def c Date_UTC_def)
qed

lemma StripTime_idem [simp]: "StripTime (StripTime t) = StripTime t"
  by (simp add: StripTime_days local_seconds_def)

lemma StripTime_Date_UTC [simp]: "StripTime (Date_UTC y m d) = Date_UTC y m d"
  by (simp add: StripTime_days local_seconds_def Date_UTC_def)

text \<open>For times and durations of any use nothing wraps around.\<close>

lemma month_days_bounds:
  assumes "0 \<le> n"
  shows "0 \<le> month_days n" "month_days n \<le> 31 * n + 400"
proof -
  define y k where "y = n div 12" and "k = n mod 12"
  have n: "n = 12 * y + k" "0 \<le> k" "k < 12" "0 \<le> y" using assms by (simp_all add: y_def k_def pos_imp_zdiv_nonneg_iff)
  have q: "(153 * k + 2) div 5 \<le> (153 * 11 + 2) div 5" "0 \<le> (153 * k + 2) div 5"
    using n(2,3) by (simp_all add: zdiv_mono1 pos_imp_zdiv_nonneg_iff)
  have "y div 100 \<le> y div 4" using zdiv_mono2 [of y 4 100] n(4) by simp
  moreover have "y div 400 \<le> y div 100" using zdiv_mono2 [of y 100 400] n(4) by simp
  moreover have "0 \<le> y div 400" using n(4) by (simp add: pos_imp_zdiv_nonneg_iff)
  moreover have "y div 4 \<le> y" using zdiv_mono2 [of y 1 4] n(4) by simp
  ultimately have "0 \<le> year_days y" "year_days y \<le> 366 * y" using n(4) by (simp_all add: year_days_def)
  then show "0 \<le> month_days n" "month_days n \<le> 31 * n + 400"
    using q n by (simp_all add: month_days_def y_def [symmetric] k_def [symmetric])
qed

lemma AddDate_UTC_exact:
  assumes "date_of t = (y, m, d)" "0 \<le> y" "y \<le> 9999" "0 \<le> years" "years \<le> 10 ^ 9" "0 \<le> months" "months \<le> 10 ^ 9"
    and "0 \<le> days" "days \<le> 10 ^ 9"
  shows "AddDate_UTC t years months days = Date_UTC (y + years) (m + months) (d + days)"
proof -
  have md: "1 \<le> m" "m \<le> 12" "1 \<le> d" "d \<le> 31"
    using civil_from_days_bounds assms(1) unfolding date_of_def by blast+
  define k where "k = month_days (12 * (y + years) + (m + months) - 3 + 12)"
  let ?n = "12 * (y + years) + (m + months) - 3"
  have up: "month_days ?n \<le> k" and k: "k \<le> 31 * (?n + 12) + 400"
    using month_days_bounds [of "?n + 12"] md assms month_days_mono [of ?n "?n + 12"] by (simp_all add: k_def)
  have low: "- 400 \<le> month_days ?n"
  proof (cases "0 \<le> ?n")
    case False
    then have "?n = - 2 \<or> ?n = - 1" using md assms by arith
    then show ?thesis by (auto simp: month_days_def year_days_def)
  qed (use month_days_bounds(1) in fastforce)
  let ?t = "Date_UTC (y + years) (m + months) (d + days)"
  have "tm_ns ?t div 1000000000 = (month_days ?n + (d + days) - 307) * 86400"
    by (simp add: Date_UTC_days)
  moreover have "- (2 ^ 63) \<le> (month_days ?n + (d + days) - 307) * 86400"
    "(month_days ?n + (d + days) - 307) * 86400 < 2 ^ 63"
    using up k low md assms by simp_all
  ultimately have "wrapped_time ?t = ?t" by (intro wrapped_time_id) simp_all
  then show ?thesis using assms md by (simp add: AddDate_UTC_def)
qed

lemma AddDate_UTC_after:
  assumes "0 \<le> years" "0 \<le> months" "0 \<le> days" "0 < years + months + days"
    and "years \<le> 10 ^ 9" "months \<le> 10 ^ 9" "days \<le> 10 ^ 9"
    and "date_of (StripTime t) = (y, m, d)" "0 \<le> y" "y \<le> 9999"
  shows "After (AddDate_UTC (StripTime t) years months days) (StripTime t)"
    "StripTime (AddDate_UTC (StripTime t) years months days) = AddDate_UTC (StripTime t) years months days"
proof -
  have "StripTime t = StripTime (StripTime t)" by simp
  also have "\<dots> = Date_UTC y m d" by (simp only: StripTime_def [of "StripTime t"] assms(8) prod.case)
  finally have s: "StripTime t = Date_UTC y m d" .
  have "month_days (12 * y + m - 3) + d < month_days (12 * (y + years) + (m + months) - 3) + (d + days)"
  proof (cases "0 < years + months")
    case True
    then have "12 * y + m - 3 < 12 * (y + years) + (m + months) - 3" using assms by (cases "years = 0") auto
    then show ?thesis using month_days_mono assms(3) by fastforce
  next
    case False
    then have "years = 0" "months = 0" "0 < days" using assms by linarith+
    then show ?thesis by simp
  qed
  then have "tm_ns (Date_UTC y m d) < tm_ns (Date_UTC (y + years) (m + months) (d + days))"
    unfolding Date_UTC_days by simp
  moreover have eq: "AddDate_UTC (StripTime t) years months days = Date_UTC (y + years) (m + months) (d + days)"
    by (rule AddDate_UTC_exact) (use assms in simp_all)
  ultimately show "After (AddDate_UTC (StripTime t) years months days) (StripTime t)"
    "StripTime (AddDate_UTC (StripTime t) years months days) = AddDate_UTC (StripTime t) years months days"
    unfolding eq by (simp_all add: s After_def)
qed

theorem CalculateNewExpiration_after:
  assumes "CalculateNewExpiration today cfg = Ok t" "date_of today = (y, m, d)" "0 \<le> y" "y \<le> 9999"
    and "\<And>dur. ParseDuration (ExtendFor cfg) = Ok dur \<Longrightarrow> Value dur \<le> 10 ^ 9"
  shows "After t (StripTime today) \<and> \<not> IsExpired t today"
proof -
  obtain dur where dur: "ParseDuration (ExtendFor cfg) = Ok dur" "AddDuration today (Value dur) (Period dur) = Ok t"
    using assms(1) by (auto simp: CalculateNewExpiration_def split: go_result.splits)
  have v: "0 < Value dur" "Value dur \<le> 10 ^ 9" using ParseDuration_bounds [OF dur(1)] assms(5) [OF dur(1)] by simp_all
  have day: "date_of (StripTime today) = (y, m, d)"
    using assms(2) by (simp add: date_of_def local_seconds_def StripTime_days)
  note add = AddDate_UTC_after [OF _ _ _ _ _ _ _ day assms(3,4)]
  obtain a b c where t: "t = StripTime (AddDate_UTC (StripTime today) a b c)" "0 \<le> a" "0 \<le> b" "0 \<le> c" "0 < a + b + c"
    "a \<le> 10 ^ 9" "b \<le> 10 ^ 9" "c \<le> 10 ^ 9"
    using dur(2) v by (auto simp: AddDuration_def Let_def split: if_splits)
  have "t = AddDate_UTC (StripTime today) a b c" using t add(2) by simp
  then have "After t (StripTime today)" "StripTime t = t" using add t by simp_all
  then show ?thesis by (simp add: IsExpired_def Before_def After_def)
qed

text \<open>A duration that the configuration accepts can be too large: then the new date lies in the past.\<close>

lemma huge_extension_expires:
  "(case AddDuration \<lparr>tm_ns = 63000000000000000000, tm_off = 0\<rparr> 9223372036854775807 ''D'' of
      Ok t \<Rightarrow> IsExpired t \<lparr>tm_ns = 63000000000000000000, tm_off = 0\<rparr> | _ \<Rightarrow> False)"
  by code_simp

end
