(* ===== verification/Handlers_Patron.thy ===== *)
theory Handlers_Patron
  imports Lending Custom_Fields Renewal
begin

text \<open>
  The handlers that describe a patron: \<open>internal/handlers/patron_status.go\<close> (23) and
  \<open>patron_information.go\<close> (63), with the fee fields and the rolling renewal of \<open>base.go\<close> that both
  use. Their first half is the same: the patron of the barcode, the renewal of its account, the
  refusal of an inactive account, the verification.
\<close>

text \<open>A value that is left out when it cannot be had.\<close>

definition or_none :: "('e, 'a) go_result io \<Rightarrow> ('e, 'a option) go_result io" where
  "or_none m = try_io m (\<lambda>x. State_Monad.return (Ok (Some x))) (\<lambda>err. State_Monad.return (Ok None))"

text \<open>Two calls in sequence; an error of the first is the error of both.\<close>

abbreviation (input) then_io ::
  "('e, 'a) go_result io \<Rightarrow> ('a \<Rightarrow> ('e, 'b) go_result io) \<Rightarrow> ('e, 'b) go_result io" where
  "then_io m f \<equiv> try_io m f (\<lambda>err. State_Monad.return (Err err))"

definition buildFeeFields :: "Account list \<Rightarrow> string \<Rightarrow> string" where
  "buildFeeFields accounts currency =
     ''|BV'' @ format_2f (f_sum (map Remaining accounts)) @
     BuildPrefixedField ''BH'' (if currency = [] then ''USD'' else currency) ''|''"

subsection \<open>Rolling renewal\<close>

text \<open>Every error is only logged.\<close>

definition attemptRollingRenewal ::
  "env \<Rightarrow> TenantConfig \<Rightarrow> User \<Rightarrow> string \<Rightarrow> (folio_error, unit) go_result io" where
  "attemptRollingRenewal e tc user token = do {
     today \<leftarrow> time_now e;
     (case RollingRenewals tc of
        None \<Rightarrow> State_Monad.return (Ok ())
      | Some cfg \<Rightarrow>
          if \<not> IsRollingRenewalEnabled tc \<or> \<not> rdShouldRenew (ShouldRenew user cfg today) then State_Monad.return (Ok ())
          else (case CalculateNewExpiration today cfg of
             Err err \<Rightarrow> State_Monad.return (Ok ())
           | Panic \<Rightarrow> State_Monad.return Panic
           | Ok newExpiration \<Rightarrow>
               if DryRun cfg then State_Monad.return (Ok ())
               else try_io (UpdateUserExpiration e (the_client tc) token (userID user) (FormatDate newExpiration)
                     (ExtendExpired cfg))
                 (\<lambda>x. State_Monad.return (Ok ()))
                 (\<lambda>err. State_Monad.return (Ok ()))))
   }"

text \<open>The user after the attempt, fetched again when the attempt may have activated it.\<close>

definition renewed_user ::
  "env \<Rightarrow> TenantConfig \<Rightarrow> string \<Rightarrow> User \<Rightarrow> (folio_error, User) go_result io" where
  "renewed_user e tc token user =
     then_io (attemptRollingRenewal e tc user token)
       (\<lambda>x. if \<not> Active user \<and> IsRollingRenewalEnabled tc \<and>
             (case RollingRenewals tc of None \<Rightarrow> False | Some cfg \<Rightarrow> ExtendExpired cfg) then
           try_io (GetUserByID e (the_client tc) token (userID user))
             (\<lambda>updated. State_Monad.return (Ok updated))
             (\<lambda>err. State_Monad.return (Ok user))
         else State_Monad.return (Ok user))"

text \<open>
  The patron of a request: \<open>go\<close> runs with the token, the user and whether the PIN was verified;
  \<open>refuse\<close> is the answer for a patron that cannot be had, is inactive or fails verification.
\<close>

definition with_active_patron ::
  "env \<Rightarrow> TenantConfig \<Rightarrow> Message \<Rightarrow> (folio_error, string) go_result io \<Rightarrow>
     (string \<Rightarrow> User \<Rightarrow> bool \<Rightarrow> (folio_error, string) go_result io) \<Rightarrow> (folio_error, string) go_result io" where
  "with_active_patron e tc msg refuse go =
     (let patronIdentifier = msg_GetField msg F_PatronIdentifier
      in try_io (getAuthenticatedFolioClient e)
        (\<lambda>token. try_io (GetUserByBarcode e (the_client tc) token patronIdentifier)
           (\<lambda>found. then_io (renewed_user e tc token found)
              (\<lambda>user. if \<not> Active user then refuse
                 else then_io (VerifyPatronCredentials e tc token (userID user) patronIdentifier
                        (msg_GetField msg F_PatronPassword))
                   (\<lambda>v. if Required v \<and> \<not> Verified v then refuse else go token user (Verified v))))
           (\<lambda>err. refuse))
        (\<lambda>err. refuse))"

subsection \<open>Patron status\<close>

text \<open>What a response is made of once a patron is valid.\<close>

record patron_facts =
  pfUser :: User
  pfManualBlocks :: "ManualBlock list option"
  pfAutomatedBlocks :: "AutomatedBlock list option"
  pfAccounts :: "Account list"
  pfPinVerified :: bool

definition status_of :: "patron_facts option \<Rightarrow> string" where
  "status_of pf =
     (case pf of
        None \<Rightarrow> patronStatusString False None None None
      | Some f \<Rightarrow> patronStatusString True (Some (pfUser f)) (pfManualBlocks f) (pfAutomatedBlocks f))"

definition pin_field :: "bool \<Rightarrow> string" where
  "pin_field pinVerified = (if pinVerified then ''|CQY'' else ''|CQN'')"

definition patron_name_field :: "TenantConfig \<Rightarrow> string \<Rightarrow> User \<Rightarrow> string" where
  "patron_name_field tc code u =
     BuildPrefixedField ''AE'' (formatPatronName (Some u) (IsPreferredFirstNameEnabled tc code ''AE'')) ''|''"

definition patron_status_text :: "env \<Rightarrow> TenantConfig \<Rightarrow> Message \<Rightarrow> patron_facts option \<Rightarrow> GoTime \<Rightarrow> string" where
  "patron_status_text e tc msg pf now =
     ''24'' @ status_of pf @ ''000'' @ FormatSIP2DateTime (Zones e) now ''    '' @
     BuildPrefixedField ''AO'' (msg_GetField msg F_InstitutionID) ''|'' @
     BuildPrefixedField ''AA'' (msg_GetField msg F_PatronIdentifier) ''|'' @
     (case pf of
        Some f \<Rightarrow> patron_name_field tc ''23'' (pfUser f) @ ''|BLY'' @ pin_field (pfPinVerified f) @
                  buildFeeFields (pfAccounts f) (Currency tc)
      | None \<Rightarrow> ''|BLN'' @ ''|CQN'' @ ''|AFPatron not found'')"

definition buildPatronStatusResponse ::
  "env \<Rightarrow> TenantConfig \<Rightarrow> Message \<Rightarrow> patron_facts option \<Rightarrow> (folio_error, string) go_result io" where
  "buildPatronStatusResponse e tc msg pf = do {
     now \<leftarrow> time_now e;
     (let response = patron_status_text e tc msg pf now
      in State_Monad.return (or_else
           (Build (Encoders e) tc PatronStatusResponse (drop 2 response) (msgSequenceNumber msg)) response))
   }"

text \<open>The session keeps its user and tokens; the patron becomes the current one.\<close>

definition remember_patron :: "env \<Rightarrow> Message \<Rightarrow> User \<Rightarrow> unit io" where
  "remember_patron e msg user = do {
     now \<leftarrow> time_now e;
     put_session (\<lambda>s. SetAuthenticated now
       (if Username s = [] then msg_GetField msg F_PatronIdentifier else Username s)
       (userID user) (Barcode user) (AuthToken s) (TokenExpiresAt s) s)
   }"

definition patron_status ::
  "env \<Rightarrow> TenantConfig \<Rightarrow> Message \<Rightarrow> string \<Rightarrow> User \<Rightarrow> bool \<Rightarrow> (folio_error, string) go_result io" where
  "patron_status e tc msg token user pinVerified =
     then_io (or_none (GetManualBlocks e (the_client tc) token (userID user)))
       (\<lambda>manual. then_io (or_none (GetAutomatedPatronBlocks e (the_client tc) token (userID user)))
         (\<lambda>automated. then_io (or_none (GetOpenAccountsExcludingSuspended e (the_client tc) token (userID user)))
           (\<lambda>accounts. do {
              u \<leftarrow> remember_patron e msg user;
              buildPatronStatusResponse e tc msg (Some
                \<lparr>pfUser = user, pfManualBlocks = manual, pfAutomatedBlocks = automated,
                 pfAccounts = (case accounts of None \<Rightarrow> [] | Some as \<Rightarrow> as), pfPinVerified = pinVerified\<rparr>)
            })))"

definition PatronStatusHandler_Handle :: handler where
  "PatronStatusHandler_Handle e msg = with_tenant (\<lambda>tc.
     if \<not> validateRequiredFields msg [F_PatronIdentifier] then
       State_Monad.return (Err (OtherError ''validation failed: required field Patron Identifier (AA) is missing''))
     else with_active_patron e tc msg (buildPatronStatusResponse e tc msg None) (patron_status e tc msg))"

subsection \<open>What the common half does\<close>

lemma then_ioE:
  assumes "run_state (then_io m f) w = (Ok y, w')"
  obtains x w1 where "run_state m w = (Ok x, w1)" "run_state (f x) w1 = (Ok y, w')"
proof -
  obtain r w1 where m: "run_state m w = (r, w1)" by fastforce
  then show ?thesis using that assms by (cases r) (auto simp: run_try_io [OF m])
qed

lemma sends_then_io:
  "sends n Q m \<Longrightarrow> (\<And>x. sends k Q (f x)) \<Longrightarrow> n + k \<le> t \<Longrightarrow> sends t Q (then_io m f)"
  by (rule sends_try_io) (auto intro: sending)

lemma sends_or_none [sending]: "sends n Q m \<Longrightarrow> sends n Q (or_none m)"
  unfolding or_none_def by (intro sends_try_io [where n = n and k = 0] sending) simp_all

lemma buildPatronStatusResponse_send [sending]: "sends n Q (buildPatronStatusResponse e tc msg pf)"
  unfolding buildPatronStatusResponse_def Let_def by (intro sends_bind_read sending)

text \<open>A renewal writes to FOLIO only for a patron it is meant for, and not in a dry run.\<close>

lemma attemptRollingRenewal_idle:
  assumes "\<And>cfg. RollingRenewals tc = Some cfg \<Longrightarrow> DryRun cfg \<or> \<not> rdShouldRenew (ShouldRenew user cfg (Clock e (wSent w)))"
    and "\<And>cfg. RollingRenewals tc = Some cfg \<Longrightarrow> rr_Validate cfg = None"
  shows "run_state (attemptRollingRenewal e tc user token) w = (Ok (), w)"
proof (cases "RollingRenewals tc")
  case (Some cfg)
  show ?thesis
  proof (cases "IsRollingRenewalEnabled tc \<and> rdShouldRenew (ShouldRenew user cfg (Clock e (wSent w)))")
    case True
    then obtain t where "CalculateNewExpiration (Clock e (wSent w)) cfg = Ok t"
      using CalculateNewExpiration_ok [of cfg] assms(2) Some by (auto simp: IsRollingRenewalEnabled_def is_ok_iff)
    then show ?thesis using True assms(1) Some by (simp add: attemptRollingRenewal_def time_now_def)
  qed (use Some in \<open>auto simp: attemptRollingRenewal_def time_now_def\<close>)
qed (simp add: attemptRollingRenewal_def time_now_def)

lemma sends_attemptRollingRenewal: "sends 2 (\<lambda>_. True) (attemptRollingRenewal e tc user token)"
  unfolding attemptRollingRenewal_def
  by (intro sends_bind_read [OF sends_reads(2)] sending sends_try_io [OF sends_UpdateUserExpiration, where k = 0]) simp_all

lemma sends_renewed_user: "sends 3 (\<lambda>_. True) (renewed_user e tc token user)"
  unfolding renewed_user_def
  by (intro sends_then_io [OF sends_attemptRollingRenewal, where k = 1] sending
      sends_try_io [where n = 1 and k = 0]) simp_all

lemma sends_VerifyPatronCredentials: "sends 1 (\<lambda>_. True) (VerifyPatronCredentials e tc token uid b pw)"
  unfolding VerifyPatronCredentials_def by (intro sending sends_bind_last)

lemma sends_with_active_patron:
  assumes "sends 0 (\<lambda>_. True) refuse" "\<And>t u b. sends n (\<lambda>_. True) (go t u b)"
  shows "sends (12 + n) (\<lambda>_. True) (with_active_patron e tc msg refuse go)"
proof -
  have auth: "sends 7 (\<lambda>_. True) (getAuthenticatedFolioClient e)"
    using sends_auth_client by (rule sends_weaken) simp
  have r: "sends k (\<lambda>_. True) refuse" for k using assms(1) by (rule sends_mono) simp
  show ?thesis unfolding with_active_patron_def Let_def
    by (intro sends_try_io [OF auth, where k = "5 + n"] sends_try_io [where n = 1 and k = "4 + n"]
        sends_then_io [OF sends_renewed_user, where k = "1 + n"]
        sends_then_io [OF sends_VerifyPatronCredentials, where k = n] sending assms(2) r) simp_all
qed

lemma sends_patron_status: "sends 3 (\<lambda>_. True) (patron_status e tc msg token user pin)"
  unfolding patron_status_def remember_patron_def
  by (intro sends_then_io [where n = 1 and k = 2] sends_then_io [where n = 1 and k = 1]
      sends_then_io [where n = 1 and k = 0] sending sends_bind_read) simp_all

lemma PatronStatus_sends: "sends 15 (\<lambda>_. True) (PatronStatusHandler_Handle e msg)"
  unfolding PatronStatusHandler_Handle_def
  by (intro sending sends_mono [OF sends_with_active_patron [OF _ sends_patron_status]]) simp_all

text \<open>
  Either the refusal answers, or the patron is active, and verified where the tenant requires it.
\<close>

lemma quiet_calls: "wSent w' = wSent w @ rqs \<Longrightarrow> list_all (\<lambda>rq. \<not> guarded_request rq) rqs \<Longrightarrow> quiet w w'"
  by (auto simp: quiet_def)

definition active_patron :: "env \<Rightarrow> TenantConfig \<Rightarrow> Message \<Rightarrow> User \<Rightarrow> world \<Rightarrow> world \<Rightarrow> bool" where
  "active_patron e tc msg user w w' \<longleftrightarrow> Active user \<and>
     (PatronPasswordVerificationRequired tc \<longrightarrow>
        (\<exists>pre rq. wSent w' = pre @ [rq] \<and> accepted e pre rq \<and>
           verification_request tc (userID user) (msg_GetField msg F_PatronIdentifier) (msg_GetField msg F_PatronPassword) rq))"

lemma with_active_patron_cases:
  assumes "run_state (with_active_patron e tc msg refuse go) w = (Ok x, w')"
  shows "(\<exists>w1. run_state refuse w1 = (Ok x, w')) \<or>
    (\<exists>w1 token user pin. active_patron e tc msg user w w1 \<and> run_state (go token user pin) w1 = (Ok x, w'))"
proof -
  let ?b = "msg_GetField msg F_PatronIdentifier"
  obtain r1 w1 where A: "run_state (getAuthenticatedFolioClient e) w = (r1, w1)" by fastforce
  note run1 = assms [unfolded with_active_patron_def Let_def run_try_io [OF A]]
  show ?thesis
  proof (cases r1)
    case (Ok token)
    obtain r2 w2 where G: "run_state (GetUserByBarcode e (the_client tc) token ?b) w1 = (r2, w2)" by fastforce
    note run2 = run1 [unfolded Ok go_result.case run_try_io [OF G]]
    show ?thesis
    proof (cases r2)
      case found: (Ok found)
      note run3 = run2 [unfolded found go_result.case]
      obtain user w3 where u: "run_state (if \<not> Active user then refuse
          else then_io (VerifyPatronCredentials e tc token (userID user) ?b (msg_GetField msg F_PatronPassword))
            (\<lambda>v. if Required v \<and> \<not> Verified v then refuse else go token user (Verified v))) w3 = (Ok x, w')"
        using run3 by (rule then_ioE)
      show ?thesis
      proof (cases "Active user")
        case True
        then have "run_state (then_io (VerifyPatronCredentials e tc token (userID user) ?b (msg_GetField msg F_PatronPassword))
            (\<lambda>v. if Required v \<and> \<not> Verified v then refuse else go token user (Verified v))) w3 = (Ok x, w')"
          using u by (simp only: not_True_eq_False if_False)
        then obtain v w4 where V: "run_state (VerifyPatronCredentials e tc token (userID user) ?b
            (msg_GetField msg F_PatronPassword)) w3 = (Ok v, w4)"
          and go: "run_state (if Required v \<and> \<not> Verified v then refuse else go token user (Verified v)) w4 = (Ok x, w')"
          by (rule then_ioE)
        show ?thesis
        proof (cases "Required v \<and> \<not> Verified v")
          case False
          then have "active_patron e tc msg user w w4"
            using Verify_cases [OF V] True by (auto simp: active_patron_def)
          then show ?thesis using go False by (auto simp only: if_False)
        next
          case True
          then have "run_state refuse w4 = (Ok x, w')" using go by (simp only: if_True simp_thms)
          then show ?thesis by blast
        qed
      qed (use u in auto)
    qed (use run2 in auto)
  qed (use run1 in auto)
qed

context world_policy
begin

lemma keeps_or_none [keeping]: "keeps P m \<Longrightarrow> keeps P (or_none m)"
  unfolding or_none_def by (intro keeping)

lemma keeps_with_active_patron [keeping]:
  "keeps P refuse \<Longrightarrow> (\<And>t u b. keeps P (go t u b)) \<Longrightarrow>
     keeps P (with_active_patron e tc msg refuse go)"
  unfolding with_active_patron_def renewed_user_def attemptRollingRenewal_def Let_def by (intro keeping)

lemma keeps_PatronStatusHandler [keeping]: "keeps P (PatronStatusHandler_Handle e msg)"
  unfolding PatronStatusHandler_Handle_def patron_status_def remember_patron_def buildPatronStatusResponse_def Let_def
  by (intro keeping)

end

end
