(* ===== verification/Patron_Information.thy ===== *)
theory Patron_Information
  imports Handlers_Patron
begin

text \<open>
  \<open>internal/handlers/patron_information.go\<close> (63). The summary of the request says which lists the
  response itemises; of a list that is not itemised only the number is fetched, and its entries
  are nil pointers (\<open>None\<close>), whose use would panic. The lemmas show that none is used, that the
  response has the counts of the account whatever is itemised, and how many requests it takes.
\<close>

definition summary_flag :: "string \<Rightarrow> nat \<Rightarrow> bool" where
  "summary_flag summary i \<longleftrightarrow> i < length summary \<and> summary ! i = CHR ''Y''"

definition fixed_field_or :: "Message \<Rightarrow> string \<Rightarrow> string \<Rightarrow> string" where
  "fixed_field_or msg name fallback =
     (case Fields msg name of None \<Rightarrow> fallback | Some v \<Rightarrow> if v = [] then fallback else v)"

abbreviation (input) request_summary :: "Message \<Rightarrow> string" where
  "request_summary msg \<equiv> fixed_field_or msg ''summary'' ''          ''"

text \<open>The lists of a response: holds (nil where only counted), loans, overdue loans, the group.\<close>

record patron_items =
  ptHolds :: "Request option list"
  ptLoans :: "Loan list"
  ptOverdue :: "Loan list"
  ptUnavailable :: "Request option list"
  ptGroup :: "PatronGroup option"

definition no_items :: patron_items where
  "no_items = \<lparr>ptHolds = [], ptLoans = [], ptOverdue = [], ptUnavailable = [], ptGroup = None\<rparr>"

subsection \<open>Fetching\<close>

text \<open>\<open>make\<close> of a negative length panics.\<close>

definition holds_or_count ::
  "bool \<Rightarrow> (int \<Rightarrow> (folio_error, Request list \<times> int) go_result io) \<Rightarrow> int \<Rightarrow>
     (folio_error, Request option list) go_result io" where
  "holds_or_count itemised fetch limit =
     (if itemised then
        try_io (fetch limit)
          (\<lambda>found. State_Monad.return (Ok (map Some (fst found))))
          (\<lambda>err. State_Monad.return (Ok []))
      else
        try_io (fetch 0)
          (\<lambda>found. State_Monad.return (if snd found < 0 then Panic else Ok (replicate (nat (snd found)) None)))
          (\<lambda>err. State_Monad.return (Ok [])))"

text \<open>
  The items of the loans that are asked for. The overdue loans are pointers into the list of
  loans, so they are the ones that are overdue after this, too.
\<close>

fun attachItemDetails ::
  "env \<Rightarrow> Client \<Rightarrow> string \<Rightarrow> (Loan \<Rightarrow> bool) \<Rightarrow> Loan list \<Rightarrow> (folio_error, Loan list) go_result io" where
  "attachItemDetails e ic token asked [] = State_Monad.return (Ok [])"
| "attachItemDetails e ic token asked (loan # loans) =
     then_io
       (if asked loan then
          try_io (GetItemByID e ic token (loanItemID loan))
            (\<lambda>item. State_Monad.return (Ok (loan\<lparr>loanItem := Some item\<rparr>)))
            (\<lambda>err. State_Monad.return (Ok loan))
        else State_Monad.return (Ok loan))
       (\<lambda>loan1. then_io (attachItemDetails e ic token asked loans)
          (\<lambda>loans1. State_Monad.return (Ok (loan1 # loans1))))"

definition patron_loans ::
  "env \<Rightarrow> TenantConfig \<Rightarrow> string \<Rightarrow> string \<Rightarrow> string \<Rightarrow> (folio_error, Loan list \<times> Loan list) go_result io" where
  "patron_loans e tc token uid summary =
     try_io (GetOpenLoansByUser e (the_client tc) token uid (GetPatronItemsLimit tc))
       (\<lambda>found. do {
          now \<leftarrow> time_now e;
          (let asked = (\<lambda>loan. summary_flag summary 2 \<or> (summary_flag summary 1 \<and> IsOverdue now loan))
           in then_io (attachItemDetails e (the_client tc) token asked (fst found))
                (\<lambda>loans. State_Monad.return (Ok (loans, filter (IsOverdue now) loans))))
        })
       (\<lambda>err. State_Monad.return (Ok ([], [])))"

definition group_needed :: "TenantConfig \<Rightarrow> User \<Rightarrow> bool" where
  "group_needed tc user \<longleftrightarrow>
     PatronGroup user \<noteq> [] \<and> (IsFieldEnabled tc ''63'' ''FU'' \<or> IsFieldEnabled tc ''63'' ''FV'')"

subsection \<open>The response\<close>

fun hold_fields :: "(Request \<Rightarrow> string) \<Rightarrow> Request option list \<Rightarrow> (folio_error, string) go_result" where
  "hold_fields f [] = Ok []"
| "hold_fields f (None # hs) = Panic"
| "hold_fields f (Some h # hs) = go_bind (hold_fields f hs) (\<lambda>s. Ok (f h @ s))"

definition field_if :: "string \<Rightarrow> string \<Rightarrow> string" where
  "field_if code v = (if v \<noteq> [] then BuildPrefixedField code v ''|'' else [])"

definition hold_barcode :: "Request \<Rightarrow> string" where
  "hold_barcode h = (case reqItem h of None \<Rightarrow> [] | Some i \<Rightarrow> riBarcode i)"

definition unavailable_field :: "Request \<Rightarrow> string" where
  "unavailable_field h = field_if ''CD'' (if hold_barcode h \<noteq> [] then hold_barcode h else reqInstanceID h)"

definition loan_field :: "string \<Rightarrow> Loan \<Rightarrow> string" where
  "loan_field code loan = field_if code (case loanItem loan of None \<Rightarrow> [] | Some i \<Rightarrow> itemBarcode i)"

text \<open>The title is cut to 60 bytes, not runes.\<close>

definition fine_field :: "Account \<Rightarrow> string" where
  "fine_field a =
     BuildPrefixedField ''AV''
       (accountID a @ '' '' @ format_2f (Remaining a) @ '' '' @ quoted (FeeFineType a) @ '' '' @ take 60 (accountTitle a)) ''|''"

definition address_field :: "User \<Rightarrow> string" where
  "address_field u =
     (case GetPrimaryAddress u of
        None \<Rightarrow> []
      | Some a \<Rightarrow>
          (let parts = filter (\<lambda>p. p \<noteq> []) [AddressLine1 a, AddressLine2 a, City a, Region a, PostalCode a]
           in if parts = [] then [] else BuildPrefixedField ''BD'' (join '', '' parts) ''|''))"

text \<open>The layout 01022006.\<close>

definition format_birthdate :: "GoTime \<Rightarrow> string" where
  "format_birthdate t = (case date_of t of (y, m, d) \<Rightarrow> append_int 2 m @ append_int 2 d @ append_int 4 y)"

definition optional_field :: "TenantConfig \<Rightarrow> string \<Rightarrow> string \<Rightarrow> string" where
  "optional_field tc code v = (if IsFieldEnabled tc ''63'' code then field_if code v else [])"

definition contact_fields :: "TenantConfig \<Rightarrow> User \<Rightarrow> string" where
  "contact_fields tc u =
     address_field u @ field_if ''BE'' (Email (Personal u)) @
     optional_field tc ''BF'' (Phone (Personal u)) @
     optional_field tc ''BG'' (MobilePhone (Personal u)) @
     optional_field tc ''PC'' (PatronGroup u) @
     (case DateOfBirth (Personal u) of
        None \<Rightarrow> []
      | Some t \<Rightarrow> if IsFieldEnabled tc ''63'' ''PB'' then BuildPrefixedField ''PB'' (format_birthdate t) ''|'' else [])"

definition group_fields :: "TenantConfig \<Rightarrow> PatronGroup option \<Rightarrow> string" where
  "group_fields tc g =
     (case g of None \<Rightarrow> [] | Some g' \<Rightarrow> optional_field tc ''FU'' (Group g') @ optional_field tc ''FV'' (Desc g'))"

definition info_accounts :: "patron_facts option \<Rightarrow> Account list" where
  "info_accounts pf = (case pf of None \<Rightarrow> [] | Some f \<Rightarrow> pfAccounts f)"

definition info_header :: "env \<Rightarrow> Message \<Rightarrow> patron_facts option \<Rightarrow> patron_items \<Rightarrow> GoTime \<Rightarrow> string" where
  "info_header e msg pf items now =
     ''64'' @ status_of pf @ fixed_field_or msg ''language'' ''000'' @ FormatSIP2DateTime (Zones e) now ''    '' @
     pad_int 4 (int (length (ptHolds items))) @ pad_int 4 (int (length (ptOverdue items))) @
     pad_int 4 (int (length (ptLoans items))) @ pad_int 4 (int (length (info_accounts pf))) @ ''0000'' @
     pad_int 4 (int (length (ptUnavailable items)))"

definition info_patron :: "TenantConfig \<Rightarrow> patron_facts option \<Rightarrow> patron_items \<Rightarrow> string" where
  "info_patron tc pf items =
     (case pf of
        None \<Rightarrow> ''|BLN'' @ ''|CQN''
      | Some f \<Rightarrow> patron_name_field tc ''63'' (pfUser f) @ contact_fields tc (pfUser f) @
          group_fields tc (ptGroup items) @ ''|BLY'' @ pin_field (pfPinVerified f) @
          buildFeeFields (pfAccounts f) (Currency tc))"

definition info_lists ::
  "env \<Rightarrow> TenantConfig \<Rightarrow> string \<Rightarrow> patron_facts option \<Rightarrow> patron_items \<Rightarrow> (folio_error, string) go_result" where
  "info_lists e tc summary pf items =
     go_bind (if summary_flag summary 0 then hold_fields (\<lambda>h. field_if ''AS'' (hold_barcode h)) (ptHolds items) else Ok [])
       (\<lambda>as. go_bind
          (if summary_flag summary 5 \<and> IsFieldEnabled tc ''63'' ''CD'' then hold_fields unavailable_field (ptUnavailable items)
           else Ok [])
          (\<lambda>cd. go_bind
             (case ProcessCustomFields (Unicode e) (map_option pfUser pf) (PatronCustomFields tc) (FieldDelimiter tc) of
                Ok fs \<Rightarrow> Ok (concat fs) | Err u \<Rightarrow> Ok [] | Panic \<Rightarrow> Panic)
             (\<lambda>custom. Ok (as @
                (if summary_flag summary 1 then concat (map (loan_field ''AT'') (ptOverdue items)) else []) @
                (if summary_flag summary 2 then concat (map (loan_field ''AU'') (ptLoans items)) else []) @ cd @
                (if summary_flag summary 3 then concat (map fine_field (info_accounts pf)) else []) @ custom))))"

definition buildPatronInformationResponse ::
  "env \<Rightarrow> TenantConfig \<Rightarrow> Message \<Rightarrow> patron_facts option \<Rightarrow> patron_items \<Rightarrow> (folio_error, string) go_result io" where
  "buildPatronInformationResponse e tc msg pf items = do {
     now \<leftarrow> time_now e;
     State_Monad.return
       (go_bind (info_lists e tc (request_summary msg) pf items)
          (\<lambda>lists.
             let response = info_header e msg pf items now @
                   BuildPrefixedField ''AO'' (msg_GetField msg F_InstitutionID) ''|'' @
                   BuildPrefixedField ''AA'' (msg_GetField msg F_PatronIdentifier) ''|'' @
                   info_patron tc pf items @ lists
             in or_else
                  (Build (Encoders e) tc PatronInformationResponse (drop 2 response) (msgSequenceNumber msg)) response))
   }"

definition patron_items_of ::
  "env \<Rightarrow> TenantConfig \<Rightarrow> string \<Rightarrow> string \<Rightarrow> User \<Rightarrow>
     (folio_error, patron_items \<times> Account list) go_result io" where
  "patron_items_of e tc summary token user =
     (let fc = the_client tc; uid = userID user; limit = GetPatronItemsLimit tc
      in then_io (holds_or_count (summary_flag summary 0) (GetAvailableHolds e fc token uid) limit)
        (\<lambda>holds. then_io (patron_loans e tc token uid summary)
          (\<lambda>loans. then_io (or_none (GetOpenAccountsExcludingSuspended e fc token uid))
            (\<lambda>accounts. then_io (holds_or_count (summary_flag summary 5) (GetUnavailableHolds e fc token uid) limit)
              (\<lambda>unavailable. then_io
                (if group_needed tc user then or_none (GetPatronGroupByID e fc token (PatronGroup user))
                 else State_Monad.return (Ok None))
                (\<lambda>group. State_Monad.return (Ok
                   (\<lparr>ptHolds = holds, ptLoans = fst loans, ptOverdue = snd loans, ptUnavailable = unavailable,
                     ptGroup = group\<rparr>, case accounts of None \<Rightarrow> [] | Some as \<Rightarrow> as))))))))"

definition patron_information ::
  "env \<Rightarrow> TenantConfig \<Rightarrow> Message \<Rightarrow> string \<Rightarrow> User \<Rightarrow> bool \<Rightarrow> (folio_error, string) go_result io" where
  "patron_information e tc msg token user pinVerified =
     then_io (patron_items_of e tc (request_summary msg) token user)
       (\<lambda>found. then_io (or_none (GetManualBlocks e (the_client tc) token (userID user)))
         (\<lambda>manual. then_io (or_none (GetAutomatedPatronBlocks e (the_client tc) token (userID user)))
           (\<lambda>automated. buildPatronInformationResponse e tc msg (Some
              \<lparr>pfUser = user, pfManualBlocks = manual, pfAutomatedBlocks = automated,
               pfAccounts = snd found, pfPinVerified = pinVerified\<rparr>) (fst found))))"

definition PatronInformationHandler_Handle :: handler where
  "PatronInformationHandler_Handle e msg = with_tenant (\<lambda>tc.
     if \<not> validateRequiredFields msg [F_PatronIdentifier] then
       State_Monad.return (Err (OtherError ''validation failed: required field Patron Identifier (AA) is missing''))
     else with_active_patron e tc msg (buildPatronInformationResponse e tc msg None no_items)
       (patron_information e tc msg))"

subsection \<open>Nil pointers and counts\<close>

text \<open>What a successful operation returns.\<close>

definition yields :: "('a \<Rightarrow> bool) \<Rightarrow> ('e, 'a) go_result io \<Rightarrow> bool" where
  "yields Q m \<longleftrightarrow> (\<forall>w x w'. run_state m w = (Ok x, w') \<longrightarrow> Q x)"

lemma yields_then_io: "yields Q m \<Longrightarrow> (\<And>x. Q x \<Longrightarrow> yields R (f x)) \<Longrightarrow> yields R (then_io m f)"
  unfolding yields_def by (metis then_ioE)

lemma yields_return: "(\<And>x. r = Ok x \<Longrightarrow> Q x) \<Longrightarrow> yields Q (State_Monad.return r)"
  by (simp add: yields_def)

lemma yields_try_io:
  "(\<And>x. yields Q (f x)) \<Longrightarrow> (\<And>err. yields Q (g err)) \<Longrightarrow> yields Q (try_io m f g)"
  unfolding yields_def try_io_def by (auto split: prod.splits go_result.splits)

lemma yields_any: "yields (\<lambda>_. True) m"
  by (simp add: yields_def)

lemma holds_or_count_items: "yields (\<lambda>hs. itemised \<longrightarrow> None \<notin> set hs) (holds_or_count itemised fetch limit)"
  unfolding holds_or_count_def by (auto intro!: yields_try_io yields_return simp: yields_any)

lemma patron_items_of_items:
  "yields (\<lambda>(items, as). (summary_flag summary 0 \<longrightarrow> None \<notin> set (ptHolds items)) \<and>
       (summary_flag summary 5 \<longrightarrow> None \<notin> set (ptUnavailable items)))
     (patron_items_of e tc summary token user)"
  unfolding patron_items_of_def Let_def
  by (intro yields_then_io [OF holds_or_count_items] yields_then_io [OF yields_any] yields_return) auto

lemma hold_fields_items: "None \<notin> set hs \<Longrightarrow> hold_fields f hs = Ok (concat (map (\<lambda>h. f (the h)) hs))"
proof (induction hs)
  case (Cons h hs)
  then show ?case by (cases h) auto
qed simp

lemma Build_not_Panic: "Build enc cfg code content seq \<noteq> Panic"
proof -
  have "GetEncoder c \<noteq> Panic" for c by (simp add: GetEncoder_def)
  moreover have "CalculateChecksum f m s d \<noteq> Panic" for f m s d by (simp add: CalculateChecksum_def split: option.split)
  ultimately show ?thesis by (simp add: Build_def Let_def split: go_result.split)
qed

lemma or_else_not_Panic: "r \<noteq> Panic \<Longrightarrow> or_else r s \<noteq> Panic"
  by (simp add: or_else_def split: go_result.split)

lemma info_lists_no_Panic:
  assumes "summary_flag summary 0 \<longrightarrow> None \<notin> set (ptHolds items)"
    and "summary_flag summary 5 \<longrightarrow> None \<notin> set (ptUnavailable items)"
    and "\<And>c. PatronCustomFields tc = Some c \<Longrightarrow> \<forall>m \<in> set (pcf_Fields c). 0 \<le> MaxLength m"
  shows "info_lists e tc summary pf items \<noteq> Panic"
proof -
  have "ProcessCustomFields (Unicode e) (map_option pfUser pf) (PatronCustomFields tc) d \<noteq> Panic" for d
    using ProcessCustomFields_no_Panic assms(3)
    by (cases "PatronCustomFields tc") (auto simp: ProcessCustomFields_def)
  then show ?thesis using assms(1,2)
    by (simp add: info_lists_def hold_fields_items split: go_result.split)
qed

text \<open>The response to what was fetched uses no nil entry.\<close>

lemma patron_information_no_nil:
  assumes "run_state (patron_items_of e tc (request_summary msg) token user) w = (Ok (items, as), w1)"
    and "\<And>c. PatronCustomFields tc = Some c \<Longrightarrow> \<forall>m \<in> set (pcf_Fields c). 0 \<le> MaxLength m"
  shows "fst (run_state (buildPatronInformationResponse e tc msg pf items) w2) \<noteq> Panic"
proof -
  have "info_lists e tc (request_summary msg) pf items \<noteq> Panic"
    using patron_items_of_items [of "request_summary msg" e tc token user, unfolded yields_def] assms
    by (intro info_lists_no_Panic) auto
  then show ?thesis
    by (cases "info_lists e tc (request_summary msg) pf items")
      (simp_all add: buildPatronInformationResponse_def time_now_def Let_def or_else_not_Panic Build_not_Panic)
qed

text \<open>The number of holds in a response is the total of FOLIO only where they are not itemised.\<close>

lemma holds_or_count_number:
  assumes "run_state (fetch (if itemised then limit else 0)) w = (Ok found, w1)"
    and "run_state (holds_or_count itemised fetch limit) w = (Ok hs, w')"
  shows "length hs = (if itemised then length (fst found) else nat (snd found))"
  using assms by (auto simp: holds_or_count_def run_try_io [OF assms(1)] run_try_io split: if_splits)

subsection \<open>How many requests\<close>

lemma attachItemDetails_none: "\<forall>l. \<not> asked l \<Longrightarrow> sends 0 Q (attachItemDetails e ic token asked loans)"
proof (induction loans)
  case (Cons loan loans)
  then have "\<not> asked loan" "sends 0 Q (attachItemDetails e ic token asked loans)" by blast+
  then show ?case
    by (simp only: attachItemDetails.simps if_False) (rule sends_then_io [where n = 0 and k = 0] sends_return | simp)+
qed (simp add: sending)

lemma buildPatronInformationResponse_send [sending]: "sends n Q (buildPatronInformationResponse e tc msg pf items)"
  unfolding buildPatronInformationResponse_def by (intro sends_bind_read sending)

lemma sends_holds_or_count:
  "(\<And>l. sends 1 (\<lambda>_. True) (fetch l)) \<Longrightarrow> sends 1 (\<lambda>_. True) (holds_or_count itemised fetch limit)"
  unfolding holds_or_count_def by (intro sending sends_try_io [where n = 1 and k = 0]) simp_all

lemma sends_patron_information:
  assumes "\<not> summary_flag (request_summary msg) 1" "\<not> summary_flag (request_summary msg) 2"
  shows "sends 7 (\<lambda>_. True) (patron_information e tc msg token user pin)"
proof -
  have "sends 1 (\<lambda>_. True) (patron_loans e tc token uid (request_summary msg))" for uid
    unfolding patron_loans_def Let_def
    by (intro sends_try_io [where n = 1 and k = 0] sends_bind_read [OF sends_reads(2)]
        sends_then_io [where n = 0 and k = 0] sends_mono [OF attachItemDetails_none] sending) (simp_all add: assms del: One_nat_def)
  note loans = this
  have "sends 5 (\<lambda>_. True) (patron_items_of e tc (request_summary msg) token user)"
    unfolding patron_items_of_def Let_def
    by (intro sends_then_io [OF sends_holds_or_count, where k = 4] sends_then_io [OF loans, where k = 3]
        sends_then_io [where n = 1 and k = 2] sends_then_io [OF sends_holds_or_count, where k = 1]
        sends_then_io [where n = 1 and k = 0] sending) simp_all
  then show ?thesis unfolding patron_information_def
    by (intro sends_then_io [where n = 5 and k = 2] sends_then_io [where n = 1 and k = 1]
        sends_then_io [where n = 1 and k = 0] sending) simp_all
qed

lemma PatronInformation_sends:
  assumes "\<not> summary_flag (request_summary msg) 1" "\<not> summary_flag (request_summary msg) 2"
  shows "sends 19 (\<lambda>_. True) (PatronInformationHandler_Handle e msg)"
  unfolding PatronInformationHandler_Handle_def
  by (intro sending sends_mono [OF sends_with_active_patron [OF _ sends_patron_information [OF assms]]]) simp_all

context world_policy
begin

lemma keeps_attachItemDetails [keeping]: "keeps P (attachItemDetails e ic token asked loans)"
  by (induction loans) (auto intro!: keeping)

lemma keeps_holds_or_count [keeping]:
  "(\<And>l. keeps P (fetch l)) \<Longrightarrow> keeps P (holds_or_count itemised fetch limit)"
  unfolding holds_or_count_def by (intro keeping)

lemma keeps_PatronInformationHandler [keeping]: "keeps P (PatronInformationHandler_Handle e msg)"
  unfolding PatronInformationHandler_Handle_def patron_information_def patron_items_of_def patron_loans_def
    buildPatronInformationResponse_def Let_def
  by (intro keeping)

end

end
