(* ===== verification/Mediatype.thy ===== *)
theory Mediatype
  imports Go_Strings
begin

text \<open>
  \<open>internal/sip2/mediatype/mapper.go\<close>: the SIP2 media type code of a FOLIO material type name.
\<close>

abbreviation (input) Other :: string where "Other \<equiv> ''000''"
abbreviation (input) Book :: string where "Book \<equiv> ''001''"
abbreviation (input) Magazine :: string where "Magazine \<equiv> ''002''"
abbreviation (input) BoundJournal :: string where "BoundJournal \<equiv> ''003''"
abbreviation (input) AudioTape :: string where "AudioTape \<equiv> ''004''"
abbreviation (input) VideoTape :: string where "VideoTape \<equiv> ''005''"
abbreviation (input) CDOrCDROM :: string where "CDOrCDROM \<equiv> ''006''"
abbreviation (input) Diskette :: string where "Diskette \<equiv> ''007''"
abbreviation (input) BookWithDiskette :: string where "BookWithDiskette \<equiv> ''008''"
abbreviation (input) BookWithCD :: string where "BookWithCD \<equiv> ''009''"
abbreviation (input) BookWithAudioTape :: string where "BookWithAudioTape \<equiv> ''010''"

text \<open>The decision, for a test \<open>has\<close> of the words that the lower-case name contains.\<close>

definition media_type :: "(string \<Rightarrow> bool) \<Rightarrow> string" where
  "media_type has =
     (if has ''book'' then
        if has ''diskette'' \<or> has ''floppy'' then BookWithDiskette
        else if has ''cd'' \<or> has ''cd-rom'' then BookWithCD
        else if has ''audio'' \<or> has ''cassette'' then BookWithAudioTape
        else Book
      else if has ''magazine'' \<or> has ''periodical'' then Magazine
      else if has ''journal'' \<and> (has ''bound'' \<or> has ''serial'') then BoundJournal
      else if has ''audio'' then
        if has ''tape'' \<or> has ''cassette'' then AudioTape else CDOrCDROM
      else if has ''video'' then
        if has ''tape'' \<or> has ''vhs'' \<or> has ''cassette'' then VideoTape else CDOrCDROM
      else if has ''cd'' \<or> has ''dvd'' \<or> has ''disc'' \<or> has ''blu-ray'' then CDOrCDROM
      else if has ''diskette'' \<or> has ''floppy'' then Diskette
      else Other)"

definition MapToSIP2MediaType :: "(nat \<Rightarrow> nat) \<Rightarrow> string \<Rightarrow> string" where
  "MapToSIP2MediaType uni materialTypeName =
     (let name = ToLower uni materialTypeName in media_type (\<lambda>w. sublist w name))"

lemma media_type_width: "length (media_type has) = 3"
  by (simp add: media_type_def)

lemma MapToSIP2MediaType_width: "length (MapToSIP2MediaType uni n) = 3"
  by (simp only: MapToSIP2MediaType_def Let_def media_type_width)

text \<open>The case of the letters of an ASCII name does not matter.\<close>

lemma ToLower_ascii_upper:
  assumes "is_ascii n"
  shows "ToLower uni (ToUpper uni n) = ToLower uni n"
proof -
  have r: "runes n = map byte n" using ascii_valid assms by (simp add: is_ascii_def)
  have b: "byte c < 0x80" if "c \<in> set n" for c using assms that by (simp add: is_ascii_def)
  have u: "upper_rune uni (byte c) < 0x80 \<and> scalar (upper_rune uni (byte c)) \<and>
    lower_rune uni (upper_rune uni (byte c)) = lower_rune uni (byte c)" if "c \<in> set n" for c
    using b [OF that] by (auto simp: upper_rune_def lower_rune_def scalar_def)
  have "runes (ToUpper uni n) = map (upper_rune uni) (map byte n)"
    unfolding ToUpper_def r by (rule runes_encode_runes) (use u in auto)
  then show ?thesis using u by (simp add: ToLower_def r comp_def cong: map_cong)
qed

theorem MapToSIP2MediaType_case:
  "is_ascii n \<Longrightarrow> MapToSIP2MediaType uni (ToUpper uni n) = MapToSIP2MediaType uni n"
  by (simp add: MapToSIP2MediaType_def ToLower_ascii_upper)

end
