(* ===== verification/Handlers_Items.thy ===== *)
theory Handlers_Items
  imports Patron_Information Mediatype
begin

text \<open>
  The handler of a checkin, \<open>internal/handlers/checkin.go\<close> (09). After a checkin four goroutines ask FOLIO in parallel, each writing a
  field of its own; the order of their requests is a parameter, and the lemmas show when it does
  not matter. This handler and that of item information read some settings from the configuration
  they were created with (the server gives every handler the same one) instead of the tenant's.
\<close>

text \<open>The configuration that the server creates its handlers with.\<close>

definition handler_config :: "string \<Rightarrow> TenantConfig" where
  "handler_config url =
     \<lparr>Tenant = ''default'', cfgInstitutionID = [], cfgLibraryName = [], ErrorDetectionEnabled = False,
      MessageDelimiter = [], FieldDelimiter = [], Charset = [], Timezone = [], LogLevel = [],
      OkapiURL = url, OkapiTenant = [], SupportedMessages = [],
      PatronPasswordVerificationRequired = False, UsePinForPatronVerification = False,
      InvalidCheckinStatuses = [], ClaimedReturnedResolution = [], StatusUpdateOk = False, OfflineOk = False,
      TimeoutPeriod = 0, RetriesAllowed = 0, Currency = [], CirculationStatusMapping = [],
      RenewAllMaxItems = 0, PatronItemsLimit = 0, AcceptBulkPayment = False, PaymentMethod = [],
      NotifyPatron = False, RollingRenewals = None, PatronCustomFields = None\<rparr>"

text \<open>The name of the patron that a hold waits for.\<close>

definition requestor_name ::
  "env \<Rightarrow> TenantConfig \<Rightarrow> string \<Rightarrow> string \<Rightarrow> Request \<Rightarrow> (folio_error, string) go_result io" where
  "requestor_name e tc code token rq =
     (if IsPreferredFirstNameEnabled tc code ''DA'' \<and> RequesterID rq \<noteq> [] then
        try_io (GetUserByID e (the_client tc) token (RequesterID rq))
          (\<lambda>u. State_Monad.return (Ok (formatPatronName (Some u) True)))
          (\<lambda>err. State_Monad.return (Ok (formatRequestorName (Requester rq))))
      else State_Monad.return (Ok (formatRequestorName (Requester rq))))"

subsection \<open>Checkin: the parallel requests\<close>

record checkin_data =
  cdLocation :: string
  cdMaterial :: string
  cdInstanceID :: string
  cdTitle :: string
  cdRequests :: "Request list option"

definition no_checkin_data :: checkin_data where
  "no_checkin_data = \<lparr>cdLocation = [], cdMaterial = [], cdInstanceID = [], cdTitle = [], cdRequests = None\<rparr>"

text \<open>
  The steps of the four goroutines: each is one request at most. The third goroutine has two,
  the holdings and then its instance.
\<close>

datatype fetch_step = FetchLocation | FetchMaterial | FetchHoldings | FetchInstance | FetchRequests

definition start_order :: "fetch_step list" where
  "start_order = [FetchLocation, FetchMaterial, FetchHoldings, FetchInstance, FetchRequests]"

definition interleaving :: "fetch_step list \<Rightarrow> bool" where
  "interleaving xs \<longleftrightarrow> mset xs = mset start_order \<and> FetchHoldings \<in> set (takeWhile (\<lambda>x. x \<noteq> FetchInstance) xs)"

text \<open>A request that fills one field, and leaves it alone when it fails.\<close>

definition fill ::
  "(folio_error, 'a) go_result io \<Rightarrow> ('a \<Rightarrow> checkin_data \<Rightarrow> checkin_data) \<Rightarrow> checkin_data \<Rightarrow>
     (folio_error, checkin_data) go_result io" where
  "fill m f d = try_io m (\<lambda>x. State_Monad.return (Ok (f x d))) (\<lambda>err. State_Monad.return (Ok d))"

definition fetch_location ::
  "env \<Rightarrow> Client \<Rightarrow> string \<Rightarrow> Item \<Rightarrow> checkin_data \<Rightarrow> (folio_error, checkin_data) go_result io" where
  "fetch_location e ic token item d =
     (let known = (case itemLocation item of None \<Rightarrow> [] | Some l \<Rightarrow> locationName l);
          lid = (if EffectiveLocationID item = [] then PermanentLocationID item else EffectiveLocationID item)
      in if known \<noteq> [] then State_Monad.return (Ok (d\<lparr>cdLocation := known\<rparr>))
         else if lid \<noteq> [] then
           fill (GetLocationByID e ic token lid) (\<lambda>(l :: Location) d. d\<lparr>cdLocation := locationName l\<rparr>) d
         else State_Monad.return (Ok d))"

definition fetch_material ::
  "env \<Rightarrow> Client \<Rightarrow> string \<Rightarrow> Item \<Rightarrow> checkin_data \<Rightarrow> (folio_error, checkin_data) go_result io" where
  "fetch_material e ic token item d =
     (let known = (case itemMaterialType item of None \<Rightarrow> [] | Some t \<Rightarrow> materialTypeName t)
      in if known \<noteq> [] then State_Monad.return (Ok (d\<lparr>cdMaterial := known\<rparr>))
         else if MaterialTypeID item \<noteq> [] then
           fill (GetMaterialTypeByID e ic token (MaterialTypeID item)) (\<lambda>t d. d\<lparr>cdMaterial := materialTypeName t\<rparr>) d
         else State_Monad.return (Ok d))"

definition fetch_step_run ::
  "env \<Rightarrow> Client \<Rightarrow> string \<Rightarrow> Item \<Rightarrow> fetch_step \<Rightarrow> checkin_data \<Rightarrow> (folio_error, checkin_data) go_result io" where
  "fetch_step_run e ic token item step d =
     (case step of
        FetchLocation \<Rightarrow> fetch_location e ic token item d
      | FetchMaterial \<Rightarrow> fetch_material e ic token item d
      | FetchHoldings \<Rightarrow>
          if HoldingsRecordID item = [] then State_Monad.return (Ok d)
          else fill (GetHoldingsByID e ic token (HoldingsRecordID item)) (\<lambda>h d. d\<lparr>cdInstanceID := hInstanceID h\<rparr>) d
      | FetchInstance \<Rightarrow>
          if cdInstanceID d = [] then State_Monad.return (Ok d)
          else fill (GetInstanceByID e ic token (cdInstanceID d)) (\<lambda>i d. d\<lparr>cdTitle := TruncateString (Title i) 60\<rparr>) d
      | FetchRequests \<Rightarrow>
          fill (GetRequestsByItem e ic token (itemID item)) (\<lambda>rs d. d\<lparr>cdRequests := Some (fst rs)\<rparr>) d)"

fun fetch_steps ::
  "env \<Rightarrow> Client \<Rightarrow> string \<Rightarrow> Item \<Rightarrow> fetch_step list \<Rightarrow> checkin_data \<Rightarrow> (folio_error, checkin_data) go_result io" where
  "fetch_steps e ic token item [] d = State_Monad.return (Ok d)"
| "fetch_steps e ic token item (x # xs) d =
     then_io (fetch_step_run e ic token item x d) (\<lambda>d1. fetch_steps e ic token item xs d1)"

text \<open>
  The order in which the requests reach FOLIO, which may depend on everything before; what is no
  order of the four goroutines stands for the order they are started in.
\<close>

type_synonym schedule = "http_request list \<Rightarrow> fetch_step list"

definition fetch_parallel ::
  "schedule \<Rightarrow> env \<Rightarrow> Client \<Rightarrow> string \<Rightarrow> Item \<Rightarrow> (folio_error, checkin_data) go_result io" where
  "fetch_parallel sched e ic token item =
     State (\<lambda>w. run_state (fetch_steps e ic token item
       (if interleaving (sched (wSent w)) then sched (wSent w) else start_order) no_checkin_data) w)"

subsection \<open>Checkin: the response\<close>

definition calculateAlertType :: "bool \<Rightarrow> bool \<Rightarrow> string" where
  "calculateAlertType inTransit hasHoldOrRecall =
     (if inTransit \<or> hasHoldOrRecall then
        if \<not> inTransit then ''01'' else if hasHoldOrRecall then ''02'' else ''04''
      else [])"

record checkin_facts =
  cfItem :: "Item option"
  cfData :: checkin_data
  cfDestination :: string
  cfHoldShelf :: string
  cfRequestor :: string

definition top_request :: "checkin_data \<Rightarrow> Request option" where
  "top_request d = find (\<lambda>r. IsOpen r \<and> IsHold r) (case cdRequests d of None \<Rightarrow> [] | Some rs \<Rightarrow> rs)"

definition checkin_alert :: "Item \<Rightarrow> checkin_data \<Rightarrow> string" where
  "checkin_alert item d =
     calculateAlertType (StatusName item = ''In transit'') (StatusName item = ''Awaiting pickup'' \<or> top_request d \<noteq> None)"

definition service_point_name :: "env \<Rightarrow> Client \<Rightarrow> string \<Rightarrow> string \<Rightarrow> (folio_error, string) go_result io" where
  "service_point_name e ic token spid =
     try_io (GetServicePointByID e ic token spid)
       (\<lambda>sp. State_Monad.return (Ok (servicePointName sp)))
       (\<lambda>err. State_Monad.return (Ok []))"

definition checkin_destination ::
  "env \<Rightarrow> Client \<Rightarrow> string \<Rightarrow> Item \<Rightarrow> checkin_data \<Rightarrow> (folio_error, string) go_result io" where
  "checkin_destination e ic token item d =
     (let pickup = (case top_request d of None \<Rightarrow> [] | Some r \<Rightarrow> PickupServicePointID r)
      in if pickup \<noteq> [] then service_point_name e ic token pickup
         else if StatusName item = ''In transit'' \<and> InTransitDestinationServicePointID item \<noteq> [] then
           service_point_name e ic token (InTransitDestinationServicePointID item)
         else State_Monad.return (Ok []))"

definition awaiting_pickup :: "Request list option \<Rightarrow> Request option" where
  "awaiting_pickup rs = find IsAwaitingPickup (case rs of None \<Rightarrow> [] | Some rs' \<Rightarrow> rs')"

text \<open>The hold shelf date is shown in the time zone of the handler's configuration \<open>hc\<close>.\<close>

definition checkin_facts_of ::
  "schedule \<Rightarrow> TenantConfig \<Rightarrow> env \<Rightarrow> TenantConfig \<Rightarrow> string \<Rightarrow> Item \<Rightarrow> (folio_error, checkin_facts) go_result io" where
  "checkin_facts_of sched hc e tc token item =
     then_io (fetch_parallel sched e (the_client tc) token item)
       (\<lambda>d. then_io (checkin_destination e (the_client tc) token item d)
         (\<lambda>destination.
            (case awaiting_pickup (cdRequests d) of
               None \<Rightarrow> State_Monad.return (Ok \<lparr>cfItem = Some item, cfData = d, cfDestination = destination,
                         cfHoldShelf = [], cfRequestor = []\<rparr>)
             | Some rq \<Rightarrow> then_io (requestor_name e tc ''09'' token rq)
                 (\<lambda>name. State_Monad.return (Ok \<lparr>cfItem = Some item, cfData = d, cfDestination = destination,
                    cfHoldShelf = (case HoldShelfExpirationDate rq of None \<Rightarrow> []
                                   | Some t \<Rightarrow> FormatSIP2DateTime (Zones e) t (Timezone hc)),
                    cfRequestor = name\<rparr>)))))"

definition fetchCheckinResponseData ::
  "schedule \<Rightarrow> TenantConfig \<Rightarrow> env \<Rightarrow> TenantConfig \<Rightarrow> string \<Rightarrow> string \<Rightarrow> (folio_error, checkin_facts) go_result io" where
  "fetchCheckinResponseData sched hc e tc token barcode =
     try_io (GetItemByBarcode e (the_client tc) token barcode)
       (\<lambda>item. checkin_facts_of sched hc e tc token item)
       (\<lambda>err. State_Monad.return (Ok \<lparr>cfItem = None, cfData = no_checkin_data, cfDestination = [], cfHoldShelf = [],
          cfRequestor = []\<rparr>))"

text \<open>The response without what FOLIO knows of the item; the identifiers are institution, item, location.\<close>

definition checkin_content ::
  "env \<Rightarrow> TenantConfig \<Rightarrow> bool \<Rightarrow> string \<times> string \<times> string \<Rightarrow> string \<Rightarrow> GoTime \<Rightarrow> string" where
  "checkin_content e tc ok ids screenMessage now =
     (case ids of (institutionID, itemIdentifier, currentLocation) \<Rightarrow>
        (if ok then ''1'' else ''0'') @ ''Y'' @ ''U'' @ ''N'' @ FormatSIP2DateTime (Zones e) now (Timezone tc) @
        BuildField ''AO'' institutionID (FieldDelimiter tc) @
        BuildField ''AB'' itemIdentifier (FieldDelimiter tc) @
        (if currentLocation \<noteq> [] then BuildField ''AP'' currentLocation (FieldDelimiter tc) else []) @
        BuildField ''AJ'' itemIdentifier (FieldDelimiter tc) @
        BuildField ''AF'' screenMessage (FieldDelimiter tc))"

definition buildCheckinResponseWithMessage ::
  "env \<Rightarrow> TenantConfig \<Rightarrow> Message \<Rightarrow> bool \<Rightarrow> string \<times> string \<times> string \<Rightarrow> string \<Rightarrow> (folio_error, string) go_result io" where
  "buildCheckinResponseWithMessage e tc msg ok ids screenMessage = do {
     now \<leftarrow> time_now e;
     (let content = checkin_content e tc ok ids screenMessage now
      in State_Monad.return (or_else (Build (Encoders e) tc CheckinResponse content (msgSequenceNumber msg))
           (''10'' @ content @ MessageDelimiter tc)))
   }"

definition buildCheckinResponse ::
  "env \<Rightarrow> TenantConfig \<Rightarrow> Message \<Rightarrow> bool \<Rightarrow> string \<times> string \<times> string \<Rightarrow> (folio_error, string) go_result io" where
  "buildCheckinResponse e tc msg ok ids =
     buildCheckinResponseWithMessage e tc msg ok ids (if ok then ''Checkin successful'' else ''Checkin failed'')"

definition buildCheckinResponseWithData ::
  "env \<Rightarrow> TenantConfig \<Rightarrow> Message \<Rightarrow> string \<times> string \<times> string \<Rightarrow> checkin_facts \<Rightarrow> (folio_error, string) go_result io" where
  "buildCheckinResponseWithData e tc msg ids f = do {
     now \<leftarrow> time_now e;
     (case ids of (institutionID, itemIdentifier, currentLocation) \<Rightarrow>
        (let d = cfData f;
             alertType = (case cfItem f of None \<Rightarrow> [] | Some item \<Rightarrow> checkin_alert item d);
             callNumber = (case cfItem f of None \<Rightarrow> [] | Some item \<Rightarrow> cnCallNumber (EffectiveCallNumberComponents item));
             mediaType = (if cdMaterial d \<noteq> [] then MapToSIP2MediaType (Unicode e) (cdMaterial d) else []);
             notes = (case cfItem f of None \<Rightarrow> [] | Some item \<Rightarrow> GetCheckinNotes item)
         in (case BuildCheckinResponse (Encoders e) (Zones e) tc True True False (alertType \<noteq> []) now institutionID
               itemIdentifier (cdLocation d) currentLocation (cdTitle d) (cdMaterial d) mediaType callNumber alertType
               (cfDestination f) [] [] [] notes (cfHoldShelf f) (cfRequestor f) [''Checkin successful''] []
               (msgSequenceNumber msg) of
               Ok r \<Rightarrow> respond r
             | Err err \<Rightarrow> buildCheckinResponse e tc msg False ids
             | Panic \<Rightarrow> State_Monad.return Panic)))
   }"

definition checkin_item ::
  "schedule \<Rightarrow> TenantConfig \<Rightarrow> env \<Rightarrow> TenantConfig \<Rightarrow> Message \<Rightarrow> string \<times> string \<times> string \<Rightarrow> string \<Rightarrow> string \<Rightarrow>
     (folio_error, string) go_result io" where
  "checkin_item sched hc e tc msg ids location token = do {
     now \<leftarrow> time_now e;
     try_io (circ_Checkin e (the_client tc) token
         \<lparr>ciItemBarcode = fst (snd ids), ciServicePointID = location, ciCheckInDate = format_rfc3339 now,
          ciClaimedReturnedResolution = MapClaimedReturnedResolutionToFOLIO (Unicode e) tc\<rparr>)
       (\<lambda>loan. then_io (fetchCheckinResponseData sched hc e tc token (fst (snd ids)))
          (\<lambda>f. buildCheckinResponseWithData e tc msg ids f))
       (\<lambda>err. buildCheckinResponseWithMessage e tc msg False ids (ExtractFolioErrorMessage e err ''Checkin failed''))
   }"

definition claimed_blocked :: "env \<Rightarrow> TenantConfig \<Rightarrow> Item \<Rightarrow> bool" where
  "claimed_blocked e tc item \<longleftrightarrow>
     StatusName item = ''Claimed returned'' \<and> GetClaimedReturnedResolution (Unicode e) tc = ''none''"

text \<open>An error of the look-up does not stop the checkin.\<close>

definition CheckinHandler_Handle :: "schedule \<Rightarrow> TenantConfig \<Rightarrow> handler" where
  "CheckinHandler_Handle sched hc e msg = with_tenant (\<lambda>tc.
     if \<not> validateRequiredFields msg [F_ItemIdentifier] then buildCheckinResponse e tc msg False ([], [], [])
     else do {
       s \<leftarrow> get_session;
       (let ids = (msg_GetField msg F_InstitutionID, msg_GetField msg F_ItemIdentifier, msg_GetField msg F_CurrentLocation);
            go = checkin_item sched hc e tc msg ids (LocationCode s)
        in if LocationCode s = [] then buildCheckinResponse e tc msg False ids
           else try_io (getAuthenticatedFolioClient e)
             (\<lambda>token. try_io (GetItemByBarcode e (the_client tc) token (msg_GetField msg F_ItemIdentifier))
                (\<lambda>item. if claimed_blocked e tc item then
                     buildCheckinResponseWithMessage e tc msg False ids ''Checkin failed - Item is claimed returned''
                   else go token)
                (\<lambda>err. go token))
             (\<lambda>err. buildCheckinResponse e tc msg False ids))
     })"

subsection \<open>The order of the parallel requests\<close>

text \<open>FOLIO answers a read the same way, whatever was asked before.\<close>

definition steady :: "env \<Rightarrow> bool" where
  "steady e \<longleftrightarrow> (\<forall>pre pre' rq. rqMethod rq = ''GET'' \<longrightarrow> Serve e pre rq = Serve e pre' rq)"

lemma client_Get_not_Panic: "fst (run_state (client_Get e cl path token decode zero) w) \<noteq> Panic"
proof -
  have "read_response m p a decode zero outcome \<noteq> Panic" for m p a outcome
    by (simp add: read_response_def split: http_outcome.split option.split)
  moreover have "r \<noteq> Panic \<Longrightarrow> drop_cookies r \<noteq> Panic" for r :: "(folio_error, 'a \<times> (string \<times> string) list) go_result"
    by (cases r) (auto simp: drop_cookies_def)
  ultimately show ?thesis by (simp add: client_Get_def client_do_def send_def)
qed

lemma steady_Get:
  assumes "steady e"
  shows "fst (run_state (client_Get e cl path token decode zero) w) =
    fst (run_state (client_Get e cl path token decode zero) w0)"
proof -
  have "Serve e (wSent w) (request cl ''GET'' path token None json_accept []) =
      Serve e (wSent w0) (request cl ''GET'' path token None json_accept [])"
    using assms unfolding steady_def by (simp add: request_def)
  then show ?thesis by (simp add: client_Get_def client_do_def send_def)
qed

text \<open>A step: a field of its own is set, or nothing changes.\<close>

definition answer_of :: "('e, 'a) go_result \<Rightarrow> 'a option" where
  "answer_of r = (case r of Ok x \<Rightarrow> Some x | _ \<Rightarrow> None)"

lemma fill_answer:
  assumes "fst (run_state m w) = a" "a \<noteq> Panic"
  shows "fst (run_state (fill m f d) w) = Ok (case answer_of a of None \<Rightarrow> d | Some x \<Rightarrow> f x d)"
proof -
  obtain r w1 where m: "run_state m w = (r, w1)" by fastforce
  then show ?thesis using assms by (cases r) (auto simp: fill_def run_try_io [OF m] answer_of_def)
qed

definition set_if :: "'a option \<Rightarrow> ('a \<Rightarrow> checkin_data \<Rightarrow> checkin_data) \<Rightarrow> checkin_data \<Rightarrow> checkin_data" where
  "set_if a f d = (case a of None \<Rightarrow> d | Some x \<Rightarrow> f x d)"

lemma fill_with:
  assumes "steady e"
  shows "\<exists>a. \<forall>d w. fst (run_state (fill (client_Get e cl path token decode zero) f d) w) = Ok (set_if a f d)"
proof -
  fix w0 :: world
  let ?a = "answer_of (fst (run_state (client_Get e cl path token decode zero) w0))"
  show ?thesis
    by (rule exI [of _ ?a])
      (simp add: fill_answer [OF steady_Get [OF assms, of cl path token decode zero _ w0] client_Get_not_Panic] set_if_def)
qed

text \<open>What the steps amount to in a steady FOLIO.\<close>

definition pure_step ::
  "string option \<Rightarrow> string option \<Rightarrow> string option \<Rightarrow> (string \<Rightarrow> string option) \<Rightarrow> Request list option \<Rightarrow>
     fetch_step \<Rightarrow> checkin_data \<Rightarrow> checkin_data" where
  "pure_step l m h t rs x d =
     (case x of
        FetchLocation \<Rightarrow> set_if l (\<lambda>v d. d\<lparr>cdLocation := v\<rparr>) d
      | FetchMaterial \<Rightarrow> set_if m (\<lambda>v d. d\<lparr>cdMaterial := v\<rparr>) d
      | FetchHoldings \<Rightarrow> set_if h (\<lambda>v d. d\<lparr>cdInstanceID := v\<rparr>) d
      | FetchInstance \<Rightarrow> set_if (t (cdInstanceID d)) (\<lambda>v d. d\<lparr>cdTitle := v\<rparr>) d
      | FetchRequests \<Rightarrow> set_if rs (\<lambda>v d. d\<lparr>cdRequests := Some v\<rparr>) d)"

lemma set_if_map: "set_if (map_option g a) f d = set_if a (\<lambda>x. f (g x)) d"
  by (simp add: set_if_def split: option.split)

lemma location_is_pure:
  assumes "steady e"
  shows "\<exists>l. \<forall>d w. fst (run_state (fetch_location e ic token item d) w) = Ok (set_if l (\<lambda>v d. d\<lparr>cdLocation := v\<rparr>) d)"
proof -
  obtain lid where lid: "(if EffectiveLocationID item = [] then PermanentLocationID item else EffectiveLocationID item) = lid"
    by blast
  let ?known = "case itemLocation item of None \<Rightarrow> [] | Some l \<Rightarrow> locationName l"
  have "\<exists>a. \<forall>d w. fst (run_state (fill (GetLocationByID e ic token lid) (\<lambda>(l :: Location) d. d\<lparr>cdLocation := locationName l\<rparr>) d) w) =
      Ok (set_if a (\<lambda>(l :: Location) d. d\<lparr>cdLocation := locationName l\<rparr>) d)"
    unfolding GetLocationByID_def by (rule fill_with [OF assms])
  then obtain a where a: "\<And>d w. fst (run_state (fill (GetLocationByID e ic token lid) (\<lambda>(l :: Location) d. d\<lparr>cdLocation := locationName l\<rparr>) d) w) =
      Ok (set_if a (\<lambda>(l :: Location) d. d\<lparr>cdLocation := locationName l\<rparr>) d)" by blast
  show ?thesis
    by (rule exI [of _ "if ?known \<noteq> [] then Some ?known else if lid \<noteq> [] then map_option locationName a else None"])
      (simp only: fetch_location_def Let_def lid a set_if_map split: if_split, simp add: set_if_def)
qed

lemma material_is_pure:
  assumes "steady e"
  shows "\<exists>m. \<forall>d w. fst (run_state (fetch_material e ic token item d) w) = Ok (set_if m (\<lambda>v d. d\<lparr>cdMaterial := v\<rparr>) d)"
proof -
  let ?known = "case itemMaterialType item of None \<Rightarrow> [] | Some l \<Rightarrow> materialTypeName l"
  have "\<exists>a. \<forall>d w. fst (run_state (fill (GetMaterialTypeByID e ic token (MaterialTypeID item)) (\<lambda>(l :: MaterialType) d. d\<lparr>cdMaterial := materialTypeName l\<rparr>) d) w) =
      Ok (set_if a (\<lambda>(l :: MaterialType) d. d\<lparr>cdMaterial := materialTypeName l\<rparr>) d)"
    unfolding GetMaterialTypeByID_def by (rule fill_with [OF assms])
  then obtain a where a: "\<And>d w. fst (run_state (fill (GetMaterialTypeByID e ic token (MaterialTypeID item)) (\<lambda>(l :: MaterialType) d. d\<lparr>cdMaterial := materialTypeName l\<rparr>) d) w) =
      Ok (set_if a (\<lambda>(l :: MaterialType) d. d\<lparr>cdMaterial := materialTypeName l\<rparr>) d)" by blast
  show ?thesis
    by (rule exI [of _ "if ?known \<noteq> [] then Some ?known else if MaterialTypeID item \<noteq> [] then map_option materialTypeName a else None"])
      (simp only: fetch_material_def Let_def a set_if_map split: if_split, simp add: set_if_def)
qed

lemma step_is_pure:
  assumes "steady e"
  shows "\<exists>l m h t rs. \<forall>x d w. fst (run_state (fetch_step_run e ic token item x d) w) = Ok (pure_step l m h t rs x d)"
proof -
  obtain l where l: "\<And>d w. fst (run_state (fetch_location e ic token item d) w) = Ok (set_if l (\<lambda>v d. d\<lparr>cdLocation := v\<rparr>) d)"
    using location_is_pure [OF assms] by blast
  obtain m where m: "\<And>d w. fst (run_state (fetch_material e ic token item d) w) = Ok (set_if m (\<lambda>v d. d\<lparr>cdMaterial := v\<rparr>) d)"
    using material_is_pure [OF assms] by blast
  have "\<exists>a. \<forall>d w. fst (run_state (fill (GetHoldingsByID e ic token (HoldingsRecordID item)) (\<lambda>(h :: Holdings) d. d\<lparr>cdInstanceID := hInstanceID h\<rparr>) d) w) =
      Ok (set_if a (\<lambda>(h :: Holdings) d. d\<lparr>cdInstanceID := hInstanceID h\<rparr>) d)"
    unfolding GetHoldingsByID_def by (rule fill_with [OF assms])
  then obtain h where h: "\<And>d w. fst (run_state (fill (GetHoldingsByID e ic token (HoldingsRecordID item)) (\<lambda>(h :: Holdings) d. d\<lparr>cdInstanceID := hInstanceID h\<rparr>) d) w) =
      Ok (set_if h (\<lambda>(h :: Holdings) d. d\<lparr>cdInstanceID := hInstanceID h\<rparr>) d)" by blast
  have "\<exists>a. \<forall>d w. fst (run_state (fill (GetInstanceByID e ic token i) (\<lambda>(i :: Instance) d. d\<lparr>cdTitle := TruncateString (Title i) 60\<rparr>) d) w) =
      Ok (set_if a (\<lambda>(i :: Instance) d. d\<lparr>cdTitle := TruncateString (Title i) 60\<rparr>) d)" for i
    unfolding GetInstanceByID_def by (rule fill_with [OF assms])
  then obtain t where t: "\<And>i d w. fst (run_state (fill (GetInstanceByID e ic token i) (\<lambda>(i :: Instance) d. d\<lparr>cdTitle := TruncateString (Title i) 60\<rparr>) d) w) =
      Ok (set_if (t i) (\<lambda>(i :: Instance) d. d\<lparr>cdTitle := TruncateString (Title i) 60\<rparr>) d)"
    by metis
  have "\<exists>a. \<forall>d w. fst (run_state (fill (GetRequestsByItem e ic token (itemID item)) (\<lambda>(rs :: Request list \<times> int) d. d\<lparr>cdRequests := Some (fst rs)\<rparr>) d) w) =
      Ok (set_if a (\<lambda>(rs :: Request list \<times> int) d. d\<lparr>cdRequests := Some (fst rs)\<rparr>) d)"
    unfolding GetRequestsByItem_def by (rule fill_with [OF assms])
  then obtain rs where rs: "\<And>d w. fst (run_state (fill (GetRequestsByItem e ic token (itemID item)) (\<lambda>(rs :: Request list \<times> int) d. d\<lparr>cdRequests := Some (fst rs)\<rparr>) d) w) =
      Ok (set_if rs (\<lambda>(rs :: Request list \<times> int) d. d\<lparr>cdRequests := Some (fst rs)\<rparr>) d)" by blast
  let ?h = "if HoldingsRecordID item = [] then None else map_option hInstanceID h"
  let ?t = "\<lambda>i. if i = [] then None else map_option (\<lambda>i :: Instance. TruncateString (Title i) 60) (t i)"
  have "fst (run_state (fetch_step_run e ic token item x d) w) = Ok (pure_step l m ?h ?t (map_option fst rs) x d)" for x d w
    by (cases x) (simp_all add: fetch_step_run_def pure_step_def l m h t rs set_if_map, simp_all add: set_if_def)
  then show ?thesis by blast
qed

lemma fetch_steps_pure:
  assumes "\<And>x d w. fst (run_state (fetch_step_run e ic token item x d) w) = Ok (upd x d)"
  shows "fst (run_state (fetch_steps e ic token item xs d) w) = Ok (fold upd xs d)"
proof (induction xs arbitrary: d w)
  case (Cons x xs)
  obtain r w1 where s: "run_state (fetch_step_run e ic token item x d) w = (r, w1)" by fastforce
  with assms [of x d w] Cons show ?case by (simp add: run_try_io [OF s])
qed simp

lemma pure_fields:
  "cdLocation (fold (pure_step l m h t rs) xs d) =
     (case l of Some v \<Rightarrow> if FetchLocation \<in> set xs then v else cdLocation d | None \<Rightarrow> cdLocation d)"
  "cdMaterial (fold (pure_step l m h t rs) xs d) =
     (case m of Some v \<Rightarrow> if FetchMaterial \<in> set xs then v else cdMaterial d | None \<Rightarrow> cdMaterial d)"
  "cdInstanceID (fold (pure_step l m h t rs) xs d) =
     (case h of Some v \<Rightarrow> if FetchHoldings \<in> set xs then v else cdInstanceID d | None \<Rightarrow> cdInstanceID d)"
  "cdRequests (fold (pure_step l m h t rs) xs d) =
     (case rs of Some v \<Rightarrow> if FetchRequests \<in> set xs then Some v else cdRequests d | None \<Rightarrow> cdRequests d)"
  by (induction xs arbitrary: d) (auto simp: pure_step_def set_if_def split: fetch_step.split option.split)

lemma pure_title:
  "FetchInstance \<notin> set xs \<Longrightarrow> cdTitle (fold (pure_step l m h t rs) xs d) = cdTitle d"
  by (induction xs arbitrary: d) (auto simp: pure_step_def set_if_def split: fetch_step.split option.split)

text \<open>Every order of the goroutines ends with the same data.\<close>

lemma interleaving_split:
  assumes "interleaving xs"
  obtains ys zs where "xs = ys @ FetchInstance # zs" "FetchHoldings \<in> set ys" "FetchInstance \<notin> set ys"
    "FetchInstance \<notin> set zs" "set xs = set start_order"
proof -
  have m: "mset xs = mset start_order" and h: "FetchHoldings \<in> set (takeWhile (\<lambda>x. x \<noteq> FetchInstance) xs)"
    using assms by (simp_all add: interleaving_def)
  have s: "set xs = set start_order" by (rule mset_eq_setD [OF m])
  have "distinct xs" using mset_eq_imp_distinct_iff [OF m] by (simp add: start_order_def)
  have "FetchInstance \<in> set xs" using s by (simp add: start_order_def)
  then obtain ys zs where x: "xs = ys @ FetchInstance # zs" "FetchInstance \<notin> set ys" by (meson split_list_first)
  moreover have "takeWhile (\<lambda>x. x \<noteq> FetchInstance) xs = ys" using x by (auto simp: takeWhile_append)
  ultimately show ?thesis using that h s \<open>distinct xs\<close> by auto
qed

lemma pure_interleavings:
  assumes "interleaving xs"
  shows "fold (pure_step l m h t rs) xs no_checkin_data =
    \<lparr>cdLocation = (case l of Some v \<Rightarrow> v | None \<Rightarrow> []), cdMaterial = (case m of Some v \<Rightarrow> v | None \<Rightarrow> []),
     cdInstanceID = (case h of Some v \<Rightarrow> v | None \<Rightarrow> []),
     cdTitle = (case t (case h of Some v \<Rightarrow> v | None \<Rightarrow> []) of Some v \<Rightarrow> v | None \<Rightarrow> []), cdRequests = rs\<rparr>"
    (is "?d = _")
proof -
  obtain ys zs where xs: "xs = ys @ FetchInstance # zs" "FetchHoldings \<in> set ys" "FetchInstance \<notin> set ys"
    "FetchInstance \<notin> set zs" "set xs = set start_order" using assms by (rule interleaving_split)
  have "cdTitle ?d = (case t (case h of Some v \<Rightarrow> v | None \<Rightarrow> []) of Some v \<Rightarrow> v | None \<Rightarrow> [])"
    using xs(2-4) by (simp add: xs(1) pure_title pure_step_def set_if_def pure_fields no_checkin_data_def split: option.split)
  moreover have "FetchLocation \<in> set xs" "FetchMaterial \<in> set xs" "FetchHoldings \<in> set xs" "FetchRequests \<in> set xs"
    by (simp_all add: xs(5) start_order_def)
  ultimately show ?thesis
    by (intro checkin_data.equality) (simp_all add: pure_fields no_checkin_data_def split: option.split)
qed

lemma fetch_parallel_order:
  assumes "steady e"
  shows "fst (run_state (fetch_parallel sched e ic token item) w) = fst (run_state (fetch_parallel sched' e ic token item) w')"
proof -
  obtain l m h t rs where p:
    "\<And>x d w. fst (run_state (fetch_step_run e ic token item x d) w) = Ok (pure_step l m h t rs x d)"
    using step_is_pure [OF assms] by blast
  have "interleaving start_order" by (simp add: interleaving_def start_order_def)
  then show ?thesis by (simp add: fetch_parallel_def fetch_steps_pure [OF p] pure_interleavings)
qed

subsection \<open>What a checkin sends\<close>

lemma checkin_responses_send [sending]:
  "sends n Q (buildCheckinResponseWithMessage e tc msg ok ids m)" "sends n Q (buildCheckinResponse e tc msg ok ids)"
  "sends n Q (buildCheckinResponseWithData e tc msg ids f)"
  unfolding buildCheckinResponseWithData_def buildCheckinResponse_def buildCheckinResponseWithMessage_def Let_def
  by (intro sends_bind_read sending)+

text \<open>A claimed item is not checked in when the tenant resolves no claims.\<close>

lemma Checkin_claimed:
  assumes "sessTenant (wSession w) = Some tc" "validateRequiredFields msg [F_ItemIdentifier]"
    and "LocationCode (wSession w) \<noteq> []"
    and "run_state (getAuthenticatedFolioClient e) w = (Ok token, w1)"
    and "run_state (GetItemByBarcode e (the_client tc) token (msg_GetField msg F_ItemIdentifier)) w1 = (Ok item, w2)"
    and "claimed_blocked e tc item"
  shows "wSent (snd (run_state (CheckinHandler_Handle sched hc e msg) w)) = wSent w2"
proof -
  let ?ids = "(msg_GetField msg F_InstitutionID, msg_GetField msg F_ItemIdentifier, msg_GetField msg F_CurrentLocation)"
  let ?m = "buildCheckinResponseWithMessage e tc msg False ?ids ''Checkin failed - Item is claimed returned''"
  have "run_state (CheckinHandler_Handle sched hc e msg) w = run_state ?m w2"
    using assms by (simp add: CheckinHandler_Handle_def run_with_tenant get_session_def Let_def
        run_try_io [OF assms(4)] run_try_io [OF assms(5)])
  moreover have "wSent (snd (run_state ?m w2)) = wSent w2"
    using after_read [OF checkin_responses_send(1)] by (metis prod.collapse)
  ultimately show ?thesis by simp
qed

text \<open>When the look-up fails, the policy is not applied: the item is checked in.\<close>

lemma Checkin_unknown:
  assumes "sessTenant (wSession w) = Some tc" "validateRequiredFields msg [F_ItemIdentifier]"
    and "LocationCode (wSession w) \<noteq> []"
    and "run_state (getAuthenticatedFolioClient e) w = (Ok token, w1)"
    and "run_state (GetItemByBarcode e (the_client tc) token (msg_GetField msg F_ItemIdentifier)) w1 = (Err err, w2)"
  shows "run_state (CheckinHandler_Handle sched hc e msg) w =
    run_state (checkin_item sched hc e tc msg
      (msg_GetField msg F_InstitutionID, msg_GetField msg F_ItemIdentifier, msg_GetField msg F_CurrentLocation)
      (LocationCode (wSession w)) token) w2"
  using assms by (simp add: CheckinHandler_Handle_def run_with_tenant get_session_def Let_def
      run_try_io [OF assms(4)] run_try_io [OF assms(5)])

lemma sends_fill: "sends 1 Q m \<Longrightarrow> sends 1 Q (fill m f d)"
  unfolding fill_def by (intro sends_try_io [where n = 1 and k = 0] sending) simp_all

lemma sends_fetch_step: "sends 1 (\<lambda>_. True) (fetch_step_run e ic token item x d)"
  unfolding fetch_step_run_def fetch_location_def fetch_material_def Let_def
  by (cases x) (simp_all only: fetch_step.case, (intro sending sends_fill)+)

lemma sends_fetch_steps: "sends (length xs) (\<lambda>_. True) (fetch_steps e ic token item xs d)"
proof (induction xs arbitrary: d)
  case (Cons x xs)
  then show ?case unfolding fetch_steps.simps
    by (intro sends_then_io [OF sends_fetch_step, where k = "length xs"]) simp_all
qed (simp add: sending)

lemma sends_fetch_parallel: "sends 5 (\<lambda>_. True) (fetch_parallel sched e ic token item)"
proof -
  have l: "length xs = 5" if "interleaving xs" for xs
    using that mset_eq_length [of xs start_order] by (simp add: interleaving_def start_order_def)
  have "sends 5 (\<lambda>_. True) (fetch_steps e ic token item (if interleaving xs then xs else start_order) d)" for xs d
  proof (rule sends_mono [OF sends_fetch_steps])
    show "length (if interleaving xs then xs else start_order) \<le> 5" using l by (simp add: start_order_def)
  qed
  then show ?thesis by (simp add: sends_def fetch_parallel_def)
qed

lemma sends_service_point_name [sending]: "sends 1 (\<lambda>_. True) (service_point_name e ic token i)"
  unfolding service_point_name_def by (intro sends_try_io [where n = 1 and k = 0] sending) simp_all

lemma sends_requestor_name [sending]: "sends 1 (\<lambda>_. True) (requestor_name e tc code token rq)"
  unfolding requestor_name_def by (intro sending sends_try_io [where n = 1 and k = 0]) simp_all

lemma sends_checkin_item: "sends 10 (\<lambda>_. True) (checkin_item sched hc e tc msg ids l token)"
proof -
  have dest: "sends 1 (\<lambda>_. True) (checkin_destination e ic token item d)" for ic item d
    unfolding checkin_destination_def Let_def by (intro sending)
  have "sends 7 (\<lambda>_. True) (checkin_facts_of sched hc e tc token item)" for item
    unfolding checkin_facts_of_def
    by (intro sends_then_io [OF sends_fetch_parallel, where k = 2] sends_then_io [OF dest, where k = 1] sending
        sends_then_io [OF sends_requestor_name, where k = 0]) simp_all
  then have "sends 9 (\<lambda>_. True) (fetchCheckinResponseData sched hc e tc token b)" for b
    unfolding fetchCheckinResponseData_def
    by (intro sends_try_io [OF sends_GetItemByBarcode, where k = 7] sending) simp_all
  then show ?thesis unfolding checkin_item_def
    by (intro sends_bind_read [OF sends_reads(2)] sends_try_io [where n = 1 and k = 9]
        sends_then_io [where n = 9 and k = 0] sending) simp_all
qed

lemma Checkin_sends: "sends 19 (\<lambda>_. True) (CheckinHandler_Handle sched hc e msg)"
proof -
  have auth: "sends 7 (\<lambda>_. True) (getAuthenticatedFolioClient e)"
    using sends_auth_client by (rule sends_weaken) simp
  have item: "sends 10 (\<lambda>_. True) (checkin_item sched hc e tc msg ids l token)" for tc ids l token
    by (rule sends_checkin_item)
  show ?thesis unfolding CheckinHandler_Handle_def Let_def
    by (intro sending sends_bind_read [OF sends_reads(1)] sends_try_io [OF auth, where k = 12]
        sends_try_io [OF sends_GetItemByBarcode, where k = 10] item) simp_all
qed

context world_policy
begin

lemma keeps_fill [keeping]: "keeps P m \<Longrightarrow> keeps P (fill m f d)"
  unfolding fill_def by (intro keeping)

lemma keeps_fetch_steps [keeping]: "keeps P (fetch_steps e ic token item xs d)"
proof (induction xs arbitrary: d)
  case (Cons x xs)
  have "keeps P (fetch_step_run e ic token item x d)"
    unfolding fetch_step_run_def fetch_location_def fetch_material_def Let_def
    by (cases x) (simp_all only: fetch_step.case, (intro keeping)+)
  then show ?case unfolding fetch_steps.simps by (intro keeping Cons)
qed (simp add: keeping)

lemma keeps_fetch_parallel [keeping]: "keeps P (fetch_parallel sched e ic token item)"
  using keeps_fetch_steps unfolding keeps_def fetch_parallel_def by auto

lemma keeps_item_names [keeping]:
  "keeps P (requestor_name e tc code token rq)"
  "keeps P (service_point_name e ic token i)"
  unfolding requestor_name_def service_point_name_def by (intro keeping)+

lemma keeps_CheckinHandler [keeping]: "keeps P (CheckinHandler_Handle sched hc e msg)"
  unfolding CheckinHandler_Handle_def checkin_item_def fetchCheckinResponseData_def checkin_facts_of_def
    checkin_destination_def buildCheckinResponseWithData_def buildCheckinResponse_def
    buildCheckinResponseWithMessage_def Let_def
  by (intro keeping)

end

end
