(* ===== verification/Item_Information.thy ===== *)
theory Item_Information
  imports Handlers_Items
begin

text \<open>
  \<open>internal/handlers/item_information.go\<close> (17): an item by its barcode or an instance by its UUID. What is
  fetched, and the circulation status, follow the configuration \<open>hc\<close> the handler was created
  with; what is printed follows the tenant's. The sequence number of every response is 0.
\<close>

definition lower_hex :: "char \<Rightarrow> bool" where
  "lower_hex c \<longleftrightarrow> c \<in> set ''0123456789abcdef''"

definition item_uuidPattern :: "(char \<Rightarrow> bool) list" where
  "item_uuidPattern =
     (let dash = [\<lambda>c. c = CHR ''-'']
      in replicate 8 lower_hex @ dash @ replicate 4 lower_hex @ dash @ replicate 4 lower_hex @ dash @
         replicate 4 lower_hex @ dash @ replicate 12 lower_hex)"

definition item_isUUID :: "(nat \<Rightarrow> nat) \<Rightarrow> string \<Rightarrow> bool" where
  "item_isUUID uni s \<longleftrightarrow> list_all2 (\<lambda>p c. p c) item_uuidPattern (ToLower uni s)"

subsection \<open>What an instance says\<close>

definition getPrimaryContributor :: "Instance \<Rightarrow> string" where
  "getPrimaryContributor i = (case find Primary (Contributors i) of None \<Rightarrow> [] | Some c \<Rightarrow> contributorName c)"

definition getSummaryNote :: "Instance \<Rightarrow> string" where
  "getSummaryNote i =
     (case find (\<lambda>n. NoteTypeID n = ''10e2e11b-450f-45c8-b09b-0f819999966e'') (Notes i) of
        None \<Rightarrow> [] | Some n \<Rightarrow> noteText n)"

definition getISBNs :: "Instance \<Rightarrow> string list" where
  "getISBNs i =
     map idValue (filter (\<lambda>x. IdentifierTypeID x = ''8261054f-be78-422d-bd51-4ed9f33c3422'') (Identifiers i))"

definition getUPCs :: "Instance \<Rightarrow> string list" where
  "getUPCs i =
     map idValue (filter (\<lambda>x. IdentifierTypeID x = ''2e8b3b6c-0e7d-4e48-bca2-b0b23b376af5'' \<or>
       IdentifierTypeID x = ''1795ea23-6856-48a5-a772-f356e16a8a6c'') (Identifiers i))"

definition work_description :: "Instance \<Rightarrow> string" where
  "work_description i = (if getSummaryNote i \<noteq> [] then TruncateString (getSummaryNote i) 255 else [])"

subsection \<open>The data of a response\<close>

record item_response_data =
  rdStatus :: string
  rdTitle :: string
  rdLocation :: string
  rdDueDate :: string
  rdMediaType :: string
  rdMaterialType :: string
  rdCallNumber :: string
  rdRouting :: string
  rdQueueLength :: string
  rdContributor :: string
  rdDescription :: string
  rdISBNs :: "string list"
  rdUPCs :: "string list"
  rdHoldShelf :: string
  rdRequestorBarcode :: string
  rdRequestorName :: string
  rdCheckinNotes :: "string list"
  rdScreenMessage :: string

definition unknown_item :: "string \<Rightarrow> string \<Rightarrow> item_response_data" where
  "unknown_item queue message =
     \<lparr>rdStatus = ''01'', rdTitle = [], rdLocation = [], rdDueDate = [], rdMediaType = [], rdMaterialType = [],
      rdCallNumber = [], rdRouting = [], rdQueueLength = queue, rdContributor = [], rdDescription = [],
      rdISBNs = [], rdUPCs = [], rdHoldShelf = [], rdRequestorBarcode = [], rdRequestorName = [],
      rdCheckinNotes = [], rdScreenMessage = message\<rparr>"

definition with_instance :: "Instance \<Rightarrow> item_response_data \<Rightarrow> item_response_data" where
  "with_instance i d =
     d\<lparr>rdTitle := TruncateString (Title i) 60, rdContributor := getPrimaryContributor i,
       rdDescription := work_description i, rdISBNs := getISBNs i, rdUPCs := getUPCs i\<rparr>"

definition prepareInstanceResponseData :: "Instance option \<Rightarrow> item_response_data" where
  "prepareInstanceResponseData inst =
     (case inst of
        None \<Rightarrow> unknown_item ''0000'' ''Instance not found''
      | Some i \<Rightarrow> with_instance i (unknown_item ''0000'' ''Instance-level information only (no item data)''))"

text \<open>What was fetched for an item.\<close>

record item_facts =
  ifItem :: Item
  ifDueDate :: "GoTime option"
  ifRequests :: "Request list option"
  ifRouting :: string
  ifHoldShelf :: "GoTime option"
  ifRequestorBarcode :: string
  ifRequestorName :: string

definition queue_length :: "Request list option \<Rightarrow> string" where
  "queue_length rs =
     (case rs of
        None \<Rightarrow> ''0000''
      | Some rs' \<Rightarrow> pad_int 4 (int (length (filter (\<lambda>r. prefix ''Open'' (reqStatus r)) rs'))))"

definition sip_date_or_empty :: "env \<Rightarrow> GoTime option \<Rightarrow> string" where
  "sip_date_or_empty e t = (case t of None \<Rightarrow> [] | Some t' \<Rightarrow> FormatSIP2DateTime (Zones e) t' ''    '')"

definition prepareItemResponseData :: "env \<Rightarrow> TenantConfig \<Rightarrow> item_facts option \<Rightarrow> item_response_data" where
  "prepareItemResponseData e hc facts =
     (case facts of
        None \<Rightarrow> unknown_item [] ''Item not found''
      | Some f \<Rightarrow>
          (let item = ifItem f;
               material = (case itemMaterialType item of None \<Rightarrow> [] | Some m \<Rightarrow> materialTypeName m);
               base = (unknown_item (queue_length (ifRequests f)) ''Item found'')
                 \<lparr>rdStatus := MapCirculationStatus hc (StatusName item),
                  rdLocation := (case itemLocation item of None \<Rightarrow> [] | Some l \<Rightarrow> locationName l),
                  rdDueDate := sip_date_or_empty e (ifDueDate f),
                  rdMediaType := (case itemMaterialType item of None \<Rightarrow> []
                                  | Some m \<Rightarrow> MapToSIP2MediaType (Unicode e) (materialTypeName m)),
                  rdMaterialType := material,
                  rdCallNumber := GetEffectiveCallNumber item,
                  rdRouting := ifRouting f,
                  rdHoldShelf := sip_date_or_empty e (ifHoldShelf f),
                  rdRequestorBarcode := ifRequestorBarcode f,
                  rdRequestorName := ifRequestorName f,
                  rdCheckinNotes := (if IsFieldEnabled hc ''17'' ''AG'' then GetCheckinNotes item else [])\<rparr>
           in case itemInstance item of None \<Rightarrow> base | Some i \<Rightarrow> with_instance i base))"

text \<open>A response that cannot be built is a request to resend.\<close>

definition item_response ::
  "env \<Rightarrow> TenantConfig \<Rightarrow> Message \<Rightarrow> item_response_data \<Rightarrow> (folio_error, string) go_result io" where
  "item_response e tc msg d = do {
     now \<leftarrow> time_now e;
     State_Monad.return (or_else
       (BuildItemInformationResponse (Encoders e) (Zones e) tc (rdStatus d) ''00'' ''01'' now
          (msg_GetField msg F_InstitutionID) (msg_GetField msg F_ItemIdentifier) (rdTitle d) (rdLocation d)
          (rdLocation d) (rdDueDate d) (rdMediaType d) (rdMaterialType d) (rdCallNumber d) (rdRouting d)
          (rdQueueLength d) (rdContributor d) (rdDescription d) (rdISBNs d) (rdUPCs d) (rdHoldShelf d)
          (rdRequestorBarcode d) (rdRequestorName d) (rdCheckinNotes d) [rdScreenMessage d] [] ''0'')
       ''96'')
   }"

definition buildItemInformationResponse ::
  "env \<Rightarrow> TenantConfig \<Rightarrow> TenantConfig \<Rightarrow> Message \<Rightarrow> item_facts option \<Rightarrow> (folio_error, string) go_result io" where
  "buildItemInformationResponse e hc tc msg facts = item_response e tc msg (prepareItemResponseData e hc facts)"

definition buildInstanceInformationResponse ::
  "env \<Rightarrow> TenantConfig \<Rightarrow> Message \<Rightarrow> Instance option \<Rightarrow> (folio_error, string) go_result io" where
  "buildInstanceInformationResponse e tc msg inst =
     item_response e tc msg ((prepareInstanceResponseData inst)\<lparr>rdCheckinNotes := []\<rparr>)"

lemmas build_information_defs = buildItemInformationResponse_def buildInstanceInformationResponse_def

subsection \<open>Fetching\<close>

definition with_title ::
  "env \<Rightarrow> TenantConfig \<Rightarrow> TenantConfig \<Rightarrow> string \<Rightarrow> Item \<Rightarrow> (folio_error, Item) go_result io" where
  "with_title e hc tc token item =
     (if IsFieldEnabled hc ''17'' ''AJ'' \<and> HoldingsRecordID item \<noteq> [] then
        try_io (GetHoldingsByID e (the_client tc) token (HoldingsRecordID item))
          (\<lambda>holdings. if hInstanceID holdings = [] then State_Monad.return (Ok item)
             else try_io (GetInstanceByID e (the_client tc) token (hInstanceID holdings))
               (\<lambda>i. State_Monad.return (Ok (item\<lparr>itemInstance := Some i\<rparr>)))
               (\<lambda>err. State_Monad.return (Ok item)))
          (\<lambda>err. State_Monad.return (Ok item))
      else State_Monad.return (Ok item))"

text \<open>The total decides whether there is a first loan; the index panics when the list is empty.\<close>

definition due_date ::
  "env \<Rightarrow> TenantConfig \<Rightarrow> TenantConfig \<Rightarrow> string \<Rightarrow> Item \<Rightarrow> (folio_error, GoTime option) go_result io" where
  "due_date e hc tc token item =
     (if IsFieldEnabled hc ''17'' ''AH'' \<and> IsCheckedOut item then
        try_io (GetLoansByItem e (the_client tc) token (itemID item))
          (\<lambda>found. State_Monad.return
             (if snd found > 0 then (case fst found of [] \<Rightarrow> Panic | loan # _ \<Rightarrow> Ok (DueDate loan)) else Ok None))
          (\<lambda>err. State_Monad.return (Ok None))
      else State_Monad.return (Ok None))"

definition item_requests ::
  "env \<Rightarrow> TenantConfig \<Rightarrow> TenantConfig \<Rightarrow> string \<Rightarrow> Item \<Rightarrow> (folio_error, Request list option) go_result io" where
  "item_requests e hc tc token item =
     (if list_ex (IsFieldEnabled hc ''17'') [''CF'', ''CM'', ''CY'', ''DA''] then
        try_io (GetRequestsByItem e (the_client tc) token (itemID item))
          (\<lambda>found. State_Monad.return (Ok (Some (fst found))))
          (\<lambda>err. State_Monad.return (Ok None))
      else State_Monad.return (Ok None))"

definition routing_location ::
  "env \<Rightarrow> TenantConfig \<Rightarrow> TenantConfig \<Rightarrow> string \<Rightarrow> Item \<Rightarrow> (folio_error, string) go_result io" where
  "routing_location e hc tc token item =
     (if IsFieldEnabled hc ''17'' ''CT'' \<and> InTransitDestinationServicePointID item \<noteq> [] then
        service_point_name e (the_client tc) token (InTransitDestinationServicePointID item)
      else State_Monad.return (Ok []))"

definition item_facts_of ::
  "env \<Rightarrow> TenantConfig \<Rightarrow> TenantConfig \<Rightarrow> string \<Rightarrow> Item \<Rightarrow> (folio_error, item_facts) go_result io" where
  "item_facts_of e hc tc token found =
     then_io (with_title e hc tc token found)
       (\<lambda>item. then_io (due_date e hc tc token item)
         (\<lambda>due. then_io (item_requests e hc tc token item)
           (\<lambda>requests. then_io
              (case awaiting_pickup requests of
                 None \<Rightarrow> State_Monad.return (Ok [])
               | Some rq \<Rightarrow> requestor_name e tc ''17'' token rq)
              (\<lambda>name. then_io (routing_location e hc tc token item)
                 (\<lambda>routing. State_Monad.return (Ok
                    \<lparr>ifItem = item, ifDueDate = due, ifRequests = requests, ifRouting = routing,
                     ifHoldShelf = (case awaiting_pickup requests of None \<Rightarrow> None | Some rq \<Rightarrow> HoldShelfExpirationDate rq),
                     ifRequestorBarcode = (case awaiting_pickup requests of None \<Rightarrow> []
                       | Some rq \<Rightarrow> (case Requester rq of None \<Rightarrow> [] | Some r \<Rightarrow> rqrBarcode r)),
                     ifRequestorName = name\<rparr>))))))"

definition ItemInformationHandler_Handle :: "TenantConfig \<Rightarrow> handler" where
  "ItemInformationHandler_Handle hc e msg = with_tenant (\<lambda>tc.
     if \<not> validateRequiredFields msg [F_ItemIdentifier] then
       State_Monad.return (Err (OtherError ''validation failed: required field Item Identifier (AB) is missing''))
     else
       (let identifier = msg_GetField msg F_ItemIdentifier;
            unknown = buildItemInformationResponse e hc tc msg None
        in try_io (getAuthenticatedFolioClient e)
          (\<lambda>token. if item_isUUID (Unicode e) identifier then
               try_io (GetInstanceByID e (the_client tc) token identifier)
                 (\<lambda>i. buildInstanceInformationResponse e tc msg (Some i))
                 (\<lambda>err. buildInstanceInformationResponse e tc msg None)
             else try_io (GetItemByBarcode e (the_client tc) token identifier)
               (\<lambda>found. then_io (item_facts_of e hc tc token found)
                  (\<lambda>f. buildItemInformationResponse e hc tc msg (Some f)))
               (\<lambda>err. unknown))
          (\<lambda>err. unknown)))"

subsection \<open>Which settings reach the response\<close>

text \<open>The circulation status and what is fetched do not depend on the tenant's settings.\<close>

lemma item_status_default:
  "rdStatus (prepareItemResponseData e (handler_config url) (Some f)) =
     getDefaultCirculationStatusMapping (StatusName (ifItem f))"
  by (simp add: prepareItemResponseData_def Let_def with_instance_def unknown_item_def MapCirculationStatus_def
      handler_config_def split: option.split)

lemma msg_fields_seq: "msg_GetField (msg\<lparr>msgSequenceNumber := s\<rparr>) c = msg_GetField msg c"
  by (simp add: msg_GetField_def)

text \<open>No response depends on the sequence number of its request.\<close>

lemma ItemInformation_sequence:
  "ItemInformationHandler_Handle hc e (msg\<lparr>msgSequenceNumber := s\<rparr>) = ItemInformationHandler_Handle hc e msg"
  unfolding ItemInformationHandler_Handle_def build_information_defs item_response_def validateRequiredFields_def validateRequiredField_def
    msg_fields_seq ..

lemma item_response_send [sending]: "sends n Q (item_response e tc msg d)"
  unfolding item_response_def by (intro sends_bind_read sending)

lemma sends_item_facts: "sends 6 (\<lambda>_. True) (item_facts_of e hc tc token item)"
proof -
  have title: "sends 2 (\<lambda>_. True) (with_title e hc tc token i)" for i
    unfolding with_title_def
    by (intro sending sends_try_io [where n = 1 and k = 1] sends_try_io [where n = 1 and k = 0]) simp_all
  have due: "sends 1 (\<lambda>_. True) (due_date e hc tc token i)" "sends 1 (\<lambda>_. True) (item_requests e hc tc token i)"
    "sends 1 (\<lambda>_. True) (routing_location e hc tc token i)" for i
    unfolding due_date_def item_requests_def routing_location_def
    by (intro sending sends_try_io [where n = 1 and k = 0]; simp)+
  show ?thesis unfolding item_facts_of_def
    by (intro sends_then_io [OF title, where k = 4] sends_then_io [OF due(1), where k = 3]
        sends_then_io [OF due(2), where k = 2] sends_then_io [where n = 1 and k = 1]
        sends_then_io [OF due(3), where k = 0] sending) simp_all
qed

lemma ItemInformation_sends: "sends 15 (\<lambda>_. True) (ItemInformationHandler_Handle hc e msg)"
proof -
  have auth: "sends 7 (\<lambda>_. True) (getAuthenticatedFolioClient e)"
    using sends_auth_client by (rule sends_weaken) simp
  show ?thesis unfolding ItemInformationHandler_Handle_def build_information_defs Let_def
    by (intro sending sends_try_io [OF auth, where k = 8] sends_try_io [where n = 1 and k = 0]
        sends_try_io [OF sends_GetItemByBarcode, where k = 6] sends_then_io [OF sends_item_facts, where k = 0]) simp_all
qed

context world_policy
begin

lemma keeps_ItemInformationHandler [keeping]:
  "keeps P (ItemInformationHandler_Handle hc e msg)"
  unfolding ItemInformationHandler_Handle_def build_information_defs item_facts_of_def with_title_def due_date_def item_requests_def
    routing_location_def item_response_def Let_def
  by (intro keeping)

end

end
