(* ===== verification/Handlers_Fees.thy ===== *)
theory Handlers_Fees
  imports Lending
begin

text \<open>
  \<open>internal/handlers/fee_paid.go\<close> (37): one account when the request names one, otherwise (or when
  that one is not eligible) all open accounts, where the tenant accepts it. The lemmas are about
  the order of verification and payment, the amount a payment asks for, and how many requests
  there are.
\<close>

record payment_result =
  prAccount :: "Account option"
  prRemaining :: "string option"
  amountApplied :: f64
  paid :: bool
  payError :: "folio_error option"

definition failed_payment :: "folio_error \<Rightarrow> payment_result" where
  "failed_payment err =
     \<lparr>prAccount = None, prRemaining = None, amountApplied = f_zero, paid = False, payError = Some err\<rparr>"

text \<open>What a payment needs of the configuration and the session, read before anything is sent.\<close>

definition payment_of :: "TenantConfig \<Rightarrow> Session \<Rightarrow> f64 \<Rightarrow> Payment" where
  "payment_of tc s amount =
     \<lparr>payAmount = format_2f amount, payServicePointID = LocationCode s, payUserName = Username s,
      payMethod = GetPaymentMethod tc, payNotifyPatron = NotifyPatron tc\<rparr>"

text \<open>The second result: whether all accounts may be paid instead.\<close>

definition paySingleAccount ::
  "env \<Rightarrow> TenantConfig \<Rightarrow> string \<Rightarrow> string \<Rightarrow> string \<Rightarrow> (f64 \<Rightarrow> Payment) \<Rightarrow> f64 \<Rightarrow>
     (folio_error, payment_result \<times> bool) go_result io" where
  "paySingleAccount e tc token uid account p amount =
     try_io (GetEligibleAccountByID e (the_client tc) token uid account)
       (\<lambda>found. case found of
           None \<Rightarrow> State_Monad.return (Ok (failed_payment (OtherError ''account not eligible''), True))
         | Some a \<Rightarrow>
             try_io (PayAccount e (the_client tc) token (accountID a) (p amount))
               (\<lambda>remaining. State_Monad.return (Ok
                  (\<lparr>prAccount = Some a, prRemaining = Some remaining, amountApplied = amount, paid = True,
                    payError = None\<rparr>, False)))
               (\<lambda>err. State_Monad.return (Ok (failed_payment err, False))))
       (\<lambda>err. State_Monad.return (Ok (failed_payment err, False)))"

text \<open>No more than the balance is paid.\<close>

definition capped :: "f64 \<Rightarrow> Account list \<Rightarrow> f64" where
  "capped amount accounts =
     (let total = f_sum (map Remaining accounts) in if f_less total amount then total else amount)"

definition bulk_results :: "f64 \<Rightarrow> Account list \<Rightarrow> payment_result list" where
  "bulk_results amount accounts =
     (let each = f_div amount (f_of_nat (length accounts))
      in map (\<lambda>a. \<lparr>prAccount = Some a, prRemaining = None, amountApplied = each, paid = True, payError = None\<rparr>) accounts)"

definition payBulkAccounts ::
  "env \<Rightarrow> TenantConfig \<Rightarrow> string \<Rightarrow> string \<Rightarrow> (f64 \<Rightarrow> Payment) \<Rightarrow> f64 \<Rightarrow> (folio_error, payment_result list) go_result io" where
  "payBulkAccounts e tc token uid p amount =
     try_io (GetOpenAccountsExcludingSuspended e (the_client tc) token uid)
       (\<lambda>accounts. if accounts = [] then State_Monad.return (Ok [])
          else try_io (PayBulkAccounts e (the_client tc) token (p (capped amount accounts)) (map accountID accounts))
            (\<lambda>u. State_Monad.return (Ok (bulk_results (capped amount accounts) accounts)))
            (\<lambda>err. State_Monad.return (Ok [failed_payment err])))
       (\<lambda>err. State_Monad.return (Ok [failed_payment err]))"

subsection \<open>Responses\<close>

definition transaction_field :: "Message \<Rightarrow> string" where
  "transaction_field msg =
     (if msg_GetField msg F_TransactionID \<noteq> [] then BuildPrefixedField ''BK'' (msg_GetField msg F_TransactionID) ''|''
      else [])"

definition fee_paid_error ::
  "env \<Rightarrow> TenantConfig \<Rightarrow> Message \<Rightarrow> string \<Rightarrow> (folio_error, string) go_result io" where
  "fee_paid_error e tc msg message = do {
     now \<leftarrow> time_now e;
     (let response = ''38N'' @ FormatSIP2DateTime (Zones e) now ''    '' @
            BuildPrefixedField ''AO'' (msg_GetField msg F_InstitutionID) ''|'' @
            BuildPrefixedField ''AA'' (msg_GetField msg F_PatronIdentifier) ''|'' @
            transaction_field msg @ BuildPrefixedField ''AF'' message ''|''
      in State_Monad.return (or_else
           (Build (Encoders e) tc FeePaidResponse (drop 2 response) (msgSequenceNumber msg)) response))
   }"

definition remaining_field :: "Account \<Rightarrow> payment_result \<Rightarrow> string" where
  "remaining_field a r =
     (case prRemaining r of
        Some rest \<Rightarrow> BuildPrefixedField ''FA'' rest ''|''
      | None \<Rightarrow>
          (let rest = f_sub (Remaining a) (amountApplied r)
           in ''|FA'' @ format_2f (if f_less rest f_zero then f_zero else rest)))"

definition payment_fields :: "env \<Rightarrow> GoTime \<Rightarrow> payment_result \<Rightarrow> string" where
  "payment_fields e now r =
     (case prAccount r of
        None \<Rightarrow> []
      | Some a \<Rightarrow>
          if paid r then
            BuildPrefixedField ''CG'' (accountID a) ''|'' @ remaining_field a r @
            BuildPrefixedField ''FC'' (FormatSIP2DateTime (Zones e) now ''    '') ''|'' @
            BuildPrefixedField ''FE'' (FeeFineID a) ''|'' @ ''|FG'' @ format_2f (amountApplied r)
          else [])"

definition failures :: "payment_result list \<Rightarrow> nat" where
  "failures results = length (filter (\<lambda>r. \<not> (paid r \<and> prAccount r \<noteq> None)) results)"

definition payment_message :: "bool \<Rightarrow> payment_result list \<Rightarrow> string" where
  "payment_message isBulkPayment results =
     (if isBulkPayment then
        (if failures results > 0 then ''|AFBulk payment applied - see staff for details'' else ''|AFBulk payment applied'')
      else ''|AFPayment accepted'')"

definition fee_paid_success ::
  "env \<Rightarrow> TenantConfig \<Rightarrow> Message \<Rightarrow> payment_result list \<Rightarrow> bool \<Rightarrow> (folio_error, string) go_result io" where
  "fee_paid_success e tc msg results isBulkPayment = do {
     now \<leftarrow> time_now e;
     (let response = ''38Y'' @ FormatSIP2DateTime (Zones e) now ''    '' @
            BuildPrefixedField ''AO'' (msg_GetField msg F_InstitutionID) ''|'' @
            BuildPrefixedField ''AA'' (msg_GetField msg F_PatronIdentifier) ''|'' @
            concat (map (payment_fields e now) results) @ transaction_field msg @
            payment_message isBulkPayment results
      in State_Monad.return (or_else
           (Build (Encoders e) tc FeePaidResponse (drop 2 response) (msgSequenceNumber msg)) response))
   }"

subsection \<open>The handler\<close>

definition failure_message :: "env \<Rightarrow> folio_error option \<Rightarrow> string" where
  "failure_message e err =
     (let fallback = ''Payment failed - see staff for details''
      in case err of None \<Rightarrow> fallback | Some er \<Rightarrow> ExtractFolioErrorMessage e er fallback)"

definition first_error :: "payment_result list \<Rightarrow> folio_error option" where
  "first_error results = (case find (\<lambda>r. \<not> paid r) results of None \<Rightarrow> None | Some r \<Rightarrow> payError r)"

definition fee_paid_answer ::
  "env \<Rightarrow> TenantConfig \<Rightarrow> Message \<Rightarrow> payment_result list \<Rightarrow> bool \<Rightarrow> (folio_error, string) go_result io" where
  "fee_paid_answer e tc msg results isBulkPayment =
     (if list_ex paid results then fee_paid_success e tc msg results isBulkPayment
      else fee_paid_error e tc msg (failure_message e (first_error results)))"

definition pay_in_bulk ::
  "env \<Rightarrow> TenantConfig \<Rightarrow> Message \<Rightarrow> (f64 \<Rightarrow> Payment) \<Rightarrow> f64 \<Rightarrow> string \<Rightarrow> string \<Rightarrow> (folio_error, string) go_result io" where
  "pay_in_bulk e tc msg p amount token uid =
     try_io (payBulkAccounts e tc token uid p amount)
       (\<lambda>results. fee_paid_answer e tc msg results True)
       (\<lambda>err. State_Monad.return (Err err))"

definition pay_fees ::
  "env \<Rightarrow> TenantConfig \<Rightarrow> Message \<Rightarrow> (f64 \<Rightarrow> Payment) \<Rightarrow> f64 \<Rightarrow> string \<Rightarrow> string \<Rightarrow> (folio_error, string) go_result io" where
  "pay_fees e tc msg p amount token uid =
     (let account = msg_GetField msg F_FeeIdentifier
      in if account \<noteq> [] then
           try_io (paySingleAccount e tc token uid account p amount)
             (\<lambda>rf. if paid (fst rf) then fee_paid_answer e tc msg [fst rf] False
                else if snd rf \<and> AcceptBulkPayment tc then pay_in_bulk e tc msg p amount token uid
                else fee_paid_error e tc msg (failure_message e (payError (fst rf))))
             (\<lambda>err. State_Monad.return (Err err))
         else if AcceptBulkPayment tc then pay_in_bulk e tc msg p amount token uid
         else fee_paid_error e tc msg ''Account ID required'')"

definition FeePaidHandler_Handle :: handler where
  "FeePaidHandler_Handle e msg = with_tenant (\<lambda>tc.
     if \<not> validateRequiredFields msg [F_PatronIdentifier, F_FeeAmount] then fee_paid_error e tc msg ''Validation failed''
     else do {
       s \<leftarrow> get_session;
       (case ParseFloat e (msg_GetField msg F_FeeAmount) of
          None \<Rightarrow> fee_paid_error e tc msg ''Invalid fee amount''
        | Some amount \<Rightarrow>
            if f_not_positive amount then fee_paid_error e tc msg ''Invalid fee amount''
            else with_verified_patron e tc msg (fee_paid_error e tc msg)
                   (pay_fees e tc msg (payment_of tc s) amount) ''Authentication failed'')
     })"

subsection \<open>What a payment asks for\<close>

lemma capped_le: "\<not> f_less (f_sum (map Remaining accounts)) (capped amount accounts)"
proof -
  have "\<not> f_less x x" for x by (cases x) auto
  then show ?thesis by (simp add: capped_def Let_def)
qed

lemma fee_responses_send [sending]:
  "sends n Q (fee_paid_error e tc msg m)" "sends n Q (fee_paid_success e tc msg results bulk)"
  "sends n Q (fee_paid_answer e tc msg results bulk)"
  unfolding fee_paid_error_def fee_paid_success_def fee_paid_answer_def Let_def by (intro sends_bind_read sending)+

lemma sends_payBulkAccounts: "sends 2 (\<lambda>_. True) (payBulkAccounts e tc token uid p amount)"
  unfolding payBulkAccounts_def
  by (intro sends_try_io [where n = 1 and k = 1] sends_try_io [where n = 1 and k = 0] sending) simp_all

lemma sends_pay_fees: "sends 4 (\<lambda>_. True) (pay_fees e tc msg p amount token uid)"
proof -
  have bulk: "sends 2 (\<lambda>_. True) (pay_in_bulk e tc msg p amount token uid)"
    unfolding pay_in_bulk_def by (intro sends_try_io [OF sends_payBulkAccounts, where k = 0] sending) simp_all
  have single: "sends 2 (\<lambda>_. True) (paySingleAccount e tc token uid a p amount)" for a
    unfolding paySingleAccount_def
    by (intro sends_try_io [where n = 1 and k = 1] sends_try_io [where n = 1 and k = 0] sending) simp_all
  show ?thesis unfolding pay_fees_def Let_def
    by (intro sends_try_io [OF single, where k = 2] sending bulk sends_mono [OF bulk]) simp_all
qed

lemma FeePaid_sends: "sends 13 (\<lambda>_. True) (FeePaidHandler_Handle e msg)"
  unfolding FeePaidHandler_Handle_def Let_def
  by (intro sends_bind_read sending sends_mono [OF sends_half [OF _ sends_pay_fees]]) simp_all

lemma FeePaid_verified:
  assumes "run_state (FeePaidHandler_Handle e msg) w = (r, w')" "sessTenant (wSession w) = Some tc"
  shows "lends_verified e tc msg w w'"
proof -
  have plain: "wSent w' = wSent w \<Longrightarrow> lends_verified e tc msg w w'"
    using quiet_cong quiet_refl by (metis lends_verified_def)
  show ?thesis
  proof (cases "\<exists>m. run_state (fee_paid_error e tc msg m) w = (r, w')")
    case True
    then show ?thesis using plain after_read [OF fee_responses_send(1)] by metis
  next
    case False
    then obtain s amount where "run_state (with_verified_patron e tc msg (fee_paid_error e tc msg)
        (pay_fees e tc msg (payment_of tc s) amount) ''Authentication failed'') w = (r, w')"
      using assms by (auto simp: FeePaidHandler_Handle_def run_with_tenant get_session_def split: if_splits option.splits)
    then show ?thesis by (rule lends_verified_half) (blast intro: fee_responses_send sends_pay_fees)+
  qed
qed

text \<open>An amount that is no number is not refused.\<close>

lemma FeePaid_NaN:
  assumes "ParseFloat e (msg_GetField msg F_FeeAmount) = Some NaN" "sessTenant (wSession w) = Some tc"
    and "validateRequiredFields msg [F_PatronIdentifier, F_FeeAmount]"
  shows "run_state (FeePaidHandler_Handle e msg) w =
    run_state (with_verified_patron e tc msg (fee_paid_error e tc msg)
      (pay_fees e tc msg (payment_of tc (wSession w)) NaN) ''Authentication failed'') w"
  using assms by (simp add: FeePaidHandler_Handle_def run_with_tenant get_session_def f_not_positive_def f_is_zero_def)

context world_policy
begin

lemma keeps_FeePaidHandler [keeping]: "keeps P (FeePaidHandler_Handle e msg)"
  unfolding FeePaidHandler_Handle_def pay_fees_def pay_in_bulk_def payBulkAccounts_def paySingleAccount_def
    fee_paid_answer_def fee_paid_success_def fee_paid_error_def Let_def
  by (intro keeping)

end

end
