(* ===== verification/Framing.thy ===== *)
theory Framing
  imports Sip_Parser
begin

text \<open>
  \<open>readMessage\<close> and the framing part of \<open>sendMessage\<close> of \<open>internal/server/connection.go\<close>: how a byte
  stream is cut into messages. The stream is the list of bytes that will arrive; what ends it
  (end of file, time-out, broken socket) is the caller's matter. A stream of framed messages is
  read back message by message, no byte is lost, and a message has at most 64 KB.
\<close>

definition maxSIP2MessageBytes :: nat where "maxSIP2MessageBytes = 64 * 1024"

datatype read_result =
    GotMessage string string
  | TooLong string
  | OutOfBytes

definition skipped_LF :: "string \<Rightarrow> char \<Rightarrow> bool" where
  "skipped_LF delim b \<longleftrightarrow> b = LF \<and> (delim = [] \<or> hd delim \<noteq> LF)"

text \<open>
  The loop: \<open>acc\<close> is the message so far. A line feed in front of a message is dropped unless the
  delimiter starts with one.
\<close>

fun read_from :: "string \<Rightarrow> string \<Rightarrow> string \<Rightarrow> read_result" where
  "read_from delim acc [] = OutOfBytes"
| "read_from delim acc (b # bs) =
     (if acc = [] \<and> skipped_LF delim b then read_from delim acc bs
      else let m = acc @ [b] in
        if length delim \<le> length m \<and> drop (length m - length delim) m = delim then
          GotMessage (take (length m - length delim) m) bs
        else if length m > maxSIP2MessageBytes then TooLong bs
        else read_from delim m bs)"

definition trim_right_CR :: "string \<Rightarrow> string" where
  "trim_right_CR m = rev (dropWhile (\<lambda>c. c = CR) (rev m))"

definition tc_GetMessageDelimiterBytes :: "TenantConfig \<Rightarrow> string" where
  "tc_GetMessageDelimiterBytes tc = MessageDelimiter tc"

definition readMessage :: "TenantConfig \<Rightarrow> string \<Rightarrow> read_result" where
  "readMessage tc stream =
     (let delim = tc_GetMessageDelimiterBytes tc
      in case read_from delim [] stream of
           GotMessage m rest \<Rightarrow> GotMessage (if delim = [LF] then trim_right_CR m else m) rest
         | r \<Rightarrow> r)"

text \<open>What is written for a response: the delimiter is added where it is missing.\<close>

definition framed :: "TenantConfig \<Rightarrow> string \<Rightarrow> string" where
  "framed tc message =
     (if suffix (MessageDelimiter tc) message then message else message @ MessageDelimiter tc)"

subsection \<open>Nothing is lost\<close>

lemma read_from_split:
  "read_from delim acc stream = GotMessage m rest \<Longrightarrow>
     \<exists>skip. acc @ stream = skip @ m @ delim @ rest \<and> set skip \<subseteq> {LF} \<and> (acc \<noteq> [] \<longrightarrow> skip = [])"
proof (induction delim acc stream rule: read_from.induct)
  case (2 delim acc b bs)
  show ?case
  proof (cases "acc = [] \<and> skipped_LF delim b")
    case True
    then obtain skip where "acc @ bs = skip @ m @ delim @ rest" "set skip \<subseteq> {LF}"
      using 2 by auto
    then show ?thesis using True by (intro exI [of _ "LF # skip"]) (auto simp: skipped_LF_def)
  next
    case False
    let ?m = "acc @ [b]"
    show ?thesis
    proof (cases "length delim \<le> length ?m \<and> drop (length ?m - length delim) ?m = delim")
      case True
      then have "m = take (length ?m - length delim) ?m" "rest = bs"
        using 2(3) False by (simp_all add: Let_def split: if_splits)
      then have "m @ delim = ?m" using True by (metis append_take_drop_id)
      then have "acc @ b # bs = [] @ m @ delim @ rest"
        using \<open>rest = bs\<close> by (metis append.assoc append_Cons append_Nil)
      then show ?thesis by fastforce
    next
      case no: False
      then have "read_from delim ?m bs = GotMessage m rest" and "\<not> length ?m > maxSIP2MessageBytes"
        using 2(3) False by (auto simp: Let_def split: if_splits)
      then have "\<exists>skip. ?m @ bs = skip @ m @ delim @ rest \<and> set skip \<subseteq> {LF} \<and> (?m \<noteq> [] \<longrightarrow> skip = [])"
        using 2(2) False no by metis
      then show ?thesis by auto
    qed
  qed
qed simp

lemma read_from_bound:
  "read_from delim acc stream = GotMessage m rest \<Longrightarrow> length acc \<le> maxSIP2MessageBytes \<Longrightarrow>
     length m \<le> Suc maxSIP2MessageBytes - length delim \<and> length rest < length stream"
proof (induction delim acc stream rule: read_from.induct)
  case (2 delim acc b bs)
  show ?case
  proof (cases "acc = [] \<and> skipped_LF delim b")
    case True
    then show ?thesis using 2(1,3,4) by (auto simp: less_SucI)
  next
    case False
    let ?m = "acc @ [b]"
    show ?thesis
    proof (cases "length delim \<le> length ?m \<and> drop (length ?m - length delim) ?m = delim")
      case True
      then show ?thesis using 2(3,4) False by (auto simp: Let_def split: if_splits)
    next
      case no: False
      then have "read_from delim ?m bs = GotMessage m rest" and "\<not> length ?m > maxSIP2MessageBytes"
        using 2(3) False by (auto simp: Let_def split: if_splits)
      then show ?thesis using 2(2) [OF False refl no] by simp
    qed
  qed
qed simp

lemma length_trim_right_CR: "length (trim_right_CR m) \<le> length m"
  using length_dropWhile_le [of _ "rev m"] by (simp add: trim_right_CR_def)

text \<open>A message has at most 64 KB, and reading one consumes input.\<close>

lemma readMessage_bound:
  assumes "readMessage tc stream = GotMessage m rest"
  shows "length m \<le> Suc maxSIP2MessageBytes - length (tc_GetMessageDelimiterBytes tc)"
    "length rest < length stream"
proof -
  obtain m1 where m1: "read_from (tc_GetMessageDelimiterBytes tc) [] stream = GotMessage m1 rest"
    and le: "length m \<le> length m1"
    using assms length_trim_right_CR
    by (auto simp: readMessage_def Let_def split: read_result.splits if_splits)
  note bound = read_from_bound [OF m1]
  show "length m \<le> Suc maxSIP2MessageBytes - length (tc_GetMessageDelimiterBytes tc)"
    using bound le by simp
  show "length rest < length stream" using bound by simp
qed

lemma read_from_TooLong: "read_from delim acc stream = TooLong rest \<Longrightarrow> length rest < length stream"
proof (induction delim acc stream rule: read_from.induct)
  case (2 delim acc b bs)
  then show ?case by (auto simp: Let_def less_SucI split: if_splits)
qed simp

subsection \<open>Framed messages are read back\<close>

text \<open>
  A message that a delimiter frames without doubt: the delimiter does not occur earlier than where the
  message ends, also not partly inside it; the message with its delimiter fits into 64 KB; its first byte
  is no line feed that would be dropped, and where the delimiter is a line feed it does not end with a
  carriage return, which would be dropped too.
\<close>

definition plain_message :: "string \<Rightarrow> string \<Rightarrow> bool" where
  "plain_message ds m \<longleftrightarrow> ds \<noteq> [] \<and>
     list_all (\<lambda>k. take (length ds) (drop k (m @ ds)) \<noteq> ds) [0..<length m] \<and>
     length m + length ds \<le> Suc maxSIP2MessageBytes \<and>
     (m \<noteq> [] \<longrightarrow> \<not> skipped_LF ds (hd m) \<and> (ds = [LF] \<longrightarrow> last m \<noteq> CR))"

lemma plain_message_single:
  assumes "d \<notin> set m" "length m \<le> maxSIP2MessageBytes" "m \<noteq> [] \<Longrightarrow> hd m \<noteq> LF \<and> last m \<noteq> CR"
  shows "plain_message [d] m"
proof -
  have "take 1 (drop k (m @ [d])) \<noteq> [d]" if "k < length m" for k
  proof -
    have "take 1 (drop k (m @ [d])) = [m ! k]" using that by (cases "drop k m") (auto simp: Cons_nth_drop_Suc [symmetric])
    then show ?thesis using that assms(1) by auto
  qed
  then show ?thesis using assms(2,3) by (auto simp: plain_message_def list_all_iff skipped_LF_def)
qed

lemma take_drop_prefix: "drop k p = ds \<Longrightarrow> k \<le> length p \<Longrightarrow> take (length ds) (drop k (p @ t)) = ds"
  by auto

lemma read_from_framed:
  assumes "list_all (\<lambda>k. take (length ds) (drop k (m @ ds)) \<noteq> ds) [0..<length m]"
    and "length m + length ds \<le> Suc maxSIP2MessageBytes"
    and "m @ ds = acc @ t" "t \<noteq> []" "acc = [] \<longrightarrow> \<not> skipped_LF ds (hd t)"
  shows "read_from ds acc (t @ rest) = GotMessage m rest"
  using assms(3-5)
proof (induction t arbitrary: acc)
  case (Cons b t)
  let ?m = "acc @ [b]"
  have whole: "m @ ds = ?m @ t" using Cons.prems(1) by simp
  have first: "\<not> (acc = [] \<and> skipped_LF ds b)" using Cons.prems(3) by auto
  show ?case
  proof (cases "t = []")
    case True
    then have "?m = m @ ds" using whole by simp
    then have "length ds \<le> length ?m" "drop (length ?m - length ds) ?m = ds" "take (length ?m - length ds) ?m = m" by simp_all
    then show ?thesis using first True by (auto simp: Let_def)
  next
    case False
    then have len: "length ?m < length m + length ds" using arg_cong [OF whole, of length] by simp
    have no: "\<not> (length ds \<le> length ?m \<and> drop (length ?m - length ds) ?m = ds)"
    proof
      assume here: "length ds \<le> length ?m \<and> drop (length ?m - length ds) ?m = ds"
      then have "take (length ds) (drop (length ?m - length ds) (m @ ds)) = ds"
        unfolding whole by (intro take_drop_prefix) simp_all
      moreover have "length ?m - length ds < length m" using len here by linarith
      ultimately show False using assms(1) by (simp add: list_all_iff)
    qed
    have "read_from ds ?m (t @ rest) = GotMessage m rest"
      using whole False by (intro Cons.IH) auto
    moreover have "\<not> length ?m > maxSIP2MessageBytes" using len assms(2) by linarith
    ultimately show ?thesis using first no by (auto simp: Let_def)
  qed
qed simp

lemma read_from_skips:
  "hd ds \<noteq> LF \<Longrightarrow> read_from ds [] (replicate k LF @ stream) = read_from ds [] stream"
  by (induction k) (simp_all add: skipped_LF_def)

lemma readMessage_framed:
  assumes "plain_message (MessageDelimiter tc) m"
  shows "readMessage tc (m @ MessageDelimiter tc @ rest) = GotMessage m rest"
proof -
  let ?ds = "MessageDelimiter tc"
  have "read_from ?ds [] ((m @ ?ds) @ rest) = GotMessage m rest"
    using assms by (intro read_from_framed) (auto simp: plain_message_def skipped_LF_def hd_append)
  moreover have "trim_right_CR m = m" if "?ds = [LF]"
    using assms that by (cases m rule: rev_cases) (auto simp: plain_message_def trim_right_CR_def)
  ultimately show ?thesis by (simp add: readMessage_def tc_GetMessageDelimiterBytes_def)
qed

lemma readMessage_skips:
  "hd (MessageDelimiter tc) \<noteq> LF \<Longrightarrow> readMessage tc (replicate k LF @ stream) = readMessage tc stream"
  by (simp add: readMessage_def tc_GetMessageDelimiterBytes_def read_from_skips)

fun read_all :: "nat \<Rightarrow> TenantConfig \<Rightarrow> string \<Rightarrow> string list" where
  "read_all 0 tc stream = []"
| "read_all (Suc n) tc stream =
     (case readMessage tc stream of GotMessage m rest \<Rightarrow> m # read_all n tc rest | _ \<Rightarrow> [])"

text \<open>
  What a client writes: messages with the tenant's delimiter, some of them after line feeds (a client that ends
  its messages with CR LF where the tenant's delimiter is CR).
\<close>

definition written_stream :: "TenantConfig \<Rightarrow> (nat \<times> string) list \<Rightarrow> string" where
  "written_stream tc ms = concat (map (\<lambda>(k, m). replicate k LF @ m @ MessageDelimiter tc) ms)"

lemma read_all_framed:
  assumes "list_all (\<lambda>(k, m). plain_message (MessageDelimiter tc) m \<and> (k = 0 \<or> hd (MessageDelimiter tc) \<noteq> LF)) ms"
    and "readMessage tc part = OutOfBytes" "length ms \<le> n"
  shows "read_all n tc (written_stream tc ms @ part) = map snd ms"
  using assms(1,3)
proof (induction ms arbitrary: n)
  case Nil
  then show ?case using assms(2) by (cases n) (simp_all add: written_stream_def)
next
  case (Cons x ms)
  obtain k m where x: "x = (k, m)" by (cases x)
  obtain n' where n: "n = Suc n'" using Cons.prems by (cases n) auto
  have "readMessage tc (replicate k LF @ m @ MessageDelimiter tc @ written_stream tc ms @ part) =
      GotMessage m (written_stream tc ms @ part)"
    using Cons.prems x by (auto simp: readMessage_skips readMessage_framed)
  then show ?case using Cons n x by (simp add: written_stream_def)
qed

lemma framed_ends: "suffix (MessageDelimiter tc) (framed tc m)"
  by (simp add: framed_def)

end
