(* ===== verification/Tenants.thy ===== *)
theory Tenants
  imports Tenant_Config "HOL-Library.Multiset"
begin

text \<open>
  \<open>internal/tenant\<close>: which tenant serves a connection. The resolvers of the two phases, their
  order of priority, the choice of the default tenant, and the two resolutions: by address and
  port when the connection opens, by all the criteria together at login. Address parsing and
  subnet tests belong to the ipaddress library and are an argument, as is the sorting routine
  of the standard library, which does not keep the order of equal elements. The service's lock
  makes each method one step.
\<close>

datatype ResolutionPhase = PhaseConnect | PhaseLogin

definition phase_String :: "ResolutionPhase \<Rightarrow> string" where
  "phase_String rp = (case rp of PhaseConnect \<Rightarrow> ''CONNECT'' | PhaseLogin \<Rightarrow> ''LOGIN'')"

record ResolverData =
  ClientIP :: string
  ClientPort :: int
  ServerPort :: int
  rdUsername :: string
  rdLocationCode :: string
  CurrentTenant :: "TenantConfig option"

text \<open>The address library: is the text an address, and does a subnet contain an address.\<close>

record ip_library =
  ip_valid :: "string \<Rightarrow> bool"
  ip_contains :: "string \<Rightarrow> string \<Rightarrow> bool"

datatype resolver =
    IPResolver string TenantConfig
  | PortResolver int TenantConfig
  | LocationCodeResolver "string list" TenantConfig
  | UsernamePrefixResolver "string list" TenantConfig

fun resolver_Phase :: "resolver \<Rightarrow> ResolutionPhase" where
  "resolver_Phase (IPResolver _ _) = PhaseConnect"
| "resolver_Phase (PortResolver _ _) = PhaseConnect"
| "resolver_Phase (LocationCodeResolver _ _) = PhaseLogin"
| "resolver_Phase (UsernamePrefixResolver _ _) = PhaseLogin"

fun Priority :: "resolver \<Rightarrow> int" where
  "Priority (IPResolver _ _) = 100"
| "Priority (PortResolver _ _) = 90"
| "Priority (LocationCodeResolver _ _) = 80"
| "Priority (UsernamePrefixResolver _ _) = 70"

text \<open>\<open>Resolve\<close>: an error, no match (\<^const>\<open>None\<close>), or the tenant.\<close>

definition IPResolver_Resolve :: "ip_library \<Rightarrow> string \<Rightarrow> TenantConfig \<Rightarrow> ResolverData \<Rightarrow> (string, TenantConfig option) go_result" where
  [simp]: "IPResolver_Resolve ip subnet tc data =
     (if ClientIP data = [] then Err ''no client IP provided''
      else if \<not> ip_valid ip subnet then Err ''invalid subnet''
      else if \<not> ip_valid ip (ClientIP data) then Err ''invalid client IP''
      else if ip_contains ip subnet (ClientIP data) then Ok (Some tc) else Ok None)"

definition PortResolver_Resolve :: "int \<Rightarrow> TenantConfig \<Rightarrow> ResolverData \<Rightarrow> (string, TenantConfig option) go_result" where
  [simp]: "PortResolver_Resolve port tc data =
     (if ServerPort data = 0 then Err ''no server port provided''
      else if ServerPort data = port then Ok (Some tc) else Ok None)"

definition LocationCodeResolver_Resolve ::
  "string list \<Rightarrow> TenantConfig \<Rightarrow> ResolverData \<Rightarrow> (string, TenantConfig option) go_result" where
  [simp]: "LocationCodeResolver_Resolve codes tc data =
     (if rdLocationCode data = [] then Err ''no location code provided''
      else if list_ex (\<lambda>code. rdLocationCode data = code) codes then Ok (Some tc) else Ok None)"

definition UsernamePrefixResolver_Resolve ::
  "string list \<Rightarrow> TenantConfig \<Rightarrow> ResolverData \<Rightarrow> (string, TenantConfig option) go_result" where
  [simp]: "UsernamePrefixResolver_Resolve ps tc data =
     (if rdUsername data = [] then Err ''no username provided''
      else if list_ex (\<lambda>p. prefix p (rdUsername data)) ps then Ok (Some tc) else Ok None)"

fun Resolve :: "ip_library \<Rightarrow> resolver \<Rightarrow> ResolverData \<Rightarrow> (string, TenantConfig option) go_result" where
  "Resolve ip (IPResolver subnet tc) data = IPResolver_Resolve ip subnet tc data"
| "Resolve ip (PortResolver port tc) data = PortResolver_Resolve port tc data"
| "Resolve ip (LocationCodeResolver codes tc) data = LocationCodeResolver_Resolve codes tc data"
| "Resolve ip (UsernamePrefixResolver ps tc) data = UsernamePrefixResolver_Resolve ps tc data"

record Service =
  connectResolvers :: "resolver list"
  loginResolvers :: "resolver list"
  defaultConfig :: "TenantConfig option"
  tenantConfigs :: "string \<rightharpoonup> TenantConfig"
  scTenants :: "SCTenantConfig list"

definition AddResolver :: "resolver \<Rightarrow> Service \<Rightarrow> Service" where
  "AddResolver r s =
     (case resolver_Phase r of
        PhaseConnect \<Rightarrow> s\<lparr>connectResolvers := connectResolvers s @ [r]\<rparr>
      | PhaseLogin \<Rightarrow> s\<lparr>loginResolvers := loginResolvers s @ [r]\<rparr>)"

text \<open>The resolvers of one sub-tenant entry, in the order they are added.\<close>

definition entry_resolvers :: "SCTenantConfig \<Rightarrow> TenantConfig \<Rightarrow> resolver list" where
  "entry_resolvers sc tc =
     (if SCSubnet sc \<noteq> [] then [IPResolver (SCSubnet sc) tc] else []) @
     (if sc_Port sc > 0 then [PortResolver (sc_Port sc) tc] else []) @
     (if LocationCodes sc \<noteq> [] then [LocationCodeResolver (LocationCodes sc) tc] else []) @
     (if UsernamePrefixes sc \<noteq> [] then [UsernamePrefixResolver (UsernamePrefixes sc) tc] else [])"

definition add_entry :: "(string \<rightharpoonup> TenantConfig) \<Rightarrow> SCTenantConfig \<Rightarrow> Service \<Rightarrow> Service" where
  "add_entry tenants sc s =
     (case tenants (sc_Tenant sc) of
        None \<Rightarrow> s
      | Some tc \<Rightarrow> fold AddResolver (entry_resolvers sc tc) s)"

definition initializeResolvers ::
  "(resolver list \<Rightarrow> resolver list) \<Rightarrow> Config \<Rightarrow> Service \<Rightarrow> Service" where
  "initializeResolvers srt cfg s =
     (let s1 = fold (add_entry (map_of (Tenants cfg))) (SCTenants cfg) s
      in s1\<lparr>connectResolvers := srt (connectResolvers s1), loginResolvers := srt (loginResolvers s1)\<rparr>)"

definition no_criteria :: "SCTenantConfig \<Rightarrow> bool" where
  "no_criteria sc \<longleftrightarrow> SCSubnet sc = [] \<and> sc_Port sc = 0 \<and> LocationCodes sc = [] \<and> UsernamePrefixes sc = []"

text \<open>
  The default tenant: the first entry without criteria whose tenant is known; else the first
  tenant no entry refers to; else the first tenant; else any tenant (\<open>pick\<close> is the iteration
  order of the map).
\<close>

definition default_tenant :: "((string \<times> TenantConfig) list \<Rightarrow> TenantConfig option) \<Rightarrow> Config \<Rightarrow> TenantConfig option" where
  "default_tenant pick cfg =
     (case find (\<lambda>sc. no_criteria sc \<and> map_of (Tenants cfg) (sc_Tenant sc) \<noteq> None) (SCTenants cfg) of
        Some sc \<Rightarrow> map_of (Tenants cfg) (sc_Tenant sc)
      | None \<Rightarrow>
          (case find (\<lambda>tc. Tenant tc \<notin> set (map sc_Tenant (SCTenants cfg))) (TenantsOrdered cfg) of
             Some tc \<Rightarrow> Some tc
           | None \<Rightarrow> (case TenantsOrdered cfg of tc # _ \<Rightarrow> Some tc | [] \<Rightarrow> pick (Tenants cfg))))"

definition NewService ::
  "(resolver list \<Rightarrow> resolver list) \<Rightarrow> ((string \<times> TenantConfig) list \<Rightarrow> TenantConfig option) \<Rightarrow> Config \<Rightarrow> Service" where
  "NewService srt pick cfg =
     initializeResolvers srt cfg
       \<lparr>connectResolvers = [], loginResolvers = [], defaultConfig = default_tenant pick cfg,
        tenantConfigs = map_of (Tenants cfg), scTenants = SCTenants cfg\<rparr>"

definition Reinitialize ::
  "(resolver list \<Rightarrow> resolver list) \<Rightarrow> ((string \<times> TenantConfig) list \<Rightarrow> TenantConfig option) \<Rightarrow> Config \<Rightarrow>
     Service \<Rightarrow> Service" where
  "Reinitialize srt pick cfg s =
     initializeResolvers srt cfg
       (s\<lparr>connectResolvers := [], loginResolvers := [], defaultConfig := default_tenant pick cfg,
         tenantConfigs := map_of (Tenants cfg), scTenants := SCTenants cfg\<rparr>)"

fun first_resolved :: "ip_library \<Rightarrow> resolver list \<Rightarrow> ResolverData \<Rightarrow> TenantConfig option" where
  "first_resolved ip [] data = None"
| "first_resolved ip (r # rs) data =
     (case Resolve ip r data of
        Ok (Some tc) \<Rightarrow> Some tc
      | _ \<Rightarrow> first_resolved ip rs data)"

definition ResolveAtConnect ::
  "ip_library \<Rightarrow> string \<Rightarrow> int \<Rightarrow> int \<Rightarrow> Service \<Rightarrow> (string, TenantConfig) go_result" where
  "ResolveAtConnect ip clientIP clientPort serverPort s =
     (let data = \<lparr>ClientIP = clientIP, ClientPort = clientPort, ServerPort = serverPort, rdUsername = [],
                  rdLocationCode = [], CurrentTenant = defaultConfig s\<rparr>
      in case first_resolved ip (connectResolvers s) data of
           Some tc \<Rightarrow> Ok tc
         | None \<Rightarrow> (case defaultConfig s of None \<Rightarrow> Err ''no tenant configuration available'' | Some tc \<Rightarrow> Ok tc))"

definition ipInSubnet :: "ip_library \<Rightarrow> string \<Rightarrow> string \<Rightarrow> bool" where
  "ipInSubnet ip clientIP subnet \<longleftrightarrow>
     (if \<not> ip_valid ip subnet then False
      else if \<not> ip_valid ip clientIP then False
      else ip_contains ip subnet clientIP)"

definition hasAnyPrefix :: "string \<Rightarrow> string list \<Rightarrow> bool" where
  "hasAnyPrefix s ps \<longleftrightarrow> list_ex (\<lambda>p. prefix p s) ps"

definition containsStr :: "string list \<Rightarrow> string \<Rightarrow> bool" where
  "containsStr ss target \<longleftrightarrow> list_ex (\<lambda>v. v = target) ss"

fun resolve_entries ::
  "ip_library \<Rightarrow> int \<Rightarrow> string \<Rightarrow> string \<Rightarrow> string \<Rightarrow> (string \<rightharpoonup> TenantConfig) \<Rightarrow> SCTenantConfig list \<Rightarrow>
     TenantConfig option" where
  "resolve_entries ip serverPort clientIP username locationCode tenants [] = None"
| "resolve_entries ip serverPort clientIP username locationCode tenants (sc # scs) =
     (let next = resolve_entries ip serverPort clientIP username locationCode tenants scs in
      if sc_Port sc > 0 \<and> sc_Port sc \<noteq> serverPort then next
      else if SCSubnet sc \<noteq> [] \<and> \<not> ipInSubnet ip clientIP (SCSubnet sc) then next
      else if UsernamePrefixes sc \<noteq> [] \<and> \<not> hasAnyPrefix username (UsernamePrefixes sc) then next
      else if LocationCodes sc \<noteq> [] \<and> \<not> containsStr (LocationCodes sc) locationCode then next
      else case tenants (sc_Tenant sc) of None \<Rightarrow> next | Some tc \<Rightarrow> Some tc)"

definition ResolveComplete ::
  "ip_library \<Rightarrow> int \<Rightarrow> string \<Rightarrow> string \<Rightarrow> string \<Rightarrow> Service \<Rightarrow> (string, TenantConfig) go_result" where
  "ResolveComplete ip serverPort clientIP username locationCode s =
     (case resolve_entries ip serverPort clientIP username locationCode (tenantConfigs s) (scTenants s) of
        Some tc \<Rightarrow> Ok tc
      | None \<Rightarrow> (case defaultConfig s of None \<Rightarrow> Err ''no tenant configuration available'' | Some tc \<Rightarrow> Ok tc))"

definition GetTenantByName :: "string \<Rightarrow> Service \<Rightarrow> TenantConfig option" where
  "GetTenantByName tenantName s = tenantConfigs s tenantName"

definition GetResolverCount :: "ResolutionPhase \<Rightarrow> Service \<Rightarrow> nat" where
  "GetResolverCount phase s =
     (case phase of PhaseConnect \<Rightarrow> length (connectResolvers s) | PhaseLogin \<Rightarrow> length (loginResolvers s))"

subsection \<open>Resolution at login\<close>

text \<open>The criteria of an entry: each one that is configured must match.\<close>

definition sc_matches :: "ip_library \<Rightarrow> int \<Rightarrow> string \<Rightarrow> string \<Rightarrow> string \<Rightarrow> SCTenantConfig \<Rightarrow> bool" where
  "sc_matches ip serverPort clientIP username locationCode sc \<longleftrightarrow>
     (sc_Port sc > 0 \<longrightarrow> sc_Port sc = serverPort) \<and>
     (SCSubnet sc \<noteq> [] \<longrightarrow> ipInSubnet ip clientIP (SCSubnet sc)) \<and>
     (UsernamePrefixes sc \<noteq> [] \<longrightarrow> (\<exists>p \<in> set (UsernamePrefixes sc). prefix p username)) \<and>
     (LocationCodes sc \<noteq> [] \<longrightarrow> locationCode \<in> set (LocationCodes sc))"

lemma resolve_entries_find:
  "resolve_entries ip port cip user loc tenants scs =
     Option.bind (find (\<lambda>sc. sc_matches ip port cip user loc sc \<and> tenants (sc_Tenant sc) \<noteq> None) scs)
       (\<lambda>sc. tenants (sc_Tenant sc))"
proof (induction scs)
  case (Cons sc scs)
  have h: "hasAnyPrefix user (UsernamePrefixes sc) \<longleftrightarrow> (\<exists>p \<in> set (UsernamePrefixes sc). prefix p user)"
    "containsStr (LocationCodes sc) loc \<longleftrightarrow> loc \<in> set (LocationCodes sc)"
    by (auto simp: hasAnyPrefix_def containsStr_def list_ex_iff)
  have e: "resolve_entries ip port cip user loc tenants (sc # scs) =
    (if sc_matches ip port cip user loc sc \<and> tenants (sc_Tenant sc) \<noteq> None then tenants (sc_Tenant sc)
     else resolve_entries ip port cip user loc tenants scs)"
    by (simp add: Let_def sc_matches_def h split: option.split)
  show ?case unfolding e Cons by auto
qed simp

theorem ResolveComplete_first_match:
  assumes "scTenants s = pre @ sc # post" "sc_matches ip port cip user loc sc"
    "tenantConfigs s (sc_Tenant sc) = Some tc"
    "\<forall>x \<in> set pre. sc_matches ip port cip user loc x \<longrightarrow> tenantConfigs s (sc_Tenant x) = None"
  shows "ResolveComplete ip port cip user loc s = Ok tc"
proof -
  have "find (\<lambda>sc. sc_matches ip port cip user loc sc \<and> tenantConfigs s (sc_Tenant sc) \<noteq> None) (scTenants s) =
    Some sc"
    using assms by (auto simp: find_Some_iff nth_append intro!: exI [of _ "length pre"] dest!: nth_mem)
  then show ?thesis using assms(3) by (simp add: ResolveComplete_def resolve_entries_find)
qed

lemma ResolveComplete_default:
  assumes "\<forall>x \<in> set (scTenants s). sc_matches ip port cip user loc x \<longrightarrow> tenantConfigs s (sc_Tenant x) = None"
  shows "ResolveComplete ip port cip user loc s =
    (case defaultConfig s of None \<Rightarrow> Err ''no tenant configuration available'' | Some tc \<Rightarrow> Ok tc)"
proof -
  have "find (\<lambda>sc. sc_matches ip port cip user loc sc \<and> tenantConfigs s (sc_Tenant sc) \<noteq> None) (scTenants s) = None"
    using assms by (auto simp: find_None_iff)
  then show ?thesis by (simp add: ResolveComplete_def resolve_entries_find)
qed

subsection \<open>Resolution when the connection opens\<close>

text \<open>What the sorting routine of the standard library promises.\<close>

locale priority_sorter =
  fixes srt :: "resolver list \<Rightarrow> resolver list"
  assumes srt_mset: "mset (srt rs) = mset rs"
    and srt_sorted: "sorted_wrt (\<lambda>a b. Priority b \<le> Priority a) (srt rs)"
begin

lemma srt_set [simp]: "set (srt rs) = set rs"
  using srt_mset by (metis set_mset_mset)

lemma before_lower:
  assumes "srt rs = xs @ a # ys" "b \<in> set xs"
  shows "Priority a \<le> Priority b"
  using srt_sorted [of rs] assms by (auto simp: sorted_wrt_append)

text \<open>The tenant that answers comes from a resolver that matches, and no matching one has a higher priority.\<close>

lemma first_resolved_best:
  assumes "first_resolved ip (srt rs) data = Some tc"
  shows "\<exists>r \<in> set rs. Resolve ip r data = Ok (Some tc) \<and>
    (\<forall>q \<in> set rs. (\<exists>tq. Resolve ip q data = Ok (Some tq)) \<longrightarrow> Priority q \<le> Priority r)"
proof -
  have "\<exists>xs r ys. zs = xs @ r # ys \<and> Resolve ip r data = Ok (Some tc) \<and>
      (\<forall>q \<in> set xs. \<nexists>tq. Resolve ip q data = Ok (Some tq))"
    if "first_resolved ip zs data = Some tc" for zs
    using that
  proof (induction zs)
    case (Cons z zs)
    show ?case
    proof (cases "\<exists>t. Resolve ip z data = Ok (Some t)")
      case True
      then show ?thesis using Cons.prems by (intro exI [of _ "[]"]) auto
    next
      case False
      then have "first_resolved ip zs data = Some tc"
        using Cons.prems by (auto split: go_result.splits option.splits)
      then obtain xs r ys where "zs = xs @ r # ys" "Resolve ip r data = Ok (Some tc)"
        "\<forall>q \<in> set xs. \<nexists>tq. Resolve ip q data = Ok (Some tq)" using Cons.IH by blast
      then show ?thesis using False by (intro exI [of _ "z # xs"]) auto
    qed
  qed simp
  from this [OF assms] obtain xs r ys where s: "srt rs = xs @ r # ys" "Resolve ip r data = Ok (Some tc)"
    "\<forall>q \<in> set xs. \<nexists>tq. Resolve ip q data = Ok (Some tq)" by blast
  have "Priority q \<le> Priority r" if "q \<in> set rs" "Resolve ip q data = Ok (Some tq)" for q tq
  proof -
    have "q \<in> set (srt rs)" using that(1) by simp
    then have "q = r \<or> q \<in> set ys" using s that(2) by auto
    then show ?thesis using srt_sorted [of rs] by (auto simp: s(1) sorted_wrt_append)
  qed
  moreover have "r \<in> set rs" using s(1) srt_set [of rs] by (metis in_set_conv_decomp)
  ultimately show ?thesis using s(2) by blast
qed

lemma first_resolved_None:
  "first_resolved ip (srt rs) data = None \<longleftrightarrow> (\<forall>r \<in> set rs. \<nexists>tc. Resolve ip r data = Ok (Some tc))"
proof -
  have "first_resolved ip zs data = None \<longleftrightarrow> (\<forall>r \<in> set zs. \<nexists>tc. Resolve ip r data = Ok (Some tc))" for zs
    by (induction zs) (auto split: go_result.splits option.splits)
  then show ?thesis by simp
qed

end

text \<open>The resolvers that a new service consults when a connection opens are those of its entries.\<close>

lemma fold_AddResolver_connect:
  "set (connectResolvers (fold AddResolver rs s)) =
     set (connectResolvers s) \<union> {r \<in> set rs. resolver_Phase r = PhaseConnect}"
  by (induction rs arbitrary: s) (auto simp: AddResolver_def split: ResolutionPhase.splits)

lemma fold_add_entry_connect:
  "set (connectResolvers (fold (add_entry t) scs s)) = set (connectResolvers s) \<union>
     {r. resolver_Phase r = PhaseConnect \<and>
        (\<exists>sc \<in> set scs. \<exists>tc. t (sc_Tenant sc) = Some tc \<and> r \<in> set (entry_resolvers sc tc))}"
proof (induction scs arbitrary: s)
  case (Cons sc scs)
  then show ?case by (cases "t (sc_Tenant sc)") (auto simp: add_entry_def fold_AddResolver_connect)
qed simp

context priority_sorter
begin

lemma NewService_connect:
  "set (connectResolvers (NewService srt pick cfg)) =
     {r. resolver_Phase r = PhaseConnect \<and>
        (\<exists>sc \<in> set (SCTenants cfg). \<exists>tc. map_of (Tenants cfg) (sc_Tenant sc) = Some tc \<and> r \<in> set (entry_resolvers sc tc))}"
  by (simp add: NewService_def initializeResolvers_def Let_def fold_add_entry_connect)

text \<open>A subnet that holds the client decides, whatever entries match the port.\<close>

lemma ResolveAtConnect_subnet:
  assumes "cip \<noteq> []" "sc \<in> set (SCTenants cfg)" "SCSubnet sc \<noteq> []" "ipInSubnet ip cip (SCSubnet sc)"
    and "map_of (Tenants cfg) (sc_Tenant sc) = Some t"
  shows "\<exists>sc' \<in> set (SCTenants cfg). \<exists>tc. ipInSubnet ip cip (SCSubnet sc') \<and>
    map_of (Tenants cfg) (sc_Tenant sc') = Some tc \<and>
    ResolveAtConnect ip cip cport sport (NewService srt pick cfg) = Ok tc"
proof -
  let ?s = "NewService srt pick cfg"
  define unsorted where
    "unsorted = connectResolvers (fold (add_entry (map_of (Tenants cfg))) (SCTenants cfg)
       \<lparr>connectResolvers = [], loginResolvers = [], defaultConfig = default_tenant pick cfg,
        tenantConfigs = map_of (Tenants cfg), scTenants = SCTenants cfg\<rparr>)"
  have sorted: "connectResolvers ?s = srt unsorted"
    by (simp add: NewService_def initializeResolvers_def Let_def unsorted_def)
  have entries: "set unsorted = set (connectResolvers ?s)" by (simp add: sorted)
  define data where "data = \<lparr>ClientIP = cip, ClientPort = cport, ServerPort = sport, rdUsername = [],
    rdLocationCode = [], CurrentTenant = defaultConfig ?s\<rparr>"
  have mine: "IPResolver (SCSubnet sc) t \<in> set unsorted" "Resolve ip (IPResolver (SCSubnet sc) t) data = Ok (Some t)"
    using assms by (auto simp: entries NewService_connect entry_resolvers_def ipInSubnet_def data_def split: if_splits)
  then obtain tc where tc: "first_resolved ip (connectResolvers ?s) data = Some tc"
    using first_resolved_None [of ip unsorted data] sorted by fastforce
  then obtain r where r: "r \<in> set unsorted" "Resolve ip r data = Ok (Some tc)"
    "Priority (IPResolver (SCSubnet sc) t) \<le> Priority r"
    using first_resolved_best [of ip unsorted data tc] mine sorted by auto
  from r(3) have "\<exists>subnet. r = IPResolver subnet tc" using r(2)
    by (cases r) (auto split: if_splits)
  then show ?thesis using r(1,2) tc unfolding entries NewService_connect
    by (auto simp: ResolveAtConnect_def data_def entry_resolvers_def ipInSubnet_def split: if_splits)
qed

end

text \<open>A stable sort keeps the promise; the library's, which is not stable, may order equal priorities otherwise.\<close>

definition sort_resolvers :: "resolver list \<Rightarrow> resolver list" where
  "sort_resolvers rs = sort_key (\<lambda>r. - Priority r) rs"

interpretation by_priority: priority_sorter sort_resolvers
proof
  fix rs
  show "mset (sort_resolvers rs) = mset rs" by (simp add: sort_resolvers_def)
  have "sorted (map (\<lambda>r. - Priority r) (sort_resolvers rs))" by (simp add: sort_resolvers_def)
  then show "sorted_wrt (\<lambda>a b. Priority b \<le> Priority a) (sort_resolvers rs)"
    by (simp add: sorted_map)
qed

end
