(* ===== verification/Connection.thy ===== *)
theory Connection
  imports Item_Information Handlers_Fees Framing Tenants
begin

text \<open>
  \<open>internal/server/connection.go\<close> and the parts of \<open>server.go\<close> around it: one connection from its
  tenant resolution to its close. The read loop is a step relation on the bytes that have not
  been read, the state of the connection and the bytes written; a handler is one step. The
  locale states what a set of handlers has to keep, and is instantiated with the handlers that
  the server registers.
\<close>

subsection \<open>Around the connection\<close>

text \<open>
  The registered handlers and the tenant service, which a reload may replace between two messages
  (as the clock, it is read after the requests sent so far).
\<close>

record site =
  siteHandlers :: "MessageCode \<Rightarrow> handler option"
  siteTenants :: "http_request list \<Rightarrow> Service"
  siteIP :: ip_library

record Connection =
  cParser :: TenantConfig
  cBuilder :: TenantConfig
  cServerPort :: int
  cClientIP :: string

definition registered_handlers :: "schedule \<Rightarrow> TenantConfig \<Rightarrow> (MessageCode \<times> handler) list" where
  "registered_handlers sched hc =
     [(LoginRequest, LoginHandler_Handle),
      (SCStatus, SCStatusHandler_Handle),
      (PatronStatusRequest, PatronStatusHandler_Handle),
      (CheckoutRequest, CheckoutHandler_Handle),
      (CheckinRequest, CheckinHandler_Handle sched hc),
      (PatronInformationRequest, PatronInformationHandler_Handle),
      (ItemInformationRequest, ItemInformationHandler_Handle hc),
      (RenewRequest, RenewHandler_Handle),
      (RenewAllRequest, RenewAllHandler_Handle),
      (EndPatronSessionRequest, EndSessionHandler_Handle),
      (FeePaidRequest, FeePaidHandler_Handle),
      (ItemStatusUpdateRequest, ItemStatusUpdateHandler_Handle),
      (RequestSCResend, ResendHandler_Handle),
      (RequestACSResend, ResendHandler_Handle)]"

definition RegisterAllHandlers :: "schedule \<Rightarrow> string \<Rightarrow> MessageCode \<Rightarrow> handler option" where
  "RegisterAllHandlers sched url = map_of (registered_handlers sched (handler_config url))"

text \<open>The ports of the tenant entries, each once and without the bootstrap port.\<close>

fun add_ports :: "int list \<Rightarrow> SCTenantConfig list \<Rightarrow> int list" where
  "add_ports seen [] = []"
| "add_ports seen (sc # scs) =
     (if sc_Port sc > 0 \<and> sc_Port sc \<notin> set seen then sc_Port sc # add_ports (sc_Port sc # seen) scs
      else add_ports seen scs)"

definition uniqueScTenantPorts :: "int \<Rightarrow> SCTenantConfig list \<Rightarrow> int list" where
  "uniqueScTenantPorts port scs = add_ports [port] scs"

subsection \<open>One message\<close>

text \<open>The text of a handler's error; the handlers return no other kind.\<close>

definition error_text :: "folio_error \<Rightarrow> string" where
  "error_text err = (case err of OtherError s \<Rightarrow> s | _ \<Rightarrow> [])"

definition with_config :: "'b \<Rightarrow> (TenantConfig \<Rightarrow> 'b io) \<Rightarrow> 'b io" where
  "with_config panic f = do {
     s \<leftarrow> get_session;
     (case sessTenant s of None \<Rightarrow> State_Monad.return panic | Some tc \<Rightarrow> f tc)
   }"

definition handleLoginTenantResolution :: "site \<Rightarrow> Connection \<Rightarrow> Message \<Rightarrow> TenantConfig \<Rightarrow> Connection io" where
  "handleLoginTenantResolution st c msg tc =
     State (\<lambda>w.
       (case ResolveComplete (siteIP st) (cServerPort c) (cClientIP c) (msg_GetField msg F_LoginUserID)
           (msg_GetField msg F_LocationCode) (siteTenants st (wSent w)) of
          Ok newTenant \<Rightarrow>
            if Tenant newTenant \<noteq> Tenant tc then
              (c\<lparr>cParser := newTenant, cBuilder := newTenant\<rparr>,
               w\<lparr>wSession := UpdateTenant (Some newTenant) (wSession w)\<rparr>)
            else (c, w)
        | _ \<Rightarrow> (c, w)))"

definition run_handler ::
  "site \<Rightarrow> env \<Rightarrow> Connection \<Rightarrow> Message \<Rightarrow> ((string, string) go_result \<times> Connection) io" where
  "run_handler st e c msg =
     (case siteHandlers st (Code msg) of
        None \<Rightarrow> State_Monad.return (Err (''no handler for message type: '' @ Code msg), c)
      | Some handle \<Rightarrow> do {
          r \<leftarrow> handle e msg;
          State_Monad.return
            (case r of Ok x \<Rightarrow> Ok x | Err err \<Rightarrow> Err (''handler error: '' @ error_text err) | Panic \<Rightarrow> Panic, c)
        })"

definition processMessage ::
  "site \<Rightarrow> env \<Rightarrow> Connection \<Rightarrow> string \<Rightarrow> ((string, string) go_result \<times> Connection) io" where
  "processMessage st e c rawMessage = do {
     now \<leftarrow> time_now e;
     put_session (UpdateActivity now);
     (case Parse (Encoders e) (cParser c) rawMessage of
        Err err \<Rightarrow> State_Monad.return (Err (''failed to parse message: '' @ err), c)
      | Panic \<Rightarrow> State_Monad.return (Panic, c)
      | Ok msg \<Rightarrow>
          (case ValidateMessage (cParser c) msg of
             Some err \<Rightarrow> State_Monad.return (Err (''message validation failed: '' @ err), c)
           | None \<Rightarrow> with_config (Panic, c) (\<lambda>tc.
               if Code msg = LoginRequest then do {
                 c1 \<leftarrow> handleLoginTenantResolution st c msg tc;
                 run_handler st e c1 msg
               }
               else run_handler st e c msg)))
   }"

text \<open>
  The response to a message that failed: nothing when the message cannot be parsed or has no
  response code. The fixed fields are the same for every response that is not listed.
\<close>

definition error_fixed_fields :: "MessageCode \<Rightarrow> GoTime \<Rightarrow> string" where
  "error_fixed_fields responseCode now =
     (if responseCode \<in> {CheckoutResponse, CheckinResponse, RenewResponse} then ''0'' @ ''UU'' @ format_date_time now
      else if responseCode \<in> {PatronStatusResponse, PatronInformationResponse} then
        ''YYYYYYYYYYYYYY'' @ ''000'' @ format_date_time now
      else format_date_time now)"

definition error_content :: "Message \<Rightarrow> string \<Rightarrow> GoTime \<Rightarrow> string" where
  "error_content msg errorMsg now =
     (let named = (\<lambda>code f. if msg_GetField msg f \<noteq> [] then BuildPrefixedField code (msg_GetField msg f) ''|'' else [])
      in error_fixed_fields (GetResponseCode (Code msg)) now @ named ''AO'' F_InstitutionID @
         named ''AA'' F_PatronIdentifier @ named ''AB'' F_ItemIdentifier @
         BuildPrefixedField ''AF'' (take 255 errorMsg) ''|'')"

definition conn_buildErrorResponse ::
  "env \<Rightarrow> Connection \<Rightarrow> string \<Rightarrow> string \<Rightarrow> GoTime \<Rightarrow> (unit, string) go_result" where
  "conn_buildErrorResponse e c rawMessage errorMsg now =
     (case Parse (Encoders e) (cParser c) rawMessage of
        Err err \<Rightarrow> Ok []
      | Panic \<Rightarrow> Panic
      | Ok msg \<Rightarrow>
          (let responseCode = GetResponseCode (Code msg)
           in if responseCode = [] then Ok []
              else (case Build (Encoders e) (cBuilder c) responseCode (error_content msg errorMsg now) (msgSequenceNumber msg) of
                 Ok r \<Rightarrow> Ok r | Err err \<Rightarrow> Ok [] | Panic \<Rightarrow> Panic)))"

subsection \<open>The close\<close>

text \<open>How the read loop was left: the client closed, the context ended, a time-out, any other error.\<close>

datatype handle_end = ClientClosed | ContextDone folio_error | NetTimeout | OtherFailure

definition closeReason :: "handle_end \<Rightarrow> string" where
  "closeReason err =
     (case err of
        ClientClosed \<Rightarrow> LogoutReasonClientClosed
      | ContextDone er \<Rightarrow>
          if er = Canceled \<or> er = DeadlineExceeded then LogoutReasonContextCancelled else LogoutReasonError
      | NetTimeout \<Rightarrow> LogoutReasonReadTimeout
      | OtherFailure \<Rightarrow> LogoutReasonError)"

datatype phase = Serving Connection | Closed string | Crashed

text \<open>What a read can find behind the bytes that have arrived, and how the loop ends by it.\<close>

datatype stream_end = PeerClosed | DeadlinePassed | SocketBroken

fun read_error :: "stream_end \<Rightarrow> handle_end" where
  "read_error PeerClosed = ClientClosed"
| "read_error DeadlinePassed = NetTimeout"
| "read_error SocketBroken = OtherFailure"

text \<open>
  \<open>cnReading\<close>: the context was checked and the loop is in \<open>readMessage\<close>. \<open>cnUnread\<close> holds the bytes that have
  arrived and are not consumed; \<open>cnEnd\<close> says what a read finds behind them: \<open>None\<close> is a client that may still
  send, so that the read waits; otherwise the client has closed, the deadline has passed, or the socket is broken.
\<close>

record conn =
  cnPhase :: phase
  cnReading :: bool
  cnWorld :: world
  cnUnread :: string
  cnEnd :: "stream_end option"
  cnWritten :: "string list"

definition closeAndLogout :: "env \<Rightarrow> handle_end \<Rightarrow> conn \<Rightarrow> conn" where
  "closeAndLogout e err s =
     s\<lparr>cnPhase := Closed (closeReason err), cnWorld := snd (run_state (LogoutSession e) (cnWorld s))\<rparr>"

subsection \<open>The read loop\<close>

text \<open>
  What becomes of a message that was read: an answer to be written, an error response to be
  tried (empty when there is none), or a panic.
\<close>

datatype served = Answer string | Rejected string | Fatal

definition serve_message :: "site \<Rightarrow> env \<Rightarrow> Connection \<Rightarrow> string \<Rightarrow> (served \<times> Connection) io" where
  "serve_message st e c rawMessage = do {
     rc \<leftarrow> processMessage st e c rawMessage;
     (case fst rc of
        Ok response \<Rightarrow> State_Monad.return (Answer response, snd rc)
      | Panic \<Rightarrow> State_Monad.return (Fatal, snd rc)
      | Err err \<Rightarrow> do {
          now \<leftarrow> time_now e;
          (case conn_buildErrorResponse e (snd rc) rawMessage err now of
             Ok r \<Rightarrow> State_Monad.return (Rejected r, snd rc)
           | _ \<Rightarrow> State_Monad.return (Fatal, snd rc))
        })
   }"

text \<open>What a response looks like on the wire, under the tenant the session has then.\<close>

definition on_the_wire :: "world \<Rightarrow> string \<Rightarrow> string" where
  "on_the_wire w message = (case sessTenant (wSession w) of None \<Rightarrow> message | Some tc \<Rightarrow> framed tc message)"

text \<open>
  What the network does: bytes arrive, in pieces of any size; the client closes, the read deadline passes or the
  socket breaks. Bytes can still arrive after the deadline, and count if the deadline is set anew.
\<close>

definition may_arrive :: "conn \<Rightarrow> bool" where
  "may_arrive s \<longleftrightarrow> cnEnd s = None \<or> cnEnd s = Some DeadlinePassed"

inductive net_step :: "conn \<Rightarrow> conn \<Rightarrow> bool" where
  arrived: "may_arrive s \<Longrightarrow> bs \<noteq> [] \<Longrightarrow> net_step s (s\<lparr>cnUnread := cnUnread s @ bs\<rparr>)"
| ended: "may_arrive s \<Longrightarrow> cnEnd s \<noteq> Some x \<Longrightarrow> net_step s (s\<lparr>cnEnd := Some x\<rparr>)"

lemma net_step_same:
  "net_step s s' \<Longrightarrow> cnPhase s' = cnPhase s \<and> cnReading s' = cnReading s \<and> cnWorld s' = cnWorld s \<and> cnWritten s' = cnWritten s"
  by (induction rule: net_step.induct) simp_all

text \<open>After an answer the read deadline is set anew; after an error response it is not.\<close>

definition deadline_reset :: "conn \<Rightarrow> conn" where
  "deadline_reset s = s\<lparr>cnEnd := (if cnEnd s = Some DeadlinePassed then None else cnEnd s)\<rparr>"

lemma deadline_reset_simps [simp]:
  "cnPhase (deadline_reset s) = cnPhase s" "cnReading (deadline_reset s) = cnReading s"
  "cnWorld (deadline_reset s) = cnWorld s" "cnUnread (deadline_reset s) = cnUnread s"
  "cnWritten (deadline_reset s) = cnWritten s"
  by (simp_all add: deadline_reset_def)

text \<open>
  The steps of the loop. The context is looked at between messages only: a connection that waits in a read
  does not notice that it is cancelled, and a message that arrives then is still processed, under the
  cancelled context. A read past the deadline or on a broken socket fails, also when bytes have arrived; a
  write may fail; an error response that cannot be written is only logged. A deadline that cannot be set is
  counted as a broken socket. The logouts of replaced pairs run beside the loop, each as one step, also after the close.
\<close>

inductive conn_step :: "site \<Rightarrow> env \<Rightarrow> conn \<Rightarrow> conn \<Rightarrow> bool" for st e where
  network: "net_step s s' \<Longrightarrow> conn_step st e s s'"
| cancelled:
    "cnPhase s = Serving c \<Longrightarrow> \<not> cnReading s \<Longrightarrow> Cancelled e (wSent (cnWorld s)) = Some err \<Longrightarrow>
       conn_step st e s (closeAndLogout e (ContextDone err) s)"
| checked:
    "cnPhase s = Serving c \<Longrightarrow> \<not> cnReading s \<Longrightarrow> Cancelled e (wSent (cnWorld s)) = None \<Longrightarrow>
       conn_step st e s (s\<lparr>cnReading := True\<rparr>)"
| read_failed:
    "cnPhase s = Serving c \<Longrightarrow> cnReading s \<Longrightarrow> cnEnd s = Some x \<Longrightarrow> x \<noteq> PeerClosed \<Longrightarrow>
       conn_step st e s (closeAndLogout e (read_error x) s)"
| end_of_input:
    "cnPhase s = Serving c \<Longrightarrow> cnReading s \<Longrightarrow> sessTenant (wSession (cnWorld s)) = Some tc \<Longrightarrow>
       readMessage tc (cnUnread s) = OutOfBytes \<Longrightarrow> cnEnd s = Some PeerClosed \<Longrightarrow>
       conn_step st e s (closeAndLogout e ClientClosed (s\<lparr>cnUnread := []\<rparr>))"
| too_long:
    "cnPhase s = Serving c \<Longrightarrow> cnReading s \<Longrightarrow> sessTenant (wSession (cnWorld s)) = Some tc \<Longrightarrow>
       readMessage tc (cnUnread s) = TooLong rest \<Longrightarrow>
       conn_step st e s (closeAndLogout e OtherFailure (s\<lparr>cnUnread := rest\<rparr>))"
| answered:
    "cnPhase s = Serving c \<Longrightarrow> cnReading s \<Longrightarrow> sessTenant (wSession (cnWorld s)) = Some tc \<Longrightarrow>
       readMessage tc (cnUnread s) = GotMessage raw rest \<Longrightarrow>
       run_state (serve_message st e c raw) (cnWorld s) = ((Answer r, c'), w') \<Longrightarrow>
       conn_step st e s
         (deadline_reset (s\<lparr>cnPhase := Serving c', cnReading := False, cnWorld := w', cnUnread := rest,
            cnWritten := cnWritten s @ [on_the_wire w' r]\<rparr>))"
| write_failed:
    "cnPhase s = Serving c \<Longrightarrow> cnReading s \<Longrightarrow> sessTenant (wSession (cnWorld s)) = Some tc \<Longrightarrow>
       readMessage tc (cnUnread s) = GotMessage raw rest \<Longrightarrow>
       run_state (serve_message st e c raw) (cnWorld s) = ((Answer r, c'), w') \<Longrightarrow>
       err = NetTimeout \<or> err = OtherFailure \<Longrightarrow>
       conn_step st e s
         (closeAndLogout e err (s\<lparr>cnPhase := Serving c', cnWorld := w', cnUnread := rest\<rparr>))"
| rejected:
    "cnPhase s = Serving c \<Longrightarrow> cnReading s \<Longrightarrow> sessTenant (wSession (cnWorld s)) = Some tc \<Longrightarrow>
       readMessage tc (cnUnread s) = GotMessage raw rest \<Longrightarrow>
       run_state (serve_message st e c raw) (cnWorld s) = ((Rejected r, c'), w') \<Longrightarrow>
       out = [] \<or> (r \<noteq> [] \<and> out = [on_the_wire w' r]) \<Longrightarrow>
       conn_step st e s
         (s\<lparr>cnPhase := Serving c', cnReading := False, cnWorld := w', cnUnread := rest, cnWritten := cnWritten s @ out\<rparr>)"
| crashed:
    "cnPhase s = Serving c \<Longrightarrow> cnReading s \<Longrightarrow> sessTenant (wSession (cnWorld s)) = Some tc \<Longrightarrow>
       readMessage tc (cnUnread s) = GotMessage raw rest \<Longrightarrow>
       run_state (serve_message st e c raw) (cnWorld s) = ((Fatal, c'), w') \<Longrightarrow>
       conn_step st e s (s\<lparr>cnPhase := Crashed, cnWorld := w', cnUnread := rest\<rparr>)"
| background_logout:
    "cnPhase s \<noteq> Crashed \<Longrightarrow> wBackground (cnWorld s) = before @ (pair, reason) # after \<Longrightarrow>
       run_state (LogoutTokens e pair) (cnWorld s) = (l, w') \<Longrightarrow>
       conn_step st e s (s\<lparr>cnWorld := w'\<lparr>wBackground := before @ after\<rparr>\<rparr>)"

inductive_cases conn_stepE: "conn_step st e s s'"

text \<open>A new connection: the error is that no tenant could be resolved.\<close>

definition NewConnection :: "GoTime \<Rightarrow> string \<Rightarrow> TenantConfig \<Rightarrow> int \<Rightarrow> string \<Rightarrow> string \<Rightarrow> conn" where
  "NewConnection now sid tc serverPort clientIP stream =
     \<lparr>cnPhase = Serving \<lparr>cParser = tc, cBuilder = tc, cServerPort = serverPort, cClientIP = clientIP\<rparr>,
      cnReading = False, cnWorld = \<lparr>wSession = NewSession now sid (Some tc), wSent = [], wBackground = []\<rparr>,
      cnUnread = stream, cnEnd = None, cnWritten = []\<rparr>"

definition handleConnection ::
  "site \<Rightarrow> GoTime \<Rightarrow> string \<Rightarrow> string \<Rightarrow> int \<Rightarrow> int \<Rightarrow> string \<Rightarrow> (string, conn) go_result" where
  "handleConnection st now sid clientIP clientPort serverPort stream =
     go_bind (ResolveAtConnect (siteIP st) clientIP clientPort serverPort (siteTenants st []))
       (\<lambda>tc. Ok (NewConnection now sid tc serverPort clientIP stream))"

subsection \<open>What every step keeps\<close>

lemma run_state_State: "run_state (State g) w = g w"
  by simp

context world_policy
begin

lemma keeps_registered:
  assumes "RegisterAllHandlers sched url code = Some h"
  shows "keeps P (h e msg)"
proof -
  have "(code, h) \<in> set (registered_handlers sched (handler_config url))"
    using assms map_of_SomeD by (fastforce simp: RegisterAllHandlers_def)
  then show ?thesis
    by (auto simp: registered_handlers_def keeps_LoginHandler keeps_session_handlers keeps_PatronStatusHandler
        keeps_CheckoutHandler keeps_CheckinHandler keeps_PatronInformationHandler keeps_ItemInformationHandler
        keeps_RenewHandler keeps_RenewAllHandler keeps_FeePaidHandler)
qed

end

locale served_connection = world_policy P for P :: "world \<Rightarrow> bool" +
  fixes st :: site and e :: env
  assumes handlers_keep: "siteHandlers st code = Some h \<Longrightarrow> keeps P (h e msg)"
    and moves_keep: "P w \<Longrightarrow> P (w\<lparr>wSession := UpdateTenant tc (wSession w)\<rparr>)"
    and taken_keep: "P w \<Longrightarrow> P (w\<lparr>wBackground := b\<rparr>)"
begin

lemma keeps_run_handler [keeping]: "keeps P (run_handler st e c msg)"
  unfolding run_handler_def by (intro keeping handlers_keep)

lemma keeps_login_resolution [keeping]: "keeps P (handleLoginTenantResolution st c msg tc)"
  by (auto simp: keeps_def handleLoginTenantResolution_def moves_keep split: go_result.split)

lemma keeps_serve_message: "keeps P (serve_message st e c raw)"
  unfolding serve_message_def processMessage_def with_config_def by (intro keeping)

lemma close_keeps: "P (cnWorld s) \<Longrightarrow> P (cnWorld (closeAndLogout e err s))"
  using keeps_LogoutSession [of e] by (simp add: closeAndLogout_def keeps_def)

lemma step_keeps: "conn_step st e s s' \<Longrightarrow> P (cnWorld s) \<Longrightarrow> P (cnWorld s')"
proof (induction rule: conn_step.induct)
  case (background_logout s before pair reason "after" l w')
  then show ?case using keepsD [OF keeps_LogoutTokens] taken_keep by simp
next
  case (network s s')
  then show ?case using net_step_same by simp
qed (use close_keeps keepsD [OF keeps_serve_message] in fastforce)+

lemma steps_keep: "(conn_step st e)\<^sup>*\<^sup>* s s' \<Longrightarrow> P (cnWorld s) \<Longrightarrow> P (cnWorld s')"
  by (induction rule: rtranclp_induct) (auto intro: step_keeps)

end

definition server_site :: "schedule \<Rightarrow> string \<Rightarrow> (http_request list \<Rightarrow> Service) \<Rightarrow> ip_library \<Rightarrow> site" where
  "server_site sched url ts ip = \<lparr>siteHandlers = RegisterAllHandlers sched url, siteTenants = ts, siteIP = ip\<rparr>"

text \<open>A rule on requests that every handler respects is respected by every connection.\<close>

lemma sent_only_moves: "sent_only allowed (w\<lparr>wSession := x\<rparr>) = sent_only allowed w"
  "sent_only allowed (w\<lparr>wBackground := b\<rparr>) = sent_only allowed w"
  by (simp_all add: sent_only_def)

interpretation guarded_server: served_connection "sent_only logout_guarded" "server_site sched url ts ip" e for sched url ts ip e
  by unfold_locales (auto simp: server_site_def sent_only_moves intro: guarded.keeps_registered)

interpretation catalogued_server: served_connection "sent_only at_endpoint" "server_site sched url ts ip" e for sched url ts ip e
  by unfold_locales (auto simp: server_site_def sent_only_moves intro: catalogued.keeps_registered)

interpretation one_kind_server: served_connection "sent_only one_token_kind" "server_site sched url ts ip" e for sched url ts ip e
  by unfold_locales (auto simp: server_site_def sent_only_moves intro: one_kind.keeps_registered)

subsection \<open>The parser follows the session\<close>

text \<open>
  A connection reads and writes under the tenant of its session, as long as no handler moves the
  session to another.
\<close>

definition same_tenant :: "conn \<Rightarrow> bool" where
  "same_tenant s \<longleftrightarrow>
     (case sessTenant (wSession (cnWorld s)) of
        None \<Rightarrow> False
      | Some tc \<Rightarrow> (case cnPhase s of Serving c \<Rightarrow> cParser c = tc \<and> cBuilder c = tc | _ \<Rightarrow> True))"

definition in_step :: "Connection \<Rightarrow> world \<Rightarrow> bool" where
  "in_step c w \<longleftrightarrow> of_tenant (Some (cParser c)) w \<and> cBuilder c = cParser c"

locale tenant_connection =
  fixes st :: site and e :: env
  assumes handlers_stay: "siteHandlers st code = Some h \<Longrightarrow> keeps (of_tenant t) (h e msg)"
begin

lemma run_handler_in_step:
  assumes "run_state (run_handler st e c msg) w = ((r, c'), w')" "in_step c w"
  shows "in_step c' w'"
proof (cases "siteHandlers st (Code msg)")
  case (Some h)
  obtain r1 w1 where h: "run_state (h e msg) w = (r1, w1)" by fastforce
  then have "c' = c" "w' = w1" using assms(1) Some by (auto simp: run_handler_def)
  then show ?thesis using assms(2) keepsD [OF handlers_stay [OF Some] h] by (simp add: in_step_def)
qed (use assms in \<open>auto simp: run_handler_def\<close>)

lemma resolution_in_step:
  assumes "run_state (handleLoginTenantResolution st c msg tc) w = (c', w')" "in_step c w"
  shows "in_step c' w'"
  using assms
  by (auto simp: handleLoginTenantResolution_def in_step_def of_tenant_def UpdateTenant_def split: go_result.splits if_splits)

lemma processMessage_in_step:
  assumes "run_state (processMessage st e c raw) w = ((r, c'), w')" "in_step c w"
  shows "in_step c' w'"
proof -
  let ?w = "w\<lparr>wSession := UpdateActivity (Clock e (wSent w)) (wSession w)\<rparr>"
  have w: "in_step c ?w" using assms(2) by (simp add: in_step_def of_tenant_def UpdateActivity_def)
  then have t: "sessTenant (wSession ?w) = Some (cParser c)" by (simp add: in_step_def of_tenant_def)
  show ?thesis
  proof (cases "\<exists>msg. Parse (Encoders e) (cParser c) raw = Ok msg \<and> ValidateMessage (cParser c) msg = None")
    case True
    then obtain msg where m: "Parse (Encoders e) (cParser c) raw = Ok msg" "ValidateMessage (cParser c) msg = None" by blast
    show ?thesis
    proof (cases "Code msg = LoginRequest")
      case True
      obtain c1 w1 where c1: "run_state (handleLoginTenantResolution st c msg (cParser c)) ?w = (c1, w1)" by fastforce
      have "run_state (run_handler st e c1 msg) w1 = ((r, c'), w')"
        using assms(1) m True t c1
        by (simp add: processMessage_def with_config_def time_now_def put_session_def get_session_def)
      then show ?thesis using run_handler_in_step resolution_in_step [OF c1 w] by blast
    next
      case False
      then have "run_state (run_handler st e c msg) ?w = ((r, c'), w')"
        using assms(1) m t
        by (simp add: processMessage_def with_config_def time_now_def put_session_def get_session_def)
      then show ?thesis using run_handler_in_step w by blast
    qed
  next
    case False
    then have "c' = c \<and> w' = ?w" using assms(1)
      by (auto simp: processMessage_def time_now_def put_session_def split: go_result.splits option.splits)
    then show ?thesis using w by simp
  qed
qed

lemma serve_message_in_step:
  assumes "run_state (serve_message st e c raw) w = ((r, c'), w')" "in_step c w"
  shows "in_step c' w'"
proof -
  obtain r1 c1 w1 where p: "run_state (processMessage st e c raw) w = ((r1, c1), w1)" by (metis prod.exhaust)
  have "c' = c1 \<and> w' = w1"
    using assms(1) p by (cases r1) (auto simp: serve_message_def time_now_def split: go_result.splits)
  then show ?thesis using processMessage_in_step [OF p assms(2)] by simp
qed

lemma same_tenant_in_step: "cnPhase s = Serving c \<Longrightarrow> same_tenant s \<longleftrightarrow> in_step c (cnWorld s)"
  by (auto simp: same_tenant_def in_step_def of_tenant_def split: option.splits)

lemma same_tenant_some: "same_tenant s \<Longrightarrow> \<exists>tc. sessTenant (wSession (cnWorld s)) = Some tc"
  by (auto simp: same_tenant_def split: option.splits)

lemma close_same_tenant: "sessTenant (wSession (cnWorld s)) \<noteq> None \<Longrightarrow> same_tenant (closeAndLogout e err s)"
  using tenant_kept.keeps_LogoutSession [of "sessTenant (wSession (cnWorld s))" e]
  by (auto simp: same_tenant_def closeAndLogout_def keeps_def of_tenant_def split: option.split)

lemma step_same_tenant: "conn_step st e s s' \<Longrightarrow> same_tenant s \<Longrightarrow> same_tenant s'"
proof (induction rule: conn_step.induct)
  case (background_logout s before pair reason "after" l w')
  then have "of_tenant (sessTenant (wSession (cnWorld s))) w'"
    using keepsD [OF tenant_kept.keeps_LogoutTokens] by (metis of_tenant_def)
  then show ?case using background_logout by (simp add: same_tenant_def of_tenant_def split: option.splits)
next
  case (answered s c tc raw rest r c' w')
  then have "in_step c' w'" using serve_message_in_step same_tenant_in_step by metis
  then show ?case by (simp add: same_tenant_def in_step_def of_tenant_def)
next
  case (rejected s c tc raw rest r c' w' out)
  then have "in_step c' w'" using serve_message_in_step same_tenant_in_step by metis
  then show ?case by (simp add: same_tenant_in_step)
next
  case (write_failed s c tc raw rest r c' w' err)
  then have "in_step c' w'" using serve_message_in_step same_tenant_in_step by metis
  then show ?case by (intro close_same_tenant) (simp add: in_step_def of_tenant_def)
next
  case (crashed s c tc raw rest c' w')
  then have "in_step c' w'" using serve_message_in_step same_tenant_in_step by metis
  then show ?case by (simp add: same_tenant_def in_step_def of_tenant_def)
next
  case (network s s')
  then show ?case using net_step_same [OF network(1)] by (simp add: same_tenant_def split: option.splits)
next
  case (checked s c)
  then show ?case by (simp add: same_tenant_def split: option.splits)
qed (auto intro!: close_same_tenant dest: same_tenant_some)

lemma steps_same_tenant: "(conn_step st e)\<^sup>*\<^sup>* s s' \<Longrightarrow> same_tenant s \<Longrightarrow> same_tenant s'"
  by (induction rule: rtranclp_induct) (auto intro: step_same_tenant)

end

interpretation server_tenants: tenant_connection "server_site sched url ts ip" e for sched url ts ip e
  by unfold_locales (simp add: server_site_def tenant_kept.keeps_registered)

subsection \<open>The end of a connection\<close>

lemma keeps_LogoutTokens_local: "keeps (local_state s b) (LogoutTokens e pair)"
  unfolding LogoutTokens_def refresh_first_def logout_request_def logout_retry_def refreshPair_def by (intro keeping)

text \<open>After the close the session holds no token.\<close>

definition no_tokens_left :: "conn \<Rightarrow> bool" where
  "no_tokens_left s \<longleftrightarrow>
     (\<forall>reason. cnPhase s = Closed reason \<longrightarrow> AuthToken (wSession (cnWorld s)) = [] \<and> refreshToken (wSession (cnWorld s)) = [])"

lemma close_no_tokens: "no_tokens_left (closeAndLogout e err s)"
proof -
  obtain l w' where L: "run_state (LogoutTokens e (tokenPairLocked (wSession (cnWorld s))))
      ((cnWorld s)\<lparr>wSession := clearTokensLocked (wSession (cnWorld s))\<rparr>) = (l, w')" by fastforce
  then have "wSession w' = clearTokensLocked (wSession (cnWorld s))"
    using local_stateD [OF keeps_LogoutTokens_local L] by simp
  then show ?thesis using L
    by (simp add: no_tokens_left_def closeAndLogout_def LogoutSession_def update_session_def TakeTokens_def clearTokensLocked_def)
qed

lemma steps_no_tokens: "(conn_step st e)\<^sup>*\<^sup>* s s' \<Longrightarrow> no_tokens_left s \<Longrightarrow> no_tokens_left s'"
proof (induction rule: rtranclp_induct)
  case (step s1 s2)
  from step(2) step.IH step.prems show ?case
  proof (induction rule: conn_step.induct)
    case (background_logout s before pair reason "after" l w')
    then show ?case
      using local_stateD [OF keeps_LogoutTokens_local background_logout(3)] by (simp add: no_tokens_left_def)
  next
    case (network s s')
    then show ?case using net_step_same by (simp add: no_tokens_left_def)
  qed (simp_all add: close_no_tokens, simp_all add: no_tokens_left_def)
qed simp

subsection \<open>Waiting and going on\<close>

text \<open>A connection waits when it is in a read, no whole message has arrived and the client may still send.\<close>

definition waiting :: "conn \<Rightarrow> bool" where
  "waiting s \<longleftrightarrow>
     (case cnPhase s of Serving c \<Rightarrow> cnReading s | _ \<Rightarrow> False) \<and> cnEnd s = None \<and>
     (case sessTenant (wSession (cnWorld s)) of None \<Rightarrow> False | Some tc \<Rightarrow> readMessage tc (cnUnread s) = OutOfBytes)"

text \<open>A connection that only the network can move.\<close>

definition left_to_network :: "site \<Rightarrow> env \<Rightarrow> conn \<Rightarrow> bool" where
  "left_to_network st e s \<longleftrightarrow> (\<forall>s'. conn_step st e s s' \<longrightarrow> net_step s s')"

lemma left_to_networkD:
  "left_to_network st e s \<Longrightarrow> conn_step st e s s' \<Longrightarrow>
     cnPhase s' = cnPhase s \<and> cnReading s' = cnReading s \<and> cnWorld s' = cnWorld s"
  using net_step_same by (auto simp: left_to_network_def)

lemma read_served:
  assumes "cnPhase s = Serving c" "cnReading s" "sessTenant (wSession (cnWorld s)) = Some tc"
    and "readMessage tc (cnUnread s) = GotMessage raw rest"
  shows "\<exists>s'. conn_step st e s s' \<and> \<not> net_step s s' \<and> cnUnread s' = rest"
proof -
  obtain r c' w' where run: "run_state (serve_message st e c raw) (cnWorld s) = ((r, c'), w')" by (metis prod.exhaust)
  show ?thesis
  proof (cases r)
    case (Answer x)
    from conn_step.answered [OF assms run [unfolded Answer]] show ?thesis
      using assms(2) by (force dest: net_step_same simp: deadline_reset_def)
  next
    case (Rejected x)
    from conn_step.rejected [OF assms run [unfolded Rejected], of "[]"] show ?thesis
      using assms(2) by (force dest: net_step_same)
  next
    case Fatal
    from conn_step.crashed [OF assms run [unfolded Fatal]] show ?thesis
      using assms(1) by (force dest: net_step_same)
  qed
qed

text \<open>A connection that is served moves by itself unless it waits.\<close>

lemma conn_progress:
  assumes "cnPhase s = Serving c" "sessTenant (wSession (cnWorld s)) = Some tc" "\<not> waiting s"
  shows "\<exists>s'. conn_step st e s s' \<and> \<not> net_step s s'"
proof (cases "cnReading s")
  case False
  show ?thesis
  proof (cases "Cancelled e (wSent (cnWorld s))")
    case None
    from conn_step.checked [OF assms(1) False this] show ?thesis using False by (force dest: net_step_same)
  next
    case (Some err)
    from conn_step.cancelled [OF assms(1) False this] show ?thesis
      using assms(1) by (force dest: net_step_same simp: closeAndLogout_def)
  qed
next
  case True
  note closing = net_step_same [of s] assms(1) closeAndLogout_def
  show ?thesis
  proof (cases "readMessage tc (cnUnread s)")
    case (GotMessage raw rest)
    from read_served [OF assms(1) True assms(2) this] show ?thesis by blast
  next
    case (TooLong rest)
    from conn_step.too_long [OF assms(1) True assms(2) this] show ?thesis
      using closing by force
  next
    case OutOfBytes
    then obtain x where x: "cnEnd s = Some x" using assms True by (auto simp: waiting_def)
    show ?thesis
    proof (cases "x = PeerClosed")
      case closed: True
      from conn_step.end_of_input [OF assms(1) True assms(2) OutOfBytes x [unfolded closed]] show ?thesis using closing by force
    next
      case False
      from conn_step.read_failed [OF assms(1) True x False] show ?thesis using closing by force
    qed
  qed
qed

lemma logout_progress:
  assumes "wBackground (cnWorld s) \<noteq> []" "cnPhase s \<noteq> Crashed"
  shows "\<exists>s'. conn_step st e s s' \<and> \<not> net_step s s'"
proof -
  obtain pair reason "after" where pending: "wBackground (cnWorld s) = [] @ (pair, reason) # after"
    using assms(1) by (cases "wBackground (cnWorld s)") auto
  obtain l w' where "run_state (LogoutTokens e pair) (cnWorld s) = (l, w')" by fastforce
  note step = conn_step.background_logout [OF assms(2) pending this, of st]
  have "wBackground (cnWorld (s\<lparr>cnWorld := w'\<lparr>wBackground := [] @ after\<rparr>\<rparr>)) \<noteq> wBackground (cnWorld s)"
    using pending by simp
  then show ?thesis using step net_step_same by metis
qed

text \<open>So a connection of the server that only the network can move waits for its client, or is over with nothing pending.\<close>

lemma server_rests:
  assumes "handleConnection (server_site sched url ts ip) now sid cip cport sport stream = Ok s0"
    and "(conn_step (server_site sched url ts ip) e)\<^sup>*\<^sup>* s0 s" "left_to_network (server_site sched url ts ip) e s"
  shows "cnPhase s = Crashed \<or> (waiting s \<and> wBackground (cnWorld s) = []) \<or>
    (\<exists>reason. cnPhase s = Closed reason \<and> wBackground (cnWorld s) = [] \<and>
       AuthToken (wSession (cnWorld s)) = [] \<and> refreshToken (wSession (cnWorld s)) = [])"
proof -
  have "\<exists>tc. s0 = NewConnection now sid tc sport cip stream"
    using assms(1) by (auto simp: handleConnection_def)
  then have start: "same_tenant s0" "no_tokens_left s0"
    by (auto simp: same_tenant_def no_tokens_left_def NewConnection_def NewSession_def)
  have still: "\<nexists>s'. conn_step (server_site sched url ts ip) e s s' \<and> \<not> net_step s s'"
    using assms(3) by (auto simp: left_to_network_def)
  have pending: "cnPhase s \<noteq> Crashed \<Longrightarrow> wBackground (cnWorld s) = []" using logout_progress still by blast
  show ?thesis
  proof (cases "cnPhase s")
    case (Serving c)
    have "same_tenant s" using server_tenants.steps_same_tenant assms(2) start by blast
    then obtain tc where "sessTenant (wSession (cnWorld s)) = Some tc" by (auto simp: same_tenant_def split: option.splits)
    from conn_progress [OF Serving this] still have "waiting s" by blast
    then show ?thesis using pending Serving by simp
  next
    case (Closed reason)
    then show ?thesis using pending steps_no_tokens [OF assms(2) start(2)] by (simp add: no_tokens_left_def)
  qed simp
qed

text \<open>A step that is not an arrival uses up input, or an end of the stream, or the read itself, or a pending logout.\<close>

definition end_rank :: "stream_end option \<Rightarrow> nat" where
  "end_rank x = (case x of None \<Rightarrow> 2 | Some DeadlinePassed \<Rightarrow> 1 | _ \<Rightarrow> 0)"

definition remaining_work :: "conn \<Rightarrow> nat \<times> nat \<times> nat \<times> nat \<times> nat" where
  "remaining_work s =
     (case cnPhase s of Serving c \<Rightarrow> 1 | _ \<Rightarrow> 0, length (cnUnread s), end_rank (cnEnd s), if cnReading s then 0 else 1,
      length (wBackground (cnWorld s)))"

definition less_work :: "((nat \<times> nat \<times> nat \<times> nat \<times> nat) \<times> (nat \<times> nat \<times> nat \<times> nat \<times> nat)) set" where
  "less_work = less_than <*lex*> less_than <*lex*> less_than <*lex*> less_than <*lex*> less_than"

definition fed :: "conn \<Rightarrow> conn \<Rightarrow> bool" where
  "fed s s' \<longleftrightarrow> length (cnUnread s) < length (cnUnread s')"

lemma readMessage_shorter: "readMessage tc stream = GotMessage raw rest \<Longrightarrow> length rest < length stream"
  using read_from_bound [of "tc_GetMessageDelimiterBytes tc" "[]" stream]
  by (auto simp: readMessage_def Let_def split: read_result.splits)

lemma net_step_work: "net_step s s' \<Longrightarrow> fed s s' \<or> (remaining_work s', remaining_work s) \<in> less_work"
  by (induction rule: net_step.induct)
    (auto simp: fed_def remaining_work_def less_work_def may_arrive_def end_rank_def split: stream_end.splits option.splits)

lemma conn_step_work: "conn_step st e s s' \<Longrightarrow> fed s s' \<or> (remaining_work s', remaining_work s) \<in> less_work"
proof (induction rule: conn_step.induct)
  case (network s s')
  then show ?case by (rule net_step_work)
qed (auto simp: remaining_work_def less_work_def closeAndLogout_def deadline_reset_def dest: readMessage_shorter)

lemma wf_less_work: "wf less_work"
  by (simp add: less_work_def wf_lex_prod)

text \<open>A sequence whose steps decrease unless they are marked has marked steps again and again.\<close>

lemma marked_for_ever:
  assumes "wf r" "\<And>n. P n \<or> (g (Suc n), g n) \<in> r"
  shows "\<exists>m \<ge> n. P m"
proof (rule ccontr)
  assume "\<not> (\<exists>m \<ge> n. P m)"
  then have "(g (Suc (n + k)), g (n + k)) \<in> r" for k using assms(2) [of "n + k"] by auto
  then have "\<exists>f. \<forall>k. (f (Suc k), f k) \<in> r" by (intro exI [of _ "\<lambda>k. g (n + k)"]) simp
  then show False using assms(1) by (simp add: wf_iff_no_infinite_down_chain)
qed

lemma endless_is_fed:
  assumes "\<And>n. conn_step st e (f n) (f (Suc n))"
  shows "\<exists>m \<ge> n. fed (f m) (f (Suc m))"
  by (rule marked_for_ever [OF wf_less_work, where g = "\<lambda>n. remaining_work (f n)"]) (rule conn_step_work [OF assms])

text \<open>Only the network feeds a connection.\<close>

lemma fed_by_network: "conn_step st e s s' \<Longrightarrow> fed s s' \<Longrightarrow> net_step s s'"
proof (induction rule: conn_step.induct)
  case (too_long s c tc rest)
  then show ?case using read_from_TooLong
    by (force simp: fed_def closeAndLogout_def readMessage_def Let_def split: read_result.splits if_splits)
qed (auto simp: fed_def closeAndLogout_def deadline_reset_def dest: readMessage_shorter)

subsection \<open>How many requests a message takes\<close>

lemma sends_login: "sends 4 (\<lambda>_. True) (LoginHandler_Handle e msg)"
proof -
  have login_ends: "sends 3 (\<lambda>_. True) (login_accepted e u p resp)" "sends 3 (\<lambda>_. True) (login_refused e)" for u p resp
    unfolding login_accepted_def login_refused_def store_login_def logoutReplacedTokens_def
    by (intro sends_bind_read sending; simp)+
  have "sends 1 (\<lambda>_. True) (Login e ac u p)" for ac u p
    using sends_auth(1) [of "[''/authn/login-with-expiry'']" ac e u p] by (rule sends_weaken) simp_all
  then have "sends 4 (\<lambda>_. True) (login_attempt e tc msg)" for tc
    unfolding login_attempt_def Let_def
    by (intro sends_try_io [where n = 1 and k = 3] sends_bind_last login_ends sending) simp_all
  then show ?thesis unfolding LoginHandler_Handle_def set_location_def
    by (intro sends_bind_read sending)
qed

lemma sends_session_handlers:
  "sends 0 (\<lambda>_. True) (EndSessionHandler_Handle e msg)" "sends 0 (\<lambda>_. True) (ResendHandler_Handle e msg)"
  "sends 0 (\<lambda>_. True) (SCStatusHandler_Handle e msg)"
  unfolding EndSessionHandler_Handle_def ResendHandler_Handle_def SCStatusHandler_Handle_def
    buildEndSessionResponse_def buildACSStatusResponse_def Let_def
  by (intro sends_bind_read sending)+

lemma sends_item_status: "sends 9 (\<lambda>_. True) (ItemStatusUpdateHandler_Handle e msg)"
proof -
  have auth: "sends 7 (\<lambda>_. True) (getAuthenticatedFolioClient e)"
    using sends_auth_client by (rule sends_weaken) simp
  have answer: "sends n (\<lambda>_. True) (answer_item_status e ok i b)" for n ok i b
    unfolding answer_item_status_def buildItemStatusUpdateResponse_def by (intro sends_bind_read sending)
  show ?thesis unfolding ItemStatusUpdateHandler_Handle_def Let_def
    by (intro sending answer sends_try_io [OF auth, where k = 2] sends_try_io [OF sends_GetItemByBarcode, where k = 0]) simp_all
qed

lemma RenewAll_requests:
  assumes "sessTenant (wSession w) = Some tc"
  shows "length (wSent (snd (run_state (RenewAllHandler_Handle e msg) w))) +
      3 * length (wBackground (snd (run_state (RenewAllHandler_Handle e msg) w))) \<le>
    length (wSent w) + 3 * length (wBackground w) + (10 + 2 * nat (GetRenewAllMaxItems tc))"
proof -
  let ?m = "if \<not> validateRequiredFields msg [F_PatronIdentifier] then renew_all_error e tc msg ''Renewal failed''
    else with_verified_patron e tc msg (renew_all_error e tc msg) (\<lambda>token uid. renew_all_loans e tc msg token uid) ''Renewal failed''"
  have "sends (10 + 2 * nat (GetRenewAllMaxItems tc)) (\<lambda>_. True) ?m"
    using sends_half [of "renew_all_error e tc msg", OF build_responses_send(4) sends_renew_all_loans]
    by (intro sending) simp_all
  moreover have "run_state (RenewAllHandler_Handle e msg) w = run_state ?m w"
    using assms by (simp add: RenewAllHandler_Handle_def run_with_tenant)
  ultimately show ?thesis using sends_requests(1) [of _ _ ?m w] by simp
qed

text \<open>
  A message is answered with at most nineteen requests, those of a background logout included, unless it asks for a
  list of loans.
\<close>

definition lists_loans :: "Message \<Rightarrow> bool" where
  "lists_loans msg \<longleftrightarrow> summary_flag (request_summary msg) 1 \<or> summary_flag (request_summary msg) 2"

lemma registered_sends:
  assumes "RegisterAllHandlers sched url code = Some h" "code \<noteq> RenewAllRequest"
    and "code = PatronInformationRequest \<longrightarrow> \<not> lists_loans msg"
  shows "sends 19 (\<lambda>_. True) (h e msg)"
proof -
  have "(code, h) \<in> set (registered_handlers sched (handler_config url))"
    using assms(1) map_of_SomeD by (fastforce simp: RegisterAllHandlers_def)
  then show ?thesis using assms(2,3)
    by (auto simp: registered_handlers_def lists_loans_def intro: PatronInformation_sends Checkin_sends
        sends_mono [OF sends_login] sends_mono [OF sends_item_status] sends_mono [OF PatronStatus_sends]
        sends_mono [OF sends_session_handlers(1)] sends_mono [OF sends_session_handlers(2)] sends_mono [OF sends_session_handlers(3)]
        sends_mono [OF Checkout_sends] sends_mono [OF Renew_sends]
        sends_mono [OF FeePaid_sends] sends_mono [OF ItemInformation_sends])
qed

subsection \<open>Ports, the last requests, a crash\<close>

lemma add_ports_spec:
  "set (add_ports seen scs) = {p. p > 0 \<and> p \<notin> set seen \<and> (\<exists>sc \<in> set scs. sc_Port sc = p)} \<and> distinct (add_ports seen scs)"
  by (induction seen scs rule: add_ports.induct) auto

lemma uniqueScTenantPorts_spec:
  "distinct (uniqueScTenantPorts port scs) \<and>
     set (uniqueScTenantPorts port scs) = {p. p > 0 \<and> p \<noteq> port \<and> (\<exists>sc \<in> set scs. sc_Port sc = p)}"
  using add_ports_spec [of "[port]" scs] by (simp add: uniqueScTenantPorts_def)

lemma close_requests:
  "\<exists>rqs. wSent (cnWorld (closeAndLogout e err s)) = wSent (cnWorld s) @ rqs \<and> length rqs \<le> 3 \<and>
     list_all (to_client (NewAuthClient (tokenOkapiURL (wSession (cnWorld s))) (tokenTenant (wSession (cnWorld s))))
       [''/authn/logout'', ''/authn/refresh'']) rqs"
proof -
  let ?s = "wSession (cnWorld s)"
  obtain l w' where L: "run_state (LogoutTokens e (tokenPairLocked ?s))
      ((cnWorld s)\<lparr>wSession := clearTokensLocked ?s\<rparr>) = (l, w')" by fastforce
  from sends_LogoutTokens L obtain rqs where "wSent w' = wSent ((cnWorld s)\<lparr>wSession := clearTokensLocked ?s\<rparr>) @ rqs"
    "length rqs \<le> 3" "list_all (to_client (NewAuthClient (pairOkapiURL (tokenPairLocked ?s)) (pairOkapiTenant (tokenPairLocked ?s)))
       [''/authn/logout'', ''/authn/refresh'']) rqs" by (rule sendsD)
  then show ?thesis using L
    by (auto simp: closeAndLogout_def LogoutSession_def update_session_def TakeTokens_def tokenPairLocked_def)
qed

text \<open>A message on which the parser panics ends the process.\<close>

lemma parser_panic_crashes:
  assumes "cnPhase s = Serving c" "sessTenant (wSession (cnWorld s)) = Some tc"
    and "Cancelled e (wSent (cnWorld s)) = None" "readMessage tc (cnUnread s) = GotMessage raw rest"
    and "Parse (Encoders e) (cParser c) raw = Panic"
  shows "\<exists>s'. (conn_step st e)\<^sup>*\<^sup>* s s' \<and> cnPhase s' = Crashed \<and> cnUnread s' = rest"
proof -
  have now: "\<exists>s'. conn_step st e t s' \<and> cnPhase s' = Crashed \<and> cnUnread s' = rest"
    if "cnReading t" "cnPhase t = cnPhase s" "cnWorld t = cnWorld s" "cnUnread t = cnUnread s" for t
  proof -
    obtain r c' w' where run: "run_state (serve_message st e c raw) (cnWorld t) = ((r, c'), w')" by (metis prod.exhaust)
    have "r = Fatal" using run assms(5)
      by (simp add: serve_message_def processMessage_def time_now_def put_session_def)
    from conn_step.crashed [OF _ that(1) _ _ run [unfolded this]] show ?thesis using assms(1,2,4) that by fastforce
  qed
  show ?thesis
  proof (cases "cnReading s")
    case True
    then show ?thesis using now [of s] by blast
  next
    case False
    obtain s' where s': "conn_step st e (s\<lparr>cnReading := True\<rparr>) s'" "cnPhase s' = Crashed" "cnUnread s' = rest"
      using now [of "s\<lparr>cnReading := True\<rparr>"] by auto
    have "(conn_step st e)\<^sup>*\<^sup>* s s'"
      using conn_step.checked [OF assms(1) False assms(3)] s'(1) by (meson converse_rtranclp_into_rtranclp r_into_rtranclp)
    then show ?thesis using s'(2,3) by blast
  qed
qed

text \<open>The error response to a checkout, checkin or renewal has 21 fixed bytes; the response itself has 22.\<close>

lemma error_fixed_fields_length:
  assumes "date_of now = (y, m, d)" "0 \<le> y" "y \<le> 9999" "c \<in> {CheckoutResponse, CheckinResponse, RenewResponse}"
  shows "length (error_fixed_fields c now) = 21"
  using length_format_date_time [OF assms(1-3)] assms(4) by (auto simp: error_fixed_fields_def)

end
