(* ===== verification/Sample_World.thy ===== *)
theory Sample_World
  imports Samples Connection
begin

text \<open>
  A concrete world for the witnesses: a FOLIO that answers every request with an empty 200, a clock
  that stands still, and a connection that is logged in to it and knows its patron; and what the
  handlers do there.
\<close>

definition sample_json :: json_library where
  "sample_json =
     \<lparr>jsonExpirations = (\<lambda>s. None), jsonUsers = (\<lambda>s. None), jsonUser = (\<lambda>s. None), jsonGroup = (\<lambda>s. None),
      jsonManualBlocks = (\<lambda>s. None), jsonAutomatedBlocks = (\<lambda>s. None), jsonItems = (\<lambda>s. None),
      jsonItem = (\<lambda>s. None), jsonInstance = (\<lambda>s. None), jsonHoldings = (\<lambda>s. None), jsonLocation = (\<lambda>s. None),
      jsonMaterialType = (\<lambda>s. None), jsonServicePoint = (\<lambda>s. None), jsonLoan = (\<lambda>s. None), jsonLoans = (\<lambda>s. None),
      jsonRequests = (\<lambda>s. None), jsonAccounts = (\<lambda>s. None), jsonRemaining = (\<lambda>s. None), jsonObject = (\<lambda>s. None),
      jsonMessage = (\<lambda>s. None), jsonErrors = (\<lambda>s. None)\<rparr>"

definition sample_response :: http_response where
  "sample_response = \<lparr>rsStatus = 200, rsBody = [], rsCookies = []\<rparr>"

definition sample_env :: env where
  "sample_env =
     \<lparr>Serve = (\<lambda>pre rq. Response sample_response), Clock = (\<lambda>pre. sample_time), Cancelled = (\<lambda>pre. None),
      UrlOk = (\<lambda>s. True), Encoders = sample_enc, Zones = (\<lambda>s. if s = ''UTC'' then Some (\<lambda>t. 0) else None),
      Unicode = (\<lambda>r. r), ParseFloat = (\<lambda>s. if s = ''NaN'' then Some NaN else None), Json = sample_json\<rparr>"

definition later_time :: GoTime where
  "later_time = \<lparr>tm_ns = 64000000000000000000, tm_off = 0\<rparr>"

definition known_session :: Session where
  "known_session =
     SetPatronID ''p1'' (SetPatronBarcode ''b1'' (SetLocationCode ''desk'' (SetAuthCredentials ''secret''
       (SetAuthenticated sample_time ''kiosk'' [] [] ''a.b.c'' later_time
         (snd (SwapTokens sample_time ''a.b.c'' later_time ''d.e.f'' later_time sample_session))))))"

definition sample_world :: world where
  "sample_world = \<lparr>wSession = known_session, wSent = [], wBackground = []\<rparr>"

definition sample_message :: "MessageCode \<Rightarrow> (string \<times> string) list \<Rightarrow> Message" where
  "sample_message code fs =
     \<lparr>Code = code, RawMessage = code, Fields = map_of fs, MultiValueFields = map_of (map (\<lambda>(c, v). (c, [v])) fs),
      msgSequenceNumber = ''1'', ChecksumValid = True\<rparr>"

definition checkout_message :: Message where
  "checkout_message = sample_message CheckoutRequest [(''AA'', ''b1''), (''AB'', ''i1''), (''AD'', ''1234'')]"

definition sample_service :: Service where
  "sample_service =
     \<lparr>connectResolvers = [], loginResolvers = [], defaultConfig = Some sample_config, tenantConfigs = (\<lambda>t. None),
      scTenants = []\<rparr>"

definition sample_ip :: ip_library where
  "sample_ip = \<lparr>ip_valid = (\<lambda>s. False), ip_contains = (\<lambda>c i. False)\<rparr>"

definition sample_server :: site where
  "sample_server = server_site (\<lambda>rqs. start_order) ''https://folio'' (\<lambda>rqs. sample_service) sample_ip"


subsection \<open>Facts\<close>

lemma sample_env_simps [simp]:
  "Serve sample_env pre rq = Response sample_response" "Clock sample_env pre = sample_time"
  "Cancelled sample_env pre = None" "UrlOk sample_env x" "Encoders sample_env = sample_enc"
  "ParseFloat sample_env ''NaN'' = Some NaN" "Unicode sample_env = (\<lambda>r. r)"
  by (simp_all add: sample_env_def)

lemma known_session_simps [simp]:
  "AuthToken known_session = ''a.b.c''" "TokenExpiresAt known_session = later_time" "PatronID known_session = ''p1''"
  "PatronBarcode known_session = ''b1''" "Username known_session = ''kiosk''" "password known_session = ''secret''"
  "LocationCode known_session = ''desk''" "IsAuthenticated known_session" "refreshToken known_session = ''d.e.f''"
  "refreshTokenExpiresAt known_session = later_time" "tokenOkapiURL known_session = ''https://folio''"
  "tokenTenant known_session = ''diku''" "sessTenant known_session = Some sample_config"
  by (simp_all add: known_session_def SetPatronID_def SetPatronBarcode_def SetLocationCode_def SetAuthCredentials_def
      SetAuthenticated_def SwapTokens_def storeTokensLocked_def sample_session_def NewSession_def)

lemma sample_world_simps [simp]:
  "wSession sample_world = known_session" "wSent sample_world = []" "wBackground sample_world = []"
  by (simp_all add: sample_world_def)

lemma sample_times [simp]:
  "IsZero later_time = False" "IsZero sample_time = False" "After sample_time later_time = False"
  "Before sample_time later_time" "After (add_seconds sample_time TokenExpiryBuffer) later_time = False"
  by (simp_all add: IsZero_def After_def Before_def add_seconds_def later_time_def sample_time_def TokenExpiryBuffer_def)

lemma sample_not_expired [simp]: "\<not> IsTokenExpired sample_time known_session"
  by (simp add: IsTokenExpired_def)

text \<open>Every exchange succeeds with an empty body.\<close>

lemma sample_exchange [simp]:
  "run_state (client_do sample_env cl meth path token body accept cookies decode zero) w =
     (Ok (zero, []), w\<lparr>wSent := wSent w @ [request cl meth path token body accept cookies]\<rparr>)"
  by (simp add: client_do_def send_def read_response_def sample_response_def)

lemma sample_get [simp]:
  "run_state (client_Get sample_env cl path token decode zero) w =
     (Ok zero, w\<lparr>wSent := wSent w @ [request cl ''GET'' path token None json_accept []]\<rparr>)"
  by (simp add: client_Get_def drop_cookies_def)

lemma sample_token [simp]:
  "wSession w = known_session \<Longrightarrow> run_state (getAuthenticatedFolioClient sample_env) w = (Ok ''a.b.c'', w)"
  by (simp add: getAuthenticatedFolioClient_def get_session_def time_now_def)

lemma sample_jwt: "isJWTShaped ''d.e.f''" "TrimSpace ''d.e.f'' = ''d.e.f''" "TrimSpace ''a.b.c'' = ''a.b.c''"
  by (code_simp, (rule TrimSpace_printable; simp)+)

lemma sample_logout:
  "map rqPath (wSent (snd (run_state (LogoutSession sample_env) sample_world))) = [''/authn/logout'']"
  by (simp add: LogoutSession_def update_session_def TakeTokens_def tokenPairLocked_def LogoutTokens_def sample_jwt
      time_now_def logout_request_def Logout_def PostWithCookies_def drop_cookies_def request_def)

lemma sample_message_field [simp]:
  "msg_GetField (sample_message code fs) c = (case map_of fs c of None \<Rightarrow> [] | Some v \<Rightarrow> v)"
  by (simp add: msg_GetField_def GetField_def sample_message_def)

lemmas handler_run = run_with_tenant get_session_def put_session_def time_now_def Let_def validateRequiredFields_def
  validateRequiredField_def with_verified_patron_def try_io_def patron_id_def VerifyPatronCredentials_def
  VerifyPatronPasswordWithLogin_def client_Post_def drop_cookies_def verified_by_def

text \<open>A checkout asks FOLIO for the patron's password and then for the loan.\<close>

lemma sample_checkout:
  "\<exists>rq \<in> set (wSent (snd (run_state (CheckoutHandler_Handle sample_env checkout_message) sample_world))).
     rqPath rq = ''/circulation/check-out-by-barcode''"
proof -
  have "\<exists>rq \<in> set (wSent w). rqPath rq = ''/circulation/check-out-by-barcode'' \<Longrightarrow>
      \<exists>rq \<in> set (wSent (snd (run_state (checkout_done sample_env sample_config msg ids token loan) w))).
        rqPath rq = ''/circulation/check-out-by-barcode''" for w msg ids token loan
    using sends_requests(2) [OF sends_checkout_done] by blast
  then show ?thesis
    by (simp add: handler_run CheckoutHandler_Handle_def checkout_message_def checkout_loan_def circ_Checkout_def request_def)
qed

subsection \<open>Items\<close>

text \<open>The empty FOLIO knows no item; another one knows one, and it is claimed returned.\<close>

lemma sample_no_item:
  obtains err w2 where "run_state (GetItemByBarcode sample_env ic token b) w = (Err err, w2)"
  by (simp add: GetItemByBarcode_def only_match_def)

definition claimed_item :: Item where
  "claimed_item = zero_item\<lparr>StatusName := ''Claimed returned''\<rparr>"

definition claimed_env :: env where
  "claimed_env = sample_env\<lparr>Serve := (\<lambda>pre rq. Response \<lparr>rsStatus = 200, rsBody = ''{}'', rsCookies = []\<rparr>),
     Json := sample_json\<lparr>jsonItems := (\<lambda>s. Some ([claimed_item], 1)), jsonItem := (\<lambda>s. Some claimed_item)\<rparr>\<rparr>"

lemma claimed_simps:
  "StatusName claimed_item = ''Claimed returned''" "Unicode claimed_env = (\<lambda>r. r)"
  "run_state (getAuthenticatedFolioClient claimed_env) sample_world = (Ok ''a.b.c'', sample_world)"
  "GetClaimedReturnedResolution uni sample_config = ''none''"
  by (simp_all add: claimed_item_def claimed_env_def getAuthenticatedFolioClient_def get_session_def time_now_def
      GetClaimedReturnedResolution_def sample_config_def ToLower_def)

lemma claimed_lookup:
  obtains w2 where "run_state (GetItemByBarcode claimed_env ic token b) sample_world = (Ok claimed_item, w2)"
    "map rqMethod (wSent w2) = [''GET'', ''GET'']"
  by (simp add: GetItemByBarcode_def GetItemByID_def client_Get_def client_do_def send_def read_response_def
      drop_cookies_def only_match_def claimed_env_def sample_json_def json_accept_def request_def)

subsection \<open>A connection\<close>

text \<open>One that is logged in, has sent nothing yet and reads the end of its input.\<close>

definition sample_conn :: conn where
  "sample_conn =
     \<lparr>cnPhase = Serving \<lparr>cParser = sample_config, cBuilder = sample_config, cServerPort = 6001, cClientIP = ''10.0.0.1''\<rparr>,
      cnReading = True, cnWorld = sample_world, cnUnread = [], cnEnd = Some PeerClosed, cnWritten = []\<rparr>"

lemma sample_read_nothing: "readMessage tc [] = OutOfBytes"
  by (simp add: readMessage_def)

lemma TrimSpace_Nil: "TrimSpace [] = []"
  by (simp add: TrimSpace_def)

lemma sample_connection:
  "handleConnection sample_server sample_time ''s1'' ''10.0.0.1'' 4000 6001 stream =
     Ok (NewConnection sample_time ''s1'' sample_config 6001 ''10.0.0.1'' stream)"
  by (simp add: handleConnection_def sample_server_def server_site_def ResolveAtConnect_def sample_service_def)

subsection \<open>Renewal, users, fields\<close>

definition sample_renewal :: RollingRenewalConfig where
  "sample_renewal =
     \<lparr>rr_Enabled = True, RenewWithin = ''1M'', ExtendFor = ''1Y'', ExtendExpired = False, ExtendExpiredLimits = [],
      DryRun = True, SelectPatrons = False, AllowedPatrons = []\<rparr>"

lemma sample_durations [simp]:
  "ParseDuration ''1M'' = Ok \<lparr>Value = 1, Period = ''M''\<rparr>" "ParseDuration ''1Y'' = Ok \<lparr>Value = 1, Period = ''Y''\<rparr>"
proof -
  have "char_of (49 :: nat) = CHR ''1''" by code_simp
  then show "ParseDuration ''1M'' = Ok \<lparr>Value = 1, Period = ''M''\<rparr>" "ParseDuration ''1Y'' = Ok \<lparr>Value = 1, Period = ''Y''\<rparr>"
    using ParseDuration_String [of "\<lparr>Value = 1, Period = ''M''\<rparr>"] ParseDuration_String [of "\<lparr>Value = 1, Period = ''Y''\<rparr>"]
    by (simp_all add: duration_String_def int_str_def nat_str.simps del: One_nat_def)
qed

lemma sample_renewal_valid: "rr_Validate sample_renewal = None" "rr_Enabled sample_renewal" "DryRun sample_renewal"
  by (simp_all add: rr_Validate_def sample_renewal_def)

definition sample_user :: User where
  "sample_user = zero_user\<lparr>userID := ''p1'', Barcode := ''b1'', CustomFields := [(''pronouns'', JStr ''she|her''), (''shelf'', JStr ''A12'')]\<rparr>"

definition sample_custom :: PatronCustomFieldsConfig where
  "sample_custom =
     \<lparr>pcf_Enabled = True, pcf_Fields =
        [\<lparr>cfm_Code = ''sp'', cfm_Source = ''pronouns'', cfm_Type = ''string'', ArrayDelimiter = [], MaxLength = 60\<rparr>,
         \<lparr>cfm_Code = ''ss'', cfm_Source = ''shelf'', cfm_Type = ''string'', ArrayDelimiter = [], MaxLength = 2\<rparr>]\<rparr>"

lemma sample_custom_fields:
  "ProcessCustomFields (\<lambda>r. r) (Some sample_user) (Some sample_custom) ''|'' = Ok [''|SSA1'']"
proof -
  have "validateAndSanitize ''she|her'' ''|'' = None" by (simp add: validateAndSanitize_def sublist_singleton)
  moreover have "validateAndSanitize ''A12'' ''|'' = Some ''A12''"
    by (simp add: validateAndSanitize_def sublist_singleton, code_simp)
  moreover have "ToUpper (\<lambda>r. r) ''ss'' = ''SS''" by code_simp
  ultimately show ?thesis
    by (simp add: ProcessCustomFields_def sample_custom_def sample_user_def custom_field_def formatCustomField_def)
qed

lemma sample_patron_items:
  "\<exists>x w1. run_state (patron_items_of sample_env tc (request_summary (sample_message PatronInformationRequest []))
     token sample_user) sample_world = (Ok x, w1)"
proof -
  have "\<not> summary_flag (request_summary (sample_message PatronInformationRequest [])) i" for i
    using nth_mem [of i "''          ''"] by (auto simp: summary_flag_def fixed_field_or_def sample_message_def)
  then show ?thesis
    by (simp add: patron_items_of_def Let_def holds_or_count_def try_io_def or_none_def patron_loans_def
        group_needed_def time_now_def sample_user_def zero_user_def GetAvailableHolds_def GetUnavailableHolds_def
        GetOpenLoansByUser_def GetOpenAccountsExcludingSuspended_def)
qed

subsection \<open>A configuration with a subnet and a port\<close>

definition sample_subnets :: ip_library where
  "sample_subnets = \<lparr>ip_valid = (\<lambda>s. s \<noteq> []), ip_contains = (\<lambda>c i. c \<noteq> [])\<rparr>"

definition sample_sites :: Config where
  "sample_sites =
     \<lparr>Port = 6001, Host = [], cfg_OkapiURL = ''https://folio'', HealthCheckPort = 8081, TokenCacheCapacity = 100,
      ScanPeriod = 0, cfg_LogLevel = ''info'', TenantConfigSources = [], TLS = None,
      Tenants = [(''main'', sample_config), (''branch'', sample_config\<lparr>Tenant := ''branch''\<rparr>)],
      TenantsOrdered = [sample_config, sample_config\<lparr>Tenant := ''branch''\<rparr>],
      SCTenants =
        [\<lparr>sc_Tenant = ''branch'', SCSubnet = [], sc_Port = 6001, LocationCodes = [], UsernamePrefixes = []\<rparr>,
         \<lparr>sc_Tenant = ''main'', SCSubnet = ''10.0.0.0/8'', sc_Port = 0, LocationCodes = [], UsernamePrefixes = []\<rparr>]\<rparr>"

end
