(* ===== verification/Responses.thy ===== *)
theory Responses
  imports Connection
begin

text \<open>
  What goes back to the kiosk. Every handler answers a request with the response code that the
  protocol assigns to it, and every response that the builder makes is framed by it: with error
  detection it ends with the sequence number and the checksum of what stands before. The responses to
  35, 19 and 97 are written without the builder.
\<close>

subsection \<open>Built responses\<close>

text \<open>
  What is sent when the builder returns an error, which it does for a text that has no encoding in the character
  set of the tenant: the same text without sequence number and checksum, without or with (checkin) the message
  delimiter; for checkouts and renewals a shorter text, of the same date and ids.
\<close>

definition unframed :: "env \<Rightarrow> TenantConfig \<Rightarrow> MessageCode \<Rightarrow> string \<Rightarrow> string \<Rightarrow> bool" where
  "unframed e tc code seq r \<longleftrightarrow>
     (if code = CheckoutResponse then
        (\<exists>ok now ids title due m. r = checkout_fallback e tc now ids m \<and>
           (case ids of (i, p, b) \<Rightarrow> \<not> is_ok (BuildCheckoutResponse (Encoders e) (Zones e) tc ok False False False now
              i p b title due [] False [] [] [] [] [] [m] [] seq)))
      else if code = RenewResponse then
        (\<exists>ok now ids title due m m'. r = renew_fallback e now ids m' \<and>
           (case ids of (i, p, b) \<Rightarrow> \<not> is_ok (BuildRenewResponse (Encoders e) (Zones e) tc ok ok False False now
              i p b title due [m] [] seq)))
      else if code = RenewAllResponse then
        (\<exists>now i p m. r = renew_all_fallback now i p m \<and>
           \<not> is_ok (BuildRenewAllResponse (Encoders e) (Zones e) tc False 0 0 now i p [] [] [m] seq))
      else
        (\<exists>content. r = code @ content @ (if code = CheckinResponse then MessageDelimiter tc else []) \<and>
           \<not> is_ok (Build (Encoders e) tc code content seq)))"

definition response_for :: "env \<Rightarrow> TenantConfig \<Rightarrow> MessageCode \<Rightarrow> string \<Rightarrow> string \<Rightarrow> bool" where
  "response_for e tc code seq r \<longleftrightarrow> prefix code r \<and>
     ((\<exists>content. Build (Encoders e) tc code content seq = Ok r) \<or> unframed e tc code seq r)"

lemma Build_prefix: "Build enc cfg code content seq = Ok r \<Longrightarrow> prefix code r"
  by (auto simp: Build_def Let_def split: if_splits go_result.splits)

lemma response_for_built: "Build (Encoders e) tc code content seq = Ok r \<Longrightarrow> response_for e tc code seq r"
  by (auto simp: response_for_def dest: Build_prefix)

text \<open>The builder refuses only what the encoder refuses, or a character set that it does not know.\<close>

lemma Build_err:
  assumes "\<not> is_ok (Build enc tc code content seq)"
  shows "\<forall>en. GetEncoder (Charset tc) = Ok en \<longrightarrow> (\<exists>s. prefix code s \<and> enc en s = None)"
proof (intro allI impI)
  fix en assume en: "GetEncoder (Charset tc) = Ok en"
  let ?c = "if suffix (FieldDelimiter tc) content then TrimSuffix content (FieldDelimiter tc) else content"
  have "\<not> is_ok (CalculateChecksum (enc en) (code @ ?c) seq (FieldDelimiter tc))"
    using assms en by (auto simp: Build_def Let_def split: if_splits go_result.splits)
  then have "enc en (code @ ?c @ FieldDelimiter tc @ ''AY'' @ seq @ ''AZ'') = None"
    unfolding CalculateChecksum_def append_assoc by (auto simp del: if_split split: option.splits)
  moreover have "prefix code (code @ ?c @ FieldDelimiter tc @ ''AY'' @ seq @ ''AZ'')" by simp
  ultimately show "\<exists>s. prefix code s \<and> enc en s = None" by blast
qed

text \<open>\<open>or_else\<close> returns what was built, or the fallback when it was refused.\<close>

lemma response_or_else:
  assumes "or_else (Build (Encoders e) tc code content seq) fallback = Ok r"
    and "\<not> is_ok (Build (Encoders e) tc code content seq) \<Longrightarrow> prefix code fallback \<and> unframed e tc code seq fallback"
  shows "response_for e tc code seq r"
  using assms response_for_built [of e tc code content seq r]
  by (cases "Build (Encoders e) tc code content seq") (auto simp: or_else_def response_for_def)

lemma response_same_text:
  assumes "or_else (Build (Encoders e) tc code content seq) fallback = Ok r"
    and "fallback = code @ content @ (if code = CheckinResponse then MessageDelimiter tc else [])"
    and "code \<notin> {CheckoutResponse, RenewResponse, RenewAllResponse}"
  shows "response_for e tc code seq r"
  using assms(1) by (rule response_or_else) (use assms(2,3) in \<open>auto simp: unframed_def\<close>)

named_theorems yielding \<open>what a handler can answer\<close>

lemmas [yielding] = yields_return yields_try_io

lemma yields_bind [yielding]: "(\<And>x. yields Q (f x)) \<Longrightarrow> yields Q (m \<bind> f)"
  unfolding yields_def by (auto split: prod.splits)

lemma yields_if [yielding]: "(b \<Longrightarrow> yields Q m) \<Longrightarrow> (\<not> b \<Longrightarrow> yields Q k) \<Longrightarrow> yields Q (if b then m else k)"
  by simp

lemma yields_case_prod [yielding]: "(\<And>x y. p = (x, y) \<Longrightarrow> yields Q (f x y)) \<Longrightarrow> yields Q (case p of (x, y) \<Rightarrow> f x y)"
  by (cases p) simp

lemma yields_case_result [yielding]:
  "(\<And>x. r = Ok x \<Longrightarrow> yields Q (f x)) \<Longrightarrow> (\<And>x. r = Err x \<Longrightarrow> yields Q (g x)) \<Longrightarrow>
     yields Q (case r of Ok x \<Rightarrow> f x | Err x \<Rightarrow> g x | Panic \<Rightarrow> State_Monad.return Panic)"
  by (cases r) (auto intro: yields_return)

lemma yields_case_option:
  "(x = None \<Longrightarrow> yields Q m) \<Longrightarrow> (\<And>y. x = Some y \<Longrightarrow> yields Q (f y)) \<Longrightarrow> yields Q (case x of None \<Rightarrow> m | Some y \<Rightarrow> f y)"
  by (cases x) auto

lemma yields_Err [yielding]: "yields Q (State_Monad.return (Err err))"
  by (rule yields_return) simp

lemma yields_mono: "yields Q m \<Longrightarrow> (\<And>r. Q r \<Longrightarrow> R r) \<Longrightarrow> yields R m"
  by (auto simp: yields_def)

subsection \<open>The builders of the handlers\<close>

abbreviation (input) answers :: "env \<Rightarrow> TenantConfig \<Rightarrow> MessageCode \<Rightarrow> string \<Rightarrow> (folio_error, string) go_result io \<Rightarrow> bool" where
  "answers e tc code seq m \<equiv> yields (response_for e tc code seq) m"

lemma login_response: "buildLoginResponse e tc ok seq = Ok r \<Longrightarrow> response_for e tc LoginResponse seq r"
  unfolding buildLoginResponse_def Let_def by (erule response_same_text) simp_all

lemma acs_response [yielding]: "answers e tc ACSStatus seq (buildACSStatusResponse e tc seq)"
  unfolding buildACSStatusResponse_def Let_def
  by (intro yielding) (erule response_same_text; simp)

lemma checkout_response [yielding]:
  "answers e tc CheckoutResponse (msgSequenceNumber msg) (buildCheckoutResponse e tc msg ok ids t d m)"
proof -
  have "prefix CheckoutResponse (checkout_fallback e tc now ids m) \<and>
      unframed e tc CheckoutResponse seq (checkout_fallback e tc now ids m)"
    if "\<not> is_ok (BuildCheckoutResponse (Encoders e) (Zones e) tc ok False False False now i p b t d [] False [] [] []
      [] [] [m] [] seq)" "ids = (i, p, b)" for now i p b seq
    using that by (fastforce simp: unframed_def checkout_fallback_def)
  then show ?thesis
    unfolding buildCheckoutResponse_def
    by (intro yielding) (unfold BuildCheckoutResponse_def Let_def, erule response_or_else, blast)
qed

lemma renew_response [yielding]:
  "answers e tc RenewResponse (or_zero (msgSequenceNumber msg)) (buildRenewResponseWithError e tc msg ids m)"
  "answers e tc RenewResponse (or_zero (msgSequenceNumber msg)) (buildRenewResponse e tc msg ok ids d t)"
proof -
  have fall: "prefix RenewResponse (renew_fallback e now ids m') \<and> unframed e tc RenewResponse seq (renew_fallback e now ids m')"
    if "\<not> is_ok (BuildRenewResponse (Encoders e) (Zones e) tc ok ok False False now i p b t d [m] [] seq)" "ids = (i, p, b)"
    for now i p b seq ok t d m m'
    using that by (fastforce simp: unframed_def renew_fallback_def)
  then show "answers e tc RenewResponse (or_zero (msgSequenceNumber msg)) (buildRenewResponseWithError e tc msg ids m)"
    unfolding buildRenewResponseWithError_def
    by (intro yielding) (unfold BuildRenewResponse_def, erule response_or_else, blast)
  show "answers e tc RenewResponse (or_zero (msgSequenceNumber msg)) (buildRenewResponse e tc msg ok ids d t)"
    using fall unfolding buildRenewResponse_def
    by (intro yielding) (unfold BuildRenewResponse_def, erule response_or_else, blast)
qed

lemma renew_all_responses [yielding]:
  "answers e tc RenewAllResponse (msgSequenceNumber msg) (renew_all_error e tc msg m)"
  "answers e tc RenewAllResponse (msgSequenceNumber msg) (renew_all_response e tc msg t)"
proof -
  show err: "answers e tc RenewAllResponse (msgSequenceNumber msg) (renew_all_error e tc msg m)" for m
  proof -
    have "prefix RenewAllResponse (renew_all_fallback now i p m) \<and> unframed e tc RenewAllResponse seq (renew_all_fallback now i p m)"
      if "\<not> is_ok (BuildRenewAllResponse (Encoders e) (Zones e) tc False 0 0 now i p [] [] [m] seq)" for now i p seq
      using that by (auto simp: unframed_def renew_all_fallback_def)
    then show ?thesis
      unfolding renew_all_error_def Let_def
      by (intro yielding) (unfold BuildRenewAllResponse_def, erule response_or_else, blast)
  qed
  show "answers e tc RenewAllResponse (msgSequenceNumber msg) (renew_all_response e tc msg t)"
    unfolding renew_all_response_def BuildRenewAllResponse_def
    by (intro yielding err) (auto intro: response_for_built)
qed

lemma checkin_responses [yielding]:
  "answers e tc CheckinResponse (msgSequenceNumber msg) (buildCheckinResponseWithMessage e tc msg ok ids m)"
  "answers e tc CheckinResponse (msgSequenceNumber msg) (buildCheckinResponse e tc msg ok ids)"
  "answers e tc CheckinResponse (msgSequenceNumber msg) (buildCheckinResponseWithData e tc msg ids f)"
proof -
  show m: "answers e tc CheckinResponse (msgSequenceNumber msg) (buildCheckinResponseWithMessage e tc msg ok ids m)" for ok m
    unfolding buildCheckinResponseWithMessage_def Let_def by (intro yielding) (erule response_same_text; simp)
  then show b: "answers e tc CheckinResponse (msgSequenceNumber msg) (buildCheckinResponse e tc msg ok ids)" for ok
    by (simp add: buildCheckinResponse_def)
  show "answers e tc CheckinResponse (msgSequenceNumber msg) (buildCheckinResponseWithData e tc msg ids f)"
    unfolding buildCheckinResponseWithData_def BuildCheckinResponse_def Let_def
    by (intro yielding b) (auto intro: response_for_built)
qed

lemma fee_responses [yielding]:
  "answers e tc FeePaidResponse (msgSequenceNumber msg) (fee_paid_error e tc msg m)"
  "answers e tc FeePaidResponse (msgSequenceNumber msg) (fee_paid_success e tc msg rs b)"
  unfolding fee_paid_error_def fee_paid_success_def Let_def
  by (intro yielding; erule response_same_text; simp)+

lemma patron_responses [yielding]:
  "answers e tc PatronStatusResponse (msgSequenceNumber msg) (buildPatronStatusResponse e tc msg pf)"
  "answers e tc PatronInformationResponse (msgSequenceNumber msg) (buildPatronInformationResponse e tc msg pf items)"
proof -
  show "answers e tc PatronStatusResponse (msgSequenceNumber msg) (buildPatronStatusResponse e tc msg pf)"
    unfolding buildPatronStatusResponse_def patron_status_text_def Let_def
    by (intro yielding) (erule response_same_text; simp)
  show "answers e tc PatronInformationResponse (msgSequenceNumber msg) (buildPatronInformationResponse e tc msg pf items)"
    unfolding buildPatronInformationResponse_def info_header_def Let_def
    by (intro yielding) (auto simp: go_bind_eq_Ok elim!: response_same_text)
qed

subsection \<open>The handlers\<close>

lemma with_tenant_answers:
  assumes "run_state (with_tenant f) w = (Ok r, w')" "sessTenant (wSession w) = Some tc" "\<And>tc. yields (P tc) (f tc)"
  shows "P tc r"
  using assms(3) [of tc] assms(1,2) by (auto simp: yields_def run_with_tenant)

text \<open>The framed part of the handlers: which code and which sequence number.\<close>

definition framed_handlers :: "schedule \<Rightarrow> TenantConfig \<Rightarrow> (MessageCode \<times> handler) list" where
  "framed_handlers sched hc =
     filter (\<lambda>(code, h). code \<notin> {EndPatronSessionRequest, ItemStatusUpdateRequest, RequestSCResend, RequestACSResend,
       ItemInformationRequest}) (registered_handlers sched hc)"

definition sequence_for :: "MessageCode \<Rightarrow> Message \<Rightarrow> string" where
  "sequence_for code msg = (if code = RenewRequest then or_zero (msgSequenceNumber msg) else msgSequenceNumber msg)"

lemma lending_answers [yielding]:
  "answers e tc CheckoutResponse (msgSequenceNumber msg) (checkout_loan e tc msg ids l t)"
  "answers e tc RenewResponse (or_zero (msgSequenceNumber msg)) (renew_loan e tc msg ids t)"
  "answers e tc RenewAllResponse (msgSequenceNumber msg) (renew_all_loans e tc msg t u)"
  unfolding checkout_loan_def checkout_done_def renew_loan_def renew_all_loans_def Let_def
  by (intro yielding)+

lemma with_verified_patron_yields [yielding]:
  "(\<And>m. yields Q (refuse m)) \<Longrightarrow> (\<And>t u. yields Q (go t u)) \<Longrightarrow> yields Q (with_verified_patron e tc msg refuse go am)"
  unfolding with_verified_patron_def Let_def by (intro yielding)

lemma with_active_patron_yields [yielding]:
  "yields Q refuse \<Longrightarrow> (\<And>t u p. yields Q (go t u p)) \<Longrightarrow> yields Q (with_active_patron e tc msg refuse go)"
  unfolding with_active_patron_def Let_def by (intro yielding)

lemma pay_fees_answers [yielding]:
  "answers e tc FeePaidResponse (msgSequenceNumber msg) (pay_fees e tc msg p a t u)"
  unfolding pay_fees_def pay_in_bulk_def fee_paid_answer_def Let_def by (intro yielding)

lemma checkin_item_answers [yielding]:
  "answers e tc CheckinResponse (msgSequenceNumber msg) (checkin_item sched hc e tc msg ids l t)"
  unfolding checkin_item_def by (intro yielding)

lemma patron_answers [yielding]:
  "answers e tc PatronStatusResponse (msgSequenceNumber msg) (patron_status e tc msg t u p)"
  "answers e tc PatronInformationResponse (msgSequenceNumber msg) (patron_information e tc msg t u p)"
  unfolding patron_status_def patron_information_def by (intro yielding)+

lemma login_answers:
  "answers e tc LoginResponse (msgSequenceNumber msg) (login_attempt e tc msg)"
  unfolding login_attempt_def Let_def by (intro yielding) (auto dest: login_response)

lemma handler_answers:
  assumes "sessTenant (wSession w) = Some tc"
  shows
    "run_state (LoginHandler_Handle e msg) w = (Ok r, w') \<Longrightarrow> response_for e tc LoginResponse (msgSequenceNumber msg) r"
    "run_state (SCStatusHandler_Handle e msg) w = (Ok r, w') \<Longrightarrow> response_for e tc ACSStatus (msgSequenceNumber msg) r"
    "run_state (PatronStatusHandler_Handle e msg) w = (Ok r, w') \<Longrightarrow> response_for e tc PatronStatusResponse (msgSequenceNumber msg) r"
    "run_state (PatronInformationHandler_Handle e msg) w = (Ok r, w') \<Longrightarrow> response_for e tc PatronInformationResponse (msgSequenceNumber msg) r"
    "run_state (CheckoutHandler_Handle e msg) w = (Ok r, w') \<Longrightarrow> response_for e tc CheckoutResponse (msgSequenceNumber msg) r"
    "run_state (CheckinHandler_Handle sched hc e msg) w = (Ok r, w') \<Longrightarrow> response_for e tc CheckinResponse (msgSequenceNumber msg) r"
    "run_state (RenewHandler_Handle e msg) w = (Ok r, w') \<Longrightarrow> response_for e tc RenewResponse (or_zero (msgSequenceNumber msg)) r"
    "run_state (RenewAllHandler_Handle e msg) w = (Ok r, w') \<Longrightarrow> response_for e tc RenewAllResponse (msgSequenceNumber msg) r"
    "run_state (FeePaidHandler_Handle e msg) w = (Ok r, w') \<Longrightarrow> response_for e tc FeePaidResponse (msgSequenceNumber msg) r"
  subgoal unfolding LoginHandler_Handle_def
    by (erule with_tenant_answers [OF _ assms, where P = "\<lambda>tc. response_for e tc LoginResponse (msgSequenceNumber msg)"]) (intro yielding login_answers; erule login_response)
  subgoal unfolding SCStatusHandler_Handle_def
    by (erule with_tenant_answers [OF _ assms, where P = "\<lambda>tc. response_for e tc ACSStatus (msgSequenceNumber msg)"]) (intro yielding)
  subgoal unfolding PatronStatusHandler_Handle_def
    by (erule with_tenant_answers [OF _ assms, where P = "\<lambda>tc. response_for e tc PatronStatusResponse (msgSequenceNumber msg)"]) (intro yielding)
  subgoal unfolding PatronInformationHandler_Handle_def
    by (erule with_tenant_answers [OF _ assms, where P = "\<lambda>tc. response_for e tc PatronInformationResponse (msgSequenceNumber msg)"]) (intro yielding)
  subgoal unfolding CheckoutHandler_Handle_def Let_def
    by (erule with_tenant_answers [OF _ assms, where P = "\<lambda>tc. response_for e tc CheckoutResponse (msgSequenceNumber msg)"]) (intro yielding)
  subgoal unfolding CheckinHandler_Handle_def Let_def
    by (erule with_tenant_answers [OF _ assms, where P = "\<lambda>tc. response_for e tc CheckinResponse (msgSequenceNumber msg)"]) (intro yielding)
  subgoal unfolding RenewHandler_Handle_def Let_def
    by (erule with_tenant_answers [OF _ assms, where P = "\<lambda>tc. response_for e tc RenewResponse (or_zero (msgSequenceNumber msg))"]) (intro yielding)
  subgoal unfolding RenewAllHandler_Handle_def
    by (erule with_tenant_answers [OF _ assms, where P = "\<lambda>tc. response_for e tc RenewAllResponse (msgSequenceNumber msg)"]) (intro yielding)
  subgoal unfolding FeePaidHandler_Handle_def
    by (erule with_tenant_answers [OF _ assms, where P = "\<lambda>tc. response_for e tc FeePaidResponse (msgSequenceNumber msg)"]) (intro yielding yields_case_option)
  done

lemma response_codes:
  "GetResponseCode LoginRequest = LoginResponse" "GetResponseCode SCStatus = ACSStatus"
  "GetResponseCode PatronStatusRequest = PatronStatusResponse" "GetResponseCode CheckoutRequest = CheckoutResponse"
  "GetResponseCode CheckinRequest = CheckinResponse" "GetResponseCode PatronInformationRequest = PatronInformationResponse"
  "GetResponseCode RenewRequest = RenewResponse" "GetResponseCode RenewAllRequest = RenewAllResponse"
  "GetResponseCode FeePaidRequest = FeePaidResponse" "GetResponseCode ItemInformationRequest = ItemInformationResponse"
  "GetResponseCode EndPatronSessionRequest = ''36''" "GetResponseCode ItemStatusUpdateRequest = ''20''"
  "GetResponseCode RequestACSResend = ''96''" "GetResponseCode RequestSCResend = []"
  by (simp_all add: GetResponseCode_def response_map_def)

lemma framed_answers:
  assumes "(code, h) \<in> set (framed_handlers sched hc)" "sessTenant (wSession w) = Some tc"
    and "run_state (h e msg) w = (Ok r, w')"
  shows "response_for e tc (GetResponseCode code) (sequence_for code msg) r"
proof -
  have "(code, h) \<in> set [(LoginRequest, LoginHandler_Handle), (SCStatus, SCStatusHandler_Handle),
      (PatronStatusRequest, PatronStatusHandler_Handle), (CheckoutRequest, CheckoutHandler_Handle),
      (CheckinRequest, CheckinHandler_Handle sched hc), (PatronInformationRequest, PatronInformationHandler_Handle),
      (RenewRequest, RenewHandler_Handle), (RenewAllRequest, RenewAllHandler_Handle), (FeePaidRequest, FeePaidHandler_Handle)]"
    using assms(1) by (simp add: framed_handlers_def registered_handlers_def)
  then show ?thesis
    using assms(3) handler_answers [OF assms(2)] unfolding list.set insert_iff empty_iff prod.inject
    by (elim disjE conjE FalseE) (simp_all add: response_codes sequence_for_def)
qed

subsection \<open>The responses that are not framed\<close>

definition answers_code :: "MessageCode \<Rightarrow> string \<Rightarrow> bool" where
  "answers_code code r \<longleftrightarrow>
     (if code \<in> {RequestSCResend, RequestACSResend} then r = ''96''
      else prefix (GetResponseCode code) r \<or> (code = ItemInformationRequest \<and> r = ''96''))"

lemma item_response_answers [yielding]:
  "yields (\<lambda>r. prefix ItemInformationResponse r \<or> r = ''96'') (item_response e tc msg d)"
  unfolding item_response_def BuildItemInformationResponse_def Let_def or_else_def
  by (intro yielding) (auto split: go_result.splits dest: Build_prefix)

lemma yields_then_any: "(\<And>x. yields Q (f x)) \<Longrightarrow> yields Q (then_io m f)"
  by (rule yields_then_io [OF yields_any])

lemma unframed_answers:
  assumes "sessTenant (wSession w) = Some tc"
  shows
    "run_state (EndSessionHandler_Handle e msg) w = (Ok r, w') \<Longrightarrow> answers_code EndPatronSessionRequest r"
    "run_state (ItemStatusUpdateHandler_Handle e msg) w = (Ok r, w') \<Longrightarrow> answers_code ItemStatusUpdateRequest r"
    "run_state (ResendHandler_Handle e msg) w = (Ok r, w') \<Longrightarrow> answers_code RequestSCResend r \<and> answers_code RequestACSResend r"
    "run_state (ItemInformationHandler_Handle hc e msg) w = (Ok r, w') \<Longrightarrow> answers_code ItemInformationRequest r"
proof -
  have info: "answers_code ItemInformationRequest x" if "prefix ItemInformationResponse x \<or> x = ''96''" for x
    using that by (simp add: answers_code_def response_codes)
  have status: "yields (answers_code ItemStatusUpdateRequest) (answer_item_status e ok a b)" for ok a b
    by (auto simp: yields_def answer_item_status_def buildItemStatusUpdateResponse_def time_now_def answers_code_def response_codes)
  show "run_state (EndSessionHandler_Handle e msg) w = (Ok r, w') \<Longrightarrow> answers_code EndPatronSessionRequest r"
    using assms
    by (auto simp: EndSessionHandler_Handle_def buildEndSessionResponse_def run_with_tenant time_now_def put_session_def
        answers_code_def response_codes split: if_splits)
  show "run_state (ItemStatusUpdateHandler_Handle e msg) w = (Ok r, w') \<Longrightarrow> answers_code ItemStatusUpdateRequest r"
    unfolding ItemStatusUpdateHandler_Handle_def Let_def
    by (erule with_tenant_answers [OF _ assms]) (intro yielding status)
  show "run_state (ResendHandler_Handle e msg) w = (Ok r, w') \<Longrightarrow> answers_code RequestSCResend r \<and> answers_code RequestACSResend r"
    using assms by (auto simp: ResendHandler_Handle_def buildResendResponse_def run_with_tenant answers_code_def)
  show "run_state (ItemInformationHandler_Handle hc e msg) w = (Ok r, w') \<Longrightarrow> answers_code ItemInformationRequest r"
    unfolding ItemInformationHandler_Handle_def build_information_defs Let_def
    by (erule with_tenant_answers [OF _ assms])
      (intro yielding yields_then_any; rule yields_mono [OF item_response_answers]; erule info)
qed

subsection \<open>Every registered handler, every connection\<close>

lemma registered_or:
  assumes "RegisterAllHandlers sched url code = Some h"
  shows "(code, h) \<in> set (framed_handlers sched (handler_config url)) \<or>
    (code, h) \<in> set [(EndPatronSessionRequest, EndSessionHandler_Handle), (ItemStatusUpdateRequest, ItemStatusUpdateHandler_Handle),
      (RequestSCResend, ResendHandler_Handle), (RequestACSResend, ResendHandler_Handle),
      (ItemInformationRequest, ItemInformationHandler_Handle (handler_config url))]"
  using map_of_SomeD [OF assms [unfolded RegisterAllHandlers_def]]
  by (auto simp: framed_handlers_def registered_handlers_def)

lemma registered_answers:
  assumes "RegisterAllHandlers sched url code = Some h" "sessTenant (wSession w) = Some tc"
    and "run_state (h e msg) w = (Ok r, w')"
  shows "answers_code code r"
  using registered_or [OF assms(1)]
proof
  assume framed: "(code, h) \<in> set (framed_handlers sched (handler_config url))"
  then have "code \<notin> {RequestSCResend, RequestACSResend}" by (auto simp: framed_handlers_def)
  then show ?thesis
    using framed_answers [OF framed assms(2,3)] by (auto simp: answers_code_def response_for_def)
next
  assume "(code, h) \<in> set [(EndPatronSessionRequest, EndSessionHandler_Handle), (ItemStatusUpdateRequest, ItemStatusUpdateHandler_Handle),
      (RequestSCResend, ResendHandler_Handle), (RequestACSResend, ResendHandler_Handle),
      (ItemInformationRequest, ItemInformationHandler_Handle (handler_config url))]"
  then show ?thesis
    using assms(3) unframed_answers [OF assms(2)] unfolding list.set insert_iff empty_iff prod.inject
    by (elim disjE conjE FalseE) simp_all
qed

lemma framed_registered:
  "RegisterAllHandlers sched url code = Some h \<Longrightarrow>
     code \<notin> {EndPatronSessionRequest, ItemStatusUpdateRequest, RequestSCResend, RequestACSResend, ItemInformationRequest} \<Longrightarrow>
     (code, h) \<in> set (framed_handlers sched (handler_config url))"
  by (auto simp: framed_handlers_def RegisterAllHandlers_def dest: map_of_SomeD)

lemma framed_checksum:
  assumes "(code, h) \<in> set (framed_handlers sched hc)" "sessTenant (wSession w) = Some tc"
    and "run_state (h e msg) w = (Ok r, w')"
    and "ErrorDetectionEnabled tc" "FieldDelimiter tc = [d]" "d \<notin> set (GetResponseCode code)"
  shows "(\<exists>en m cs. GetEncoder (Charset tc) = Ok en \<and>
      r = m @ [d] @ ''AY'' @ sequence_for code msg @ ''AZ'' @ cs @ MessageDelimiter tc \<and>
      CalculateChecksum (Encoders e en) m (sequence_for code msg) [d] = Ok cs \<and> prefix (GetResponseCode code) m) \<or>
    unframed e tc (GetResponseCode code) (sequence_for code msg) r"
proof (cases "unframed e tc (GetResponseCode code) (sequence_for code msg) r")
  case False
  then obtain content where built: "Build (Encoders e) tc (GetResponseCode code) content (sequence_for code msg) = Ok r"
    using framed_answers [OF assms(1-3)] by (auto simp: response_for_def)
  then obtain en where en: "GetEncoder (Charset tc) = Ok en"
    using assms(4) by (auto simp: Build_def Let_def split: go_result.splits)
  from Build_shape [OF built assms(4,5) en assms(6)] en show ?thesis by (metis prefixI)
qed simp

text \<open>What is sent unframed had no encoding.\<close>

lemma unframed_unencodable:
  assumes "unframed e tc code seq r" "GetEncoder (Charset tc) = Ok en"
  shows "\<exists>s. prefix code s \<and> Encoders e en s = None"
  using assms Build_err [of "Encoders e" tc]
  by (auto simp: unframed_def BuildCheckoutResponse_def BuildRenewResponse_def BuildRenewAllResponse_def Let_def
      split: if_splits)

text \<open>A failed message is answered with the code of its response, or not at all.\<close>

lemma error_response_prefix:
  "conn_buildErrorResponse e c raw err now = Ok r \<Longrightarrow>
     r = [] \<or> (\<exists>msg. Parse (Encoders e) (cParser c) raw = Ok msg \<and> prefix (GetResponseCode (Code msg)) r)"
  by (auto simp: conn_buildErrorResponse_def Let_def split: go_result.splits if_splits dest: Build_prefix)

definition answered_for :: "env \<Rightarrow> Connection \<Rightarrow> Connection \<Rightarrow> string \<Rightarrow> served \<Rightarrow> bool" where
  "answered_for e c c' raw s =
     (case s of
        Answer r \<Rightarrow> (case Parse (Encoders e) (cParser c) raw of
          Ok msg \<Rightarrow> ValidateMessage (cParser c) msg = None \<and> answers_code (Code msg) r | _ \<Rightarrow> False)
      | Rejected r \<Rightarrow> r = [] \<or> (case Parse (Encoders e) (cParser c') raw of
          Ok msg \<Rightarrow> prefix (GetResponseCode (Code msg)) r | _ \<Rightarrow> False)
      | Fatal \<Rightarrow> True)"

lemma run_handler_answers:
  assumes "run_state (run_handler (server_site sched url ts ip) e c msg) w = ((Ok r, c'), w')"
    and "sessTenant (wSession w) = Some tc"
  shows "answers_code (Code msg) r"
proof -
  obtain h where h: "RegisterAllHandlers sched url (Code msg) = Some h"
    using assms(1) by (cases "RegisterAllHandlers sched url (Code msg)") (auto simp: run_handler_def server_site_def)
  obtain r1 w1 where run: "run_state (h e msg) w = (r1, w1)" by fastforce
  then have "r1 = Ok r" using assms(1) h by (auto simp: run_handler_def server_site_def split: go_result.splits)
  then show ?thesis using registered_answers [OF h assms(2)] run by blast
qed

lemma processMessage_answers:
  assumes "run_state (processMessage (server_site sched url ts ip) e c raw) w = ((Ok r, c'), w')" "in_step c w"
  shows "\<exists>msg. Parse (Encoders e) (cParser c) raw = Ok msg \<and> ValidateMessage (cParser c) msg = None \<and> answers_code (Code msg) r"
proof -
  let ?w = "w\<lparr>wSession := UpdateActivity (Clock e (wSent w)) (wSession w)\<rparr>"
  have t: "sessTenant (wSession ?w) = Some (cParser c)"
    using assms(2) by (simp add: in_step_def of_tenant_def UpdateActivity_def)
  obtain msg where m: "Parse (Encoders e) (cParser c) raw = Ok msg" "ValidateMessage (cParser c) msg = None"
    using assms(1) by (auto simp: processMessage_def time_now_def put_session_def split: go_result.splits option.splits)
  have "\<exists>c1 w1 tc. sessTenant (wSession w1) = Some tc \<and>
      run_state (run_handler (server_site sched url ts ip) e c1 msg) w1 = ((Ok r, c'), w')"
  proof (cases "Code msg = LoginRequest")
    case True
    obtain c1 w1 where c1: "run_state (handleLoginTenantResolution (server_site sched url ts ip) c msg (cParser c)) ?w = (c1, w1)"
      by fastforce
    moreover have "sessTenant (wSession w1) \<noteq> None"
      using c1 t by (auto simp: handleLoginTenantResolution_def UpdateTenant_def split: go_result.splits if_splits)
    ultimately show ?thesis
      using assms(1) m True t by (auto simp: processMessage_def with_config_def time_now_def put_session_def get_session_def)
  next
    case False
    then have "run_state (run_handler (server_site sched url ts ip) e c msg) ?w = ((Ok r, c'), w')"
      using assms(1) m t by (simp add: processMessage_def with_config_def time_now_def put_session_def get_session_def)
    then show ?thesis using t by blast
  qed
  then show ?thesis using m run_handler_answers by blast
qed

lemma serve_message_answers:
  assumes "run_state (serve_message (server_site sched url ts ip) e c raw) w = ((s, c'), w')" "in_step c w"
  shows "answered_for e c c' raw s"
proof -
  obtain r1 c1 w1 where p: "run_state (processMessage (server_site sched url ts ip) e c raw) w = ((r1, c1), w1)"
    by (metis prod.exhaust)
  show ?thesis
  proof (cases r1)
    case (Ok r)
    then have "s = Answer r" using assms(1) p by (auto simp: serve_message_def)
    then show ?thesis using processMessage_answers [OF p [unfolded Ok] assms(2)] by (auto simp: answered_for_def)
  next
    case (Err err)
    then have "c' = c1" "\<And>r. s \<noteq> Answer r"
      "\<And>r. s = Rejected r \<Longrightarrow> conn_buildErrorResponse e c1 raw err (Clock e (wSent w1)) = Ok r"
      using assms(1) p by (auto simp: serve_message_def time_now_def split: go_result.splits)
    then show ?thesis using error_response_prefix by (cases s) (fastforce simp: answered_for_def)+
  next
    case Panic
    then show ?thesis using assms(1) p by (auto simp: serve_message_def answered_for_def)
  qed
qed

end
