(* ===== verification/Server.thy ===== *)
theory Server
  imports Responses "HOL-Library.Multiset" "HOL-Library.Word"
begin

text \<open>
  \<open>internal/server/server.go\<close>, \<open>tls.go\<close> and the shutdown in \<open>cmd/fsip2/main.go\<close>: one server with its
  listening sockets, its accept loops and one goroutine for each accepted connection. The steps of
  the goroutines interleave freely; \<open>Start\<close> and \<open>Stop\<close> are called between them. What a connection keeps
  on its own, it keeps in the server: the locale lifts it.
\<close>

subsection \<open>Binding\<close>

text \<open>What the operating system says: a file is missing, a key pair or a listener fails with an error.\<close>

record network =
  Missing :: "string \<Rightarrow> bool"
  LoadX509KeyPair :: "string \<Rightarrow> string \<Rightarrow> string option"
  Listen :: "string \<Rightarrow> string option"

datatype cipher_suite =
    TLS_ECDHE_RSA_WITH_AES_256_GCM_SHA384
  | TLS_ECDHE_RSA_WITH_AES_128_GCM_SHA256
  | TLS_ECDHE_ECDSA_WITH_AES_256_GCM_SHA384
  | TLS_ECDHE_ECDSA_WITH_AES_128_GCM_SHA256

definition VersionTLS12 :: int where "VersionTLS12 = 0x0303"

record tls_settings =
  tlsCertificates :: "(string \<times> string) list"
  MinVersion :: int
  CipherSuites :: "cipher_suite list"
  PreferServerCipherSuites :: bool

definition strong_suites :: "cipher_suite list" where
  "strong_suites =
     [TLS_ECDHE_RSA_WITH_AES_256_GCM_SHA384, TLS_ECDHE_RSA_WITH_AES_128_GCM_SHA256,
      TLS_ECDHE_ECDSA_WITH_AES_256_GCM_SHA384, TLS_ECDHE_ECDSA_WITH_AES_128_GCM_SHA256]"

definition GetDefaultTLSConfig :: tls_settings where
  "GetDefaultTLSConfig =
     \<lparr>tlsCertificates = [], MinVersion = VersionTLS12, CipherSuites = strong_suites, PreferServerCipherSuites = True\<rparr>"

definition LoadTLSConfig :: "network \<Rightarrow> string \<Rightarrow> string \<Rightarrow> (string, tls_settings) go_result" where
  "LoadTLSConfig net certFile keyFile =
     (if Missing net certFile then Err (''certificate file not found: '' @ certFile)
      else if Missing net keyFile then Err (''key file not found: '' @ keyFile)
      else case LoadX509KeyPair net certFile keyFile of
          Some err \<Rightarrow> Err (''failed to load certificate: '' @ err)
        | None \<Rightarrow> Ok \<lparr>tlsCertificates = [(certFile, keyFile)], MinVersion = VersionTLS12,
            CipherSuites = strong_suites, PreferServerCipherSuites = True\<rparr>)"

text \<open>The listener itself is the settings it encrypts with, if it encrypts.\<close>

definition bindListener :: "network \<Rightarrow> Config \<Rightarrow> string \<Rightarrow> (string, tls_settings option) go_result" where
  "bindListener net cfg addr =
     (case TLS cfg of
        Some tls \<Rightarrow>
          if tls_Enabled tls then
            (case LoadTLSConfig net (tls_CertFile tls) (tls_KeyFile tls) of
               Err err \<Rightarrow> Err (''failed to load TLS config: '' @ err)
             | Panic \<Rightarrow> Panic
             | Ok settings \<Rightarrow>
                 (case Listen net addr of
                    Some err \<Rightarrow> Err (''failed to start TLS listener on '' @ addr @ '': '' @ err)
                  | None \<Rightarrow> Ok (Some settings)))
          else (case Listen net addr of
              Some err \<Rightarrow> Err (''failed to start listener on '' @ addr @ '': '' @ err) | None \<Rightarrow> Ok None)
      | None \<Rightarrow> (case Listen net addr of
          Some err \<Rightarrow> Err (''failed to start listener on '' @ addr @ '': '' @ err) | None \<Rightarrow> Ok None))"

definition address :: "Config \<Rightarrow> int \<Rightarrow> string" where
  "address cfg port = Host cfg @ '':'' @ int_str port"

subsection \<open>The state of a server\<close>

text \<open>The unlabelled counters and gauges of \<open>internal/metrics\<close>.\<close>

record Metrics =
  ConnectionsTotal :: nat
  ConnectionsActive :: int
  ConnectionErrors :: nat
  LoginAttempts :: nat
  LoginSuccess :: nat
  LoginFailures :: nat
  CheckoutTotal :: nat
  CheckoutSuccess :: nat
  CheckoutFailures :: nat
  CheckinTotal :: nat
  CheckinSuccess :: nat
  CheckinFailures :: nat
  RenewTotal :: nat
  RenewSuccess :: nat
  RenewFailures :: nat
  TenantResolutionErrors :: nat
  SessionsCreated :: nat
  SessionsEnded :: nat
  SessionsActive :: int

definition NewMetrics :: Metrics where
  "NewMetrics =
     \<lparr>ConnectionsTotal = 0, ConnectionsActive = 0, ConnectionErrors = 0, LoginAttempts = 0, LoginSuccess = 0,
      LoginFailures = 0, CheckoutTotal = 0, CheckoutSuccess = 0, CheckoutFailures = 0, CheckinTotal = 0,
      CheckinSuccess = 0, CheckinFailures = 0, RenewTotal = 0, RenewSuccess = 0, RenewFailures = 0,
      TenantResolutionErrors = 0, SessionsCreated = 0, SessionsEnded = 0, SessionsActive = 0\<rparr>"

text \<open>The names under which messages are counted.\<close>

definition message_type_names :: "(string \<times> string) list" where
  "message_type_names =
     [(''93'', ''login''), (''99'', ''sc_status''), (''23'', ''patron_status''), (''11'', ''checkout''),
      (''09'', ''checkin''), (''63'', ''patron_information''), (''17'', ''item_information''), (''29'', ''renew''),
      (''65'', ''renew_all''), (''35'', ''end_session''), (''37'', ''fee_paid''), (''19'', ''item_status_update''),
      (''97'', ''resend'')]"

definition GetMessageTypeName :: "string \<Rightarrow> string" where
  "GetMessageTypeName code = (case map_of message_type_names code of Some name \<Rightarrow> name | None \<Rightarrow> ''unknown'')"

text \<open>
  A goroutine resolves the tenant of its connection, handles the connection, and returns; what is left
  of the connection are the background logouts. Where no tenant is found \<open>handleConnection\<close> returns without
  closing the socket: the connection is \<open>Abandoned\<close>, its client still connected and never served. A crash
  is a connection that is \<open>Crashed\<close>.
\<close>

record accepted =
  acClientIP :: string
  acClientPort :: int
  acServerPort :: int
  acSessionID :: string
  acTime :: GoTime
  acStream :: string

datatype goroutine = Resolving accepted | Handling conn | Returned conn | Abandoned accepted

record socket =
  skPort :: int
  skTLS :: "tls_settings option"
  skOpen :: bool

text \<open>An accept loop is at the check of the context, blocked in \<open>Accept\<close>, or over.\<close>

datatype loop_at = AtCheck | InAccept | LoopOver

datatype starting = NotStarted | BindBootstrap | BindExtra "int list" | Accepting | StartFailed string

datatype stop_reason = AllClosed | TimedOut | ContextCancelled

datatype stopping = NotStopping | StopWaiting | StopReturned stop_reason

text \<open>
  \<open>svListeners\<close> is the field \<open>listeners\<close>: which of the sockets that were ever bound it holds. \<open>svCtxDone\<close> is the
  context of \<open>Start\<close>, \<open>svStopCtxDone\<close> that of \<open>Stop\<close>, and \<open>svStopTimer\<close> its timer of 30 seconds.
\<close>

record server =
  svRunning :: bool
  svListeners :: "nat list"
  svSockets :: "socket list"
  svLoops :: "(nat \<times> loop_at) list"
  svStarting :: starting
  svStopping :: stopping
  svStopCtxDone :: bool
  svStopTimer :: bool
  svCtxDone :: bool
  svGoroutines :: "goroutine list"
  svActive :: "64 word"
  svTotal :: "64 word"
  svMetrics :: Metrics

definition NewServer :: server where
  "NewServer =
     \<lparr>svRunning = False, svListeners = [], svSockets = [], svLoops = [], svStarting = NotStarted,
      svStopping = NotStopping, svStopCtxDone = False, svStopTimer = False, svCtxDone = False, svGoroutines = [], svActive = 0, svTotal = 0, svMetrics = NewMetrics\<rparr>"

definition RegisterHandler ::
  "MessageCode \<Rightarrow> handler \<Rightarrow> (MessageCode \<Rightarrow> handler option) \<Rightarrow> MessageCode \<Rightarrow> handler option" where
  "RegisterHandler code h hs = hs(code \<mapsto> h)"

definition IsRunning :: "server \<Rightarrow> bool" where "IsRunning s = svRunning s"

definition GetActiveConnections :: "server \<Rightarrow> 64 word" where "GetActiveConnections s = svActive s"

definition GetTotalConnections :: "server \<Rightarrow> 64 word" where "GetTotalConnections s = svTotal s"

subsection \<open>Start and stop\<close>

text \<open>Start marks the server as running before anything is bound; the binding follows in steps.\<close>

definition Start :: "server \<Rightarrow> string option \<times> server" where
  "Start s =
     (if svRunning s then (Some ''server is already running'', s)
      else (None, s\<lparr>svRunning := True, svStarting := BindBootstrap\<rparr>))"

definition open_listener :: "int \<Rightarrow> tls_settings option \<Rightarrow> server \<Rightarrow> server" where
  "open_listener port tls s =
     s\<lparr>svListeners := svListeners s @ [length (svSockets s)],
       svSockets := svSockets s @ [\<lparr>skPort = port, skTLS = tls, skOpen = True\<rparr>]\<rparr>"

definition close_sockets :: "nat list \<Rightarrow> socket list \<Rightarrow> socket list" where
  "close_sockets ls sks = fold (\<lambda>l sks. sks[l := (sks ! l)\<lparr>skOpen := False\<rparr>]) ls sks"

definition Stop :: "bool \<Rightarrow> server \<Rightarrow> server" where
  "Stop ctxDone s =
     (if \<not> svRunning s then s
      else s\<lparr>svRunning := False, svStopping := StopWaiting, svStopCtxDone := ctxDone, svStopTimer := False,
             svSockets := close_sockets (svListeners s) (svSockets s)\<rparr>)"

text \<open>What \<open>main\<close> does at a signal: it cancels its one context and stops the server under it.\<close>

definition main_shutdown :: "server \<Rightarrow> server" where
  "main_shutdown s = Stop True (s\<lparr>svCtxDone := True\<rparr>)"

subsection \<open>The steps\<close>

fun live :: "goroutine \<Rightarrow> bool" where
  "live (Returned c) = False"
| "live (Abandoned a) = False"
| "live _ = True"

fun conn_of :: "goroutine \<Rightarrow> conn option" where
  "conn_of (Resolving a) = None"
| "conn_of (Handling c) = Some c"
| "conn_of (Returned c) = Some c"
| "conn_of (Abandoned a) = None"

fun with_conn :: "conn \<Rightarrow> goroutine \<Rightarrow> goroutine" where
  "with_conn c (Resolving a) = Resolving a"
| "with_conn c (Handling c') = Handling c"
| "with_conn c (Returned c') = Returned c"
| "with_conn c (Abandoned a) = Abandoned a"

definition crashed_server :: "server \<Rightarrow> bool" where
  "crashed_server s \<longleftrightarrow> (\<exists>g \<in> set (svGoroutines s). \<exists>c. conn_of g = Some c \<and> cnPhase c = Crashed)"

text \<open>How a goroutine leaves the counters: the deferred decrements, and the error it returned.\<close>

definition left_metrics :: "bool \<Rightarrow> bool \<Rightarrow> Metrics \<Rightarrow> Metrics" where
  "left_metrics failed session m =
     m\<lparr>ConnectionErrors := ConnectionErrors m + (if failed then 1 else 0),
       ConnectionsActive := ConnectionsActive m - 1,
       SessionsActive := SessionsActive m - (if session then 1 else 0)\<rparr>"

text \<open>
  The context that a goroutine sees: cancelled for good once it is. It may be cancelled in the
  middle of a step.
\<close>

definition sees_context :: "bool \<Rightarrow> (http_request list \<Rightarrow> folio_error option) \<Rightarrow> bool" where
  "sees_context done cn \<longleftrightarrow>
     (\<forall>pre. cn pre = Some Canceled \<or> (cn pre = None \<and> \<not> done))"

text \<open>
  What happens to the server from outside: a context is cancelled, a client connects to an open socket,
  bytes arrive on a connection or its stream ends, the timer of Stop runs out.
\<close>

inductive outside_step :: "server \<Rightarrow> server \<Rightarrow> bool" where
  ctx_cancelled: "\<not> svCtxDone s \<Longrightarrow> outside_step s (s\<lparr>svCtxDone := True\<rparr>)"
| stop_ctx_cancelled: "\<not> svStopCtxDone s \<Longrightarrow> outside_step s (s\<lparr>svStopCtxDone := True\<rparr>)"
| timer_ran_out: "svStopping s = StopWaiting \<Longrightarrow> \<not> svStopTimer s \<Longrightarrow> outside_step s (s\<lparr>svStopTimer := True\<rparr>)"
| conn_accepted:
    "i < length (svLoops s) \<Longrightarrow> svLoops s ! i = (l, InAccept) \<Longrightarrow>
       l < length (svSockets s) \<Longrightarrow> skOpen (svSockets s ! l) \<Longrightarrow> acServerPort a = skPort (svSockets s ! l) \<Longrightarrow>
       outside_step s
         (s\<lparr>svLoops := (svLoops s)[i := (l, AtCheck)], svGoroutines := svGoroutines s @ [Resolving a],
            svActive := svActive s + 1, svTotal := svTotal s + 1,
            svMetrics := (svMetrics s)\<lparr>ConnectionsTotal := ConnectionsTotal (svMetrics s) + 1,
              ConnectionsActive := ConnectionsActive (svMetrics s) + 1\<rparr>\<rparr>)"
| net_moved:
    "k < length (svGoroutines s) \<Longrightarrow> conn_of (svGoroutines s ! k) = Some c \<Longrightarrow> net_step c c' \<Longrightarrow>
       outside_step s (s\<lparr>svGoroutines := (svGoroutines s)[k := with_conn c' (svGoroutines s ! k)]\<rparr>)"

text \<open>
  The steps of the server and those from outside. Each goroutine has an environment of its own: FOLIO may answer it
  by what the others asked, and the tenant service may be changed under it, as \<open>st k\<close> and \<open>e k\<close> are any functions of
  what the goroutine has sent. \<open>Accept\<close> may fail at any time.
\<close>

inductive server_step :: "Config \<Rightarrow> (nat \<Rightarrow> site) \<Rightarrow> (nat \<Rightarrow> env) \<Rightarrow> server \<Rightarrow> server \<Rightarrow> bool" for cfg st e where
  outside: "outside_step s s' \<Longrightarrow> server_step cfg st e s s'"
| bootstrap_bound:
    "svStarting s = BindBootstrap \<Longrightarrow> bindListener net cfg (address cfg (Port cfg)) = Ok tls \<Longrightarrow>
       server_step cfg st e s
         (open_listener (Port cfg) tls (s\<lparr>svStarting := BindExtra (uniqueScTenantPorts (Port cfg) (SCTenants cfg))\<rparr>))"
| bootstrap_failed:
    "svStarting s = BindBootstrap \<Longrightarrow> bindListener net cfg (address cfg (Port cfg)) = Err err \<Longrightarrow>
       server_step cfg st e s (s\<lparr>svStarting := StartFailed err\<rparr>)"
| extra_bound:
    "svStarting s = BindExtra (p # ps) \<Longrightarrow> bindListener net cfg (address cfg p) = Ok tls \<Longrightarrow>
       server_step cfg st e s (open_listener p tls (s\<lparr>svStarting := BindExtra ps\<rparr>))"
| extra_failed:
    "svStarting s = BindExtra (p # ps) \<Longrightarrow> bindListener net cfg (address cfg p) = Err err \<Longrightarrow>
       server_step cfg st e s
         (s\<lparr>svStarting := StartFailed err, svSockets := close_sockets (svListeners s) (svSockets s), svListeners := []\<rparr>)"
| launched:
    "svStarting s = BindExtra [] \<Longrightarrow>
       server_step cfg st e s
         (s\<lparr>svStarting := Accepting, svLoops := svLoops s @ map (\<lambda>l. (l, AtCheck)) (svListeners s)\<rparr>)"
| loop_checked:
    "i < length (svLoops s) \<Longrightarrow> svLoops s ! i = (l, AtCheck) \<Longrightarrow>
       server_step cfg st e s
         (s\<lparr>svLoops := (svLoops s)[i := (l, if svCtxDone s then LoopOver else InAccept)]\<rparr>)"
| accept_failed:
    "i < length (svLoops s) \<Longrightarrow> svLoops s ! i = (l, InAccept) \<Longrightarrow>
       server_step cfg st e s
         (s\<lparr>svLoops := (svLoops s)[i := (l, if svRunning s then AtCheck else LoopOver)]\<rparr>)"
| unresolved:
    "k < length (svGoroutines s) \<Longrightarrow> svGoroutines s ! k = Resolving a \<Longrightarrow>
       handleConnection (st k) (acTime a) (acSessionID a) (acClientIP a) (acClientPort a) (acServerPort a) (acStream a) = Err err \<Longrightarrow>
       server_step cfg st e s
         (s\<lparr>svGoroutines := (svGoroutines s)[k := Abandoned a], svActive := svActive s - 1,
            svMetrics := left_metrics True False (svMetrics s)\<rparr>)"
| resolved:
    "k < length (svGoroutines s) \<Longrightarrow> svGoroutines s ! k = Resolving a \<Longrightarrow>
       handleConnection (st k) (acTime a) (acSessionID a) (acClientIP a) (acClientPort a) (acServerPort a) (acStream a) = Ok c \<Longrightarrow>
       server_step cfg st e s
         (s\<lparr>svGoroutines := (svGoroutines s)[k := Handling c],
            svMetrics := (svMetrics s)\<lparr>SessionsCreated := SessionsCreated (svMetrics s) + 1,
              SessionsActive := SessionsActive (svMetrics s) + 1\<rparr>\<rparr>)"
| conn_moved:
    "k < length (svGoroutines s) \<Longrightarrow> conn_of (svGoroutines s ! k) = Some c \<Longrightarrow>
       sees_context (svCtxDone s) cn \<Longrightarrow> conn_step (st k) ((e k)\<lparr>Cancelled := cn\<rparr>) c c' \<Longrightarrow> \<not> net_step c c' \<Longrightarrow>
       server_step cfg st e s
         (s\<lparr>svGoroutines := (svGoroutines s)[k := with_conn c' (svGoroutines s ! k)],
            svCtxDone := svCtxDone s \<or> cn \<noteq> (\<lambda>pre. None)\<rparr>)"
| handler_returned:
    "k < length (svGoroutines s) \<Longrightarrow> svGoroutines s ! k = Handling c \<Longrightarrow> cnPhase c = Closed reason \<Longrightarrow>
       server_step cfg st e s
         (s\<lparr>svGoroutines := (svGoroutines s)[k := Returned c], svActive := svActive s - 1,
            svMetrics := left_metrics (reason \<noteq> LogoutReasonClientClosed) True (svMetrics s)\<rparr>)"
| stop_returned:
    "svStopping s = StopWaiting \<Longrightarrow>
       (r = AllClosed \<and> filter live (svGoroutines s) = []) \<or> (r = TimedOut \<and> svStopTimer s) \<or>
       (r = ContextCancelled \<and> svStopCtxDone s) \<Longrightarrow>
       server_step cfg st e s (s\<lparr>svStopping := StopReturned r\<rparr>)"

text \<open>A panic that nothing recovers ends the process; no two calls of Start overlap.\<close>

inductive reachable :: "Config \<Rightarrow> (nat \<Rightarrow> site) \<Rightarrow> (nat \<Rightarrow> env) \<Rightarrow> server \<Rightarrow> bool" for cfg st e where
  new: "reachable cfg st e NewServer"
| stepped: "reachable cfg st e s \<Longrightarrow> \<not> crashed_server s \<Longrightarrow> server_step cfg st e s s' \<Longrightarrow> reachable cfg st e s'"
| start_called:
    "reachable cfg st e s \<Longrightarrow> \<not> crashed_server s \<Longrightarrow> svStarting s \<noteq> BindBootstrap \<Longrightarrow>
       \<forall>ps. svStarting s \<noteq> BindExtra ps \<Longrightarrow> reachable cfg st e (snd (Start s))"
| stop_called: "reachable cfg st e s \<Longrightarrow> \<not> crashed_server s \<Longrightarrow> reachable cfg st e (Stop ctxDone s)"

lemma reachable_steps:
  "(\<lambda>s s'. \<not> crashed_server s \<and> server_step cfg st e s s')\<^sup>*\<^sup>* s s' \<Longrightarrow> reachable cfg st e s \<Longrightarrow> reachable cfg st e s'"
  by (induction rule: rtranclp_induct) (auto intro: stepped)

subsection \<open>What each connection keeps, the server keeps\<close>

definition all_conns :: "(nat \<Rightarrow> conn \<Rightarrow> bool) \<Rightarrow> server \<Rightarrow> bool" where
  "all_conns I s \<longleftrightarrow> (\<forall>k < length (svGoroutines s). \<forall>c. conn_of (svGoroutines s ! k) = Some c \<longrightarrow> I k c)"

lemma conn_of_with_conn: "conn_of g = Some c \<Longrightarrow> conn_of (with_conn c' g) = Some c'"
  by (cases g) auto

lemma conn_of_Some: "conn_of g = Some c \<Longrightarrow> g = Handling c \<or> g = Returned c"
  by (cases g) auto

locale connection_invariant =
  fixes I :: "nat \<Rightarrow> conn \<Rightarrow> bool" and st :: "nat \<Rightarrow> site" and e :: "nat \<Rightarrow> env"
  assumes starts: "handleConnection (st k) now sid ip cport sport stream = Ok c \<Longrightarrow> I k c"
    and moves: "conn_step (st k) ((e k)\<lparr>Cancelled := cn\<rparr>) c c' \<Longrightarrow> I k c \<Longrightarrow> I k c'"
begin

lemma update_conns:
  assumes "all_conns I s" "svGoroutines s' = (svGoroutines s)[k := g]" "\<And>c. conn_of g = Some c \<Longrightarrow> I k c"
  shows "all_conns I s'"
  using assms by (cases "k < length (svGoroutines s)") (auto simp: all_conns_def nth_list_update split: if_splits)

lemma same_conns: "all_conns I s \<Longrightarrow> svGoroutines s' = svGoroutines s \<Longrightarrow> all_conns I s'"
  by (simp add: all_conns_def)

lemma outside_conns: "outside_step s s' \<Longrightarrow> all_conns I s \<Longrightarrow> all_conns I s'"
proof (induction rule: outside_step.induct)
  case (conn_accepted i s l a)
  then show ?case by (auto simp: all_conns_def nth_append)
next
  case (net_moved k s c c')
  then have "I k c'" using moves [OF conn_step.network [OF net_moved(3)]] by (auto simp: all_conns_def)
  then show ?case
    using net_moved(2) by (intro update_conns [OF net_moved.prems, of _ k "with_conn c' (svGoroutines s ! k)"])
      (simp_all add: conn_of_with_conn)
qed (erule same_conns; simp)+

lemma step_conns: "server_step cfg st e s s' \<Longrightarrow> all_conns I s \<Longrightarrow> all_conns I s'"
proof (induction rule: server_step.induct)
  case (outside s s')
  then show ?case by (rule outside_conns)
next
  case (unresolved k s a err)
  then show ?case by (intro update_conns [OF unresolved.prems, of _ k "Abandoned a"]) simp_all
next
  case (resolved k s a c)
  then show ?case using starts by (intro update_conns [OF resolved.prems, of _ k "Handling c"]) auto
next
  case (conn_moved k s c cn c')
  then have "I k c'" using moves by (auto simp: all_conns_def)
  then show ?case
    using conn_moved(2) by (intro update_conns [OF conn_moved.prems, of _ k "with_conn c' (svGoroutines s ! k)"])
      (simp_all add: conn_of_with_conn)
next
  case (handler_returned k s c reason)
  then have "I k c" by (auto simp: all_conns_def)
  then show ?case by (intro update_conns [OF handler_returned.prems, of _ k "Returned c"]) auto
qed (erule same_conns; simp add: open_listener_def)+

lemma reachable_conns: "reachable cfg st e s \<Longrightarrow> all_conns I s"
proof (induction rule: reachable.induct)
  case (stepped s s')
  then show ?case using step_conns by blast
qed (auto simp: all_conns_def NewServer_def Start_def Stop_def)

end

text \<open>
  On the registered handlers: every connection of the server works for the tenant of its session,
  holds no token once it is closed, logs out as it should and uses one kind of token.
\<close>

definition server_sites :: "schedule \<Rightarrow> string \<Rightarrow> (nat \<Rightarrow> http_request list \<Rightarrow> Service) \<Rightarrow> ip_library \<Rightarrow> nat \<Rightarrow> site" where
  "server_sites sched url ts ip k = server_site sched url (ts k) ip"

lemma handleConnection_new:
  assumes "handleConnection st now sid ip cport sport stream = Ok c"
  shows "same_tenant c" "no_tokens_left c" "sent_only allowed (cnWorld c)"
  using assms by (auto simp: handleConnection_def NewConnection_def NewSession_def same_tenant_def no_tokens_left_def sent_only_def)

lemma step_no_tokens: "conn_step st e c c' \<Longrightarrow> no_tokens_left c \<Longrightarrow> no_tokens_left c'"
  by (rule steps_no_tokens [OF r_into_rtranclp])

lemmas server_site_steps = server_tenants.step_same_tenant guarded_server.step_keeps one_kind_server.step_keeps

interpretation tenants_of_server: connection_invariant "\<lambda>k. same_tenant" "server_sites sched url ts ip" e
  for sched url ts ip e
  by unfold_locales (auto simp only: server_sites_def intro: handleConnection_new server_site_steps)

interpretation tokens_of_server: connection_invariant "\<lambda>k. no_tokens_left" "server_sites sched url ts ip" e
  for sched url ts ip e
  by unfold_locales (auto simp only: intro: handleConnection_new step_no_tokens)

interpretation guarded_of_server:
  connection_invariant "\<lambda>k c. sent_only logout_guarded (cnWorld c)" "server_sites sched url ts ip" e for sched url ts ip e
  by unfold_locales (auto simp only: server_sites_def intro: handleConnection_new server_site_steps)

interpretation one_kind_of_server:
  connection_invariant "\<lambda>k c. sent_only one_token_kind (cnWorld c)" "server_sites sched url ts ip" e for sched url ts ip e
  by unfold_locales (auto simp only: server_sites_def intro: handleConnection_new server_site_steps)

subsection \<open>The counters\<close>

definition accounted :: "server \<Rightarrow> bool" where
  "accounted s \<longleftrightarrow>
     svActive s = of_nat (length (filter live (svGoroutines s))) \<and> svTotal s = of_nat (length (svGoroutines s)) \<and>
     ConnectionsTotal (svMetrics s) = length (svGoroutines s) \<and>
     ConnectionsActive (svMetrics s) = int (length (filter live (svGoroutines s))) \<and>
     SessionsActive (svMetrics s) = int (length (filter (\<lambda>g. \<exists>c. g = Handling c) (svGoroutines s))) \<and>
     SessionsCreated (svMetrics s) = length (filter (\<lambda>g. conn_of g \<noteq> None) (svGoroutines s))"

lemma filter_update:
  "k < length xs \<Longrightarrow> length (filter P (xs[k := y])) + (if P (xs ! k) then 1 else 0) =
     length (filter P xs) + (if P y then 1 else 0)"
proof (induction xs arbitrary: k)
  case (Cons x xs)
  then show ?case by (cases k) auto
qed simp

text \<open>Counting the goroutines with a property when one of them changes.\<close>

lemma filter_enter: "k < length xs \<Longrightarrow> \<not> P (xs ! k) \<Longrightarrow> P y \<Longrightarrow> length (filter P (xs[k := y])) = Suc (length (filter P xs))"
  and filter_leave: "k < length xs \<Longrightarrow> P (xs ! k) \<Longrightarrow> \<not> P y \<Longrightarrow> length (filter P xs) = Suc (length (filter P (xs[k := y])))"
  and filter_stay: "k < length xs \<Longrightarrow> P (xs ! k) = P y \<Longrightarrow> length (filter P (xs[k := y])) = length (filter P xs)"
  using filter_update [of k xs P y] by (auto split: if_splits)

lemma moved_accounted:
  assumes "k < length (svGoroutines s)" "conn_of (svGoroutines s ! k) = Some c" "accounted s"
    and "svGoroutines s' = (svGoroutines s)[k := with_conn c' (svGoroutines s ! k)]"
    and "svActive s' = svActive s" "svTotal s' = svTotal s" "svMetrics s' = svMetrics s"
  shows "accounted s'"
  using assms conn_of_Some [OF assms(2)] by (auto simp: accounted_def filter_stay)

lemma outside_accounted: "outside_step s s' \<Longrightarrow> accounted s \<Longrightarrow> accounted s'"
proof (induction rule: outside_step.induct)
  case (net_moved k s c c')
  show ?case by (rule moved_accounted [OF net_moved(1,2,4)]) simp_all
qed (simp_all add: accounted_def)

lemma step_accounted: "server_step cfg st e s s' \<Longrightarrow> accounted s \<Longrightarrow> accounted s'"
proof (induction rule: server_step.induct)
  case (outside s s')
  then show ?case by (rule outside_accounted)
next
  case (unresolved k s a err)
  note f = unresolved(1,2)
  have "length (filter live (svGoroutines s)) = Suc (length (filter live ((svGoroutines s)[k := Abandoned a])))"
    using f by (intro filter_leave) simp_all
  then show ?case using unresolved f by (simp add: accounted_def left_metrics_def filter_stay)
next
  case (resolved k s a c)
  note f = resolved(1,2)
  have "length (filter (\<lambda>g. \<exists>c. g = Handling c) ((svGoroutines s)[k := Handling c])) =
      Suc (length (filter (\<lambda>g. \<exists>c. g = Handling c) (svGoroutines s)))"
    "length (filter (\<lambda>g. conn_of g \<noteq> None) ((svGoroutines s)[k := Handling c])) =
      Suc (length (filter (\<lambda>g. conn_of g \<noteq> None) (svGoroutines s)))"
    using f by (auto intro!: filter_enter)
  then show ?case using resolved f by (simp add: accounted_def filter_stay)
next
  case (conn_moved k s c cn c')
  show ?case by (rule moved_accounted [OF conn_moved(1,2,6)]) simp_all
next
  case (handler_returned k s c reason)
  note f = handler_returned(1,2)
  have "length (filter live (svGoroutines s)) = Suc (length (filter live ((svGoroutines s)[k := Returned c])))"
    "length (filter (\<lambda>g. \<exists>c. g = Handling c) (svGoroutines s)) =
      Suc (length (filter (\<lambda>g. \<exists>c. g = Handling c) ((svGoroutines s)[k := Returned c])))"
    using f by (auto intro!: filter_leave)
  then show ?case using handler_returned f by (simp add: accounted_def left_metrics_def filter_stay)
qed (simp_all add: accounted_def open_listener_def)

lemma reachable_accounted: "reachable cfg st e s \<Longrightarrow> accounted s"
proof (induction rule: reachable.induct)
  case (stepped s s')
  then show ?case using step_accounted by blast
qed (auto simp: accounted_def NewServer_def NewMetrics_def Start_def Stop_def)

subsection \<open>Sockets\<close>

lemma length_close_sockets [simp]: "length (close_sockets ls sks) = length sks"
  unfolding close_sockets_def by (induction ls arbitrary: sks) auto

lemma nth_close_sockets:
  "i < length sks \<Longrightarrow> close_sockets ls sks ! i = (if i \<in> set ls then (sks ! i)\<lparr>skOpen := False\<rparr> else sks ! i)"
proof (induction ls arbitrary: sks)
  case (Cons l ls)
  then show ?case
    using Cons.IH [of "sks[l := (sks ! l)\<lparr>skOpen := False\<rparr>]"]
    by (cases "l = i") (simp_all add: close_sockets_def)
qed (simp add: close_sockets_def)

definition binding :: "server \<Rightarrow> bool" where
  "binding s \<longleftrightarrow> (case svStarting s of BindBootstrap \<Rightarrow> True | BindExtra ps \<Rightarrow> True | _ \<Rightarrow> False)"

definition all_closed :: "server \<Rightarrow> bool" where
  "all_closed s \<longleftrightarrow> list_all (\<lambda>sk. \<not> skOpen sk) (svSockets s)"

text \<open>
  An open socket is one of the listeners, every listener and every accept loop has its socket, and a
  loop is only there after a launch.
\<close>

definition sockets_known :: "server \<Rightarrow> bool" where
  "sockets_known s \<longleftrightarrow>
     (\<forall>i < length (svSockets s). skOpen (svSockets s ! i) \<longrightarrow> i \<in> set (svListeners s)) \<and>
     (\<forall>i \<in> set (svListeners s). i < length (svSockets s))"

lemma outside_sockets_known: "outside_step s s' \<Longrightarrow> sockets_known s \<Longrightarrow> sockets_known s'"
  by (induction rule: outside_step.induct) (simp_all add: sockets_known_def)

lemma step_sockets_known: "server_step cfg st e s s' \<Longrightarrow> sockets_known s \<Longrightarrow> sockets_known s'"
proof (induction rule: server_step.induct)
  case (extra_failed s p ps net err)
  then show ?case by (auto simp: sockets_known_def nth_close_sockets split: if_splits)
next
  case (outside s s')
  then show ?case by (rule outside_sockets_known)
qed (auto simp: sockets_known_def open_listener_def nth_append less_Suc_eq)

lemma reachable_sockets_known: "reachable cfg st e s \<Longrightarrow> sockets_known s"
proof (induction rule: reachable.induct)
  case (stepped s s')
  then show ?case using step_sockets_known by blast
next
  case (stop_called s)
  then show ?case by (auto simp: sockets_known_def Stop_def nth_close_sockets split: if_splits)
qed (auto simp: sockets_known_def NewServer_def Start_def)

lemma Stop_closes: "sockets_known s \<Longrightarrow> svRunning s \<Longrightarrow> all_closed (Stop ctxDone s)"
  by (auto simp: sockets_known_def all_closed_def Stop_def nth_close_sockets list_all_length)

text \<open>A Start that fails on one of the extra ports leaves no socket open; the server still counts as running.\<close>

lemma outside_starting: "outside_step s s' \<Longrightarrow> svStarting s' = svStarting s \<and> svRunning s' = svRunning s \<and> svSockets s' = svSockets s"
  by (induction rule: outside_step.induct) simp_all

lemma extra_failure_closes:
  assumes "sockets_known s" "svStarting s = BindExtra ps" "server_step cfg st e s s'" "svStarting s' = StartFailed err"
  shows "all_closed s' \<and> svListeners s' = [] \<and> svLoops s' = svLoops s"
  using assms(3,2,4,1)
  by (cases rule: server_step.cases)
    (auto simp: open_listener_def all_closed_def sockets_known_def list_all_length nth_close_sockets dest: outside_starting)

subsection \<open>A stopped server comes to rest\<close>

definition stopped :: "server \<Rightarrow> bool" where
  "stopped s \<longleftrightarrow> \<not> svRunning s \<and> \<not> binding s \<and> all_closed s"

lemma stopped_Stop: "sockets_known s \<Longrightarrow> svRunning s \<Longrightarrow> \<not> binding s \<Longrightarrow> stopped (Stop ctxDone s)"
  using Stop_closes [of s ctxDone] by (simp add: stopped_def binding_def Stop_def)

lemma outside_stopped:
  "outside_step s s' \<Longrightarrow> stopped s \<Longrightarrow> stopped s' \<and> length (svGoroutines s') = length (svGoroutines s)"
proof (induction rule: outside_step.induct)
  case (conn_accepted i s l a)
  then show ?case by (simp add: stopped_def all_closed_def list_all_length)
qed (simp_all add: stopped_def binding_def all_closed_def)

lemma step_stopped: "server_step cfg st e s s' \<Longrightarrow> stopped s \<Longrightarrow> stopped s' \<and> length (svGoroutines s') = length (svGoroutines s)"
proof (induction rule: server_step.induct)
  case (outside s s')
  then show ?case by (rule outside_stopped)
qed (simp_all add: stopped_def binding_def all_closed_def)

text \<open>The work that is left: of the goroutines, and of the contexts, the loops and Stop.\<close>

type_synonym work = "nat \<times> nat \<times> nat \<times> nat \<times> nat \<times> nat"

fun goroutine_work :: "goroutine \<Rightarrow> work" where
  "goroutine_work (Resolving a) = (2, 0, 0, 0, 0, 0)"
| "goroutine_work (Handling c) = (1, remaining_work c)"
| "goroutine_work (Returned c) = (0, remaining_work c)"
| "goroutine_work (Abandoned a) = (0, 0, 0, 0, 0, 0)"

definition less_goroutine :: "(work \<times> work) set" where
  "less_goroutine = less_than <*lex*> less_work"

definition loop_work :: "nat \<times> loop_at \<Rightarrow> nat" where
  "loop_work l = (case snd l of AtCheck \<Rightarrow> 2 | InAccept \<Rightarrow> 1 | LoopOver \<Rightarrow> 0)"

definition own_work :: "server \<Rightarrow> nat" where
  "own_work s = (if svCtxDone s then 0 else 1) + (if svStopCtxDone s then 0 else 1) + sum_list (map loop_work (svLoops s)) +
     (if svStopping s = StopWaiting then if svStopTimer s then 1 else 2 else 0)"

definition server_work :: "server \<Rightarrow> work multiset \<times> nat" where
  "server_work s = (mset (map goroutine_work (svGoroutines s)), own_work s)"

definition less_server :: "((work multiset \<times> nat) \<times> (work multiset \<times> nat)) set" where
  "less_server = mult less_goroutine <*lex*> less_than"

lemma wf_less_goroutine: "wf less_goroutine"
  by (simp add: less_goroutine_def wf_less_work wf_lex_prod)

lemma wf_less_server: "wf less_server"
  by (simp add: less_server_def wf_lex_prod wf_mult wf_less_goroutine)

lemma mset_map_update:
  assumes "k < length xs" "(f y, f (xs ! k)) \<in> r"
  shows "(mset (map f (xs[k := y])), mset (map f xs)) \<in> mult r"
proof -
  have "mset (map f xs) = add_mset (f (xs ! k)) (mset (map f xs) - {#f (xs ! k)#})"
    using assms(1) by (metis insert_DiffM length_map nth_map nth_mem_mset)
  moreover have "mset (map f (xs[k := y])) = add_mset (f y) (mset (map f xs) - {#f (xs ! k)#})"
    using assms(1) by (simp add: map_update mset_update)
  ultimately show ?thesis
    using one_step_implies_mult [of "{#f (xs ! k)#}" "{#f y#}" r "mset (map f xs) - {#f (xs ! k)#}"] assms(2) by simp
qed

lemma goroutine_decreases:
  "k < length (svGoroutines s) \<Longrightarrow> (goroutine_work g, goroutine_work (svGoroutines s ! k)) \<in> less_goroutine \<Longrightarrow>
     svGoroutines s' = (svGoroutines s)[k := g] \<Longrightarrow> (server_work s', server_work s) \<in> less_server"
  using mset_map_update [of k "svGoroutines s" goroutine_work g less_goroutine]
  unfolding server_work_def less_server_def in_lex_prod by (simp only: simp_thms)

lemma own_decreases:
  "svGoroutines s' = svGoroutines s \<Longrightarrow> own_work s' < own_work s \<Longrightarrow> (server_work s', server_work s) \<in> less_server"
  by (simp add: server_work_def less_server_def)

lemma sum_list_map_update:
  "i < length xs \<Longrightarrow> sum_list (map f (xs[i := y])) + f (xs ! i) = sum_list (map f xs) + (f y :: nat)"
proof (induction xs arbitrary: i)
  case (Cons x xs)
  then show ?case by (cases i) auto
qed simp

lemma loop_decreases:
  assumes "i < length (svLoops s)" "loop_work y < loop_work (svLoops s ! i)"
  shows "(server_work (s\<lparr>svLoops := (svLoops s)[i := y]\<rparr>), server_work s) \<in> less_server"
  using sum_list_map_update [OF assms(1), of loop_work y] assms(2) by (intro own_decreases) (simp_all add: own_work_def)

text \<open>Bytes arrive on one of the connections.\<close>

definition server_fed :: "server \<Rightarrow> server \<Rightarrow> bool" where
  "server_fed s s' \<longleftrightarrow> list_ex (\<lambda>(g, g'). case (conn_of g, conn_of g') of (Some c, Some c') \<Rightarrow> fed c c' | _ \<Rightarrow> False)
     (zip (svGoroutines s) (svGoroutines s'))"

lemma server_fed_iff:
  assumes "length (svGoroutines s') = length (svGoroutines s)"
  shows "server_fed s s' \<longleftrightarrow> (\<exists>k c c'. k < length (svGoroutines s) \<and> conn_of (svGoroutines s ! k) = Some c \<and>
    conn_of (svGoroutines s' ! k) = Some c' \<and> fed c c')"
  using assms unfolding server_fed_def list_ex_length by (fastforce split: option.splits)

lemma moved_work:
  assumes "k < length (svGoroutines s)" "conn_of (svGoroutines s ! k) = Some c" "conn_step st e c c'"
    and "svGoroutines s' = (svGoroutines s)[k := with_conn c' (svGoroutines s ! k)]"
  shows "server_fed s s' \<or> (server_work s', server_work s) \<in> less_server"
proof (cases "fed c c'")
  case True
  then have "server_fed s s'" using assms conn_of_with_conn [OF assms(2), of c'] by (subst server_fed_iff) (auto intro!: exI [of _ k])
  then show ?thesis ..
next
  case False
  then show ?thesis
    using conn_of_Some [OF assms(2)] conn_step_work [OF assms(3)] assms(1,4)
    by (intro disjI2 goroutine_decreases [of k s "with_conn c' (svGoroutines s ! k)"]) (auto simp: less_goroutine_def)
qed

lemma outside_work:
  "outside_step s s' \<Longrightarrow> stopped s \<Longrightarrow> server_fed s s' \<or> (server_work s', server_work s) \<in> less_server"
proof (induction rule: outside_step.induct)
  case (conn_accepted i s l a)
  then show ?case by (simp add: stopped_def all_closed_def list_all_length)
next
  case (net_moved k s c c')
  show ?case by (rule moved_work [OF net_moved(1,2) conn_step.network [OF net_moved(3)]]) simp
qed (auto intro!: own_decreases simp: own_work_def)

lemma stopped_step_work:
  "server_step cfg st e s s' \<Longrightarrow> stopped s \<Longrightarrow> server_fed s s' \<or> (server_work s', server_work s) \<in> less_server"
proof (induction rule: server_step.induct)
  case (outside s s')
  then show ?case by (rule outside_work)
next
  case (loop_checked i s l)
  then show ?case by (intro disjI2 loop_decreases) (simp_all add: loop_work_def)
next
  case (accept_failed i s l)
  then show ?case by (intro disjI2 loop_decreases) (simp_all add: loop_work_def stopped_def)
next
  case (unresolved k s a err)
  then show ?case by (intro disjI2 goroutine_decreases [of k s "Abandoned a"]) (simp_all add: less_goroutine_def)
next
  case (resolved k s a c)
  then show ?case by (intro disjI2 goroutine_decreases [of k s "Handling c"]) (simp_all add: less_goroutine_def)
next
  case (conn_moved k s c cn c')
  show ?case by (rule moved_work [OF conn_moved(1,2,4)]) simp
next
  case (handler_returned k s c reason)
  then show ?case by (intro disjI2 goroutine_decreases [of k s "Returned c"]) (simp_all add: less_goroutine_def)
next
  case (stop_returned s r)
  then show ?case by (intro disjI2 own_decreases) (simp_all add: own_work_def)
qed (auto simp: stopped_def binding_def intro!: own_decreases simp: own_work_def)

lemma stopped_endless_is_fed:
  assumes "stopped (f 0)" "\<And>n. server_step cfg st e (f n) (f (Suc n))"
  shows "\<exists>m \<ge> n. server_fed (f m) (f (Suc m))"
proof -
  have "stopped (f n)" for n using assms step_stopped by (induction n) blast+
  then show ?thesis
    using stopped_step_work [OF assms(2)] by (intro marked_for_ever [OF wf_less_server, where g = "\<lambda>n. server_work (f n)"]) blast
qed

subsection \<open>Where it comes to rest\<close>

lemma handleConnection_no_panic: "handleConnection st now sid ip cport sport stream \<noteq> Panic"
  by (auto simp: handleConnection_def ResolveAtConnect_def Let_def split: option.split)

lemma sees_cancelled: "sees_context done (\<lambda>pre. Some Canceled)"
  by (simp add: sees_context_def)

text \<open>
  A connection at rest waits for its client, was closed and logged out with no logout pending, or was
  abandoned, with its socket open.
\<close>

fun goroutine_rests :: "goroutine \<Rightarrow> bool" where
  "goroutine_rests (Resolving a) \<longleftrightarrow> False"
| "goroutine_rests (Handling c) \<longleftrightarrow> waiting c \<and> wBackground (cnWorld c) = []"
| "goroutine_rests (Returned c) \<longleftrightarrow>
     (case cnPhase c of Closed reason \<Rightarrow> True | _ \<Rightarrow> False) \<and> wBackground (cnWorld c) = [] \<and>
     AuthToken (wSession (cnWorld c)) = [] \<and> refreshToken (wSession (cnWorld c)) = []"
| "goroutine_rests (Abandoned a) \<longleftrightarrow> True"

fun waits_for_client :: "goroutine \<Rightarrow> bool" where
  "waits_for_client (Handling c) \<longleftrightarrow> waiting c"
| "waits_for_client _ \<longleftrightarrow> False"

definition at_rest :: "server \<Rightarrow> bool" where
  "at_rest s \<longleftrightarrow> list_all goroutine_rests (svGoroutines s) \<and> list_all (\<lambda>l. snd l = LoopOver) (svLoops s) \<and>
     svActive s = of_nat (length (filter waits_for_client (svGoroutines s))) \<and>
     (svStopping s = StopWaiting \<longrightarrow> list_ex waits_for_client (svGoroutines s) \<and> \<not> svStopCtxDone s \<and> \<not> svStopTimer s)"

text \<open>Only a connection that is closed has a goroutine that returned.\<close>

fun over_if_returned :: "goroutine \<Rightarrow> bool" where
  "over_if_returned (Returned c) \<longleftrightarrow> (case cnPhase c of Serving x \<Rightarrow> False | _ \<Rightarrow> True)"
| "over_if_returned _ \<longleftrightarrow> True"

definition returned_closed :: "server \<Rightarrow> bool" where
  "returned_closed s \<longleftrightarrow> list_all over_if_returned (svGoroutines s)"

lemma list_all_update: "list_all P xs \<Longrightarrow> P y \<Longrightarrow> list_all P (xs[k := y])"
  unfolding list_all_iff using set_update_subset_insert [of xs k y] by blast

lemma step_not_serving: "conn_step st e c c' \<Longrightarrow> \<forall>x. cnPhase c \<noteq> Serving x \<Longrightarrow> \<forall>x. cnPhase c' \<noteq> Serving x"
  by (induction rule: conn_step.induct) (auto dest: net_step_same)

lemma moved_returned_closed:
  assumes "k < length (svGoroutines s)" "conn_of (svGoroutines s ! k) = Some c" "conn_step st e c c'" "returned_closed s"
    and "svGoroutines s' = (svGoroutines s)[k := with_conn c' (svGoroutines s ! k)]"
  shows "returned_closed s'"
proof (cases "svGoroutines s ! k")
  case (Returned r)
  then have "\<forall>x. cnPhase c \<noteq> Serving x"
    using assms(1,2,4) by (fastforce simp: returned_closed_def list_all_length split: phase.splits)
  then have "\<forall>x. cnPhase c' \<noteq> Serving x" using step_not_serving [OF assms(3)] by blast
  then show ?thesis using assms(4,5) Returned by (auto simp: returned_closed_def intro!: list_all_update split: phase.split)
qed (use assms in \<open>auto simp: returned_closed_def intro!: list_all_update\<close>)

lemma outside_returned_closed: "outside_step s s' \<Longrightarrow> returned_closed s \<Longrightarrow> returned_closed s'"
proof (induction rule: outside_step.induct)
  case (net_moved k s c c')
  show ?case by (rule moved_returned_closed [OF net_moved(1,2) conn_step.network [OF net_moved(3)] net_moved(4)]) simp
qed (auto simp: returned_closed_def)

lemma step_returned_closed: "server_step cfg st e s s' \<Longrightarrow> returned_closed s \<Longrightarrow> returned_closed s'"
proof (induction rule: server_step.induct)
  case (outside s s')
  then show ?case by (rule outside_returned_closed)
next
  case (conn_moved k s c cn c')
  show ?case by (rule moved_returned_closed [OF conn_moved(1,2,4,6)]) simp
qed (auto simp: returned_closed_def open_listener_def intro!: list_all_update)

lemma reachable_returned_closed: "reachable cfg st e s \<Longrightarrow> returned_closed s"
proof (induction rule: reachable.induct)
  case (stepped s s')
  then show ?case using step_returned_closed by blast
qed (auto simp: returned_closed_def NewServer_def Start_def Stop_def)

text \<open>A server that only the outside can move.\<close>

definition left_to_outside :: "Config \<Rightarrow> (nat \<Rightarrow> site) \<Rightarrow> (nat \<Rightarrow> env) \<Rightarrow> server \<Rightarrow> bool" where
  "left_to_outside cfg st e s \<longleftrightarrow> (\<forall>s'. server_step cfg st e s s' \<longrightarrow> outside_step s s')"

text \<open>No step of the server itself looks like one from outside.\<close>

lemma outside_goroutines:
  assumes "outside_step s s'" "k < length (svGoroutines s)"
  shows "svGoroutines s' ! k = svGoroutines s ! k \<or>
    (\<exists>c c'. conn_of (svGoroutines s ! k) = Some c \<and> net_step c c' \<and> svGoroutines s' ! k = with_conn c' (svGoroutines s ! k))"
  using assms
proof (induction rule: outside_step.induct)
  case (net_moved k' s c c')
  then show ?case by (cases "k' = k") auto
qed (auto simp: nth_append)

lemma outside_loops: "outside_step s s' \<Longrightarrow> svLoops s' = svLoops s \<or> length (svGoroutines s') = Suc (length (svGoroutines s))"
  and outside_stopping: "outside_step s s' \<Longrightarrow> svStopping s' = svStopping s"
  by (induction rule: outside_step.induct) simp_all

lemma conn_cannot_move:
  assumes "left_to_outside cfg st e s" "k < length (svGoroutines s)" "conn_of (svGoroutines s ! k) = Some c"
    and "conn_step (st k) ((e k)\<lparr>Cancelled := \<lambda>pre. Some Canceled\<rparr>) c c'"
  shows "net_step c c'"
proof (rule ccontr)
  assume n: "\<not> net_step c c'"
  obtain s1 where s1: "server_step cfg st e s s1"
    "svGoroutines s1 = (svGoroutines s)[k := with_conn c' (svGoroutines s ! k)]"
    using server_step.conn_moved [of k s c "\<lambda>pre. Some Canceled" st e c' cfg, OF assms(2,3) sees_cancelled assms(4) n] by fastforce
  then have "outside_step s s1" using assms(1) by (simp add: left_to_outside_def)
  then have "svGoroutines s1 ! k = svGoroutines s ! k \<or>
    (\<exists>d d'. conn_of (svGoroutines s ! k) = Some d \<and> net_step d d' \<and> svGoroutines s1 ! k = with_conn d' (svGoroutines s ! k))"
    using assms(2) by (rule outside_goroutines)
  moreover have "conn_of (svGoroutines s1 ! k) = Some c'" using s1(2) assms(2) conn_of_with_conn [OF assms(3)] by simp
  ultimately have "c' = c \<or> net_step c c'" using assms(3) conn_of_with_conn by fastforce
  then show False using n conn_step_work [OF assms(4)] wf_less_work by (auto simp: fed_def)
qed

lemma stuck_goroutine:
  assumes "reachable cfg (server_sites sched url ts ip) e s" "left_to_outside cfg (server_sites sched url ts ip) e s"
    and "k < length (svGoroutines s)" "\<not> crashed_server s"
  shows "goroutine_rests (svGoroutines s ! k)"
proof -
  let ?st = "server_sites sched url ts ip"
  have no_crash: "cnPhase c \<noteq> Crashed" if "conn_of (svGoroutines s ! k) = Some c" for c
    using that assms(3,4) nth_mem by (fastforce simp: crashed_server_def)
  note still = conn_cannot_move [OF assms(2,3)]
  have background: "wBackground (cnWorld c) = []" if c: "conn_of (svGoroutines s ! k) = Some c" for c
    using logout_progress [OF _ no_crash [OF c], of "?st k" "(e k)\<lparr>Cancelled := \<lambda>pre. Some Canceled\<rparr>"] still [OF c] by blast
  have outside: "outside_step s s'" if "server_step cfg ?st e s s'" for s' using that assms(2) by (simp add: left_to_outside_def)
  have same: "svGoroutines s' ! k = svGoroutines s ! k \<or> conn_of (svGoroutines s ! k) \<noteq> None \<and> live (svGoroutines s' ! k) = live (svGoroutines s ! k)"
    if "server_step cfg ?st e s s'" for s'
    using outside_goroutines [OF outside [OF that] assms(3)] by (cases "svGoroutines s ! k") auto
  show ?thesis
  proof (cases "svGoroutines s ! k")
    case (Resolving a)
    show ?thesis
    proof (cases "handleConnection (?st k) (acTime a) (acSessionID a) (acClientIP a) (acClientPort a) (acServerPort a) (acStream a)")
      case (Ok c)
      from same [OF server_step.resolved [of k s a ?st c cfg e, OF assms(3) Resolving Ok]] show ?thesis using Resolving assms(3) by simp
    next
      case (Err err)
      from same [OF server_step.unresolved [of k s a ?st err cfg e, OF assms(3) Resolving Err]] show ?thesis using Resolving assms(3) by simp
    qed (simp add: handleConnection_no_panic)
  next
    case (Handling c)
    then have c: "conn_of (svGoroutines s ! k) = Some c" by simp
    show ?thesis
    proof (cases "cnPhase c")
      case (Serving x)
      have "same_tenant c" using tenants_of_server.reachable_conns [OF assms(1)] c assms(3) by (auto simp: all_conns_def)
      then obtain tc where "sessTenant (wSession (cnWorld c)) = Some tc" using server_tenants.same_tenant_some by blast
      from conn_progress [OF Serving this, of "?st k" "(e k)\<lparr>Cancelled := \<lambda>pre. Some Canceled\<rparr>"] still [OF c]
      show ?thesis using background [OF c] Handling by auto
    next
      case (Closed reason)
      from same [OF server_step.handler_returned [OF assms(3) Handling Closed]] show ?thesis using Handling assms(3) by simp
    qed (use no_crash [OF c] in blast)
  next
    case (Returned c)
    then have c: "conn_of (svGoroutines s ! k) = Some c" by simp
    have "over_if_returned (svGoroutines s ! k)"
      using reachable_returned_closed [OF assms(1)] assms(3) by (simp add: returned_closed_def list_all_length)
    moreover have "no_tokens_left c"
      using tokens_of_server.reachable_conns [OF assms(1)] assms(3) c by (auto simp: all_conns_def)
    ultimately show ?thesis using background [OF c] no_crash [OF c] Returned
      by (cases "cnPhase c") (auto simp: no_tokens_left_def)
  qed simp
qed

lemma stuck_at_rest:
  assumes "reachable cfg (server_sites sched url ts ip) e s" "left_to_outside cfg (server_sites sched url ts ip) e s"
    and "\<not> crashed_server s" "\<not> svRunning s"
  shows "at_rest s"
proof -
  let ?st = "server_sites sched url ts ip"
  have outside: "outside_step s s'" if "server_step cfg ?st e s s'" for s' using that assms(2) by (simp add: left_to_outside_def)
  have g: "goroutine_rests g" if "g \<in> set (svGoroutines s)" for g
    using that stuck_goroutine [OF assms(1,2) _ assms(3)] by (auto simp: in_set_conv_nth)
  have "live g = waits_for_client g" if "g \<in> set (svGoroutines s)" for g using g [OF that] by (cases g) auto
  then have live: "filter live (svGoroutines s) = filter waits_for_client (svGoroutines s)" by (rule filter_cong [OF refl])
  then have active: "svActive s = of_nat (length (filter waits_for_client (svGoroutines s)))"
    using reachable_accounted [OF assms(1)] by (simp add: accounted_def)
  have loops: "snd (svLoops s ! i) = LoopOver" if i: "i < length (svLoops s)" for i
  proof (cases "svLoops s ! i")
    case (Pair l a)
    show ?thesis
    proof (cases a)
      case AtCheck
      note step = server_step.loop_checked [OF i Pair [unfolded AtCheck], of cfg ?st e]
      from outside_loops [OF outside [OF step]] show ?thesis
        using i Pair AtCheck by (auto dest: arg_cong [of _ _ "\<lambda>xs. xs ! i"] split: if_splits)
    next
      case InAccept
      note step = server_step.accept_failed [OF i Pair [unfolded InAccept], of cfg ?st e]
      from outside_loops [OF outside [OF step]] show ?thesis
        using i Pair InAccept by (auto dest: arg_cong [of _ _ "\<lambda>xs. xs ! i"] split: if_splits)
    qed (use Pair in simp)
  qed
  have stop: "list_ex waits_for_client (svGoroutines s) \<and> \<not> svStopCtxDone s \<and> \<not> svStopTimer s" if w: "svStopping s = StopWaiting"
  proof (rule ccontr)
    assume "\<not> ?thesis"
    then have "\<exists>r. (r = AllClosed \<and> filter live (svGoroutines s) = []) \<or> (r = TimedOut \<and> svStopTimer s) \<or>
       (r = ContextCancelled \<and> svStopCtxDone s)"
      unfolding live by (auto simp: list_ex_iff filter_empty_conv)
    then obtain r where r: "(r = AllClosed \<and> filter live (svGoroutines s) = []) \<or> (r = TimedOut \<and> svStopTimer s) \<or>
       (r = ContextCancelled \<and> svStopCtxDone s)" ..
    from outside_stopping [OF outside [OF server_step.stop_returned [OF w r]]] w show False by simp
  qed
  show ?thesis using g loops active stop by (simp add: at_rest_def list_all_length list_all_iff)
qed

text \<open>Runs of the server among its surroundings, and by itself.\<close>

definition server_run :: "Config \<Rightarrow> (nat \<Rightarrow> site) \<Rightarrow> (nat \<Rightarrow> env) \<Rightarrow> server \<Rightarrow> server \<Rightarrow> bool" where
  "server_run cfg st e = (\<lambda>s s'. \<not> crashed_server s \<and> server_step cfg st e s s')\<^sup>*\<^sup>*"

definition own_run :: "Config \<Rightarrow> (nat \<Rightarrow> site) \<Rightarrow> (nat \<Rightarrow> env) \<Rightarrow> server \<Rightarrow> server \<Rightarrow> bool" where
  "own_run cfg st e = (\<lambda>s s'. \<not> crashed_server s \<and> server_step cfg st e s s' \<and> \<not> outside_step s s')\<^sup>*\<^sup>*"

lemma run_reachable: "server_run cfg st e s s' \<Longrightarrow> reachable cfg st e s \<Longrightarrow> reachable cfg st e s'"
  unfolding server_run_def by (rule reachable_steps)

lemma run_stopped: "server_run cfg st e s s' \<Longrightarrow> stopped s \<Longrightarrow> stopped s' \<and> length (svGoroutines s') = length (svGoroutines s)"
  unfolding server_run_def by (induction rule: rtranclp_induct) (auto dest: step_stopped)

text \<open>The server does not feed itself.\<close>

lemma same_not_fed: "svGoroutines s' = svGoroutines s \<Longrightarrow> \<not> server_fed s s'"
  by (auto simp: server_fed_iff fed_def)

lemma changed_not_fed:
  assumes "svGoroutines s' = (svGoroutines s)[k := g]"
    and "\<And>c c'. conn_of (svGoroutines s ! k) = Some c \<Longrightarrow> conn_of g = Some c' \<Longrightarrow> \<not> fed c c'"
  shows "\<not> server_fed s s'"
proof
  assume "server_fed s s'"
  then obtain i c c' where i: "i < length (svGoroutines s)" "conn_of (svGoroutines s ! i) = Some c"
    "conn_of (svGoroutines s' ! i) = Some c'" "fed c c'"
    using assms(1) by (auto simp: server_fed_iff)
  then show False using assms by (cases "i = k") (auto simp: fed_def)
qed

lemma own_not_fed: "server_step cfg st e s s' \<Longrightarrow> \<not> outside_step s s' \<Longrightarrow> \<not> server_fed s s'"
proof (induction rule: server_step.induct)
  case (unresolved k s a err)
  show ?case by (rule changed_not_fed [of _ _ k "Abandoned a"]) simp_all
next
  case (resolved k s a c)
  show ?case by (rule changed_not_fed [of _ _ k "Handling c"]) (use resolved in simp_all)
next
  case (conn_moved k s c cn c')
  have "\<not> fed c c'" using fed_by_network [OF conn_moved(4)] conn_moved(5) by blast
  then show ?case using conn_moved(2) conn_of_with_conn [OF conn_moved(2)]
    by (intro changed_not_fed [of _ _ k "with_conn c' (svGoroutines s ! k)"]) simp_all
next
  case (handler_returned k s c reason)
  show ?case by (rule changed_not_fed [of _ _ k "Returned c"]) (use handler_returned in \<open>simp_all add: fed_def\<close>)
qed (auto intro!: same_not_fed simp: open_listener_def)

lemma stopped_reaches_rest:
  assumes "stopped s" "reachable cfg (server_sites sched url ts ip) e s"
  shows "\<exists>s'. own_run cfg (server_sites sched url ts ip) e s s' \<and> (crashed_server s' \<or> at_rest s')"
  using assms
proof (induction "server_work s" arbitrary: s rule: wf_induct_rule [OF wf_less_server])
  case (1 s)
  let ?st = "server_sites sched url ts ip"
  have refl: "own_run cfg ?st e s s" by (simp add: own_run_def)
  show ?case
  proof (cases "crashed_server s \<or> left_to_outside cfg ?st e s")
    case True
    then show ?thesis using refl stuck_at_rest [OF 1(3)] 1(2) by (auto simp: stopped_def)
  next
    case False
    then obtain s1 where s1: "server_step cfg ?st e s s1" "\<not> outside_step s s1" "\<not> crashed_server s"
      by (auto simp: left_to_outside_def)
    have less: "(server_work s1, server_work s) \<in> less_server"
      using stopped_step_work [OF s1(1) 1(2)] own_not_fed [OF s1(1,2)] by blast
    have "stopped s1" using step_stopped [OF s1(1) 1(2)] by blast
    moreover have "reachable cfg ?st e s1" by (rule reachable.stepped [OF 1(3) s1(3,1)])
    ultimately obtain s' where "own_run cfg ?st e s1 s'" "crashed_server s' \<or> at_rest s'"
      using 1(1) [OF less] by blast
    moreover have "own_run cfg ?st e s s1" unfolding own_run_def using s1 by blast
    ultimately show ?thesis unfolding own_run_def by (meson rtranclp_trans)
  qed
qed

text \<open>Once Stop has seen every connection close, nothing is left to log out.\<close>

lemma all_closed_logged_out:
  assumes "reachable cfg (server_sites sched url ts ip) e s" "filter live (svGoroutines s) = []"
    and "k < length (svGoroutines s)" "conn_of (svGoroutines s ! k) = Some c" "cnPhase c \<noteq> Crashed"
  shows "AuthToken (wSession (cnWorld c)) = [] \<and> refreshToken (wSession (cnWorld c)) = []"
proof -
  have "no_tokens_left c" using tokens_of_server.reachable_conns [OF assms(1)] assms(3,4) by (auto simp: all_conns_def)
  moreover have "over_if_returned (svGoroutines s ! k)"
    using reachable_returned_closed [OF assms(1)] assms(3) by (simp add: returned_closed_def list_all_length)
  moreover have "\<not> live (svGoroutines s ! k)" using assms(2,3) by (auto simp: filter_empty_conv)
  ultimately show ?thesis using assms(4,5) by (cases "svGoroutines s ! k") (auto simp: no_tokens_left_def split: phase.splits)
qed

text \<open>
  The shutdown of \<open>main\<close> does not wait: its context is already cancelled, so Stop can return at once and leave
  every connection where it was.
\<close>

lemma shutdown_leaves_connections:
  assumes "svRunning s"
  shows "server_step cfg st e (main_shutdown s) ((main_shutdown s)\<lparr>svStopping := StopReturned ContextCancelled\<rparr>) \<and>
    svGoroutines (main_shutdown s) = svGoroutines s"
  using assms server_step.stop_returned [of "main_shutdown s" ContextCancelled cfg st e] by (simp add: main_shutdown_def Stop_def)

text \<open>Running is given up by Stop only, also when a Start fails.\<close>

lemma step_running: "server_step cfg st e s s' \<Longrightarrow> svRunning s' = svRunning s"
  by (induction rule: server_step.induct) (simp_all add: open_listener_def outside_starting)

text \<open>A loop of a running server whose Accept keeps failing, as on a socket that is closed, spins.\<close>

lemma failing_loop_spins:
  assumes "svRunning s" "\<not> svCtxDone s" "i < length (svLoops s)" "svLoops s ! i = (l, AtCheck)"
  shows "server_step cfg st e s (s\<lparr>svLoops := (svLoops s)[i := (l, InAccept)]\<rparr>) \<and>
    server_step cfg st e (s\<lparr>svLoops := (svLoops s)[i := (l, InAccept)]\<rparr>) s"
proof
  let ?s = "s\<lparr>svLoops := (svLoops s)[i := (l, InAccept)]\<rparr>"
  show "server_step cfg st e s ?s" using server_step.loop_checked [OF assms(3,4), of cfg st e] assms(2) by simp
  have "(svLoops s)[i := (l, AtCheck)] = svLoops s" using assms(4) list_update_id by metis
  then show "server_step cfg st e ?s s"
    using server_step.accept_failed [of i ?s l cfg st e] assms by simp
qed

text \<open>The listeners of a stopped server stay in the table: a second Start launches loops on them.\<close>

lemma restart_keeps_listeners:
  "svRunning s \<Longrightarrow> svListeners (snd (Start (Stop ctxDone s))) = svListeners s"
  by (simp add: Start_def Stop_def)

text \<open>The handlers of the server are registered one by one.\<close>

lemma RegisterAllHandlers_fold:
  "RegisterAllHandlers sched url =
     fold (\<lambda>(code, h). RegisterHandler code h) (registered_handlers sched (handler_config url)) (\<lambda>code. None)"
  by (rule ext) (simp add: RegisterAllHandlers_def registered_handlers_def RegisterHandler_def)

text \<open>Every message that has a handler has a name of its own in the metrics, but for the resend request 96.\<close>

lemma registered_named:
  "RegisterAllHandlers sched url code = Some h \<Longrightarrow> GetMessageTypeName code = ''unknown'' \<longleftrightarrow> code = RequestSCResend"
  by (auto simp: RegisterAllHandlers_def registered_handlers_def GetMessageTypeName_def message_type_names_def split: if_splits)

end
