(* ===== verification/Reload.thy ===== *)
theory Reload
  imports Tenant_Config
begin

text \<open>
  \<open>internal/config/reload.go\<close>: the periodic reload of the tenant configuration. The changes
  between two configurations, and a reload from what each loader returned. Two Go slices or
  maps that differ only in being nil or empty are the same value here. The ticker and the
  goroutine that waits for it are not modelled: a reload is one step, under the reloader's lock.
\<close>

record configChange =
  ccTenant :: string
  ccField :: string
  ccOldValue :: string
  ccNewValue :: string

definition FormatBool :: "bool \<Rightarrow> string" where
  "FormatBool b = (if b then ''true'' else ''false'')"

definition escapeDelimiter :: "string \<Rightarrow> string" where
  "escapeDelimiter s =
     ReplaceAll (ReplaceAll (ReplaceAll s [CHR 0x0D] [CHR 0x5C, CHR ''r'']) [CHR 0x0A] [CHR 0x5C, CHR ''n''])
       [CHR 0x09] [CHR 0x5C, CHR ''t'']"

definition deepCompareTenants :: "TenantConfig \<Rightarrow> TenantConfig \<Rightarrow> bool" where
  "deepCompareTenants old new \<longleftrightarrow> old = new"

definition change :: "string \<Rightarrow> string \<Rightarrow> bool \<Rightarrow> string \<Rightarrow> string \<Rightarrow> configChange list" where
  "change tenantName field differs oldValue newValue =
     (if differs then [\<lparr>ccTenant = tenantName, ccField = field, ccOldValue = oldValue, ccNewValue = newValue\<rparr>]
      else [])"

text \<open>A field of text, of text with control characters, a flag and a number.\<close>

definition change_str :: "string \<Rightarrow> TenantConfig \<Rightarrow> TenantConfig \<Rightarrow> string \<Rightarrow> (TenantConfig \<Rightarrow> string) \<Rightarrow> configChange list" where
  "change_str tenantName old new field sel = change tenantName field (sel old \<noteq> sel new) (sel old) (sel new)"

definition change_delim :: "string \<Rightarrow> TenantConfig \<Rightarrow> TenantConfig \<Rightarrow> string \<Rightarrow> (TenantConfig \<Rightarrow> string) \<Rightarrow> configChange list" where
  "change_delim tenantName old new field sel =
     change tenantName field (sel old \<noteq> sel new) (escapeDelimiter (sel old)) (escapeDelimiter (sel new))"

definition change_flag :: "string \<Rightarrow> TenantConfig \<Rightarrow> TenantConfig \<Rightarrow> string \<Rightarrow> (TenantConfig \<Rightarrow> bool) \<Rightarrow> configChange list" where
  "change_flag tenantName old new field sel =
     change tenantName field (sel old \<noteq> sel new) (FormatBool (sel old)) (FormatBool (sel new))"

definition change_num :: "string \<Rightarrow> TenantConfig \<Rightarrow> TenantConfig \<Rightarrow> string \<Rightarrow> (TenantConfig \<Rightarrow> int) \<Rightarrow> configChange list" where
  "change_num tenantName old new field sel =
     change tenantName field (sel old \<noteq> sel new) (int_str (sel old)) (int_str (sel new))"

text \<open>The comparison of two configurations of a tenant, in three parts: as it stands in the source.\<close>

definition compare_protocol :: "string \<Rightarrow> TenantConfig \<Rightarrow> TenantConfig \<Rightarrow> configChange list" where
  "compare_protocol tenantName old new =
     change_flag tenantName old new ''ErrorDetectionEnabled'' ErrorDetectionEnabled @
     change_delim tenantName old new ''MessageDelimiter'' MessageDelimiter @
     change_delim tenantName old new ''FieldDelimiter'' FieldDelimiter @
     change_str tenantName old new ''Charset'' Charset @
     change_str tenantName old new ''Timezone'' Timezone @
     change_str tenantName old new ''LogLevel'' LogLevel @
     change_str tenantName old new ''OkapiURL'' OkapiURL @
     change_str tenantName old new ''OkapiTenant'' OkapiTenant"

definition compare_policies :: "string \<Rightarrow> TenantConfig \<Rightarrow> TenantConfig \<Rightarrow> configChange list" where
  "compare_policies tenantName old new =
     change_flag tenantName old new ''PatronPasswordVerificationRequired'' PatronPasswordVerificationRequired @
     change_flag tenantName old new ''UsePinForPatronVerification'' UsePinForPatronVerification @
     change_str tenantName old new ''InvalidCheckinStatuses'' InvalidCheckinStatuses @
     change_str tenantName old new ''ClaimedReturnedResolution'' ClaimedReturnedResolution @
     change_flag tenantName old new ''StatusUpdateOk'' StatusUpdateOk @
     change_flag tenantName old new ''OfflineOk'' OfflineOk @
     change_num tenantName old new ''TimeoutPeriod'' TimeoutPeriod @
     change_num tenantName old new ''RetriesAllowed'' RetriesAllowed @
     change_str tenantName old new ''Currency'' Currency @
     change_num tenantName old new ''RenewAllMaxItems'' RenewAllMaxItems @
     change_flag tenantName old new ''AcceptBulkPayment'' AcceptBulkPayment @
     change_str tenantName old new ''PaymentMethod'' PaymentMethod @
     change_flag tenantName old new ''NotifyPatron'' NotifyPatron"

definition compare_structures :: "string \<Rightarrow> TenantConfig \<Rightarrow> TenantConfig \<Rightarrow> configChange list" where
  "compare_structures tenantName old new =
     change tenantName ''SupportedMessages'' (SupportedMessages old \<noteq> SupportedMessages new)
       (nat_str (length (SupportedMessages old)) @ '' messages'')
       (nat_str (length (SupportedMessages new)) @ '' messages'') @
     change tenantName ''CirculationStatusMapping''
       (set (CirculationStatusMapping old) \<noteq> set (CirculationStatusMapping new))
       (nat_str (length (CirculationStatusMapping old)) @ '' mappings'')
       (nat_str (length (CirculationStatusMapping new)) @ '' mappings'') @
     change tenantName ''RollingRenewals'' (RollingRenewals old \<noteq> RollingRenewals new) ''changed'' ''changed'' @
     change tenantName ''PatronCustomFields'' (PatronCustomFields old \<noteq> PatronCustomFields new) ''changed'' ''changed''"

definition compareFields :: "string \<Rightarrow> TenantConfig \<Rightarrow> TenantConfig \<Rightarrow> configChange list" where
  "compareFields tenantName old new =
     compare_protocol tenantName old new @ compare_policies tenantName old new @ compare_structures tenantName old new"

lemmas compare_defs = compareFields_def compare_protocol_def compare_policies_def compare_structures_def
  change_str_def change_delim_def change_flag_def change_num_def

definition findConfigChanges ::
  "(string \<times> TenantConfig) list \<Rightarrow> (string \<times> TenantConfig) list \<Rightarrow> configChange list" where
  "findConfigChanges oldTenants newTenants =
     concat (map (\<lambda>(name, _). change name ''tenant'' (map_of oldTenants name = None) [] ''added'') newTenants) @
     concat (map (\<lambda>(name, _). change name ''tenant'' (map_of newTenants name = None) ''removed'' []) oldTenants) @
     concat (map (\<lambda>(name, newCfg).
        case map_of oldTenants name of
          None \<Rightarrow> []
        | Some oldCfg \<Rightarrow> if deepCompareTenants oldCfg newCfg then [] else compareFields name oldCfg newCfg) newTenants)"

definition hasChanged :: "Config \<Rightarrow> (string \<times> TenantConfig) list \<Rightarrow> bool" where
  "hasChanged cfg newTenants \<longleftrightarrow> findConfigChanges (Tenants cfg) newTenants \<noteq> []"

text \<open>
  The texts that \<open>logConfigChanges\<close> makes of the changes. They go nowhere: the source assigns them to the
  blank identifier.
\<close>

definition arrow :: string where "arrow = '' '' @ [CHR 0xE2, CHR 0x86, CHR 0x92] @ '' ''"

definition quoted :: "string \<Rightarrow> string" where "quoted s = [CHR 0x27] @ s @ [CHR 0x27]"

definition logConfigChanges :: "configChange list \<Rightarrow> string list" where
  "logConfigChanges changes =
     concat (map (\<lambda>c.
       if ccField c = ''tenant'' then
         (if ccNewValue c = ''added'' then [''Tenant '' @ quoted (ccTenant c) @ '' added'']
          else if ccOldValue c = ''removed'' then [''Tenant '' @ quoted (ccTenant c) @ '' removed'']
          else [])
       else [''Tenant '' @ quoted (ccTenant c) @ '' configuration changed: '' @ ccField c @ '' '' @
         quoted (ccOldValue c) @ arrow @ quoted (ccNewValue c)]) changes)"

text \<open>What the loaders return, in order: a loader that fails is skipped.\<close>

type_synonym load_result = "(string, TenantConfig list \<times> SCTenantConfig list) go_result"

definition loaded_tenants :: "load_result list \<Rightarrow> TenantConfig list" where
  "loaded_tenants results = concat (map (\<lambda>r. case r of Ok (ts, _) \<Rightarrow> ts | _ \<Rightarrow> []) results)"

definition loaded_scTenants :: "load_result list \<Rightarrow> SCTenantConfig list" where
  "loaded_scTenants results = concat (map (\<lambda>r. case r of Ok (_, scs) \<Rightarrow> scs | _ \<Rightarrow> []) results)"

text \<open>
  The result of a reload: the error, or the configuration and whether the callback ran (which
  reinitialises the tenant service).
\<close>

definition reload :: "load_result list \<Rightarrow> Config \<Rightarrow> (string, Config \<times> bool) go_result" where
  "reload results cfg =
     (let newOrdered = loaded_tenants results;
          newTenants = fold (\<lambda>tc m. AList.update (Tenant tc) tc m) newOrdered []
      in if newTenants = [] \<and> Tenants cfg \<noteq> [] then Err ''all config sources failed to load''
         else if hasChanged cfg newTenants
         then Ok (SetTenants newTenants (loaded_scTenants results) newOrdered cfg, True)
         else Ok (cfg, False))"

subsection \<open>When a reload takes effect\<close>

lemma change_Nil [simp]: "change t f b x y = [] \<longleftrightarrow> \<not> b"
  by (simp add: change_def)

lemma added_Nil:
  "concat (map (\<lambda>(name, _). change name f (map_of old name = None) x y) new) = [] \<longleftrightarrow>
     fst ` set new \<subseteq> fst ` set old"
  by (auto simp: map_of_eq_None_iff image_subset_iff case_prod_unfold)

lemma compared_Nil:
  "concat (map (\<lambda>(name, newCfg).
        case map_of old name of
          None \<Rightarrow> []
        | Some oldCfg \<Rightarrow> if deepCompareTenants oldCfg newCfg then [] else compareFields name oldCfg newCfg) new) = [] \<longleftrightarrow>
     (\<forall>(name, n) \<in> set new. \<forall>p. map_of old name = Some p \<longrightarrow> p = n \<or> compareFields name p n = [])"
  by (force simp: deepCompareTenants_def split: option.splits if_splits)

lemma findConfigChanges_Nil:
  "findConfigChanges old new = [] \<longleftrightarrow>
     fst ` set old = fst ` set new \<and>
     (\<forall>(name, n) \<in> set new. \<forall>p. map_of old name = Some p \<longrightarrow> p = n \<or> compareFields name p n = [])"
  unfolding findConfigChanges_def append_is_Nil_conv added_Nil compared_Nil by blast

text \<open>When every loader fails the last good configuration is kept.\<close>

lemma fold_update_keys:
  "fst ` set (fold (\<lambda>tc m. AList.update (Tenant tc) tc m) ts m) = fst ` set m \<union> Tenant ` set ts"
  by (induction ts arbitrary: m) (auto simp: dom_update)

lemma set_update_subset: "set (AList.update k v al) \<subseteq> insert (k, v) (set al)"
  by (induction al) auto

lemma fold_update_entries:
  "(name, n) \<in> set (fold (\<lambda>tc m. AList.update (Tenant tc) tc m) ts m) \<Longrightarrow>
     (name, n) \<in> set m \<or> (n \<in> set ts \<and> name = Tenant n)"
proof (induction ts arbitrary: m)
  case (Cons t ts)
  from Cons.IH [of "AList.update (Tenant t) t m"] Cons.prems
  show ?case using set_update_subset [of "Tenant t" t m] by auto
qed simp

lemma reload_all_failed:
  assumes "\<forall>r \<in> set results. \<not> is_ok r" "Tenants cfg \<noteq> []"
  shows "\<not> is_ok (reload results cfg)"
proof -
  have "loaded_tenants results = []"
    using assms(1) by (auto simp: loaded_tenants_def split: go_result.splits)
  then show ?thesis using assms(2) by (simp add: reload_def Let_def)
qed

text \<open>A reload that takes effect installs what the loaders that succeeded returned.\<close>

lemma reload_installs:
  assumes "reload results cfg = Ok (cfg', True)"
  shows "TenantsOrdered cfg' = loaded_tenants results \<and> SCTenants cfg' = loaded_scTenants results \<and>
    fst ` set (Tenants cfg') = Tenant ` set (loaded_tenants results)"
proof -
  define new where "new = fold (\<lambda>tc m. AList.update (Tenant tc) tc m) (loaded_tenants results) []"
  have keys: "fst ` set new = Tenant ` set (loaded_tenants results)"
    using fold_update_keys [of "loaded_tenants results" "[]"] by (simp add: new_def)
  have "cfg' = SetTenants new (loaded_scTenants results) (loaded_tenants results) cfg"
    using assms by (simp add: reload_def Let_def new_def [symmetric] split: if_split_asm)
  then show ?thesis by (simp add: SetTenants_def keys)
qed

text \<open>
  A reload whose tenants all compare equal is dropped, whatever the loaders returned as
  sub-tenant entries.
\<close>

lemma reload_dropped:
  assumes "fst ` set (Tenants cfg) = Tenant ` set (loaded_tenants results)" "loaded_tenants results \<noteq> []"
    "\<And>tc old. tc \<in> set (loaded_tenants results) \<Longrightarrow> map_of (Tenants cfg) (Tenant tc) = Some old \<Longrightarrow>
       compareFields (Tenant tc) old tc = []"
  shows "reload results cfg = Ok (cfg, False)"
proof -
  define new where "new = fold (\<lambda>tc m. AList.update (Tenant tc) tc m) (loaded_tenants results) []"
  have keys: "fst ` set new = Tenant ` set (loaded_tenants results)"
    using fold_update_keys [of "loaded_tenants results" "[]"] by (simp add: new_def)
  have same: "p = n \<or> compareFields name p n = []"
    if "(name, n) \<in> set new" "map_of (Tenants cfg) name = Some p" for name n p
    using that assms(3) [of n p] fold_update_entries [of name n "loaded_tenants results" "[]"]
    by (simp add: new_def [symmetric])
  have "findConfigChanges (Tenants cfg) new = []"
    unfolding findConfigChanges_Nil assms(1) keys using same by blast
  moreover have "new \<noteq> []" using keys assms(2) by auto
  ultimately show ?thesis by (simp add: reload_def Let_def new_def [symmetric] hasChanged_def)
qed

end
