(* ===== verification/Reloader.thy ===== *)
theory Reloader
  imports Reload Tenants "HOL-Library.Word"
begin

text \<open>
  The life of the reloader in \<open>internal/config/reload.go\<close>: \<open>Start\<close>, the loop that waits for the ticker,
  for \<open>Stop\<close> or for the end of the context, and what the callback of \<open>main\<close> makes of each reload. The two
  channels of the reloader are only ever closed; closing one twice panics. A reload is one step, under
  the reloader's lock; what the loaders return then is arbitrary.
\<close>

subsection \<open>Accessors of the configuration\<close>

definition GetTenants :: "Config \<Rightarrow> (string \<times> TenantConfig) list" where "GetTenants c = Tenants c"

definition GetSCTenants :: "Config \<Rightarrow> SCTenantConfig list" where "GetSCTenants c = SCTenants c"

definition GetTenantsOrdered :: "Config \<Rightarrow> TenantConfig list" where "GetTenantsOrdered c = TenantsOrdered c"

text \<open>A duration is a signed number of nanoseconds in 64 bits: the product wraps.\<close>

definition Millisecond :: "64 word" where "Millisecond = 1000000"

definition GetScanPeriod :: "Config \<Rightarrow> int" where
  "GetScanPeriod c = sint (word_of_int (ScanPeriod c) * Millisecond)"

subsection \<open>The state\<close>

datatype loader = FileLoader string | HTTPLoader string | S3Loader string string string

text \<open>The loop: not started, about to make its ticker, waiting on a ticker, over, or panicked.\<close>

datatype reload_loop = NoLoop | NewTicker | Waiting int | LoopEnded | LoopPanic

record Reloader =
  rdConfig :: Config
  rdLoaders :: "loader list"
  rdInterval :: int
  rdStopClosed :: bool
  rdStoppedClosed :: bool
  rdRunning :: bool
  rdLoop :: reload_loop
  rdCtxDone :: bool
  rdStopCalled :: bool
  rdPublished :: "Config list"

definition NewReloader :: "Config \<Rightarrow> Reloader" where
  "NewReloader cfg =
     \<lparr>rdConfig = cfg, rdLoaders = [], rdInterval = GetScanPeriod cfg, rdStopClosed = False, rdStoppedClosed = False,
      rdRunning = False, rdLoop = NoLoop, rdCtxDone = False, rdStopCalled = False, rdPublished = []\<rparr>"

definition reloader_IsRunning :: "Reloader \<Rightarrow> bool" where "reloader_IsRunning r = rdRunning r"

definition GetCurrentConfig :: "Reloader \<Rightarrow> Config" where "GetCurrentConfig r = rdConfig r"

definition UpdateInterval :: "int \<Rightarrow> Reloader \<Rightarrow> Reloader" where
  "UpdateInterval interval r = r\<lparr>rdInterval := interval\<rparr>"

fun initializeLoaders :: "ConfigSource list \<Rightarrow> (string, loader list) go_result" where
  "initializeLoaders [] = Ok []"
| "initializeLoaders (src # srcs) =
     (let rest = (\<lambda>l. go_bind (initializeLoaders srcs) (\<lambda>ls. Ok (l # ls))) in
      if cs_Type src = ''file'' then rest (FileLoader (cs_Path src))
      else if cs_Type src = ''http'' then rest (HTTPLoader (cs_URL src))
      else if cs_Type src = ''s3'' then rest (S3Loader (cs_Bucket src) (cs_Key src) (cs_Region src))
      else Err (''unsupported config source type: '' @ cs_Type src))"

text \<open>A second Start while the reloader runs is refused; a source of an unknown type takes the start back.\<close>

definition reloader_Start :: "Reloader \<Rightarrow> string option \<times> Reloader" where
  "reloader_Start r =
     (if rdRunning r then (Some ''reloader is already running'', r)
      else case initializeLoaders (TenantConfigSources (rdConfig r)) of
          Ok ls \<Rightarrow> (None, r\<lparr>rdRunning := True, rdLoaders := ls, rdLoop := NewTicker\<rparr>)
        | Err err \<Rightarrow> (Some (''failed to initialize loaders: '' @ err), r\<lparr>rdRunning := False\<rparr>)
        | Panic \<Rightarrow> (None, r))"

text \<open>The first half of Stop: the close of the channel, which panics when it is closed already.\<close>

definition reloader_Stop :: "Reloader \<Rightarrow> (string, Reloader) go_result" where
  "reloader_Stop r =
     (if \<not> rdRunning r then Ok r
      else if rdStopClosed r then Panic
      else Ok (r\<lparr>rdStopClosed := True, rdStopCalled := True\<rparr>))"

text \<open>The loop ends by closing the other channel.\<close>

definition end_loop :: "Reloader \<Rightarrow> Reloader" where
  "end_loop r =
     (if rdStoppedClosed r then r\<lparr>rdLoop := LoopPanic\<rparr>
      else r\<lparr>rdLoop := LoopEnded, rdStoppedClosed := True\<rparr>)"

text \<open>A reload that changes the configuration runs the callback with it, in the same step.\<close>

definition reload_now :: "load_result list \<Rightarrow> Reloader \<Rightarrow> string option \<times> Reloader" where
  "reload_now results r =
     (case reload results (rdConfig r) of
        Ok (cfg, True) \<Rightarrow> (None, r\<lparr>rdConfig := cfg, rdPublished := rdPublished r @ [cfg]\<rparr>)
      | Ok (cfg, False) \<Rightarrow> (None, r)
      | Err err \<Rightarrow> (Some err, r)
      | Panic \<Rightarrow> (None, r))"

inductive reloader_step :: "Reloader \<Rightarrow> Reloader \<Rightarrow> bool" where
  ticker_made:
    "rdLoop r = NewTicker \<Longrightarrow>
       reloader_step r (r\<lparr>rdLoop := (if rdInterval r > 0 then Waiting (rdInterval r) else LoopPanic)\<rparr>)"
| context_done: "rdLoop r = Waiting i \<Longrightarrow> rdCtxDone r \<Longrightarrow> reloader_step r (end_loop r)"
| stop_seen: "rdLoop r = Waiting i \<Longrightarrow> rdStopClosed r \<Longrightarrow> reloader_step r (end_loop r)"
| ticked:
    "rdLoop r = Waiting i \<Longrightarrow> length results = length (rdLoaders r) \<Longrightarrow> reloader_step r (snd (reload_now results r))"
| cancelled: "\<not> rdCtxDone r \<Longrightarrow> reloader_step r (r\<lparr>rdCtxDone := True\<rparr>)"
| triggered: "length results = length (rdLoaders r) \<Longrightarrow> reloader_step r (snd (reload_now results r))"
| stopped:
    "rdStopCalled r \<Longrightarrow> rdStoppedClosed r \<Longrightarrow> reloader_step r (r\<lparr>rdStopCalled := False, rdRunning := False\<rparr>)"

text \<open>A run of one reloader from its start, with calls of Start, Stop and UpdateInterval in between.\<close>

inductive reloader_reachable :: "Config \<Rightarrow> Reloader \<Rightarrow> bool" for cfg where
  new: "reloader_reachable cfg (NewReloader cfg)"
| stepped: "reloader_reachable cfg r \<Longrightarrow> reloader_step r r' \<Longrightarrow> reloader_reachable cfg r'"
| start_called: "reloader_reachable cfg r \<Longrightarrow> reloader_reachable cfg (snd (reloader_Start r))"
| stop_called: "reloader_reachable cfg r \<Longrightarrow> reloader_Stop r = Ok r' \<Longrightarrow> reloader_reachable cfg r'"
| interval_updated: "reloader_reachable cfg r \<Longrightarrow> reloader_reachable cfg (UpdateInterval i r)"

subsection \<open>The tenant service follows\<close>

text \<open>Reinitialising leaves nothing of what the service was before.\<close>

lemma Reinitialize_NewService: "Reinitialize srt pick cfg s = NewService srt pick cfg"
  by (cases s) (simp add: Reinitialize_def NewService_def)

text \<open>The callback of \<open>main\<close>: each published configuration reinitialises the service.\<close>

definition service_after ::
  "(resolver list \<Rightarrow> resolver list) \<Rightarrow> ((string \<times> TenantConfig) list \<Rightarrow> TenantConfig option) \<Rightarrow> Config \<Rightarrow> Config list \<Rightarrow> Service" where
  "service_after srt pick cfg published = fold (Reinitialize srt pick) published (NewService srt pick cfg)"

lemma service_after_last: "service_after srt pick cfg published = NewService srt pick (last (cfg # published))"
  unfolding service_after_def by (induction published rule: rev_induct) (simp_all add: Reinitialize_NewService)

lemma reload_now_last:
  "last (cfg # rdPublished r) = rdConfig r \<Longrightarrow> last (cfg # rdPublished (snd (reload_now results r))) = rdConfig (snd (reload_now results r))"
  by (auto simp: reload_now_def split: go_result.split bool.split)

lemma reachable_last: "reloader_reachable cfg r \<Longrightarrow> last (cfg # rdPublished r) = rdConfig r"
proof (induction rule: reloader_reachable.induct)
  case (stepped r r')
  from stepped(2,3) show ?case
    by (induction rule: reloader_step.induct) (use reload_now_last in \<open>auto simp: end_loop_def\<close>)
qed (auto simp: NewReloader_def reloader_Start_def reloader_Stop_def UpdateInterval_def split: go_result.split if_splits)

text \<open>Only the tenants change: the port, the address of FOLIO and the sources stay what they were.\<close>

definition same_service_settings :: "Config \<Rightarrow> Config \<Rightarrow> bool" where
  "same_service_settings a b \<longleftrightarrow> SetTenants [] [] [] a = SetTenants [] [] [] b"

lemma reload_settings: "reload results cfg = Ok (cfg', b) \<Longrightarrow> same_service_settings cfg' cfg"
  by (auto simp: reload_def Let_def same_service_settings_def SetTenants_def split: if_split_asm)

lemma reload_now_settings: "same_service_settings (rdConfig (snd (reload_now results r))) (rdConfig r)"
proof (cases "reload results (rdConfig r)")
  case (Ok x)
  then show ?thesis using reload_settings [of results "rdConfig r"]
    by (cases x; cases "snd x") (auto simp: reload_now_def same_service_settings_def)
qed (simp_all add: reload_now_def same_service_settings_def)

lemma reachable_settings: "reloader_reachable cfg r \<Longrightarrow> same_service_settings (rdConfig r) cfg"
proof (induction rule: reloader_reachable.induct)
  case (stepped r r')
  from stepped(2,3) show ?case
    by (induction rule: reloader_step.induct)
      (use reload_now_settings in \<open>auto simp: end_loop_def same_service_settings_def\<close>)
qed (auto simp: NewReloader_def reloader_Start_def reloader_Stop_def UpdateInterval_def same_service_settings_def
    split: go_result.split if_splits)

subsection \<open>Starting, stopping, starting again\<close>

text \<open>The loaders are the sources, one for one; the first unknown type is the error.\<close>

lemma initializeLoaders_ok:
  "(\<exists>ls. initializeLoaders srcs = Ok ls) \<longleftrightarrow> list_all (\<lambda>src. cs_Type src \<in> {''file'', ''http'', ''s3''}) srcs"
  by (induction srcs) (auto simp: Let_def)

lemma initializeLoaders_length: "initializeLoaders srcs = Ok ls \<Longrightarrow> length ls = length srcs"
  by (induction srcs arbitrary: ls) (auto simp: Let_def split: if_splits)

lemma initializeLoaders_no_panic: "initializeLoaders srcs \<noteq> Panic"
proof (induction srcs)
  case (Cons src srcs)
  then show ?case by (cases "initializeLoaders srcs") (auto simp: Let_def)
qed simp

text \<open>A ticker needs a positive interval: a scan period that does not fit panics.\<close>

lemma GetScanPeriod_wraps: "GetScanPeriod c = (ScanPeriod c * 1000000 + 2 ^ 63) mod 2 ^ 64 - 2 ^ 63"
proof -
  have "word_of_int (ScanPeriod c) * Millisecond = (word_of_int (ScanPeriod c * 1000000) :: 64 word)"
    by (simp add: Millisecond_def)
  then show ?thesis unfolding GetScanPeriod_def int_word_sint by (simp only: int_word_sint) simp
qed

lemma GetScanPeriod_small:
  "0 \<le> ScanPeriod c \<Longrightarrow> ScanPeriod c \<le> 9223372036854 \<Longrightarrow> GetScanPeriod c = ScanPeriod c * 1000000"
  by (simp add: GetScanPeriod_wraps)

text \<open>The first period that wraps: it passes the validation, and the ticker of the loop panics.\<close>

lemma GetScanPeriod_overflow: "ScanPeriod c = 9223372036855 \<Longrightarrow> GetScanPeriod c < 0"
  by (simp add: GetScanPeriod_wraps)

text \<open>The two halves of a reloader that has run once: both channels are closed for good.\<close>

definition run_before :: "Reloader \<Rightarrow> bool" where
  "run_before r \<longleftrightarrow> rdStoppedClosed r \<and> rdStopClosed r"

lemma restarted_loop_panics:
  assumes "rdStoppedClosed r" "reloader_step r r'" "rdLoop r = Waiting i" "rdLoop r' \<noteq> Waiting i"
  shows "rdLoop r' = LoopPanic"
  using assms(2,1,3,4)
  by (cases rule: reloader_step.cases) (auto simp: end_loop_def reload_now_def split: go_result.splits bool.splits)

text \<open>A reloader that was stopped cannot run again: its loop sees the closed channel and panics.\<close>

lemma restart_panics:
  assumes "run_before r" "\<not> rdRunning r" "rdInterval r > 0"
    and "list_all (\<lambda>src. cs_Type src \<in> {''file'', ''http'', ''s3''}) (TenantConfigSources (rdConfig r))"
  shows "\<exists>r1 r2. reloader_step (snd (reloader_Start r)) r1 \<and> reloader_step r1 r2 \<and> rdLoop r2 = LoopPanic"
proof -
  obtain ls where "initializeLoaders (TenantConfigSources (rdConfig r)) = Ok ls" using assms(4) initializeLoaders_ok by blast
  then have r0: "snd (reloader_Start r) = r\<lparr>rdRunning := True, rdLoaders := ls, rdLoop := NewTicker\<rparr>" (is "_ = ?r0")
    using assms(2) by (simp add: reloader_Start_def)
  let ?r1 = "?r0\<lparr>rdLoop := Waiting (rdInterval r)\<rparr>"
  have "reloader_step ?r0 ?r1" using reloader_step.ticker_made [of ?r0] assms(3) by simp
  moreover have "reloader_step ?r1 (end_loop ?r1)"
    using assms(1) by (intro reloader_step.stop_seen) (simp_all add: run_before_def)
  moreover have "rdLoop (end_loop ?r1) = LoopPanic" using assms(1) by (simp add: end_loop_def run_before_def)
  ultimately show ?thesis unfolding r0 by blast
qed

end
