(* ===== verification/Sample_Server.thy ===== *)
theory Sample_Server
  imports Sample_World Server Reloader
begin

text \<open>
  A concrete server for the witnesses: it listens on two ports, has accepted one connection and serves
  it; and a concrete configuration for the reloader.
\<close>

definition sample_cfg :: Config where
  "sample_cfg =
     \<lparr>Port = 6001, Host = ''localhost'', cfg_OkapiURL = ''https://folio'', HealthCheckPort = 8081, TokenCacheCapacity = 0,
      ScanPeriod = 300000, cfg_LogLevel = ''info'', TenantConfigSources =
        [\<lparr>cs_Type = ''file'', cs_Path = ''tenants.yaml'', cs_URL = [], cs_Bucket = [], cs_Key = [], cs_Region = []\<rparr>],
      TLS = None, Tenants = [], TenantsOrdered = [], SCTenants =
        [\<lparr>sc_Tenant = ''branch'', SCSubnet = [], sc_Port = 6002, LocationCodes = [], UsernamePrefixes = []\<rparr>]\<rparr>"

definition sample_net :: network where
  "sample_net = \<lparr>Missing = (\<lambda>f. False), LoadX509KeyPair = (\<lambda>c k. None), Listen = (\<lambda>a. None)\<rparr>"

abbreviation serving_sites :: "nat \<Rightarrow> site" where
  "serving_sites \<equiv> server_sites (\<lambda>rqs. start_order) ''https://folio'' (\<lambda>k rqs. sample_service) sample_ip"

abbreviation serving_envs :: "nat \<Rightarrow> env" where "serving_envs \<equiv> \<lambda>k. sample_env"

definition sample_accepted :: accepted where
  "sample_accepted =
     \<lparr>acClientIP = ''10.0.0.7'', acClientPort = 50000, acServerPort = 6001, acSessionID = ''s1'', acTime = sample_time,
      acStream = []\<rparr>"

definition bound_server :: server where
  "bound_server = open_listener 6001 None ((snd (Start NewServer))\<lparr>svStarting := BindExtra [6002]\<rparr>)"

definition listening_server :: server where
  "listening_server = open_listener 6002 None (bound_server\<lparr>svStarting := BindExtra []\<rparr>)"

definition accepting_server :: server where
  "accepting_server = listening_server\<lparr>svStarting := Accepting, svLoops := [(0, AtCheck), (1, AtCheck)]\<rparr>"

definition fresh_conn :: conn where
  "fresh_conn = NewConnection sample_time ''s1'' sample_config 6001 ''10.0.0.7'' []"

definition serving_server :: server where
  "serving_server =
     accepting_server\<lparr>svGoroutines := [Handling fresh_conn], svActive := 1, svTotal := 1,
       svMetrics := NewMetrics\<lparr>ConnectionsTotal := 1, ConnectionsActive := 1, SessionsCreated := 1, SessionsActive := 1\<rparr>\<rparr>"

lemma sample_ports: "uniqueScTenantPorts (Port sample_cfg) (SCTenants sample_cfg) = [6002]"
  by (simp add: uniqueScTenantPorts_def sample_cfg_def)

lemma no_goroutines_no_crash: "svGoroutines s = [] \<Longrightarrow> \<not> crashed_server s"
  by (simp add: crashed_server_def)

lemma reachable_next:
  "reachable cfg st e s \<Longrightarrow> server_step cfg st e s s' \<Longrightarrow> \<not> crashed_server s \<Longrightarrow> reachable cfg st e s'"
  by (rule reachable.stepped)

lemma reachable_bound: "reachable sample_cfg serving_sites serving_envs bound_server"
proof -
  let ?s = "snd (Start NewServer)"
  have "reachable sample_cfg serving_sites serving_envs ?s"
    by (intro reachable.start_called reachable.new no_goroutines_no_crash) (simp_all add: NewServer_def)
  moreover have "server_step sample_cfg serving_sites serving_envs ?s bound_server"
    unfolding bound_server_def sample_ports [symmetric]
    using server_step.bootstrap_bound [of ?s sample_net sample_cfg None serving_sites serving_envs]
    by (simp add: Start_def NewServer_def bindListener_def sample_cfg_def sample_net_def)
  ultimately show ?thesis
    by (rule reachable_next) (simp add: no_goroutines_no_crash Start_def NewServer_def)
qed

lemma bound_simps:
  "svStarting bound_server = BindExtra [6002]" "svListeners bound_server = [0]" "svLoops bound_server = []"
  "svGoroutines bound_server = []" "svSockets bound_server = [\<lparr>skPort = 6001, skTLS = None, skOpen = True\<rparr>]"
  "svRunning bound_server"
  by (simp_all add: bound_server_def open_listener_def Start_def NewServer_def)

lemma reachable_listening: "reachable sample_cfg serving_sites serving_envs listening_server"
proof -
  have "server_step sample_cfg serving_sites serving_envs bound_server listening_server"
    using server_step.extra_bound [of bound_server 6002 "[]" sample_net sample_cfg None serving_sites serving_envs]
    by (simp add: bound_simps listening_server_def bindListener_def sample_cfg_def sample_net_def)
  with reachable_bound show ?thesis by (rule reachable_next) (simp add: no_goroutines_no_crash bound_simps)
qed

lemma listening_simps:
  "svStarting listening_server = BindExtra []" "svListeners listening_server = [0, 1]" "svLoops listening_server = []"
  "svGoroutines listening_server = []"
  "svSockets listening_server = [\<lparr>skPort = 6001, skTLS = None, skOpen = True\<rparr>, \<lparr>skPort = 6002, skTLS = None, skOpen = True\<rparr>]"
  "svCtxDone listening_server = False" "svActive listening_server = 0" "svTotal listening_server = 0"
  "svMetrics listening_server = NewMetrics" "svRunning listening_server" "svStopping listening_server = NotStopping"
  by (simp_all add: listening_server_def bound_server_def open_listener_def Start_def NewServer_def)

lemma reachable_accepting: "reachable sample_cfg serving_sites serving_envs accepting_server"
  using reachable.stepped [OF reachable_listening _ server_step.launched [OF listening_simps(1)]]
  by (simp add: accepting_server_def listening_simps no_goroutines_no_crash)

text \<open>The state after each step of the accept loop and of the goroutine.\<close>

lemma sample_resolved:
  "handleConnection (serving_sites k) (acTime sample_accepted) (acSessionID sample_accepted) (acClientIP sample_accepted)
     (acClientPort sample_accepted) (acServerPort sample_accepted) (acStream sample_accepted) = Ok fresh_conn"
  by (simp add: handleConnection_def ResolveAtConnect_def server_sites_def server_site_def sample_service_def
      sample_accepted_def fresh_conn_def)

lemma reachable_serving: "reachable sample_cfg serving_sites serving_envs serving_server"
proof -
  let ?st = serving_sites let ?e = serving_envs
  let ?checked = "accepting_server\<lparr>svLoops := [(0, InAccept), (1, AtCheck)]\<rparr>"
  have c: "reachable sample_cfg ?st ?e ?checked"
    using reachable.stepped [OF reachable_accepting _ server_step.loop_checked [of 0 accepting_server 0]]
    by (simp add: accepting_server_def listening_simps no_goroutines_no_crash)
  let ?acc = "accepting_server\<lparr>svGoroutines := [Resolving sample_accepted], svActive := 1, svTotal := 1,
    svMetrics := NewMetrics\<lparr>ConnectionsTotal := 1, ConnectionsActive := 1\<rparr>\<rparr>"
  have "server_step sample_cfg ?st ?e ?checked ?acc"
    using server_step.outside [OF outside_step.conn_accepted [of 0 ?checked 0 sample_accepted], of sample_cfg ?st ?e]
    by (simp add: accepting_server_def listening_simps sample_accepted_def NewMetrics_def)
  with c have a: "reachable sample_cfg ?st ?e ?acc"
    by (rule reachable_next) (simp add: crashed_server_def accepting_server_def listening_simps)
  have "server_step sample_cfg ?st ?e ?acc serving_server"
    using server_step.resolved [of 0 ?acc sample_accepted ?st fresh_conn sample_cfg ?e]
    by (simp add: sample_resolved serving_server_def NewMetrics_def accepting_server_def listening_server_def bound_server_def open_listener_def Start_def NewServer_def)
  with a show ?thesis by (rule reachable_next) (simp add: crashed_server_def)
qed

lemma serving_simps:
  "svStarting serving_server = Accepting" "svRunning serving_server" "\<not> binding serving_server"
  "svGoroutines serving_server = [Handling fresh_conn]" "\<not> crashed_server serving_server"
  by (simp_all add: serving_server_def accepting_server_def listening_simps binding_def crashed_server_def
      fresh_conn_def NewConnection_def)

text \<open>The port 6002 is taken: the second half of the start fails.\<close>

definition busy_net :: network where
  "busy_net = sample_net\<lparr>Listen := (\<lambda>a. Some ''address already in use'')\<rparr>"

definition failed_server :: server where
  "failed_server = bound_server\<lparr>svStarting :=
       StartFailed (''failed to start listener on '' @ address sample_cfg 6002 @ '': '' @ ''address already in use''),
     svSockets := close_sockets [0] (svSockets bound_server), svListeners := []\<rparr>"

lemma sample_start_fails: "server_step sample_cfg serving_sites serving_envs bound_server failed_server"
  using server_step.extra_failed [of bound_server 6002 "[]" busy_net sample_cfg _ serving_sites serving_envs]
  by (simp add: bound_simps failed_server_def bindListener_def sample_cfg_def busy_net_def)

subsection \<open>A resend\<close>

text \<open>A tenant without error detection whose kiosks may ask for a resend, and a connection to it.\<close>

definition plain_config :: TenantConfig where
  "plain_config = sample_config\<lparr>ErrorDetectionEnabled := False,
     SupportedMessages := [\<lparr>ms_Code = ''97'', ms_Enabled = True, ms_Fields = []\<rparr>]\<rparr>"

definition plain_conn :: Connection where
  "plain_conn = \<lparr>cParser = plain_config, cBuilder = plain_config, cServerPort = 6001, cClientIP = ''10.0.0.1''\<rparr>"

definition plain_world :: world where
  "plain_world = sample_world\<lparr>wSession := UpdateTenant (Some plain_config) (wSession sample_world)\<rparr>"

lemma plain_parse:
  obtains msg where "Parse enc plain_config ''97'' = Ok msg" "Code msg = ''97''" "ValidateMessage plain_config msg = None"
proof
  let ?msg = "\<lparr>Code = ''97'', RawMessage = ''97'', Fields = Map.empty ++ Map.empty, MultiValueFields = Map.empty,
    msgSequenceNumber = [], ChecksumValid = False\<rparr>"
  show "Parse enc plain_config ''97'' = Ok ?msg"
    by (simp add: Parse_def checksum_stage_def parse_stage_def plain_config_def ExtractFixedFields_def fixed_fields_def Let_def)
  show "ValidateMessage plain_config ?msg = None"
    by (simp add: ValidateMessage_def plain_config_def IsMessageSupported_def IsRequestMessage_def request_codes_def)
qed simp

lemma plain_served:
  "fst (fst (run_state (serve_message sample_server sample_env plain_conn ''97'') plain_world)) = Answer ''96''"
proof -
  obtain msg where m: "Parse sample_enc plain_config ''97'' = Ok msg" "Code msg = ''97''" "ValidateMessage plain_config msg = None"
    by (rule plain_parse)
  have "RegisterAllHandlers sched url ''97'' = Some ResendHandler_Handle" for sched url
    by (simp add: RegisterAllHandlers_def registered_handlers_def)
  then show ?thesis using m
    by (simp add: serve_message_def processMessage_def plain_conn_def plain_world_def time_now_def put_session_def
        get_session_def with_config_def UpdateTenant_def UpdateActivity_def run_handler_def sample_server_def
        server_site_def ResendHandler_Handle_def run_with_tenant buildResendResponse_def)
qed

subsection \<open>A reload\<close>

definition sample_started :: Reloader where "sample_started = snd (reloader_Start (NewReloader sample_cfg))"

definition sample_reloaded :: Reloader where
  "sample_reloaded = snd (reload_now [Ok ([sample_config], [])] sample_started)"

lemma reachable_reloaded: "reloader_reachable sample_cfg sample_reloaded"
proof -
  have "reloader_reachable sample_cfg sample_started"
    unfolding sample_started_def by (intro reloader_reachable.start_called reloader_reachable.new)
  then show ?thesis unfolding sample_reloaded_def
    by (rule reloader_reachable.stepped)
      (rule reloader_step.triggered, simp add: sample_started_def NewReloader_def reloader_Start_def sample_cfg_def)
qed

lemma reloaded_config:
  "rdPublished sample_reloaded = [rdConfig sample_reloaded]" "TenantsOrdered (rdConfig sample_reloaded) = [sample_config]"
  by (simp_all add: sample_reloaded_def reload_now_def reload_def Let_def loaded_tenants_def loaded_scTenants_def hasChanged_def
      findConfigChanges_def sample_started_def NewReloader_def reloader_Start_def sample_cfg_def SetTenants_def)

end
