(* ===== verification/Msg_Log.thy ===== *)
theory Msg_Log
  imports Go_Strings
begin

text \<open>
  \<open>internal/logging/message_filter.go\<close>: which SIP2 messages are logged at a tenant's log level,
  and the masking of PINs and passwords in them. The regular expression of the source, AD or CO
  followed by everything up to the next bar, is written out as a scan.
\<close>

abbreviation (input) LogLevelDebugging :: string where "LogLevelDebugging \<equiv> ''Debugging''"
abbreviation (input) LogLevelFull :: string where "LogLevelFull \<equiv> ''Full''"
abbreviation (input) LogLevelPatron :: string where "LogLevelPatron \<equiv> ''Patron''"
abbreviation (input) LogLevelNone :: string where "LogLevelNone \<equiv> ''None''"

definition loginMessageCodes :: "string list" where "loginMessageCodes = [''93'', ''94'']"

definition heartbeatMessageCodes :: "string list" where "heartbeatMessageCodes = [''98'', ''99'']"

definition IsQuietMessage :: "string \<Rightarrow> string \<Rightarrow> bool" where
  "IsQuietMessage messageCode logLevel \<longleftrightarrow>
     messageCode \<in> set heartbeatMessageCodes \<and> logLevel \<noteq> LogLevelDebugging"

definition ShouldLogMessage :: "string \<Rightarrow> string \<Rightarrow> bool" where
  "ShouldLogMessage messageCode level =
     (if level = LogLevelNone then False
      else if level = LogLevelDebugging then True
      else if level = LogLevelFull
      then messageCode \<notin> set loginMessageCodes \<and> messageCode \<notin> set heartbeatMessageCodes
      else if level = LogLevelPatron then messageCode = ''63'' \<or> messageCode = ''64''
      else False)"

definition not_bar :: "char \<Rightarrow> bool" where "not_bar c \<longleftrightarrow> c \<noteq> CHR ''|''"

function obfuscatePINsAndPasswords :: "string \<Rightarrow> string" where
  "obfuscatePINsAndPasswords (c1 # c2 # cs) =
     (if [c1, c2] = ''AD'' \<or> [c1, c2] = ''CO'' then
        c1 # c2 # replicate (length (takeWhile not_bar cs)) CHR ''*'' @
          obfuscatePINsAndPasswords (dropWhile not_bar cs)
      else c1 # obfuscatePINsAndPasswords (c2 # cs))"
| "obfuscatePINsAndPasswords [] = []"
| "obfuscatePINsAndPasswords [c] = [c]"
  by pat_completeness auto
termination
  by (relation "measure length") (auto simp: le_imp_less_Suc length_dropWhile_le less_SucI)

definition ObfuscateMessage :: "string \<Rightarrow> string \<Rightarrow> string \<Rightarrow> string" where
  "ObfuscateMessage message messageCode level =
     (if level = LogLevelDebugging then message
      else if level = LogLevelFull \<or> level = LogLevelPatron then obfuscatePINsAndPasswords message
      else message)"

definition ExtractMessageCode :: "string \<Rightarrow> string" where
  "ExtractMessageCode message = (if length message < 2 then [] else take 2 message)"

subsection \<open>Masking\<close>

lemma length_obfuscate [simp]: "length (obfuscatePINsAndPasswords s) = length s"
proof (induction s rule: obfuscatePINsAndPasswords.induct)
  case (1 c1 c2 cs)
  have "length (takeWhile not_bar cs) + length (dropWhile not_bar cs) = length cs"
    by (metis length_append takeWhile_dropWhile_id)
  then show ?case using 1 by auto
qed simp_all

text \<open>Masking works bar by bar: a field is masked without regard to the others.\<close>

lemma obfuscate_bar:
  "CHR ''|'' \<notin> set w \<Longrightarrow>
     obfuscatePINsAndPasswords (w @ CHR ''|'' # t) = obfuscatePINsAndPasswords w @ CHR ''|'' # obfuscatePINsAndPasswords t"
proof (induction w rule: obfuscatePINsAndPasswords.induct)
  case (1 c1 c2 cs)
  have n: "takeWhile not_bar (cs @ CHR ''|'' # t) = cs" "dropWhile not_bar (cs @ CHR ''|'' # t) = CHR ''|'' # t"
    "takeWhile not_bar cs = cs" "dropWhile not_bar cs = []"
    using 1(3) by (auto simp: not_bar_def takeWhile_append dropWhile_append)
  have b: "obfuscatePINsAndPasswords (CHR ''|'' # t) = CHR ''|'' # obfuscatePINsAndPasswords t"
    by (cases t) auto
  show ?case using 1 by (auto simp: n b)
next
  case 2
  show ?case by (cases t) auto
next
  case (3 v)
  then show ?case by (cases t) auto
qed

lemma all_not_bar [simp]: "CHR ''|'' \<notin> set v \<Longrightarrow> takeWhile not_bar v = v" "CHR ''|'' \<notin> set v \<Longrightarrow> dropWhile not_bar v = []"
  by (induction v) (auto simp: not_bar_def)

lemma obfuscate_value:
  assumes "code = ''AD'' \<or> code = ''CO''" "CHR ''|'' \<notin> set v"
  shows "obfuscatePINsAndPasswords (code @ v) = code @ replicate (length v) CHR ''*''"
  using assms by auto

text \<open>What is logged of a PIN is its length: messages that differ in it alone are logged alike.\<close>

lemma obfuscate_hides:
  assumes "code = ''AD'' \<or> code = ''CO''" "CHR ''|'' \<notin> set v" "CHR ''|'' \<notin> set v'" "length v = length v'"
    "CHR ''|'' \<notin> set w"
  shows "obfuscatePINsAndPasswords (w @ CHR ''|'' # code @ v @ CHR ''|'' # t) =
    obfuscatePINsAndPasswords (w @ CHR ''|'' # code @ v' @ CHR ''|'' # t)"
proof -
  have "CHR ''|'' \<notin> set (code @ v)" "CHR ''|'' \<notin> set (code @ v')" using assms by auto
  then have "obfuscatePINsAndPasswords ((code @ u) @ CHR ''|'' # t) =
      code @ replicate (length v) CHR ''*'' @ CHR ''|'' # obfuscatePINsAndPasswords t" if "u \<in> {v, v'}" for u
    using that assms by (subst obfuscate_bar) (auto simp: obfuscate_value simp del: append_assoc)
  then show ?thesis by (simp add: obfuscate_bar [OF assms(5)])
qed

text \<open>
  What masking is for, said without the scan: wherever AD or CO stands in a text, what follows up to the
  next bar is stars.
\<close>

fun pins_masked :: "string \<Rightarrow> bool" where
  "pins_masked (c1 # c2 # cs) \<longleftrightarrow>
     ([c1, c2] = ''AD'' \<or> [c1, c2] = ''CO'' \<longrightarrow> list_all (\<lambda>c. c = CHR ''*'') (takeWhile not_bar cs)) \<and>
     pins_masked (c2 # cs)"
| "pins_masked _ \<longleftrightarrow> True"

lemma pins_masked_Cons: "c \<noteq> CHR ''A'' \<Longrightarrow> c \<noteq> CHR ''C'' \<Longrightarrow> pins_masked (c # cs) \<longleftrightarrow> pins_masked cs"
  by (cases cs) auto

lemma pins_masked_stars: "pins_masked (replicate k CHR ''*'' @ cs) \<longleftrightarrow> pins_masked cs"
  by (induction k) (simp_all add: pins_masked_Cons)

lemma obfuscate_first: "obfuscatePINsAndPasswords (c # cs) = c # tl (obfuscatePINsAndPasswords (c # cs))"
  by (cases cs) auto

lemma obfuscate_after_bar: "takeWhile not_bar (obfuscatePINsAndPasswords (dropWhile not_bar cs)) = []"
proof (cases "dropWhile not_bar cs")
  case (Cons c ds)
  then have "\<not> not_bar c" by (metis hd_dropWhile list.distinct(1) list.sel(1))
  then show ?thesis using Cons obfuscate_first [of c ds] by (metis takeWhile.simps(2))
next
  case Nil
  then show ?thesis by (simp only: obfuscatePINsAndPasswords.simps takeWhile.simps)
qed

lemma obfuscate_masks: "pins_masked (obfuscatePINsAndPasswords s)"
proof (induction s rule: obfuscatePINsAndPasswords.induct)
  case (1 c1 c2 cs)
  show ?case
  proof (cases "[c1, c2] = ''AD'' \<or> [c1, c2] = ''CO''")
    case True
    have "takeWhile not_bar (replicate k CHR ''*'' @ obfuscatePINsAndPasswords (dropWhile not_bar cs)) = replicate k CHR ''*''" for k
      using obfuscate_after_bar [of cs] by (simp add: takeWhile_append not_bar_def)
    then show ?thesis using True 1(1) by (auto simp: pins_masked_Cons pins_masked_stars list_all_iff)
  next
    case False
    obtain ds where ds: "obfuscatePINsAndPasswords (c2 # cs) = c2 # ds" using obfuscate_first by blast
    show ?thesis using False 1(2) ds by auto
  qed
qed simp_all

end
