(* ===== verification/Logger.thy ===== *)
theory Logger
  imports Msg_Log Go_Strings
begin

text \<open>
  \<open>internal/logging/logger.go\<close> and \<open>fields.go\<close>: log levels and lines, the logger that \<open>main\<close> makes, and the
  logger that \<open>ScopedLogger\<close> of \<open>message_filter.go\<close> derives from it. Of the library zap it has that a logger
  writes the lines at its level and above; the files and the encoding of a line are the library's.
\<close>

datatype log_level = DebugLevel | InfoLevel | WarnLevel | ErrorLevel

text \<open>The levels are ordered by severity.\<close>

primrec severity :: "log_level \<Rightarrow> nat" where
  "severity DebugLevel = 0"
| "severity InfoLevel = 1"
| "severity WarnLevel = 2"
| "severity ErrorLevel = 3"

lemma severity_eq_iff: "severity a = severity b \<longleftrightarrow> a = b"
  by (cases a; cases b) simp_all

instantiation log_level :: linorder
begin

definition less_eq_log_level :: "log_level \<Rightarrow> log_level \<Rightarrow> bool" where
  "less_eq_log_level a b \<longleftrightarrow> severity a \<le> severity b"

definition less_log_level :: "log_level \<Rightarrow> log_level \<Rightarrow> bool" where
  "less_log_level a b \<longleftrightarrow> severity a < severity b"

instance
  by standard (auto simp: less_eq_log_level_def less_log_level_def severity_eq_iff)

end

text \<open>A line: its level, its text and the fields beside it; every line has the type of its origin.\<close>

record log_line =
  lnLevel :: log_level
  lnText :: string
  lnFields :: "(string \<times> string) list"

abbreviation (input) TypeApplication :: string where "TypeApplication \<equiv> ''application''"
abbreviation (input) TypeSIPRequest :: string where "TypeSIPRequest \<equiv> ''sip_request''"
abbreviation (input) TypeSIPResponse :: string where "TypeSIPResponse \<equiv> ''sip_response''"

definition TypeField :: "string \<Rightarrow> string \<times> string" where
  "TypeField t = (''type'', t)"

definition line :: "log_level \<Rightarrow> string \<Rightarrow> string \<Rightarrow> (string \<times> string) list \<Rightarrow> log_line" where
  "line level kind txt fs = \<lparr>lnLevel = level, lnText = txt, lnFields = TypeField kind # fs\<rparr>"

subsection \<open>The logger\<close>

definition zap_level :: "string \<Rightarrow> log_level" where
  "zap_level level =
     (if level = ''debug'' then DebugLevel else if level = ''info'' then InfoLevel
      else if level = ''warn'' then WarnLevel else if level = ''error'' then ErrorLevel else InfoLevel)"

record logger =
  lgLevel :: log_level
  lgOutputs :: "string list"

text \<open>What the system answers: the creation of the directory of a log file, by the name of the file, and zap when it opens the outputs.\<close>

record log_system =
  MkdirAll :: "string \<Rightarrow> string option"
  OpenOutputs :: "string list \<Rightarrow> string option"

definition build_logger :: "log_system \<Rightarrow> string \<Rightarrow> string list \<Rightarrow> (string, logger) go_result" where
  "build_logger sys level outputs =
     (case OpenOutputs sys outputs of
        Some err \<Rightarrow> Err (''failed to create logger: '' @ err)
      | None \<Rightarrow> Ok \<lparr>lgLevel = zap_level level, lgOutputs = outputs\<rparr>)"

definition NewFileLogger :: "log_system \<Rightarrow> string \<Rightarrow> string \<Rightarrow> (string, logger) go_result" where
  "NewFileLogger sys level logFile =
     (case MkdirAll sys logFile of
        Some err \<Rightarrow> Err (''failed to create log directory: '' @ err)
      | None \<Rightarrow> build_logger sys level [logFile, ''stdout''])"

definition NewLogger :: "log_system \<Rightarrow> string \<Rightarrow> string \<Rightarrow> (string, logger) go_result" where
  "NewLogger sys level logFile =
     (if logFile \<noteq> [] then NewFileLogger sys level logFile else build_logger sys level [''stdout''])"

definition write_lines :: "logger \<Rightarrow> log_line list \<Rightarrow> log_line list" where
  "write_lines lg ls = filter (\<lambda>l. lgLevel lg \<le> lnLevel l) ls"

text \<open>The names that a line's own parts get in the JSON that is written.\<close>

record encoder_config =
  TimeKey :: string
  LevelKey :: string
  NameKey :: string
  CallerKey :: string
  MessageKey :: string
  StacktraceKey :: string

definition getEncoderConfig :: encoder_config where
  "getEncoderConfig =
     \<lparr>TimeKey = ''timestamp'', LevelKey = ''level'', NameKey = ''logger'', CallerKey = ''caller'',
      MessageKey = ''message'', StacktraceKey = ''stacktrace''\<rparr>"

text \<open>The logger of a heartbeat lets through warnings and errors only.\<close>

definition ScopedLogger :: "string \<Rightarrow> string \<Rightarrow> log_line list \<Rightarrow> log_line list" where
  "ScopedLogger messageCode logLevel ls =
     (if IsQuietMessage messageCode logLevel then filter (\<lambda>l. WarnLevel \<le> lnLevel l) ls else ls)"

subsection \<open>What is written\<close>

lemma errors_are_written: "lnLevel l = ErrorLevel \<Longrightarrow> l \<in> set ls \<Longrightarrow> l \<in> set (write_lines lg ls)"
  by (cases "lgLevel lg") (simp_all add: write_lines_def less_eq_log_level_def)

text \<open>A more talkative level writes every line that a quieter one writes.\<close>

lemma write_lines_mono: "lgLevel a \<le> lgLevel b \<Longrightarrow> set (write_lines b ls) \<subseteq> set (write_lines a ls)"
  by (auto simp: write_lines_def)

text \<open>The scope of a heartbeat and the level of the logger can be applied in any order.\<close>

lemma write_scoped: "write_lines lg (ScopedLogger code level ls) = ScopedLogger code level (write_lines lg ls)"
  by (simp add: write_lines_def ScopedLogger_def filter_filter conj_commute)

text \<open>A level that is not one of the four counts as info; the directory is made for a log file only.\<close>

lemma NewLogger_level:
  "NewLogger sys level logFile = Ok lg \<Longrightarrow> lgLevel lg = zap_level level \<and> last (lgOutputs lg) = ''stdout''"
  by (auto simp: NewLogger_def NewFileLogger_def build_logger_def split: if_splits option.splits)

end
