(* ===== verification/Connection_Log.thy ===== *)
theory Connection_Log
  imports Connection Logger
begin

text \<open>
  What \<open>internal/server/connection.go\<close> tells the operator: the lines it hands to the logger while it
  reads, serves and answers messages, and the labelled Prometheus metrics of \<open>processMessage\<close>. The
  definitions are those of Connection with a record of both beside the result; the lines of the
  handlers and of the logout are not among them. It is shown that watching changes nothing, that the
  metrics agree with each other, and what of a message can be read in the log.
\<close>

subsection \<open>Lines and labels\<close>

type_synonym label = "string \<times> string"

text \<open>\<open>MessageErrors\<close> has the label of the message and the kind of the error.\<close>

record telemetry =
  tmLines :: "log_line list"
  MessagesTotal :: "label \<Rightarrow> nat"
  MessageDuration :: "label \<Rightarrow> nat"
  MessageErrors :: "label \<times> string \<Rightarrow> nat"

definition no_telemetry :: telemetry where
  "no_telemetry = \<lparr>tmLines = [], MessagesTotal = \<lambda>_. 0, MessageDuration = \<lambda>_. 0, MessageErrors = \<lambda>_. 0\<rparr>"

definition note_lines :: "log_line list \<Rightarrow> telemetry \<Rightarrow> telemetry" where
  "note_lines ls t = t\<lparr>tmLines := tmLines t @ ls\<rparr>"

definition count_up :: "'l \<Rightarrow> ('l \<Rightarrow> nat) \<Rightarrow> 'l \<Rightarrow> nat" where
  "count_up l m = m(l := Suc (m l))"

definition bool_text :: "bool \<Rightarrow> string" where
  "bool_text b = (if b then ''true'' else ''false'')"

subsection \<open>Reading and writing\<close>

definition message_lines :: "string \<Rightarrow> string \<Rightarrow> TenantConfig \<Rightarrow> string \<Rightarrow> string \<Rightarrow> log_line list" where
  "message_lines kind txt tc sid message =
     (let messageCode = ExtractMessageCode message; logLevel = LogLevel tc
      in if ShouldLogMessage messageCode logLevel then
           [line InfoLevel kind txt
              [(''message'', ObfuscateMessage message messageCode logLevel), (''message_code'', messageCode), (''session_id'', sid)]]
         else [])"

definition received_lines :: "TenantConfig \<Rightarrow> string \<Rightarrow> string \<Rightarrow> log_line list" where
  "received_lines = message_lines TypeSIPRequest ''SIP2 message received''"

text \<open>The lines of \<open>sendMessage\<close>; the flag is whether the write succeeds. The text of its error is left out.\<close>

definition sent_lines :: "TenantConfig \<Rightarrow> string \<Rightarrow> bool \<Rightarrow> string \<Rightarrow> log_line list" where
  "sent_lines tc sid written message =
     (let messageCode = ExtractMessageCode message;
          scoped = ScopedLogger messageCode (LogLevel tc);
          messageBytes = framed tc message;
          bytes = nat_str (length messageBytes)
      in message_lines TypeSIPResponse ''SIP2 message sent'' tc sid message @
         scoped [line DebugLevel TypeApplication ''Sending response to client''
           [(''message_length'', bytes), (''bytes_length'', bytes),
            (''had_delimiter'', bool_text (suffix (MessageDelimiter tc) message)),
            (''delimiter'', MessageDelimiter tc), (''session_id'', sid)]] @
         (if written then
            scoped [line DebugLevel TypeApplication ''Response sent successfully''
              [(''bytes_written'', bytes), (''session_id'', sid)]]
          else [line ErrorLevel TypeApplication ''Failed to write message to connection'' [(''session_id'', sid)]]))"

text \<open>The same under the tenant that the session has, which is never missing while a message is served.\<close>

definition under_tenant :: "world \<Rightarrow> (TenantConfig \<Rightarrow> string \<Rightarrow> log_line list) \<Rightarrow> log_line list" where
  "under_tenant w f = (case sessTenant (wSession w) of None \<Rightarrow> [] | Some tc \<Rightarrow> f tc (sessID (wSession w)))"

definition reading :: "world \<Rightarrow> string \<Rightarrow> telemetry \<Rightarrow> telemetry" where
  "reading w raw = note_lines (under_tenant w (\<lambda>tc sid. received_lines tc sid raw))"

definition sending :: "world \<Rightarrow> bool \<Rightarrow> string \<Rightarrow> telemetry \<Rightarrow> telemetry" where
  "sending w written r = note_lines (under_tenant w (\<lambda>tc sid. sent_lines tc sid written r))"

subsection \<open>Serving a message\<close>

definition tenant_name :: "Session \<Rightarrow> string" where
  "tenant_name s = (case sessTenant s of None \<Rightarrow> [] | Some tc \<Rightarrow> Tenant tc)"

definition tenant_level :: "Session \<Rightarrow> string" where
  "tenant_level s = (case sessTenant s of None \<Rightarrow> [] | Some tc \<Rightarrow> LogLevel tc)"

text \<open>The counter goes up and the handler is announced; then what the outcome adds, the duration last.\<close>

definition invoking :: "Session \<Rightarrow> MessageCode \<Rightarrow> telemetry \<Rightarrow> telemetry" where
  "invoking s code t =
     (note_lines (ScopedLogger code (tenant_level s)
        [line InfoLevel TypeApplication ''Invoking message handler''
           [(''message_code'', code), (''tenant'', tenant_name s), (''session_id'', sessID s)]]) t)
       \<lparr>MessagesTotal := count_up (code, tenant_name s) (MessagesTotal t)\<rparr>"

definition handler_outcome :: "Session \<Rightarrow> MessageCode \<Rightarrow> (folio_error, string) go_result \<Rightarrow> telemetry \<Rightarrow> telemetry" where
  "handler_outcome s code r t =
     (case r of
        Ok response \<Rightarrow>
          note_lines (ScopedLogger code (tenant_level s)
            [line InfoLevel TypeApplication ''Handler generated response''
               [(''message_code'', code), (''tenant'', tenant_name s), (''response_length'', nat_str (length response))]]) t
      | Err err \<Rightarrow>
          (note_lines [line ErrorLevel TypeApplication ''Handler returned error''
               [(''message_code'', code), (''tenant'', tenant_name s), (''error'', error_text err)]] t)
            \<lparr>MessageErrors := count_up ((code, tenant_name s), ''handler_error'') (MessageErrors t)\<rparr>
      | Panic \<Rightarrow> t)"

definition observe_duration :: "label \<Rightarrow> telemetry \<Rightarrow> telemetry" where
  "observe_duration l t = t\<lparr>MessageDuration := count_up l (MessageDuration t)\<rparr>"

definition observed_run_handler ::
  "site \<Rightarrow> env \<Rightarrow> Connection \<Rightarrow> Message \<Rightarrow> telemetry \<Rightarrow> (((string, string) go_result \<times> Connection) \<times> telemetry) io" where
  "observed_run_handler st e c msg t = do {
     s \<leftarrow> get_session;
     (case siteHandlers st (Code msg) of
        None \<Rightarrow>
          State_Monad.return ((Err (''no handler for message type: '' @ Code msg), c),
            note_lines [line ErrorLevel TypeApplication ''No handler found for message type''
              [(''message_code'', Code msg), (''tenant'', tenant_name s)]] t)
      | Some handle \<Rightarrow> do {
          r \<leftarrow> handle e msg;
          State_Monad.return
            ((case r of Ok x \<Rightarrow> Ok x | Err err \<Rightarrow> Err (''handler error: '' @ error_text err) | Panic \<Rightarrow> Panic, c),
             observe_duration (Code msg, tenant_name s) (handler_outcome s (Code msg) r (invoking s (Code msg) t)))
        })
   }"

definition observed_processMessage ::
  "site \<Rightarrow> env \<Rightarrow> Connection \<Rightarrow> string \<Rightarrow> telemetry \<Rightarrow> (((string, string) go_result \<times> Connection) \<times> telemetry) io" where
  "observed_processMessage st e c rawMessage t = do {
     now \<leftarrow> time_now e;
     put_session (UpdateActivity now);
     (case Parse (Encoders e) (cParser c) rawMessage of
        Err err \<Rightarrow> State_Monad.return ((Err (''failed to parse message: '' @ err), c), t)
      | Panic \<Rightarrow> State_Monad.return ((Panic, c), t)
      | Ok msg \<Rightarrow>
          (case ValidateMessage (cParser c) msg of
             Some err \<Rightarrow> State_Monad.return ((Err (''message validation failed: '' @ err), c), t)
           | None \<Rightarrow> with_config ((Panic, c), t) (\<lambda>tc.
               if Code msg = LoginRequest then do {
                 c1 \<leftarrow> handleLoginTenantResolution st c msg tc;
                 observed_run_handler st e c1 msg t
               }
               else observed_run_handler st e c msg t)))
   }"

text \<open>A message that failed is logged as it came, before the error response is built.\<close>

definition failed_line :: "string \<Rightarrow> string \<Rightarrow> log_line" where
  "failed_line err rawMessage =
     line ErrorLevel TypeApplication ''Failed to process message'' [(''error'', err), (''message'', rawMessage)]"

text \<open>What \<open>buildErrorResponse\<close> tells: a message that cannot be parsed is shown once more, as it came.\<close>

definition error_response_lines :: "env \<Rightarrow> Connection \<Rightarrow> string \<Rightarrow> string \<Rightarrow> GoTime \<Rightarrow> log_line list" where
  "error_response_lines e c rawMessage errorMsg now =
     (case Parse (Encoders e) (cParser c) rawMessage of
        Err err \<Rightarrow> [line WarnLevel TypeApplication ''Cannot build error response - failed to parse message''
          [(''error'', err), (''raw_message'', rawMessage)]]
      | Panic \<Rightarrow> []
      | Ok msg \<Rightarrow>
          (if GetResponseCode (Code msg) = [] then
             [line WarnLevel TypeApplication ''Cannot build error response - no response code mapping''
                [(''request_code'', Code msg)]]
           else (case Build (Encoders e) (cBuilder c) (GetResponseCode (Code msg)) (error_content msg errorMsg now)
               (msgSequenceNumber msg) of
               Err err \<Rightarrow> [line ErrorLevel TypeApplication ''Failed to build error response''
                 [(''error'', err), (''response_code'', GetResponseCode (Code msg))]]
             | _ \<Rightarrow> [])))"

definition observed_serve ::
  "site \<Rightarrow> env \<Rightarrow> Connection \<Rightarrow> string \<Rightarrow> telemetry \<Rightarrow> ((served \<times> Connection) \<times> telemetry) io" where
  "observed_serve st e c rawMessage t = do {
     rct \<leftarrow> observed_processMessage st e c rawMessage t;
     (case fst (fst rct) of
        Ok response \<Rightarrow> State_Monad.return ((Answer response, snd (fst rct)), snd rct)
      | Panic \<Rightarrow> State_Monad.return ((Fatal, snd (fst rct)), snd rct)
      | Err err \<Rightarrow> do {
          now \<leftarrow> time_now e;
          State_Monad.return
            ((case conn_buildErrorResponse e (snd (fst rct)) rawMessage err now of Ok r \<Rightarrow> Rejected r | _ \<Rightarrow> Fatal, snd (fst rct)),
             note_lines (failed_line err rawMessage # error_response_lines e (snd (fst rct)) rawMessage err now) (snd rct))
        })
   }"


text \<open>
  The steps of the connection with what they tell. Closing, reading that fails and the logouts in the
  background are silent here; an error response that cannot be written gives a line of its own.
\<close>

inductive observed_step :: "site \<Rightarrow> env \<Rightarrow> conn \<times> telemetry \<Rightarrow> conn \<times> telemetry \<Rightarrow> bool" for st e where
  obs_network: "net_step s s' \<Longrightarrow> observed_step st e (s, t) (s', t)"
| obs_cancelled:
    "cnPhase s = Serving c \<Longrightarrow> \<not> cnReading s \<Longrightarrow> Cancelled e (wSent (cnWorld s)) = Some err \<Longrightarrow>
       observed_step st e (s, t) (closeAndLogout e (ContextDone err) s, t)"
| obs_checked:
    "cnPhase s = Serving c \<Longrightarrow> \<not> cnReading s \<Longrightarrow> Cancelled e (wSent (cnWorld s)) = None \<Longrightarrow>
       observed_step st e (s, t) (s\<lparr>cnReading := True\<rparr>, t)"
| obs_read_failed:
    "cnPhase s = Serving c \<Longrightarrow> cnReading s \<Longrightarrow> cnEnd s = Some x \<Longrightarrow> x \<noteq> PeerClosed \<Longrightarrow>
       observed_step st e (s, t) (closeAndLogout e (read_error x) s, t)"
| obs_end_of_input:
    "cnPhase s = Serving c \<Longrightarrow> cnReading s \<Longrightarrow> sessTenant (wSession (cnWorld s)) = Some tc \<Longrightarrow>
       readMessage tc (cnUnread s) = OutOfBytes \<Longrightarrow> cnEnd s = Some PeerClosed \<Longrightarrow>
       observed_step st e (s, t) (closeAndLogout e ClientClosed (s\<lparr>cnUnread := []\<rparr>), t)"
| obs_too_long:
    "cnPhase s = Serving c \<Longrightarrow> cnReading s \<Longrightarrow> sessTenant (wSession (cnWorld s)) = Some tc \<Longrightarrow>
       readMessage tc (cnUnread s) = TooLong rest \<Longrightarrow>
       observed_step st e (s, t) (closeAndLogout e OtherFailure (s\<lparr>cnUnread := rest\<rparr>), t)"
| obs_answered:
    "cnPhase s = Serving c \<Longrightarrow> cnReading s \<Longrightarrow> sessTenant (wSession (cnWorld s)) = Some tc \<Longrightarrow>
       readMessage tc (cnUnread s) = GotMessage raw rest \<Longrightarrow>
       run_state (observed_serve st e c raw (reading (cnWorld s) raw t)) (cnWorld s) = (((Answer r, c'), t'), w') \<Longrightarrow>
       observed_step st e (s, t)
         (deadline_reset (s\<lparr>cnPhase := Serving c', cnReading := False, cnWorld := w', cnUnread := rest,
            cnWritten := cnWritten s @ [on_the_wire w' r]\<rparr>),
          sending w' True r t')"
| obs_write_failed:
    "cnPhase s = Serving c \<Longrightarrow> cnReading s \<Longrightarrow> sessTenant (wSession (cnWorld s)) = Some tc \<Longrightarrow>
       readMessage tc (cnUnread s) = GotMessage raw rest \<Longrightarrow>
       run_state (observed_serve st e c raw (reading (cnWorld s) raw t)) (cnWorld s) = (((Answer r, c'), t'), w') \<Longrightarrow>
       err = NetTimeout \<or> err = OtherFailure \<Longrightarrow>
       observed_step st e (s, t)
         (closeAndLogout e err (s\<lparr>cnPhase := Serving c', cnWorld := w', cnUnread := rest\<rparr>), sending w' False r t')"
| obs_rejected_silently:
    "cnPhase s = Serving c \<Longrightarrow> cnReading s \<Longrightarrow> sessTenant (wSession (cnWorld s)) = Some tc \<Longrightarrow>
       readMessage tc (cnUnread s) = GotMessage raw rest \<Longrightarrow>
       run_state (observed_serve st e c raw (reading (cnWorld s) raw t)) (cnWorld s) = (((Rejected [], c'), t'), w') \<Longrightarrow>
       observed_step st e (s, t) (s\<lparr>cnPhase := Serving c', cnReading := False, cnWorld := w', cnUnread := rest\<rparr>, t')"
| obs_rejected:
    "cnPhase s = Serving c \<Longrightarrow> cnReading s \<Longrightarrow> sessTenant (wSession (cnWorld s)) = Some tc \<Longrightarrow>
       readMessage tc (cnUnread s) = GotMessage raw rest \<Longrightarrow>
       run_state (observed_serve st e c raw (reading (cnWorld s) raw t)) (cnWorld s) = (((Rejected r, c'), t'), w') \<Longrightarrow>
       r \<noteq> [] \<Longrightarrow>
       observed_step st e (s, t)
         (s\<lparr>cnPhase := Serving c', cnReading := False, cnWorld := w', cnUnread := rest, cnWritten := cnWritten s @ [on_the_wire w' r]\<rparr>,
          sending w' True r t')"
| obs_rejected_unsent:
    "cnPhase s = Serving c \<Longrightarrow> cnReading s \<Longrightarrow> sessTenant (wSession (cnWorld s)) = Some tc \<Longrightarrow>
       readMessage tc (cnUnread s) = GotMessage raw rest \<Longrightarrow>
       run_state (observed_serve st e c raw (reading (cnWorld s) raw t)) (cnWorld s) = (((Rejected r, c'), t'), w') \<Longrightarrow>
       r \<noteq> [] \<Longrightarrow>
       observed_step st e (s, t)
         (s\<lparr>cnPhase := Serving c', cnReading := False, cnWorld := w', cnUnread := rest\<rparr>,
          note_lines [line ErrorLevel TypeApplication ''Failed to send error response'' []] (sending w' False r t'))"
| obs_crashed:
    "cnPhase s = Serving c \<Longrightarrow> cnReading s \<Longrightarrow> sessTenant (wSession (cnWorld s)) = Some tc \<Longrightarrow>
       readMessage tc (cnUnread s) = GotMessage raw rest \<Longrightarrow>
       run_state (observed_serve st e c raw (reading (cnWorld s) raw t)) (cnWorld s) = (((Fatal, c'), t'), w') \<Longrightarrow>
       observed_step st e (s, t) (s\<lparr>cnPhase := Crashed, cnWorld := w', cnUnread := rest\<rparr>, t')"
| obs_background_logout:
    "cnPhase s \<noteq> Crashed \<Longrightarrow> wBackground (cnWorld s) = before @ (pair, reason) # after \<Longrightarrow>
       run_state (LogoutTokens e pair) (cnWorld s) = (l, w') \<Longrightarrow>
       observed_step st e (s, t) (s\<lparr>cnWorld := w'\<lparr>wBackground := before @ after\<rparr>\<rparr>, t)"

subsection \<open>Watching changes nothing\<close>

definition erases :: "'a io \<Rightarrow> ('a \<times> 't) io \<Rightarrow> bool" where
  "erases m m' \<longleftrightarrow> (\<forall>w. run_state m w = (fst (fst (run_state m' w)), snd (run_state m' w)))"

named_theorems erasing \<open>a computation and the same under observation\<close>

lemma erases_return [erasing]: "erases (State_Monad.return x) (State_Monad.return (x, t))"
  by (simp add: erases_def)

lemma erases_bind [erasing]: "(\<And>x. erases (f x) (g x)) \<Longrightarrow> erases (m \<bind> f) (m \<bind> g)"
  by (simp add: erases_def split: prod.split)

lemma erases_then: "erases m m' \<Longrightarrow> (\<And>x t. erases (f x) (g (x, t))) \<Longrightarrow> erases (m \<bind> f) (m' \<bind> g)"
  by (simp add: erases_def split: prod.split)

lemma erases_run_handler [erasing]: "erases (run_handler st e c msg) (observed_run_handler st e c msg t)"
  unfolding run_handler_def observed_run_handler_def
  by (cases "siteHandlers st (Code msg)") (auto simp: erases_def get_session_def split: prod.split)

lemma erases_processMessage: "erases (processMessage st e c raw) (observed_processMessage st e c raw t)"
  unfolding processMessage_def observed_processMessage_def with_config_def
  by (auto intro!: erasing split: go_result.split option.split)

lemma erases_serve: "erases (serve_message st e c raw) (observed_serve st e c raw t)"
  unfolding serve_message_def observed_serve_def
  by (rule erases_then [OF erases_processMessage]) (auto intro!: erasing split: go_result.split)

lemma observed_serve_run:
  "run_state (observed_serve st e c raw t) w = (((r, c'), t'), w') \<Longrightarrow> run_state (serve_message st e c raw) w = ((r, c'), w')"
  using erases_serve [of st e c raw t] by (simp add: erases_def)

lemma serve_run_observed:
  "run_state (serve_message st e c raw) w = ((r, c'), w') \<Longrightarrow> \<exists>t'. run_state (observed_serve st e c raw t) w = (((r, c'), t'), w')"
  using erases_serve [of st e c raw t] by (simp add: erases_def) (metis prod.collapse)


text \<open>Where nothing is written for an error the list of what was written stays.\<close>

lemma written_nothing:
  "s\<lparr>cnPhase := p, cnReading := b, cnWorld := w, cnUnread := u, cnWritten := cnWritten s @ []\<rparr> =
     s\<lparr>cnPhase := p, cnReading := b, cnWorld := w, cnUnread := u\<rparr>"
  by simp

theorem observed_step_is_step: "observed_step st e (s, t) (s', t') \<Longrightarrow> conn_step st e s s'"
proof (induction "(s, t)" "(s', t')" arbitrary: s t s' t' rule: observed_step.induct)
  case (obs_rejected_silently s c tc raw rest t c' t' w')
  show ?case
    using conn_step.rejected [OF obs_rejected_silently(1-4) observed_serve_run [OF obs_rejected_silently(5)], of "[]"]
    by (simp add: written_nothing)
next
  case (obs_rejected_unsent s c tc raw rest t r c' t' w')
  show ?case
    using conn_step.rejected [OF obs_rejected_unsent(1-4) observed_serve_run [OF obs_rejected_unsent(5)], of "[]"]
    by (simp add: written_nothing)
qed (auto intro: conn_step.intros dest: observed_serve_run)

theorem step_is_observed: "conn_step st e s s' \<Longrightarrow> \<exists>t'. observed_step st e (s, t) (s', t')"
proof (induction rule: conn_step.induct)
  case (answered s c tc raw rest r c' w')
  obtain t' where "run_state (observed_serve st e c raw (reading (cnWorld s) raw t)) (cnWorld s) = (((Answer r, c'), t'), w')"
    using serve_run_observed [OF answered(5)] by blast
  then show ?case using obs_answered [OF answered(1-4)] by blast
next
  case (write_failed s c tc raw rest r c' w' err)
  obtain t' where "run_state (observed_serve st e c raw (reading (cnWorld s) raw t)) (cnWorld s) = (((Answer r, c'), t'), w')"
    using serve_run_observed [OF write_failed(5)] by blast
  then show ?case using obs_write_failed [OF write_failed(1-4) _ write_failed(6)] by blast
next
  case (rejected s c tc raw rest r c' w' out)
  obtain t' where run: "run_state (observed_serve st e c raw (reading (cnWorld s) raw t)) (cnWorld s) = (((Rejected r, c'), t'), w')"
    using serve_run_observed [OF rejected(5)] by blast
  consider "r \<noteq> []" "out = [on_the_wire w' r]" | "r = []" "out = []" | "r \<noteq> []" "out = []" using rejected(6) by auto
  then show ?case
  proof cases
    case 1
    then show ?thesis using obs_rejected [OF rejected(1-4) run] by auto
  next
    case 2
    then show ?thesis using obs_rejected_silently [OF rejected(1-4) run [unfolded 2(1)]] by (cases s) auto
  next
    case 3
    then show ?thesis using obs_rejected_unsent [OF rejected(1-4) run] by (cases s) auto
  qed
next
  case (crashed s c tc raw rest c' w')
  obtain t' where "run_state (observed_serve st e c raw (reading (cnWorld s) raw t)) (cnWorld s) = (((Fatal, c'), t'), w')"
    using serve_run_observed [OF crashed(5)] by blast
  then show ?case using obs_crashed [OF crashed(1-4)] by blast
qed (blast intro: observed_step.intros)+

lemma observed_steps_are_steps:
  "(observed_step st e)\<^sup>*\<^sup>* p q \<Longrightarrow> (conn_step st e)\<^sup>*\<^sup>* (fst p) (fst q)"
proof (induction rule: rtranclp_induct)
  case (step q q')
  then show ?case
    using observed_step_is_step [of st e "fst q" "snd q" "fst q'" "snd q'"] by (auto intro: rtranclp.rtrancl_into_rtrancl)
qed simp

theorem steps_are_observed: "(conn_step st e)\<^sup>*\<^sup>* s s' \<Longrightarrow> \<exists>t'. (observed_step st e)\<^sup>*\<^sup>* (s, t) (s', t')"
proof (induction rule: rtranclp_induct)
  case (step s' s'')
  then obtain t' where "(observed_step st e)\<^sup>*\<^sup>* (s, t) (s', t')" by blast
  then show ?case using step_is_observed [OF step(2)] by (meson rtranclp.rtrancl_into_rtrancl)
qed blast

subsection \<open>The metrics agree\<close>

definition metrics_agree :: "site \<Rightarrow> telemetry \<Rightarrow> bool" where
  "metrics_agree st t \<longleftrightarrow>
     MessageDuration t = MessagesTotal t \<and> (\<forall>l k. MessageErrors t (l, k) \<le> MessagesTotal t l) \<and>
     (\<forall>code name. siteHandlers st code = None \<longrightarrow> MessagesTotal t (code, name) = 0)"

lemma note_lines_simps [simp]:
  "MessagesTotal (note_lines ls t) = MessagesTotal t" "MessageDuration (note_lines ls t) = MessageDuration t"
  "MessageErrors (note_lines ls t) = MessageErrors t" "tmLines (note_lines ls t) = tmLines t @ ls"
  by (simp_all add: note_lines_def)

lemma note_lines_agree [simp]: "metrics_agree st (note_lines ls t) = metrics_agree st t"
  by (simp add: metrics_agree_def)

lemma reading_sending_agree [simp]:
  "metrics_agree st (reading w raw t) = metrics_agree st t" "metrics_agree st (sending w ok r t) = metrics_agree st t"
  by (simp_all add: reading_def sending_def)

lemma handled_agree:
  assumes "metrics_agree st t" "siteHandlers st code \<noteq> None"
  shows "metrics_agree st (observe_duration (code, tenant_name s) (handler_outcome s code r (invoking s code t)))"
  using assms
  by (cases r) (auto simp: metrics_agree_def observe_duration_def handler_outcome_def invoking_def count_up_def le_SucI)

text \<open>What serving a message does to the telemetry, whatever the state it runs in.\<close>

definition tells :: "(telemetry \<Rightarrow> bool) \<Rightarrow> ('a \<times> telemetry) io \<Rightarrow> bool" where
  "tells Q m \<longleftrightarrow> (\<forall>w. Q (snd (fst (run_state m w))))"

named_theorems telling \<open>what holds of the telemetry of a computation\<close>

lemma tells_return: "Q t \<Longrightarrow> tells Q (State_Monad.return (x, t))"
  by (simp add: tells_def)

lemma tells_bind: "(\<And>x. tells Q (f x)) \<Longrightarrow> tells Q (m \<bind> f)"
  by (simp add: tells_def split: prod.split)

lemma tells_then: "tells R m \<Longrightarrow> (\<And>x t. R t \<Longrightarrow> tells Q (f (x, t))) \<Longrightarrow> tells Q (m \<bind> f)"
  by (simp add: tells_def split: prod.split) (metis snd_conv fst_conv prod.collapse)

lemma agree_run_handler: "metrics_agree st t \<Longrightarrow> tells (metrics_agree st) (observed_run_handler st e c msg t)"
  unfolding observed_run_handler_def
  by (auto intro!: tells_bind tells_return handled_agree split: option.split)

lemma agree_processMessage: "metrics_agree st t \<Longrightarrow> tells (metrics_agree st) (observed_processMessage st e c raw t)"
  unfolding observed_processMessage_def with_config_def
  by (auto intro!: tells_bind tells_return agree_run_handler split: go_result.split option.split)

lemma agree_serve:
  assumes "run_state (observed_serve st e c raw t) w = (((r, c'), t'), w')" "metrics_agree st t"
  shows "metrics_agree st t'"
proof -
  have "tells (metrics_agree st) (observed_serve st e c raw t)"
    unfolding observed_serve_def
    by (rule tells_then [OF agree_processMessage [OF assms(2)]])
      (auto intro!: tells_bind tells_return split: go_result.split)
  then show ?thesis using assms(1) by (metis tells_def fst_conv snd_conv)
qed

lemma agree_step: "observed_step st e p q \<Longrightarrow> metrics_agree st (snd p) \<Longrightarrow> metrics_agree st (snd q)"
  by (induction rule: observed_step.induct) (auto dest!: agree_serve)

lemma agree_steps: "(observed_step st e)\<^sup>*\<^sup>* p q \<Longrightarrow> metrics_agree st (snd p) \<Longrightarrow> metrics_agree st (snd q)"
  by (induction rule: rtranclp_induct) (auto intro: agree_step)

lemma none_agree: "metrics_agree st no_telemetry"
  by (simp add: metrics_agree_def no_telemetry_def)


subsection \<open>The messages in the log\<close>

text \<open>The texts of messages, whole or masked, that the lines show.\<close>

definition message_texts :: "log_line list \<Rightarrow> string list" where
  "message_texts ls = concat (map (\<lambda>l. map snd (filter (\<lambda>f. fst f \<in> {''message'', ''raw_message''}) (lnFields l))) ls)"

lemma message_texts_simps [simp]:
  "message_texts [] = []" "message_texts (ls @ ms) = message_texts ls @ message_texts ms"
  "message_texts (l # ls) = map snd (filter (\<lambda>f. fst f \<in> {''message'', ''raw_message''}) (lnFields l)) @ message_texts ls"
  by (simp_all add: message_texts_def)

lemma message_texts_scoped: "message_texts ls = [] \<Longrightarrow> message_texts (ScopedLogger code level ls) = []"
  by (auto simp: message_texts_def ScopedLogger_def)

lemma message_texts_lines:
  "message_texts (message_lines kind txt tc sid m) =
     (if ShouldLogMessage (ExtractMessageCode m) (LogLevel tc) then [ObfuscateMessage m (ExtractMessageCode m) (LogLevel tc)] else [])"
  by (simp add: message_lines_def line_def TypeField_def Let_def)

lemma message_texts_sent:
  "message_texts (sent_lines tc sid written m) = message_texts (message_lines TypeSIPResponse ''SIP2 message sent'' tc sid m)"
  by (simp add: sent_lines_def Let_def message_texts_scoped line_def TypeField_def)

lemma tmLines_simps [simp]:
  "tmLines (invoking s code t) = tmLines t @ ScopedLogger code (tenant_level s)
     [line InfoLevel TypeApplication ''Invoking message handler''
        [(''message_code'', code), (''tenant'', tenant_name s), (''session_id'', sessID s)]]"
  "tmLines (observe_duration l t) = tmLines t"
  by (simp_all add: invoking_def observe_duration_def)

text \<open>Serving a message shows nothing of it, unless it fails.\<close>

definition texts_are :: "string list \<Rightarrow> telemetry \<Rightarrow> bool" where
  "texts_are vs t \<longleftrightarrow> message_texts (tmLines t) = vs"

lemma texts_after [simp]:
  "texts_are vs (observe_duration l (handler_outcome s code r (invoking s code t))) = texts_are vs t"
  by (cases r) (simp_all add: texts_are_def handler_outcome_def message_texts_scoped line_def TypeField_def)

lemma texts_noted: "message_texts ls = [] \<Longrightarrow> texts_are vs (note_lines ls t) = texts_are vs t"
  by (simp add: texts_are_def)

lemma texts_run_handler: "texts_are vs t \<Longrightarrow> tells (texts_are vs) (observed_run_handler st e c msg t)"
  unfolding observed_run_handler_def
  by (cases "siteHandlers st (Code msg)") (auto intro!: tells_bind tells_return simp: texts_noted line_def TypeField_def)

lemma texts_processMessage: "texts_are vs t \<Longrightarrow> tells (texts_are vs) (observed_processMessage st e c raw t)"
  unfolding observed_processMessage_def with_config_def
  by (auto intro!: tells_bind tells_return texts_run_handler split: go_result.split option.split)

lemma error_response_texts:
  "message_texts (error_response_lines e c raw err now) =
     (case Parse (Encoders e) (cParser c) raw of Err x \<Rightarrow> [raw] | _ \<Rightarrow> [])"
  by (simp add: error_response_lines_def line_def TypeField_def split: go_result.split)

lemma served_shows:
  assumes "run_state (observed_serve st e c raw t) w = (((r, c'), t'), w')"
  shows "(\<exists>x. r = Answer x) \<and> message_texts (tmLines t') = message_texts (tmLines t) \<or>
    (\<exists>x. r = Rejected x) \<and> message_texts (tmLines t') = message_texts (tmLines t) @ raw #
      (case Parse (Encoders e) (cParser c') raw of Err err \<Rightarrow> [raw] | _ \<Rightarrow> []) \<or> r = Fatal"
proof -
  obtain rc t1 w1 where p: "run_state (observed_processMessage st e c raw t) w = ((rc, t1), w1)"
    by (metis prod.exhaust)
  have "message_texts (tmLines t1) = message_texts (tmLines t)"
    using texts_processMessage [of "message_texts (tmLines t)" t st e c raw] p by (simp add: tells_def texts_are_def) (metis fst_conv snd_conv)
  then show ?thesis
    using assms p
    by (cases "fst rc") (auto simp: observed_serve_def time_now_def failed_line_def line_def TypeField_def
        error_response_texts split: go_result.splits)
qed

text \<open>The texts that the reading of a message shows.\<close>

definition received_texts :: "world \<Rightarrow> string \<Rightarrow> string list" where
  "received_texts w raw = message_texts (under_tenant w (\<lambda>tc sid. received_lines tc sid raw))"

lemma reading_texts: "message_texts (tmLines (reading w raw t)) = message_texts (tmLines t) @ received_texts w raw"
  by (simp add: reading_def received_texts_def)

lemma received_texts_none: "\<not> ShouldLogMessage (ExtractMessageCode raw) (tenant_level (wSession w)) \<Longrightarrow> received_texts w raw = []"
  by (auto simp: received_texts_def under_tenant_def received_lines_def message_texts_lines tenant_level_def split: option.splits)

text \<open>A message that failed is shown as it came, also where the level of the tenant keeps it out of the log.\<close>

lemma rejected_shows:
  assumes "run_state (observed_serve st e c raw (reading w raw t)) w = (((Rejected r, c'), t'), w')"
  shows "message_texts (tmLines t') = message_texts (tmLines t) @ received_texts w raw @ raw #
    (case Parse (Encoders e) (cParser c') raw of Err err \<Rightarrow> [raw] | _ \<Rightarrow> [])"
  using served_shows [OF assms] by (auto simp: reading_texts)

text \<open>The line of the failure is an error: it is written at every level of the logger.\<close>

lemma failed_line_kept:
  assumes "run_state (observed_serve st e c raw t) w = (((Rejected r, c'), t'), w')"
  shows "\<exists>err. failed_line err raw \<in> set (write_lines lg (tmLines t'))"
proof -
  obtain rc t1 w1 where "run_state (observed_processMessage st e c raw t) w = ((rc, t1), w1)"
    by (metis prod.exhaust)
  then have "\<exists>err. failed_line err raw \<in> set (tmLines t')"
    using assms by (cases "fst rc") (auto simp: observed_serve_def time_now_def split: go_result.splits)
  moreover have "lnLevel (failed_line err raw) = ErrorLevel" for err by (simp add: failed_line_def line_def)
  ultimately show ?thesis using errors_are_written by blast
qed

text \<open>
  The field that carries the text of a message has the name that the encoder gives to the text of the
  line: the JSON object of such a line has it twice.
\<close>

lemma message_key_twice:
  "l \<in> set (message_lines kind txt tc sid m) \<Longrightarrow> MessageKey getEncoderConfig \<in> fst ` set (lnFields l)"
  "MessageKey getEncoderConfig \<in> fst ` set (lnFields (failed_line err m))"
  by (auto simp: message_lines_def Let_def line_def getEncoderConfig_def failed_line_def split: if_splits)

text \<open>
  Of a message that was answered the log shows at most its masked form and that of the answer, unless
  the tenant logs everything.
\<close>

lemma answered_shows:
  assumes "run_state (observed_serve st e c raw (reading w raw t)) w = (((Answer r, c'), t'), w')"
    and "tenant_level (wSession w) \<noteq> LogLevelDebugging" "tenant_level (wSession w') \<noteq> LogLevelDebugging"
    and "x \<in> set (message_texts (tmLines (sending w' written r t')))"
  shows "x \<in> set (message_texts (tmLines t)) \<or>
    (pins_masked x \<and> (x = obfuscatePINsAndPasswords raw \<or> x = obfuscatePINsAndPasswords r))"
proof -
  have level: "ShouldLogMessage code level \<Longrightarrow> level \<noteq> LogLevelDebugging \<Longrightarrow> ObfuscateMessage m code level = obfuscatePINsAndPasswords m"
    for m code level by (auto simp: ShouldLogMessage_def ObfuscateMessage_def split: if_splits)
  have "message_texts (tmLines t') = message_texts (tmLines (reading w raw t))" using served_shows [OF assms(1)] by auto
  moreover have "set (message_texts (tmLines (reading w raw t))) \<subseteq> set (message_texts (tmLines t)) \<union> {obfuscatePINsAndPasswords raw}"
    using assms(2) level
    by (auto simp: reading_def under_tenant_def received_lines_def message_texts_lines tenant_level_def split: option.splits)
  moreover have "set (message_texts (tmLines (sending w' written r t'))) \<subseteq> set (message_texts (tmLines t')) \<union> {obfuscatePINsAndPasswords r}"
    using assms(3) level
    by (auto simp: sending_def under_tenant_def message_texts_sent message_texts_lines tenant_level_def split: option.splits)
  ultimately have "x \<in> set (message_texts (tmLines t)) \<or> x = obfuscatePINsAndPasswords raw \<or> x = obfuscatePINsAndPasswords r"
    using assms(4) by auto
  then show ?thesis using obfuscate_masks by metis
qed

end
