(* ===== verification/Sample_Log.thy ===== *)
theory Sample_Log
  imports Sample_Server Connection_Log
begin

text \<open>
  Messages whose traces in the log and in the metrics can be evaluated: a resend request that is
  answered, and a login that fails because it has no checksum.
\<close>

lemmas observing = observed_serve_def observed_processMessage_def observed_run_handler_def time_now_def put_session_def
  get_session_def with_config_def

lemma plain_tenant [simp]: "Tenant plain_config = ''main''" "LogLevel plain_config = ''Full''"
  "MessageDelimiter plain_config = [CHR 0x0D]"
  by (simp_all add: plain_config_def)

lemma plain_level: "tenant_level (wSession plain_world) = ''Full''"
  by (simp add: plain_world_def tenant_level_def UpdateTenant_def)

lemma resend_registered: "siteHandlers sample_server ''97'' = Some ResendHandler_Handle"
  by (simp add: sample_server_def server_site_def RegisterAllHandlers_def registered_handlers_def)

lemma plain_observed_full:
  "\<exists>t' w'. run_state (observed_serve sample_server sample_env plain_conn ''97'' t) plain_world = (((Answer ''96'', plain_conn), t'), w') \<and>
     tenant_level (wSession w') = ''Full'' \<and> MessagesTotal t' = count_up (''97'', ''main'') (MessagesTotal t)"
proof -
  obtain msg where m: "Parse sample_enc plain_config ''97'' = Ok msg" "Code msg = ''97''" "ValidateMessage plain_config msg = None"
    by (rule plain_parse)
  then show ?thesis
    by (simp add: observing plain_conn_def plain_world_def UpdateTenant_def UpdateActivity_def resend_registered
        ResendHandler_Handle_def run_with_tenant buildResendResponse_def tenant_level_def tenant_name_def
        observe_duration_def handler_outcome_def invoking_def)
qed

text \<open>The same with a PIN in it.\<close>

lemma pin_parse:
  obtains msg where "Parse sample_enc plain_config ''97ADsecret|'' = Ok msg" "Code msg = ''97''" "ValidateMessage plain_config msg = None"
proof -
  obtain msg where "Parse sample_enc plain_config ''97ADsecret|'' = Ok msg" "Code msg = ''97''"
    by (simp add: Parse_def checksum_stage_def parse_stage_def plain_config_def fieldsStart_def Let_def)
  moreover from this have "ValidateMessage plain_config msg = None"
    by (simp add: ValidateMessage_def plain_config_def IsMessageSupported_def IsRequestMessage_def request_codes_def)
  ultimately show thesis by (rule that)
qed

lemma pin_observed:
  obtains t' w' where
    "run_state (observed_serve sample_server sample_env plain_conn ''97ADsecret|'' t) plain_world = (((Answer ''96'', plain_conn), t'), w')"
    "tenant_level (wSession w') = ''Full''"
proof -
  obtain msg where m: "Parse sample_enc plain_config ''97ADsecret|'' = Ok msg" "Code msg = ''97''" "ValidateMessage plain_config msg = None"
    by (rule pin_parse)
  then have "\<exists>t' w'. run_state (observed_serve sample_server sample_env plain_conn ''97ADsecret|'' t) plain_world =
      (((Answer ''96'', plain_conn), t'), w') \<and> tenant_level (wSession w') = ''Full''"
    by (simp add: observing plain_conn_def plain_world_def UpdateTenant_def UpdateActivity_def resend_registered
        ResendHandler_Handle_def run_with_tenant buildResendResponse_def tenant_level_def)
  then show thesis using that by blast
qed

lemma plain_observed:
  obtains c' t' w' where
    "run_state (observed_serve sample_server sample_env plain_conn ''97'' t) plain_world = (((Answer ''96'', c'), t'), w')"
    "tenant_level (wSession w') = ''Full''"
  using plain_observed_full [of t] by blast

definition plain_served_conn :: conn where
  "plain_served_conn = \<lparr>cnPhase = Serving plain_conn, cnReading = True, cnWorld = plain_world, cnUnread = ''97'' @ [CHR 0x0D],
     cnEnd = None, cnWritten = []\<rparr>"

lemma plain_counted:
  obtains s' t where "observed_step sample_server sample_env (plain_served_conn, no_telemetry) (s', t)"
    "MessagesTotal t (''97'', ''main'') = 1"
proof -
  let ?t = "reading plain_world ''97'' no_telemetry"
  obtain t' w' where run: "run_state (observed_serve sample_server sample_env plain_conn ''97'' ?t) plain_world =
      (((Answer ''96'', plain_conn), t'), w')" and total: "MessagesTotal t' = count_up (''97'', ''main'') (MessagesTotal ?t)"
    using plain_observed_full [of ?t] by blast
  have "readMessage plain_config (''97'' @ [CHR 0x0D]) = GotMessage ''97'' []"
    by (simp add: readMessage_def tc_GetMessageDelimiterBytes_def skipped_LF_def maxSIP2MessageBytes_def Let_def)
  then have "observed_step sample_server sample_env (plain_served_conn, no_telemetry)
      (deadline_reset (plain_served_conn\<lparr>cnPhase := Serving plain_conn, cnReading := False, cnWorld := w', cnUnread := [],
         cnWritten := cnWritten plain_served_conn @ [on_the_wire w' ''96'']\<rparr>), sending w' True ''96'' t')"
    using run by (intro obs_answered [where tc = plain_config and raw = "''97''"])
      (simp_all add: plain_served_conn_def plain_world_def UpdateTenant_def)
  moreover have "MessagesTotal (sending w' True ''96'' t') (''97'', ''main'') = 1"
    by (simp add: total sending_def reading_def count_up_def no_telemetry_def)
  ultimately show thesis by (rule that)
qed

lemma plain_login_parse:
  obtains m where "Parse sample_enc plain_config ''9300CNu|COsecret|CNv|'' = Ok m"
    "Fields m ''uid_algorithm'' = Some ''0''" "MultiValueFields m ''CN'' = Some [''u'', ''v'']"
  by (simp add: Parse_def checksum_stage_def parse_stage_def plain_config_def fieldsStart_def ExtractFixedFields_def
      fixed_fields_def Sip_Parser.slice_def ParseMultiValueFields_pairs multi_map_def SplitFields_def Split_def Let_def)

definition secret_conn :: Connection where
  "secret_conn = \<lparr>cParser = sample_config, cBuilder = sample_config, cServerPort = 6001, cClientIP = ''10.0.0.1''\<rparr>"

lemma secret_unparsed: "\<exists>err. Parse sample_enc sample_config ''9300CNu|COsecret|'' = Err err"
  by (simp add: Parse_def checksum_stage_def ValidateChecksum_def ParseInt_def digit_value_def Let_def)

lemma secret_observed:
  obtains t' w' where
    "run_state (observed_serve sample_server sample_env secret_conn ''9300CNu|COsecret|'' t) sample_world =
       (((Rejected [], secret_conn), t'), w')"
proof -
  obtain err where "Parse sample_enc sample_config ''9300CNu|COsecret|'' = Err err" using secret_unparsed by blast
  then show thesis
    by (intro that) (simp add: observing conn_buildErrorResponse_def secret_conn_def)
qed

lemma pin_shown:
  assumes "run_state (observed_serve sample_server sample_env plain_conn ''97ADsecret|''
      (reading plain_world ''97ADsecret|'' no_telemetry)) plain_world = (((Answer ''96'', plain_conn), t'), w')"
  shows "''97AD******|'' \<in> set (message_texts (tmLines (sending w' written r t')))"
proof -
  have "message_texts (tmLines t') = received_texts plain_world ''97ADsecret|''"
    using served_shows [OF assms] by (auto simp: reading_texts no_telemetry_def)
  also have "\<dots> = [''97AD******|'']"
    by (simp add: received_texts_def under_tenant_def received_lines_def message_lines_def plain_world_def UpdateTenant_def
        ShouldLogMessage_def ObfuscateMessage_def ExtractMessageCode_def loginMessageCodes_def heartbeatMessageCodes_def line_def TypeField_def
        Let_def not_bar_def)
  finally show ?thesis by (simp add: sending_def)
qed

text \<open>A connection that has just been accepted, and one whose client keeps sending without ever ending a message.\<close>

definition idle_conn :: conn where
  "idle_conn = NewConnection sample_time ''s1'' sample_config 6001 ''10.0.0.1'' []"

lemma idle_started: "handleConnection sample_server sample_time ''s1'' ''10.0.0.1'' 4000 6001 [] = Ok idle_conn"
  by (simp add: idle_conn_def sample_connection)

lemma idle_phase: "cnPhase (idle_conn\<lparr>cnReading := True\<rparr>) \<noteq> Crashed" "cnPhase (idle_conn\<lparr>cnReading := True\<rparr>) \<noteq> Closed reason"
  by (simp_all add: idle_conn_def NewConnection_def)

lemma idle_checked: "conn_step sample_server sample_env idle_conn (idle_conn\<lparr>cnReading := True\<rparr>)"
  by (rule conn_step.checked) (simp_all add: idle_conn_def NewConnection_def)

lemma idle_waits: "conn_step sample_server sample_env (idle_conn\<lparr>cnReading := True\<rparr>) s' \<Longrightarrow> net_step (idle_conn\<lparr>cnReading := True\<rparr>) s'"
  by (erule conn_stepE) (auto simp: idle_conn_def NewConnection_def NewSession_def sample_read_nothing)

definition typed :: "nat \<Rightarrow> conn" where
  "typed n = sample_conn\<lparr>cnUnread := replicate n CHR ''9'', cnEnd := None\<rparr>"

lemma typed_step: "conn_step sample_server sample_env (typed n) (typed (Suc n))"
proof -
  have same: "typed (Suc n) = (typed n)\<lparr>cnUnread := cnUnread (typed n) @ ''9''\<rparr>"
    by (simp add: typed_def replicate_append_same)
  show ?thesis unfolding same by (rule conn_step.network, rule net_step.arrived) (simp_all add: may_arrive_def typed_def)
qed

lemma known_uses: "fst (session_tokens.run_keeper [Look, Take, Look, Take] known_session) = [Copied ''d.e.f'', Handed ''d.e.f'']"
  by (simp only: session_tokens.run_keeper.simps Let_def)
    (simp add: look_refresh_def take_refresh_def GetRefreshToken_def TakeTokens_def tokenPairLocked_def
      clearTokensLocked_def known_token_def)

end
