(* ===== verification/Addresses.thy ===== *)
theory Addresses
  imports Go_Strings
begin

text \<open>
  \<open>internal/helpers/ip.go\<close>: the address and the port of a peer, and the classification of IP addresses.
  Of package net it has what that file uses: ParseIP and String, a CIDR block, SplitHostPort. An IP is
  the list of its bytes, 4 or 16 of them.
\<close>

subsection \<open>Reading addresses\<close>

type_synonym IP = "nat list"

text \<open>A decimal number up to 255 without leading zeros, and four of them.\<close>

definition octet :: "string \<Rightarrow> nat option" where
  "octet s =
     (if s = [] \<or> (length s > 1 \<and> hd s = CHR ''0'') then None
      else case parse_digits 10 0 s of None \<Rightarrow> None | Some n \<Rightarrow> if n \<le> 255 then Some n else None)"

definition parse_ip4 :: "string \<Rightarrow> IP option" where
  "parse_ip4 s =
     (case map octet (Split s ''.'') of
        [Some a, Some b, Some c, Some d] \<Rightarrow> Some [a, b, c, d]
      | _ \<Rightarrow> None)"

definition is_hex :: "char \<Rightarrow> bool" where
  "is_hex c \<longleftrightarrow> (case digit_value c of None \<Rightarrow> False | Some d \<Rightarrow> d < 16)"

text \<open>
  The groups of an IPv6 address: up to eight of at most four hexadecimal digits, the last two of them
  possibly in the notation of IPv4; an ellipsis is remembered as the number of bytes before it.
\<close>

fun ip6_groups :: "nat \<Rightarrow> nat option \<Rightarrow> IP \<Rightarrow> string \<Rightarrow> (IP \<times> nat option) option" where
  "ip6_groups 0 ell acc s = (if s = [] then Some (acc, ell) else None)"
| "ip6_groups (Suc n) ell acc s =
     (let ds = takeWhile is_hex s; rest = dropWhile is_hex s in
      if ds = [] \<or> length ds > 4 then None
      else if rest \<noteq> [] \<and> hd rest = CHR ''.'' then
        if (ell = None \<and> length acc \<noteq> 12) \<or> length acc > 12 then None
        else (case parse_ip4 s of None \<Rightarrow> None | Some fs \<Rightarrow> Some (acc @ fs, ell))
      else
        let g = the (parse_digits 16 0 ds); acc' = acc @ [g div 256, g mod 256] in
        (case rest of
           [] \<Rightarrow> Some (acc', ell)
         | [c] \<Rightarrow> None
         | c # c' # r \<Rightarrow>
             if c \<noteq> CHR '':'' then None
             else if c' = CHR '':'' then
               if ell \<noteq> None then None
               else if r = [] then Some (acc', Some (length acc'))
               else ip6_groups n (Some (length acc')) acc' r
             else ip6_groups n ell acc' (c' # r)))"

definition expand_ellipsis :: "IP \<times> nat option \<Rightarrow> IP option" where
  "expand_ellipsis p =
     (case p of (acc, ell) \<Rightarrow>
        if length acc < 16 then
          (case ell of None \<Rightarrow> None | Some e \<Rightarrow> Some (take e acc @ replicate (16 - length acc) 0 @ drop e acc))
        else if ell \<noteq> None then None else Some acc)"

definition parse_ip6 :: "string \<Rightarrow> IP option" where
  "parse_ip6 s =
     (if CHR ''%'' \<in> set s then None
      else if s = ''::'' then Some (replicate 16 0)
      else case (if prefix ''::'' s then ip6_groups 8 (Some 0) [] (drop 2 s) else ip6_groups 8 None [] s) of
          None \<Rightarrow> None
        | Some p \<Rightarrow> expand_ellipsis p)"

definition mapped_prefix :: IP where "mapped_prefix = replicate 10 0 @ [255, 255]"

text \<open>The first of a dot, a colon and a percent sign decides; addresses with a zone are refused.\<close>

definition ParseIP :: "string \<Rightarrow> IP option" where
  "ParseIP s =
     (case dropWhile (\<lambda>c. c \<notin> set ''.:%'') s of
        [] \<Rightarrow> None
      | c # _ \<Rightarrow>
          if c = CHR ''.'' then map_option (\<lambda>ip. mapped_prefix @ ip) (parse_ip4 s)
          else if c = CHR '':'' then parse_ip6 s else None)"

subsection \<open>Writing addresses\<close>

definition To4 :: "IP \<Rightarrow> IP option" where
  "To4 ip =
     (if length ip = 4 then Some ip
      else if length ip = 16 \<and> take 12 ip = mapped_prefix then Some (drop 12 ip) else None)"

definition To16 :: "IP \<Rightarrow> IP option" where
  "To16 ip = (if length ip = 4 then Some (mapped_prefix @ ip) else if length ip = 16 then Some ip else None)"

definition hex_char :: "nat \<Rightarrow> char" where
  "hex_char d = (if d < 10 then char_of (48 + d) else char_of (87 + d))"

fun hex_str :: "nat \<Rightarrow> string" where
  "hex_str n = (if n < 16 then [hex_char n] else hex_str (n div 16) @ [hex_char (n mod 16)])"

declare hex_str.simps [simp del]

fun groups_of :: "IP \<Rightarrow> nat list" where
  "groups_of (a # b # bs) = (a * 256 + b) # groups_of bs"
| "groups_of _ = []"

text \<open>The first of the longest runs of at least two zero groups: where it starts and ends.\<close>

definition zero_run :: "nat list \<Rightarrow> (nat \<times> nat) option" where
  "zero_run gs =
     fold (\<lambda>i best.
         let l = length (takeWhile (\<lambda>g. g = 0) (drop i gs)) in
         if l \<ge> 2 \<and> l > (case best of None \<Rightarrow> 0 | Some (a, b) \<Rightarrow> b - a) then Some (i, i + l) else best)
       [0 ..< length gs] None"

definition ip6_string :: "IP \<Rightarrow> string" where
  "ip6_string ip =
     (let gs = groups_of ip in
      case zero_run gs of
        None \<Rightarrow> join '':'' (map hex_str gs)
      | Some (a, b) \<Rightarrow> join '':'' (map hex_str (take a gs)) @ ''::'' @ join '':'' (map hex_str (drop b gs)))"

definition hex_bytes :: "IP \<Rightarrow> string" where
  "hex_bytes ip = concat (map (\<lambda>b. [hex_char (b div 16), hex_char (b mod 16)]) ip)"

definition IP_String :: "IP \<Rightarrow> string" where
  "IP_String ip =
     (if ip = [] then ''<nil>''
      else case To4 ip of
          Some ip4 \<Rightarrow> join ''.'' (map nat_str ip4)
        | None \<Rightarrow> if length ip = 16 then ip6_string ip else ''?'' @ hex_bytes ip)"

subsection \<open>Hosts and ports\<close>

definition last_index :: "char \<Rightarrow> string \<Rightarrow> nat option" where
  "last_index c s = (if c \<in> set s then Some (length s - 1 - length (takeWhile (\<lambda>d. d \<noteq> c) (rev s))) else None)"

definition addr_error :: "string \<Rightarrow> string \<Rightarrow> (string, string \<times> string) go_result" where
  "addr_error hostport why = Err ((if hostport = [] then [] else ''address '' @ hostport @ '': '') @ why)"

definition SplitHostPort :: "string \<Rightarrow> (string, string \<times> string) go_result" where
  "SplitHostPort hostport =
     (case last_index CHR '':'' hostport of
        None \<Rightarrow> addr_error hostport ''missing port in address''
      | Some i \<Rightarrow>
          if hd hostport = CHR ''['' then
            (case Index hostport '']'' of
               None \<Rightarrow> addr_error hostport ''missing ']' in address''
             | Some close \<Rightarrow>
                 if close + 1 = length hostport then addr_error hostport ''missing port in address''
                 else if close + 1 \<noteq> i then
                   (if hostport ! (close + 1) = CHR '':'' then addr_error hostport ''too many colons in address''
                    else addr_error hostport ''missing port in address'')
                 else if CHR ''['' \<in> set (drop 1 hostport) then addr_error hostport ''unexpected '[' in address''
                 else if CHR '']'' \<in> set (drop (close + 1) hostport) then addr_error hostport ''unexpected ']' in address''
                 else Ok (drop 1 (take close hostport), drop (i + 1) hostport))
          else if CHR '':'' \<in> set (take i hostport) then addr_error hostport ''too many colons in address''
          else if CHR ''['' \<in> set hostport then addr_error hostport ''unexpected '[' in address''
          else if CHR '']'' \<in> set hostport then addr_error hostport ''unexpected ']' in address''
          else Ok (take i hostport, drop (i + 1) hostport))"

text \<open>\<open>Sscanf\<close> with \<open>%d\<close> into a variable that is 0: the number at the front, or nothing.\<close>

definition scan_int :: "string \<Rightarrow> int" where
  "scan_int s =
     (let t = dropWhile (\<lambda>c. c \<in> {CHR '' '', CHR 0x09, CHR 0x0D}) s;
          sign = (if t \<noteq> [] \<and> hd t \<in> {CHR ''-'', CHR ''+''} then [hd t] else []);
          ds = takeWhile (\<lambda>c. digit_value c \<noteq> None \<and> the (digit_value c) < 10) (drop (length sign) t)
      in case ParseInt 10 (sign @ ds) of None \<Rightarrow> 0 | Some n \<Rightarrow> n)"

text \<open>A peer or local address; any other kind is read from its text.\<close>

datatype net_addr = NilAddr | TCPAddr IP int | UDPAddr IP int | OtherAddr string

definition ExtractIPFromAddr :: "net_addr \<Rightarrow> (string, string) go_result" where
  "ExtractIPFromAddr addr =
     (case addr of
        NilAddr \<Rightarrow> Err ''nil address''
      | TCPAddr ip port \<Rightarrow> Ok (IP_String ip)
      | UDPAddr ip port \<Rightarrow> Ok (IP_String ip)
      | OtherAddr s \<Rightarrow>
          (case SplitHostPort s of
             Ok (host, port) \<Rightarrow> Ok host
           | Err err \<Rightarrow> Err (''failed to parse address: '' @ err)
           | Panic \<Rightarrow> Panic))"

definition ExtractPortFromAddr :: "net_addr \<Rightarrow> (string, int) go_result" where
  "ExtractPortFromAddr addr =
     (case addr of
        NilAddr \<Rightarrow> Err ''nil address''
      | TCPAddr ip port \<Rightarrow> Ok port
      | UDPAddr ip port \<Rightarrow> Ok port
      | OtherAddr s \<Rightarrow>
          (case SplitHostPort s of
             Ok (host, port) \<Rightarrow> Ok (scan_int port)
           | Err err \<Rightarrow> Err (''failed to parse address: '' @ err)
           | Panic \<Rightarrow> Panic))"

subsection \<open>Classification\<close>

definition IsIPv4 :: "string \<Rightarrow> bool" where
  "IsIPv4 ipStr \<longleftrightarrow> (case ParseIP ipStr of None \<Rightarrow> False | Some ip \<Rightarrow> To4 ip \<noteq> None)"

definition IsIPv6 :: "string \<Rightarrow> bool" where
  "IsIPv6 ipStr \<longleftrightarrow> (case ParseIP ipStr of None \<Rightarrow> False | Some ip \<Rightarrow> To4 ip = None \<and> To16 ip \<noteq> None)"

definition NormalizeIP :: "string \<Rightarrow> string" where
  "NormalizeIP ipStr = (case ParseIP ipStr of None \<Rightarrow> ipStr | Some ip \<Rightarrow> IP_String ip)"

definition IsLocalhost :: "string \<Rightarrow> bool" where
  "IsLocalhost ipStr \<longleftrightarrow>
     (let normalized = NormalizeIP ipStr
      in normalized = ''127.0.0.1'' \<or> normalized = ''::1'' \<or> prefix ''127.'' normalized)"

text \<open>A block of IPv4 addresses, by its address and the length of its prefix: the masked bytes agree.\<close>

definition block_contains :: "IP \<times> nat \<Rightarrow> IP \<Rightarrow> bool" where
  "block_contains block ip \<longleftrightarrow>
     list_all (\<lambda>i. let unmasked = 8 - min 8 (snd block - 8 * i)
       in ip ! i div 2 ^ unmasked = fst block ! i div 2 ^ unmasked) [0, 1, 2, 3]"

definition private_blocks :: "(IP \<times> nat) list" where
  "private_blocks = [([10, 0, 0, 0], 8), ([172, 16, 0, 0], 12), ([192, 168, 0, 0], 16), ([127, 0, 0, 0], 8)]"

definition IsLoopback6 :: "IP \<Rightarrow> bool" where "IsLoopback6 ip \<longleftrightarrow> ip = replicate 15 0 @ [1]"

definition IsLinkLocalUnicast6 :: "IP \<Rightarrow> bool" where
  "IsLinkLocalUnicast6 ip \<longleftrightarrow> ip ! 0 = 0xFE \<and> ip ! 1 div 64 = 2"

definition IsLinkLocalMulticast6 :: "IP \<Rightarrow> bool" where
  "IsLinkLocalMulticast6 ip \<longleftrightarrow> ip ! 0 = 0xFF \<and> ip ! 1 mod 16 = 2"

definition IsPrivateIP :: "string \<Rightarrow> bool" where
  "IsPrivateIP ipStr \<longleftrightarrow>
     (case ParseIP ipStr of
        None \<Rightarrow> False
      | Some ip \<Rightarrow>
          (case To4 ip of
             Some ip4 \<Rightarrow> list_ex (\<lambda>block. block_contains block ip4) private_blocks
           | None \<Rightarrow> IsLoopback6 ip \<or> IsLinkLocalUnicast6 ip \<or> IsLinkLocalMulticast6 ip))"

subsection \<open>IPv4 addresses are read back\<close>

lemma nat_str_hd: "10 \<le> n \<Longrightarrow> hd (nat_str n) \<noteq> CHR ''0''"
proof (induction n rule: nat_str.induct)
  case (1 n)
  have n: "nat_str n = nat_str (n div 10) @ [char_of (48 + n mod 10)]" using 1(2) by (subst nat_str.simps) simp
  show ?case
  proof (cases "10 \<le> n div 10")
    case True
    then show ?thesis using 1 n by simp
  next
    case False
    then have "nat_str (n div 10) = [char_of (48 + n div 10)]" by (subst nat_str.simps) simp
    moreover have "0 < n div 10" using 1(2) by (simp add: div_greater_zero_iff)
    moreover have "char_of (48 + n div 10) \<noteq> CHR ''0''"
    proof
      assume "char_of (48 + n div 10) = CHR ''0''"
      then have "byte (char_of (48 + n div 10)) = 48" by simp
      then show False using False \<open>0 < n div 10\<close> by simp
    qed
    ultimately show ?thesis using n by simp
  qed
qed

lemma octet_nat_str: "n \<le> 255 \<Longrightarrow> octet (nat_str n) = Some n"
proof -
  assume n: "n \<le> 255"
  have "length (nat_str n) \<le> 1" if "n < 10" using that by (subst nat_str.simps) simp
  then have "\<not> (length (nat_str n) > 1 \<and> hd (nat_str n) = CHR ''0'')" using nat_str_hd [of n] by (cases "n < 10") auto
  then show ?thesis using n by (simp add: octet_def parse_nat_str)
qed

definition bytes4 :: "IP \<Rightarrow> bool" where
  "bytes4 ip \<longleftrightarrow> length ip = 4 \<and> list_all (\<lambda>b. b \<le> 255) ip"

lemma bytes4_cases:
  assumes "bytes4 ip"
  obtains a b c d where "ip = [a, b, c, d]" "a \<le> 255" "b \<le> 255" "c \<le> 255" "d \<le> 255"
proof -
  obtain a b c d where "ip = [a, b, c, d]"
    using assms by (auto simp: bytes4_def numeral_eq_Suc length_Suc_conv)
  then show thesis using assms that by (simp add: bytes4_def)
qed

lemma no_dot: "CHR ''.'' \<notin> set (nat_str n)" "CHR '':'' \<notin> set (nat_str n)" "CHR ''%'' \<notin> set (nat_str n)"
  using nat_str_digits [of _ n] by fastforce+

lemma parse_ip4_join:
  assumes "bytes4 ip"
  shows "parse_ip4 (join ''.'' (map nat_str ip)) = Some ip"
proof -
  from assms obtain a b c d where ip: "ip = [a, b, c, d]" "a \<le> 255" "b \<le> 255" "c \<le> 255" "d \<le> 255"
    by (rule bytes4_cases)
  have "Split (join ''.'' (map nat_str ip)) ''.'' = map nat_str ip"
    using no_dot by (simp add: ip(1) Split_def split_on_single_append)
  then show ?thesis using ip by (simp add: parse_ip4_def octet_nat_str)
qed

lemma dropWhile_first: "\<forall>c \<in> set x. P c \<Longrightarrow> \<not> P d \<Longrightarrow> dropWhile P (x @ d # y) = d # y"
  by (induction x) auto

lemma ParseIP_IP_String:
  assumes "bytes4 ip"
  shows "ParseIP (IP_String ip) = Some (mapped_prefix @ ip)" "ParseIP (IP_String (mapped_prefix @ ip)) = Some (mapped_prefix @ ip)"
proof -
  from assms obtain a b c d where ip: "ip = [a, b, c, d]" "a \<le> 255" "b \<le> 255" "c \<le> 255" "d \<le> 255"
    by (rule bytes4_cases)
  have "dropWhile (\<lambda>c. c \<notin> set ''.:%'') (join ''.'' (map nat_str ip)) = ''.'' @ join ''.'' (map nat_str [b, c, d])"
    using no_dot [of a] by (simp add: ip(1)) (intro dropWhile_first, auto)
  then have p: "ParseIP (join ''.'' (map nat_str ip)) = Some (mapped_prefix @ ip)"
    using parse_ip4_join [OF assms] by (simp add: ParseIP_def)
  have "IP_String ip = join ''.'' (map nat_str ip)" "IP_String (mapped_prefix @ ip) = join ''.'' (map nat_str ip)"
    by (simp_all add: ip(1) IP_String_def To4_def mapped_prefix_def)
  then show "ParseIP (IP_String ip) = Some (mapped_prefix @ ip)" "ParseIP (IP_String (mapped_prefix @ ip)) = Some (mapped_prefix @ ip)"
    using p by simp_all
qed

subsection \<open>What the parser accepts\<close>

lemma octet_bound: "octet s = Some n \<Longrightarrow> n \<le> 255"
  by (auto simp: octet_def split: if_splits option.splits)

lemma parse_ip4_bytes: "parse_ip4 s = Some ip \<Longrightarrow> bytes4 ip"
proof -
  assume "parse_ip4 s = Some ip"
  then obtain a b c d where "map octet (Split s ''.'') = [Some a, Some b, Some c, Some d]" "ip = [a, b, c, d]"
    by (auto simp: parse_ip4_def split: list.splits option.splits)
  moreover from this have "a \<le> 255 \<and> b \<le> 255 \<and> c \<le> 255 \<and> d \<le> 255"
    by (auto simp: map_eq_Cons_conv dest: octet_bound)
  ultimately show ?thesis by (simp add: bytes4_def)
qed

lemma ip6_groups_length:
  "ip6_groups n ell acc s = Some (r, e) \<Longrightarrow> length acc + 2 * n = 16 \<Longrightarrow>
     (case ell of None \<Rightarrow> True | Some k \<Rightarrow> k \<le> length acc) \<Longrightarrow>
     length r \<le> 16 \<and> (case e of None \<Rightarrow> True | Some k \<Rightarrow> k \<le> length r)"
proof (induction n arbitrary: ell acc s)
  case (Suc n)
  show ?case
  proof (cases "dropWhile is_hex s \<noteq> [] \<and> hd (dropWhile is_hex s) = CHR ''.''")
    case True
    then show ?thesis using Suc.prems
      by (auto simp: Let_def bytes4_def split: if_splits option.splits dest!: parse_ip4_bytes)
  next
    case False
    then show ?thesis using Suc.prems Suc.IH
      by (auto simp: Let_def split: if_splits list.splits option.splits)
  qed
qed (auto split: if_splits option.splits)

lemma expand_length: "expand_ellipsis (acc, e) = Some ip \<Longrightarrow> length acc \<le> 16 \<Longrightarrow>
    (case e of None \<Rightarrow> True | Some k \<Rightarrow> k \<le> length acc) \<Longrightarrow> length ip = 16"
  by (auto simp: expand_ellipsis_def split: if_splits option.splits)

lemma ParseIP_length: "ParseIP s = Some ip \<Longrightarrow> length ip = 16"
proof -
  assume p: "ParseIP s = Some ip"
  have "length ip = 16" if six: "parse_ip6 s = Some ip"
  proof (cases "s = ''::''")
    case False
    then obtain acc e where g: "(if prefix ''::'' s then ip6_groups 8 (Some 0) [] (drop 2 s) else ip6_groups 8 None [] s) = Some (acc, e)"
      "expand_ellipsis (acc, e) = Some ip"
      using six by (auto simp: parse_ip6_def split: if_splits option.splits)
    then have "length acc \<le> 16 \<and> (case e of None \<Rightarrow> True | Some k \<Rightarrow> k \<le> length acc)"
      by (auto split: if_splits dest!: ip6_groups_length)
    then show ?thesis using expand_length g(2) by blast
  qed (use six in \<open>auto simp: parse_ip6_def split: if_splits\<close>)
  then show ?thesis using p
    by (auto simp: ParseIP_def bytes4_def mapped_prefix_def split: list.splits if_splits dest!: parse_ip4_bytes)
qed

text \<open>An address that can be read is of exactly one of the two kinds.\<close>

lemma IPv4_or_IPv6: "ParseIP s \<noteq> None \<longleftrightarrow> IsIPv4 s \<noteq> IsIPv6 s"
  using ParseIP_length [of s] by (auto simp: IsIPv4_def IsIPv6_def To16_def split: option.splits)

text \<open>On a dotted quad the classifications are what they should be.\<close>

lemma dotted_quads:
  assumes "bytes4 [a, b, c, d]"
  shows "IsIPv4 (IP_String [a, b, c, d])" "NormalizeIP (IP_String [a, b, c, d]) = IP_String [a, b, c, d]"
    "IsPrivateIP (IP_String [a, b, c, d]) \<longleftrightarrow> a = 10 \<or> (a = 172 \<and> 16 \<le> b \<and> b < 32) \<or> (a = 192 \<and> b = 168) \<or> a = 127"
proof -
  have t: "To4 (mapped_prefix @ [a, b, c, d]) = Some [a, b, c, d]" by (simp add: To4_def mapped_prefix_def)
  note p = ParseIP_IP_String(1) [OF assms]
  show "IsIPv4 (IP_String [a, b, c, d])" by (simp add: IsIPv4_def p t)
  have "IP_String (mapped_prefix @ [a, b, c, d]) = IP_String [a, b, c, d]"
    by (simp add: IP_String_def To4_def mapped_prefix_def)
  then show "NormalizeIP (IP_String [a, b, c, d]) = IP_String [a, b, c, d]" by (simp add: NormalizeIP_def p)
  show "IsPrivateIP (IP_String [a, b, c, d]) \<longleftrightarrow> a = 10 \<or> (a = 172 \<and> 16 \<le> b \<and> b < 32) \<or> (a = 192 \<and> b = 168) \<or> a = 127"
  proof -
    have small: "a \<le> 255" "b \<le> 255" "c \<le> 255" "d \<le> 255" using assms by (simp_all add: bytes4_def)
    then have "b div 16 = 1 \<longleftrightarrow> 16 \<le> b \<and> b < 32" by auto
    then show ?thesis
      using small by (simp add: IsPrivateIP_def p t private_blocks_def block_contains_def Let_def)
  qed
qed

text \<open>The client of a connection over IPv4 is known by its dotted quad, also where the socket is an IPv6 one.\<close>

lemma peer_of_ip4:
  assumes "bytes4 ip"
  shows "ExtractIPFromAddr (TCPAddr ip port) = Ok (join ''.'' (map nat_str ip))"
    "ExtractIPFromAddr (TCPAddr (mapped_prefix @ ip) port) = Ok (join ''.'' (map nat_str ip))"
  using assms by (auto simp: ExtractIPFromAddr_def IP_String_def To4_def mapped_prefix_def bytes4_def)

end
