(* ===== verification/Localization.thy ===== *)
theory Localization
  imports Fsip2_Prelude "HOL-Library.AList"
begin

text \<open>
  \<open>internal/localization\<close>: the screen messages of each language. The file system and encoding/json are
  parameters; the lock makes each operation one step.
\<close>

record Messages =
  CheckoutSuccessText :: string
  CheckoutFailed :: string
  CheckinSuccessText :: string
  CheckinFailed :: string
  RenewalSuccess :: string
  RenewalFailed :: string
  PatronNotFound :: string
  ItemNotFound :: string
  ItemFound :: string
  LoginSuccessText :: string
  LoginFailed :: string
  SessionEnded :: string
  SessionEndFailed :: string
  PaymentAccepted :: string
  PaymentFailed :: string
  ItemPropertiesUpdated :: string
  ItemPropertiesUpdateFail :: string
  RenewAllSuccess :: string
  RenewAllNoItems :: string
  InvalidPatron :: string
  InvalidItem :: string
  PatronBlocked :: string
  ItemNotAvailable :: string
  RenewalNotPermitted :: string
  CheckoutNotPermitted :: string
  HoldNotPermitted :: string
  InvalidPassword :: string
  ServiceUnavailable :: string
  PermissionDenied :: string
  RequiredFieldMissing :: string
  InvalidFieldValue :: string

definition no_messages :: Messages where
  "no_messages =
     \<lparr>CheckoutSuccessText = [], CheckoutFailed = [], CheckinSuccessText = [], CheckinFailed = [], RenewalSuccess = [],
      RenewalFailed = [], PatronNotFound = [], ItemNotFound = [], ItemFound = [], LoginSuccessText = [], LoginFailed = [],
      SessionEnded = [], SessionEndFailed = [], PaymentAccepted = [], PaymentFailed = [], ItemPropertiesUpdated = [],
      ItemPropertiesUpdateFail = [], RenewAllSuccess = [], RenewAllNoItems = [], InvalidPatron = [], InvalidItem = [],
      PatronBlocked = [], ItemNotAvailable = [], RenewalNotPermitted = [], CheckoutNotPermitted = [],
      HoldNotPermitted = [], InvalidPassword = [], ServiceUnavailable = [], PermissionDenied = [],
      RequiredFieldMissing = [], InvalidFieldValue = []\<rparr>"

record Localizer =
  lzMessages :: "(string \<times> Messages) list"
  lzDefault :: string

definition NewLocalizer :: "string \<Rightarrow> Localizer" where
  "NewLocalizer defaultLang = \<lparr>lzMessages = [], lzDefault = defaultLang\<rparr>"

text \<open>What a load decodes: the messages, or the text of the error.\<close>

type_synonym message_decoder = "string \<Rightarrow> (string, Messages) go_result"

definition LoadMessagesFromString ::
  "message_decoder \<Rightarrow> string \<Rightarrow> string \<Rightarrow> Localizer \<Rightarrow> string option \<times> Localizer" where
  "LoadMessagesFromString decode lang jsonData l =
     (case decode jsonData of
        Ok m \<Rightarrow> (None, l\<lparr>lzMessages := AList.update lang m (lzMessages l)\<rparr>)
      | Err err \<Rightarrow> (Some (''failed to parse localization data: '' @ err), l)
      | Panic \<Rightarrow> (None, l))"

definition LoadMessages ::
  "(string \<Rightarrow> (string, string) go_result) \<Rightarrow> message_decoder \<Rightarrow> string \<Rightarrow> string \<Rightarrow> Localizer \<Rightarrow> string option \<times> Localizer" where
  "LoadMessages read_file decode lang filePath l =
     (case read_file filePath of
        Err err \<Rightarrow> (Some (''failed to read localization file: '' @ err), l)
      | Panic \<Rightarrow> (None, l)
      | Ok data \<Rightarrow>
          (case decode data of
             Ok m \<Rightarrow> (None, l\<lparr>lzMessages := AList.update lang m (lzMessages l)\<rparr>)
           | Err err \<Rightarrow> (Some (''failed to parse localization file: '' @ err), l)
           | Panic \<Rightarrow> (None, l)))"

definition GetMessages :: "string \<Rightarrow> Localizer \<Rightarrow> Messages" where
  "GetMessages lang l =
     (case map_of (lzMessages l) lang of
        Some m \<Rightarrow> m
      | None \<Rightarrow> (case map_of (lzMessages l) (lzDefault l) of Some m \<Rightarrow> m | None \<Rightarrow> no_messages))"

definition SetDefaultLanguage :: "string \<Rightarrow> Localizer \<Rightarrow> Localizer" where
  "SetDefaultLanguage lang l = l\<lparr>lzDefault := lang\<rparr>"

definition GetDefaultLanguage :: "Localizer \<Rightarrow> string" where "GetDefaultLanguage l = lzDefault l"

text \<open>The order of the languages is that of a Go map: any order of this list.\<close>

definition SupportedLanguages :: "Localizer \<Rightarrow> string list" where
  "SupportedLanguages l = map fst (lzMessages l)"

subsection \<open>A lookup after a load\<close>

text \<open>A load that succeeds decides its language and leaves the others, one that fails leaves all.\<close>

lemma GetMessages_load:
  assumes "LoadMessagesFromString decode lang data l = (err, l')"
  shows "map_of (lzMessages l') =
    (case decode data of Ok m \<Rightarrow> (map_of (lzMessages l))(lang \<mapsto> m) | _ \<Rightarrow> map_of (lzMessages l))"
    "lzDefault l' = lzDefault l"
  using assms by (auto simp: LoadMessagesFromString_def update_conv' split: go_result.splits)

lemma load_reads_the_file:
  "read_file path = Ok data \<Longrightarrow> snd (LoadMessages read_file decode lang path l) = snd (LoadMessagesFromString decode lang data l)"
  by (simp add: LoadMessages_def LoadMessagesFromString_def split: go_result.split)

text \<open>A language is supported once it was loaded, and each only once.\<close>

lemma supported_after_load:
  "decode data = Ok m \<Longrightarrow> distinct (SupportedLanguages l) \<Longrightarrow>
     set (SupportedLanguages (snd (LoadMessagesFromString decode lang data l))) = insert lang (set (SupportedLanguages l)) \<and>
     distinct (SupportedLanguages (snd (LoadMessagesFromString decode lang data l)))"
  by (simp add: LoadMessagesFromString_def SupportedLanguages_def distinct_update dom_update image_comp [symmetric])

text \<open>A language that is not supported gets the messages of the default language.\<close>

lemma GetMessages_fallback:
  "lang \<notin> set (SupportedLanguages l) \<Longrightarrow> GetMessages lang l = GetMessages (GetDefaultLanguage l) l"
proof -
  assume "lang \<notin> set (SupportedLanguages l)"
  then have "map_of (lzMessages l) lang = None" by (simp add: SupportedLanguages_def map_of_eq_None_iff)
  then show ?thesis by (simp add: GetMessages_def GetDefaultLanguage_def split: option.split)
qed

end
