(* ===== verification/Program.thy ===== *)
theory Program
  imports Server Reloader Logger
begin

text \<open>
  \<open>cmd/fsip2/main.go\<close> and \<open>internal/health/health.go\<close>: how the program starts and ends. A run is the list of
  what it does to its parts, in order, with what it returns; the parts are those of the other theories. What
  the system decides (the decoded file, the log file, a signal or the end of the server) is a record of
  answers. The command line and the words printed on it are the library cobra's and are left out.
\<close>

subsection \<open>The health page\<close>

text \<open>The three fixed routes; the page of the metrics is written by the Prometheus library.\<close>

datatype health_answer = Page int string | PrometheusPage | NotFound

definition healthHandler :: health_answer where "healthHandler = Page 200 ''OK''"

definition readyHandler :: health_answer where "readyHandler = Page 200 ''Ready''"

definition health_routes :: "(string \<times> health_answer) list" where
  "health_routes = [(''/admin/health'', healthHandler), (''/admin/ready'', readyHandler), (''/metrics'', PrometheusPage)]"

definition health_page :: "string \<Rightarrow> health_answer" where
  "health_page path = (case map_of health_routes path of None \<Rightarrow> NotFound | Some a \<Rightarrow> a)"

record health_server =
  hsHost :: string
  hsPort :: int
  hsAddr :: "string option"

definition health_NewServer :: "int \<Rightarrow> health_server" where
  "health_NewServer port = \<lparr>hsHost = [], hsPort = port, hsAddr = None\<rparr>"

definition NewServerWithHost :: "string \<Rightarrow> int \<Rightarrow> health_server" where
  "NewServerWithHost host port = \<lparr>hsHost = host, hsPort = port, hsAddr = None\<rparr>"

text \<open>\<open>ListenAndServe\<close> returns when the server is shut down or with another error.\<close>

definition health_Start :: "string option \<Rightarrow> health_server \<Rightarrow> string option \<times> health_server" where
  "health_Start served s =
     ((case served of
         None \<Rightarrow> None
       | Some err \<Rightarrow> if err = ''http: Server closed'' then None else Some (''health check server error: '' @ err)),
      s\<lparr>hsAddr := Some (hsHost s @ '':'' @ int_str (hsPort s))\<rparr>)"

definition health_Stop :: "string option \<Rightarrow> health_server \<Rightarrow> string option" where
  "health_Stop shutdown s =
     (case hsAddr s of
        None \<Rightarrow> None
      | Some a \<Rightarrow> (case shutdown of None \<Rightarrow> None | Some err \<Rightarrow> Some (''failed to shutdown health check server: '' @ err)))"

subsection \<open>A run\<close>

datatype action =
    LoggerMade logger | AuthLoggerSet | ClientLoggerSet | Wrote log_line
  | HealthServerStarted health_server | Sip2ServerMade server | HandlersRegistered
  | ReloaderStarted Reloader | Sip2ServerStarted | CancelCalled | Sip2ServerStopped
  | ReloaderStopped | LoggerSynced

datatype run_end = Signalled "string option" | ServerReturned "string option"

record answers =
  anDecoded :: "(string, Config) go_result"
  anSources :: "ConfigSource \<Rightarrow> (string, TenantConfig list \<times> SCTenantConfig list) go_result"
  anUnicode :: "nat \<Rightarrow> nat"
  anUrlOk :: "string \<Rightarrow> bool"
  anSystem :: log_system
  anEnd :: run_end

definition app_line :: "log_level \<Rightarrow> string \<Rightarrow> (string \<times> string) list \<Rightarrow> action" where
  "app_line level txt fs = Wrote (line level TypeApplication txt fs)"

definition program_version :: string where "program_version = ''1.0.0''"

definition starting_lines :: "Config \<Rightarrow> action list" where
  "starting_lines cfg =
     app_line InfoLevel ''Starting fsip2''
       [(''version'', program_version), (''port'', int_str (Port cfg)), (''okapi_url'', cfg_OkapiURL cfg)] #
     map (\<lambda>w. app_line WarnLevel w []) (DeprecationWarnings cfg)"

text \<open>What follows the start of the server, until \<open>run\<close> returns; the deferred calls come after.\<close>

definition serve_until :: "run_end \<Rightarrow> string option \<times> action list" where
  "serve_until en =
     (case en of
        Signalled stop_err \<Rightarrow>
          (stop_err,
           [Sip2ServerStarted,
            app_line InfoLevel ''Received shutdown signal, gracefully stopping...'' [],
            CancelCalled, Sip2ServerStopped,
            (case stop_err of
               Some err \<Rightarrow> app_line ErrorLevel ''Error during shutdown'' [(''error'', err)]
             | None \<Rightarrow> app_line InfoLevel ''Server stopped successfully'' [])])
      | ServerReturned err \<Rightarrow> (map_option (\<lambda>e. ''server error: '' @ e) err, [Sip2ServerStarted]))"

definition with_reloader :: "Config \<Rightarrow> run_end \<Rightarrow> string option \<times> action list" where
  "with_reloader cfg en =
     (if TenantConfigSources cfg = [] then serve_until en
      else case reloader_Start (NewReloader cfg) of
          (Some err, r) \<Rightarrow> (Some (''failed to start config reloader: '' @ err), [])
        | (None, r) \<Rightarrow>
            (fst (serve_until en),
             [ReloaderStarted r,
              app_line DebugLevel ''Configuration reloader started''
                [(''scan_period'', int_str (GetScanPeriod cfg)), (''sources'', nat_str (length (TenantConfigSources cfg)))]] @
             snd (serve_until en) @ [ReloaderStopped]))"

definition run :: "answers \<Rightarrow> string \<Rightarrow> string option \<times> action list" where
  "run an logFile =
     (case go_bind (anDecoded an) (Load (anSources an)) of
        Err err \<Rightarrow> (Some (''failed to load configuration: '' @ err), [])
      | Panic \<Rightarrow> (None, [])
      | Ok cfg \<Rightarrow>
          (case cfg_Validate (anUnicode an) (anUrlOk an) cfg of
             Some err \<Rightarrow> (Some (''invalid configuration: '' @ err), [])
           | None \<Rightarrow>
               (case NewLogger (anSystem an) (cfg_LogLevel cfg) logFile of
                  Err err \<Rightarrow> (Some (''failed to initialize logger: '' @ err), [])
                | Panic \<Rightarrow> (None, [])
                | Ok lg \<Rightarrow>
                    (fst (with_reloader cfg (anEnd an)),
                     [LoggerMade lg, AuthLoggerSet, ClientLoggerSet] @ starting_lines cfg @
                     [HealthServerStarted (health_NewServer (HealthCheckPort cfg)), Sip2ServerMade NewServer, HandlersRegistered] @
                     snd (with_reloader cfg (anEnd an)) @ [CancelCalled, LoggerSynced]))))"

text \<open>The exit status of the process.\<close>

definition main_status :: "answers \<Rightarrow> string \<Rightarrow> int" where
  "main_status an logFile = (case fst (run an logFile) of None \<Rightarrow> 0 | Some err \<Rightarrow> 1)"

subsection \<open>What a run leaves behind\<close>

text \<open>Nothing is touched for a configuration that cannot be loaded or is not valid.\<close>

lemma run_needs_a_valid_configuration:
  "snd (run an logFile) \<noteq> [] \<Longrightarrow>
     \<exists>cfg lg. go_bind (anDecoded an) (Load (anSources an)) = Ok cfg \<and> cfg_Validate (anUnicode an) (anUrlOk an) cfg = None \<and>
       NewLogger (anSystem an) (cfg_LogLevel cfg) logFile = Ok lg"
  by (auto simp: run_def split: go_result.splits option.splits)

lemma app_lines_only [simp]:
  "x \<in> set (starting_lines cfg) \<Longrightarrow> \<exists>l. x = Wrote l"
  by (auto simp: starting_lines_def app_line_def)

definition reloader_balance :: "action list \<Rightarrow> bool" where
  "reloader_balance as \<longleftrightarrow>
     length (filter (\<lambda>a. \<exists>r. a = ReloaderStarted r) as) = length (filter (\<lambda>a. a = ReloaderStopped) as)"

lemma no_reloader_serving: "filter (\<lambda>a. \<exists>r. a = ReloaderStarted r) (snd (serve_until en)) = []"
  "filter (\<lambda>a. a = ReloaderStopped) (snd (serve_until en)) = []"
  by (auto simp: serve_until_def app_line_def split: run_end.split option.split)

lemma no_reloader_starting: "filter (\<lambda>a. \<exists>r. a = ReloaderStarted r) (starting_lines cfg) = []"
  "filter (\<lambda>a. a = ReloaderStopped) (starting_lines cfg) = []"
  by (auto simp: filter_empty_conv dest: app_lines_only)

lemma with_reloader_balance: "reloader_balance (snd (with_reloader cfg en))"
  unfolding reloader_balance_def with_reloader_def
  by (auto simp: no_reloader_serving app_line_def split: prod.split option.split)

text \<open>A reloader that was started is stopped, the context is cancelled and the log is flushed.\<close>

lemma run_ends_in_order:
  assumes "snd (run an logFile) \<noteq> []"
  shows "reloader_balance (snd (run an logFile)) \<and> last (snd (run an logFile)) = LoggerSynced \<and>
    CancelCalled \<in> set (snd (run an logFile))"
proof -
  obtain raw cfg lg where "anDecoded an = Ok raw" "Load (anSources an) raw = Ok cfg"
    "cfg_Validate (anUnicode an) (anUrlOk an) cfg = None" "NewLogger (anSystem an) (cfg_LogLevel cfg) logFile = Ok lg"
    using run_needs_a_valid_configuration [OF assms] by auto
  then show ?thesis
    using with_reloader_balance [of cfg "anEnd an"] by (simp add: run_def reloader_balance_def no_reloader_starting)
qed

text \<open>At a signal the context is cancelled before the server is stopped: what \<^const>\<open>main_shutdown\<close> says.\<close>

lemma signal_cancels_first:
  "\<exists>before after. snd (serve_until (Signalled stop_err)) = before @ CancelCalled # Sip2ServerStopped # after \<and>
     Sip2ServerStopped \<notin> set before"
  by (rule exI [of _ "take 2 (snd (serve_until (Signalled stop_err)))"])
    (auto simp: serve_until_def app_line_def)

text \<open>The pages do not depend on the state of the program: they are the same from the start to the end.\<close>

lemma health_pages: "health_page ''/admin/health'' = Page 200 ''OK''" "health_page ''/admin/ready'' = Page 200 ''Ready''"
  by (simp_all add: health_page_def health_routes_def healthHandler_def readyHandler_def)

text \<open>A health server that was never started has nothing to stop; the shutdown's own error is not one of the start.\<close>

lemma health_lifecycle:
  "health_Stop shutdown (health_NewServer port) = None"
  "fst (health_Start (Some ''http: Server closed'') s) = None"
  by (simp_all add: health_Stop_def health_NewServer_def health_Start_def)

end
