(* ===== verification/Simple_Resolver.thy ===== *)
theory Simple_Resolver
  imports Addresses Tenants
begin

text \<open>
  \<open>SimpleIPResolver\<close> of \<open>internal/tenant/ip_resolver.go\<close>, which reads its subnet with package net instead of
  the address library, and the identifiers that \<open>helpers.GenerateID\<close> makes of random bytes. Of net it has
  ParseCIDR and Contains. On IPv4 the resolver is membership in the block of the subnet.
\<close>

subsection \<open>Subnets of package net\<close>

text \<open>The address, masked, and the length of the prefix.\<close>

type_synonym IPNet = "IP \<times> nat"

definition masked_byte :: "nat \<Rightarrow> nat \<Rightarrow> nat \<Rightarrow> nat" where
  "masked_byte n i b = (let unmasked = 8 - min 8 (n - 8 * i) in b div 2 ^ unmasked * 2 ^ unmasked)"

definition Mask :: "nat \<Rightarrow> IP \<Rightarrow> IP" where
  "Mask n ip = map (\<lambda>i. masked_byte n i (ip ! i)) [0 ..< length ip]"

definition is_dotted :: "string \<Rightarrow> bool" where
  "is_dotted s \<longleftrightarrow> prefix ''.'' (dropWhile (\<lambda>c. c \<notin> set ''.:%'') s)"

text \<open>The number after the slash is decimal; a dotted address has 32 bits, any other 128.\<close>

definition ParseCIDR :: "string \<Rightarrow> IPNet option" where
  "ParseCIDR s =
     (case Index s ''/'' of
        None \<Rightarrow> None
      | Some i \<Rightarrow>
          (let addr = take i s; mask = drop (i + 1) s; bits = (if is_dotted addr then 32 else 128)
           in case ParseIP addr of
                None \<Rightarrow> None
              | Some ip \<Rightarrow>
                  (case (if mask = [] then None else parse_digits 10 0 mask) of
                     None \<Rightarrow> None
                   | Some n \<Rightarrow>
                       if n > bits then None
                       else Some (Mask n (if is_dotted addr then drop 12 ip else ip), n))))"

text \<open>Both are taken in four bytes where they can; the mask of a mapped address is that of its last four.\<close>

definition IPNet_Contains :: "IPNet \<Rightarrow> IP \<Rightarrow> bool" where
  "IPNet_Contains net ip =
     (let nn = (case To4 (fst net) of Some ip4 \<Rightarrow> ip4 | None \<Rightarrow> fst net);
          n = (if length (fst net) = 16 \<and> length nn = 4 then snd net - 96 else snd net);
          x = (case To4 ip of Some ip4 \<Rightarrow> ip4 | None \<Rightarrow> ip)
      in length x = length nn \<and> Mask n nn = Mask n x)"

subsection \<open>The resolver\<close>

record SimpleIPResolver =
  sirCidr :: IPNet
  sirTenant :: TenantConfig

definition NewSimpleIPResolver :: "string \<Rightarrow> TenantConfig \<Rightarrow> (string, SimpleIPResolver) go_result" where
  "NewSimpleIPResolver cidr tc =
     (case ParseCIDR cidr of
        None \<Rightarrow> Err (''invalid CIDR: invalid CIDR address: '' @ cidr)
      | Some ipnet \<Rightarrow> Ok \<lparr>sirCidr = ipnet, sirTenant = tc\<rparr>)"

definition SimpleIPResolver_Resolve ::
  "SimpleIPResolver \<Rightarrow> ResolverData \<Rightarrow> (string, TenantConfig option) go_result" where
  "SimpleIPResolver_Resolve r data =
     (if ClientIP data = [] then Err ''no client IP provided''
      else case ParseIP (ClientIP data) of
          None \<Rightarrow> Err (''invalid client IP: '' @ ClientIP data)
        | Some clientIP \<Rightarrow> if IPNet_Contains (sirCidr r) clientIP then Ok (Some (sirTenant r)) else Ok None)"

subsection \<open>IPv4\<close>

lemma masked_eq: "masked_byte n i a = masked_byte n i b \<longleftrightarrow> (let u = 8 - min 8 (n - 8 * i) in a div 2 ^ u = b div 2 ^ u)"
  by (simp add: masked_byte_def Let_def)

lemma masked_idem: "masked_byte n i (masked_byte n i b) = masked_byte n i b"
  by (simp add: masked_byte_def Let_def)

lemma dotted_text:
  assumes "bytes4 ip"
  shows "is_dotted (IP_String ip)" "CHR ''/'' \<notin> set (IP_String ip)"
proof -
  from assms obtain a b c d where ip: "ip = [a, b, c, d]" by (rule bytes4_cases)
  have s: "IP_String ip = nat_str a @ CHR ''.'' # join ''.'' (map nat_str [b, c, d])"
    by (simp add: ip IP_String_def To4_def)
  have "dropWhile (\<lambda>c. c \<notin> set ''.:%'') (IP_String ip) = CHR ''.'' # join ''.'' (map nat_str [b, c, d])"
    unfolding s using no_dot [of a] by (intro dropWhile_first) auto
  then show "is_dotted (IP_String ip)" by (simp add: is_dotted_def)
  have "CHR ''/'' \<notin> set (nat_str k)" for k using nat_str_digits [of _ k] by fastforce
  then show "CHR ''/'' \<notin> set (IP_String ip)" by (simp add: s)
qed


lemma Index_char: "c \<notin> set x \<Longrightarrow> Index (x @ c # y) [c] = Some (length x)"
  by (induction x) auto

lemma Mask4: "Mask n [a, b, c, d] = [masked_byte n 0 a, masked_byte n 1 b, masked_byte n 2 c, masked_byte n 3 d]"
  by (simp add: Mask_def upt_rec numeral_2_eq_2 numeral_3_eq_3)

lemma Mask4_block:
  "Mask n [a, b, c, d] = Mask n [a', b', c', d'] \<longleftrightarrow> block_contains ([a, b, c, d], n) [a', b', c', d']"
  by (simp add: Mask4 masked_eq block_contains_def Let_def del: One_nat_def) metis

lemma ParseCIDR_ip4:
  assumes "bytes4 net" "n \<le> 32"
  shows "ParseCIDR (IP_String net @ CHR ''/'' # nat_str n) = Some (Mask n net, n)"
proof -
  have i: "Index (IP_String net @ CHR ''/'' # nat_str n) ''/'' = Some (length (IP_String net))"
    by (rule Index_char [OF dotted_text(2) [OF assms(1)]])
  have "nat_str n \<noteq> []" by (subst nat_str.simps) simp
  moreover have "12 = length mapped_prefix" by (simp add: mapped_prefix_def)
  ultimately show ?thesis
    using assms(2) unfolding ParseCIDR_def i
    by (simp add: dotted_text(1) [OF assms(1)] ParseIP_IP_String(1) [OF assms(1)] parse_nat_str Let_def)
qed

text \<open>On IPv4 the resolver answers with its tenant for exactly the clients in the block.\<close>

theorem simple_resolver_ip4:
  assumes "bytes4 net" "bytes4 ip" "n \<le> 32"
    and r: "NewSimpleIPResolver (IP_String net @ CHR ''/'' # nat_str n) tc = Ok r"
    and client: "ClientIP data = IP_String ip"
  shows "SimpleIPResolver_Resolve r data = Ok (if block_contains (net, n) ip then Some tc else None)"
proof -
  from assms(1) obtain a b c d where net: "net = [a, b, c, d]" by (rule bytes4_cases)
  from assms(2) obtain a' b' c' d' where ip: "ip = [a', b', c', d']" by (rule bytes4_cases)
  have "r = \<lparr>sirCidr = (Mask n net, n), sirTenant = tc\<rparr>"
    using r by (simp add: NewSimpleIPResolver_def ParseCIDR_ip4 [OF assms(1,3)])
  moreover have "IP_String ip \<noteq> []" using dotted_text(1) [OF assms(2)] by (auto simp: is_dotted_def)
  moreover have "IPNet_Contains (Mask n net, n) (mapped_prefix @ ip) \<longleftrightarrow> block_contains (net, n) ip"
  proof -
    have "Mask n (Mask n net) = Mask n net" by (simp add: net Mask4 masked_idem)
    moreover have "length (Mask n net) = 4" "length (Mask n ip) = 4" by (simp_all add: net ip Mask4)
    ultimately show ?thesis
      using Mask4_block [of n a b c d a' b' c' d'] by (simp add: IPNet_Contains_def To4_def mapped_prefix_def net ip Let_def)
  qed
  ultimately show ?thesis
    by (simp add: SimpleIPResolver_Resolve_def client ParseIP_IP_String(1) [OF assms(2)])
qed

text \<open>The subnets of the private ranges, written as tenants would write them.\<close>

lemma simple_resolver_private:
  assumes "block \<in> set private_blocks" "bytes4 ip" "ClientIP data = IP_String ip"
    and "NewSimpleIPResolver (IP_String (fst block) @ CHR ''/'' # nat_str (snd block)) tc = Ok r"
    and "SimpleIPResolver_Resolve r data = Ok (Some tc)"
  shows "IsPrivateIP (IP_String ip)"
proof -
  from assms(1) have b: "bytes4 (fst block)" "snd block \<le> 32" by (auto simp: private_blocks_def bytes4_def)
  have "block_contains block ip"
    using simple_resolver_ip4 [OF b(1) assms(2) b(2) assms(4,3)] assms(5) by (simp split: if_splits)
  moreover from assms(2) obtain a c d e where "ip = [a, c, d, e]" by (rule bytes4_cases)
  then have "To4 (mapped_prefix @ ip) = Some ip" by (simp add: To4_def mapped_prefix_def)
  ultimately show ?thesis
    using assms(1) by (auto simp: IsPrivateIP_def ParseIP_IP_String(1) [OF assms(2)] list_ex_iff)
qed

subsection \<open>Session identifiers\<close>

text \<open>The argument is what \<open>crypto/rand\<close> puts into the sixteen bytes.\<close>

definition GenerateID :: "nat list \<Rightarrow> string" where
  "GenerateID bytes = hex_bytes bytes"

lemma hex_char_inj: "a < 16 \<Longrightarrow> b < 16 \<Longrightarrow> hex_char a = hex_char b \<Longrightarrow> a = b"
proof -
  assume "a < 16" "b < 16" "hex_char a = hex_char b"
  moreover from this(3) have "byte (hex_char a) = byte (hex_char b)" by simp
  ultimately show ?thesis by (auto simp: hex_char_def split: if_splits)
qed

lemma hex_byte_inj:
  assumes "x < 256" "y < 256" "hex_char (x div 16) = hex_char (y div 16)" "hex_char (x mod 16) = hex_char (y mod 16)"
  shows "x = y"
proof -
  have "x div 16 < 16" "y div 16 < 16" using assms(1,2) by simp_all
  then have "x div 16 = y div 16" "x mod 16 = y mod 16" using assms(3,4) hex_char_inj by simp_all
  then show ?thesis by (metis div_mult_mod_eq)
qed

text \<open>Identifiers have two characters for a byte, and different bytes give different identifiers.\<close>

lemma GenerateID_length: "length (GenerateID bytes) = 2 * length bytes"
  by (induction bytes) (simp_all add: GenerateID_def hex_bytes_def)

theorem GenerateID_inj:
  "list_all (\<lambda>b. b < 256) xs \<Longrightarrow> list_all (\<lambda>b. b < 256) ys \<Longrightarrow> GenerateID xs = GenerateID ys \<Longrightarrow> xs = ys"
proof (induction xs arbitrary: ys)
  case Nil
  then show ?case by (cases ys) (simp_all add: GenerateID_def hex_bytes_def)
next
  case (Cons x xs)
  then obtain y ys' where ys: "ys = y # ys'" by (cases ys) (simp_all add: GenerateID_def hex_bytes_def)
  with Cons show ?case by (auto simp: GenerateID_def hex_bytes_def intro: hex_byte_inj)
qed

end
