(* ===== verification/Renewal_Log.thy ===== *)
theory Renewal_Log
  imports Logger Token_Auth
begin

text \<open>
  What the renewal and the logout of tokens tell the operator about an error: \<open>logRenewal\<close> and
  \<open>renewalErrorClass\<close> of \<open>internal/handlers/base.go\<close> and \<open>statusOrClass\<close> of \<open>session_logout.go\<close>. The text of an
  error and of a time are arguments. An error of FOLIO is told by its status alone.
\<close>

definition renewalErrorClass :: "(folio_error \<Rightarrow> string) \<Rightarrow> folio_error \<Rightarrow> string" where
  "renewalErrorClass text_of err =
     (case err of
        DeadlineExceeded \<Rightarrow> ''timeout''
      | Canceled \<Rightarrow> ''cancelled''
      | ErrNoRefreshToken \<Rightarrow> ''no_refresh_token''
      | ErrNoCredentials \<Rightarrow> ''no_credentials''
      | _ \<Rightarrow> text_of err)"

definition statusOrClass :: "(folio_error \<Rightarrow> string) \<Rightarrow> folio_error \<Rightarrow> string \<times> string" where
  "statusOrClass text_of err =
     (case as_http err of
        Some (n, _) \<Rightarrow> (''status_code'', int_str n)
      | None \<Rightarrow> (''error_class'', renewalErrorClass text_of err))"

definition logRenewal ::
  "(folio_error \<Rightarrow> string) \<Rightarrow> (GoTime \<Rightarrow> string) \<Rightarrow> Session \<Rightarrow> string \<Rightarrow> folio_error option \<Rightarrow> log_line" where
  "logRenewal text_of time_text s rmethod outcome =
     (case outcome of
        None \<Rightarrow>
          line InfoLevel TypeApplication ''Token renewal''
            [(''method'', rmethod), (''result'', ''ok''), (''access_expires_at'', time_text (TokenExpiresAt s)),
             (''session_id'', sessID s)]
      | Some err \<Rightarrow>
          line WarnLevel TypeApplication ''Token renewal''
            [(''method'', rmethod), (''result'', ''failed''), (''session_id'', sessID s), statusOrClass text_of err])"

text \<open>The body of an answer of FOLIO is not told, nor what a permission error says beside its status.\<close>

lemma status_only:
  "statusOrClass text_of (HTTPError n body) = (''status_code'', int_str n)"
  "statusOrClass text_of (PermissionError oper m p ce body) = (''status_code'', ''403'')"
proof -
  have "int_str 403 = ''403''" by code_simp
  then show "statusOrClass text_of (HTTPError n body) = (''status_code'', int_str n)"
    "statusOrClass text_of (PermissionError oper m p ce body) = (''status_code'', ''403'')"
    by (simp_all add: statusOrClass_def)
qed

text \<open>Of the session a renewal tells its identifier and when the new token expires; no token and no password.\<close>

lemma renewal_line_without_tokens:
  "logRenewal text_of time_text (s\<lparr>AuthToken := a, refreshToken := r, password := p, Username := u\<rparr>) rmethod outcome =
     logRenewal text_of time_text s rmethod outcome"
  by (simp add: logRenewal_def split: option.split)

end
