(* ===== verification/Message_Types.thy ===== *)
theory Message_Types
  imports Sip_Parser
begin

text \<open>
  The type of a parsed \<open>Message\<close> (\<open>internal/sip2/parser/parser.go\<close>). The maps \<open>Fields\<close> and
  \<open>MultiValueFields\<close> of the struct say nothing of their contents; the parser fills them with two
  kinds of entry: a fixed field, whose name and width the message code determines, and a variable
  field, whose name is a two-byte code and whose values stand between delimiters.
\<close>

subsection \<open>The types\<close>

text \<open>The fixed fields that a message with a given code may have, with their widths in bytes.\<close>

definition fixed_types :: "MessageCode \<Rightarrow> (string \<times> nat) list" where
  "fixed_types code =
     (if code = LoginRequest then [(''uid_algorithm'', 1), (''pwd_algorithm'', 1)]
      else if code = PatronStatusRequest then [(''language'', 3), (''transaction_date'', 18)]
      else if code = CheckoutRequest then
        [(''sc_renewal_policy'', 1), (''no_block'', 1), (''transaction_date'', 18), (''nb_due_date'', 18)]
      else if code = CheckinRequest then [(''no_block'', 1), (''transaction_date'', 18), (''return_date'', 18)]
      else if code = PatronInformationRequest then [(''language'', 3), (''transaction_date'', 18), (''summary'', 10)]
      else if code = RenewRequest then
        [(''third_party_allowed'', 1), (''no_block'', 1), (''transaction_date'', 18), (''nb_due_date'', 18)]
      else if code = FeePaidRequest then
        [(''transaction_date'', 18), (''fee_type'', 2), (''payment_type'', 2), (''currency_type'', 3)]
      else if code = SCStatus then [(''status_code'', 1), (''max_print_width'', 3), (''protocol_version'', 4)]
      else if code \<in> {ItemInformationRequest, RenewAllRequest, EndPatronSessionRequest, ItemStatusUpdateRequest}
      then [(''transaction_date'', 18)]
      else [])"

text \<open>The single value that the values of a variable field leave in \<open>Fields\<close>: the last one.\<close>

definition variable_typed :: "char \<Rightarrow> string \<Rightarrow> string list \<Rightarrow> bool" where
  "variable_typed d name vs \<longleftrightarrow> length name = 2 \<and> vs \<noteq> [] \<and> d \<notin> set name \<and> list_all (\<lambda>v. d \<notin> set v) vs"

definition well_typed_message :: "char \<Rightarrow> Message \<Rightarrow> bool" where
  "well_typed_message d m \<longleftrightarrow> length (Code m) = 2 \<and>
     (\<forall>name vs. MultiValueFields m name = Some vs \<longrightarrow>
        variable_typed d name vs \<and> Fields m name = Some (last vs)) \<and>
     (\<forall>name v. Fields m name = Some v \<longrightarrow> MultiValueFields m name = None \<longrightarrow>
        map_of (fixed_types (Code m)) name = Some (length v))"

subsection \<open>The parser is typed\<close>

text \<open>Each fixed field that is extracted has the width of its type.\<close>

lemma fixed_fields_prefix:
  "prefix (map (map_prod id length) (fixed_fields code s)) (fixed_types code)"
proof -
  have len: "length (slice s i j) = min (j - i) (length s - i)" for i j by (simp add: slice_def)
  show ?thesis
  proof (cases "code \<in> {LoginRequest, PatronStatusRequest, CheckoutRequest, CheckinRequest, PatronInformationRequest,
      ItemInformationRequest, RenewRequest, RenewAllRequest, EndPatronSessionRequest, FeePaidRequest,
      ItemStatusUpdateRequest, SCStatus}")
    case True
    then show ?thesis
      by (elim insertE emptyE; hypsubst) (simp_all add: fixed_fields_def fixed_types_def Let_def len)
  qed (simp add: fixed_fields_def)
qed

lemma fixed_types_distinct: "distinct (map fst (fixed_types code))"
  by (simp add: fixed_types_def)

lemma fixed_fields_widths:
  assumes "(name, v) \<in> set (fixed_fields code s)"
  shows "map_of (fixed_types code) name = Some (length v)"
proof -
  have "(name, length v) \<in> set (map (map_prod id length) (fixed_fields code s))" using assms by force
  then have "(name, length v) \<in> set (fixed_types code)"
    using set_mono_prefix [OF fixed_fields_prefix] by blast
  then show ?thesis using fixed_types_distinct by simp
qed

lemma ExtractFixedFields_typed:
  assumes "ExtractFixedFields m name = Some v"
  shows "map_of (fixed_types (Code m)) name = Some (length v)"
  using assms by (auto simp: ExtractFixedFields_def split: if_splits dest!: map_of_SomeD intro: fixed_fields_widths)

lemma field_pairs_parts: "(c, v) \<in> set (field_pairs parts) \<Longrightarrow> length c = 2 \<and> c @ v \<in> set parts"
  by (auto simp: field_pairs_def)

lemma values_of_mem: "v \<in> set (values_of c ps) \<longleftrightarrow> (c, v) \<in> set ps"
  by (force simp: values_of_def)

lemma ParseMultiValueFields_typed:
  assumes "ParseMultiValueFields message [d] name = Some vs"
  shows "variable_typed d name vs"
proof -
  let ?ps = "field_pairs (SplitFields message [d])"
  have vs: "vs = values_of name ?ps" "vs \<noteq> []"
    using assms by (auto simp: ParseMultiValueFields_pairs multi_map_def split: if_splits)
  have part: "length name = 2 \<and> d \<notin> set (name @ v)" if "v \<in> set vs" for v
  proof -
    have "(name, v) \<in> set ?ps" using that by (simp add: vs(1) values_of_mem)
    then show ?thesis
      using field_pairs_parts [of name v "SplitFields message [d]"] split_on_single_pieces [of "name @ v" d message]
      by (simp add: SplitFields_def Split_def)
  qed
  then show ?thesis using vs(2) part [OF last_in_set [OF vs(2)]] by (simp add: variable_typed_def list_all_iff)
qed

text \<open>The fixed fields join a message of variable fields without hiding one of them.\<close>

lemma well_typed_with_fixed_fields:
  assumes "length (Code m) = 2"
    "\<And>name. Fields m name = map_option last (MultiValueFields m name)"
    "\<And>name vs. MultiValueFields m name = Some vs \<Longrightarrow> variable_typed d name vs"
  shows "well_typed_message d (m\<lparr>Fields := Fields m ++ ExtractFixedFields m\<rparr>)"
proof -
  have "ExtractFixedFields m name = None" if "MultiValueFields m name = Some vs" for name vs
    using assms(3) [OF that] by (simp add: variable_typed_def ExtractFixedFields_code)
  then show ?thesis using assms unfolding well_typed_message_def
    by (auto simp: map_add_Some_iff dest: ExtractFixedFields_typed)
qed

lemma parse_stage_typed:
  assumes "parse_stage cfg raw stripped seq valid = Ok m" "FieldDelimiter cfg = [d]"
  shows "well_typed_message d m"
proof -
  let ?c = "drop 2 stripped"
  let ?start = "fieldsStart (take 2 stripped) (length ?c)"
  let ?m = "\<lparr>Code = take 2 stripped, RawMessage = raw,
    Fields = (if ?start < length ?c then ParseFields (drop ?start ?c) [d] else Map.empty),
    MultiValueFields = (if ?start < length ?c then ParseMultiValueFields (drop ?start ?c) [d] else Map.empty),
    msgSequenceNumber = seq, ChecksumValid = valid\<rparr>"
  have m: "m = ?m\<lparr>Fields := Fields ?m ++ ExtractFixedFields ?m\<rparr>" and l: "2 \<le> length stripped"
    using assms by (simp_all add: parse_stage_def Let_def split: if_splits)
  show ?thesis unfolding m using l
    by (intro well_typed_with_fixed_fields)
       (simp_all add: ParseFields_last ParseMultiValueFields_typed split: if_splits)
qed

lemma Parse_typed:
  assumes "Parse enc cfg raw = Ok m" "FieldDelimiter cfg = [d]"
  shows "well_typed_message d m"
  using assms by (auto simp: Parse_def split: if_splits intro: parse_stage_typed)

end
