(* ===== verification/Metric_Registry.thy ===== *)
theory Metric_Registry
  imports Connection_Log Server
begin

text \<open>
  The metrics that \<open>NewMetrics\<close> of \<open>internal/metrics/metrics.go\<close> creates: their names, kinds, buckets and labels,
  in the order of the source, and their registration with the Prometheus library, once for the whole program.
  The library is the argument \<open>reg\<close>: it adds a metric to the registry or panics. Of it is used that it
  accepts a metric whose name is new, whose buckets increase and whose labels are distinct and not \<open>le\<close>, the
  label it writes itself (\<open>reg_accepts\<close>). The default buckets are a constant of the library and an argument.
\<close>

subsection \<open>The metrics\<close>

datatype metric_kind = Counter | Gauge | Histogram (Buckets: "rat list")

record metric_desc =
  mdName :: string
  mdKind :: metric_kind
  mdLabels :: "string list"

abbreviation metric :: "string \<Rightarrow> metric_kind \<Rightarrow> metric_desc" where
  "metric name kind \<equiv> \<lparr>mdName = name, mdKind = kind, mdLabels = []\<rparr>"

abbreviation metric_vec :: "string \<Rightarrow> metric_kind \<Rightarrow> string list \<Rightarrow> metric_desc" where
  "metric_vec name kind labels \<equiv> \<lparr>mdName = name, mdKind = kind, mdLabels = labels\<rparr>"

text \<open>Each metric with the field of the struct that holds it; the texts of help are left out.\<close>

definition all_metrics :: "rat list \<Rightarrow> (string \<times> metric_desc) list" where
  "all_metrics defBuckets =
     [(''ConnectionsTotal'', metric ''fsip2_connections_total'' Counter),
      (''ConnectionsActive'', metric ''fsip2_connections_active'' Gauge),
      (''ConnectionDuration'', metric ''fsip2_connection_duration_seconds'' (Histogram defBuckets)),
      (''ConnectionErrors'', metric ''fsip2_connection_errors_total'' Counter),
      (''MessagesTotal'', metric_vec ''fsip2_messages_total'' Counter [''message_type'', ''tenant'']),
      (''MessageDuration'', metric_vec ''fsip2_message_duration_seconds'' (Histogram [0.001, 0.005, 0.01, 0.025, 0.05, 0.1, 0.25, 0.5, 1, 2.5, 5])
         [''message_type'', ''tenant'']),
      (''MessageErrors'', metric_vec ''fsip2_message_errors_total'' Counter [''message_type'', ''tenant'', ''error_type'']),
      (''LoginAttempts'', metric ''fsip2_login_attempts_total'' Counter),
      (''LoginSuccess'', metric ''fsip2_login_success_total'' Counter),
      (''LoginFailures'', metric ''fsip2_login_failures_total'' Counter),
      (''CheckoutTotal'', metric ''fsip2_checkout_total'' Counter),
      (''CheckoutSuccess'', metric ''fsip2_checkout_success_total'' Counter),
      (''CheckoutFailures'', metric ''fsip2_checkout_failures_total'' Counter),
      (''CheckinTotal'', metric ''fsip2_checkin_total'' Counter),
      (''CheckinSuccess'', metric ''fsip2_checkin_success_total'' Counter),
      (''CheckinFailures'', metric ''fsip2_checkin_failures_total'' Counter),
      (''RenewTotal'', metric ''fsip2_renew_total'' Counter),
      (''RenewSuccess'', metric ''fsip2_renew_success_total'' Counter),
      (''RenewFailures'', metric ''fsip2_renew_failures_total'' Counter),
      (''FolioRequestsTotal'', metric_vec ''folio_requests_total'' Counter [''endpoint'', ''method'', ''tenant'']),
      (''FolioRequestDuration'', metric_vec ''folio_request_duration_seconds'' (Histogram [0.01, 0.025, 0.05, 0.1, 0.25, 0.5, 1, 2.5, 5, 10])
         [''endpoint'', ''method'', ''tenant'']),
      (''FolioRequestErrors'', metric_vec ''folio_request_errors_total'' Counter [''endpoint'', ''method'', ''tenant'', ''status_code'']),
      (''TenantResolutions'', metric_vec ''fsip2_tenant_resolutions_total'' Counter [''phase'', ''resolver'', ''tenant'']),
      (''TenantResolutionErrors'', metric ''fsip2_tenant_resolution_errors_total'' Counter),
      (''SessionsCreated'', metric ''fsip2_sessions_created_total'' Counter),
      (''SessionsEnded'', metric ''fsip2_sessions_ended_total'' Counter),
      (''SessionsActive'', metric ''fsip2_sessions_active'' Gauge)]"

text \<open>The number of label values that a use of a metric gives has to be the number of its labels.\<close>

definition label_width :: "rat list \<Rightarrow> string \<Rightarrow> nat option" where
  "label_width defBuckets field = map_option (length \<circ> mdLabels) (map_of (all_metrics defBuckets) field)"

subsection \<open>Registration\<close>

fun register_all ::
  "(metric_desc \<Rightarrow> 'r \<Rightarrow> ('e, 'r) go_result) \<Rightarrow> metric_desc list \<Rightarrow> 'r \<Rightarrow> ('e, 'r) go_result" where
  "register_all reg [] r = Ok r"
| "register_all reg (m # ms) r = go_bind (reg m r) (register_all reg ms)"

text \<open>The package variables: \<open>globalMetrics\<close> is set by the function that \<open>metricsOnce\<close> runs at most once.\<close>

record 'r metrics_globals =
  metricsDone :: bool
  globalMetrics :: "(string \<times> metric_desc) list option"
  defaultRegistry :: 'r

definition NewMetrics_once ::
  "(metric_desc \<Rightarrow> 'r \<Rightarrow> ('e, 'r) go_result) \<Rightarrow> rat list \<Rightarrow> 'r metrics_globals \<Rightarrow>
   ('e, (string \<times> metric_desc) list option \<times> 'r metrics_globals) go_result" where
  "NewMetrics_once reg defBuckets g =
     (if metricsDone g then Ok (globalMetrics g, g)
      else go_bind (register_all reg (map snd (all_metrics defBuckets)) (defaultRegistry g))
        (\<lambda>r. let g' = g\<lparr>metricsDone := True, globalMetrics := Some (all_metrics defBuckets), defaultRegistry := r\<rparr>
             in Ok (globalMetrics g', g')))"

subsection \<open>The registration succeeds, once\<close>

definition good_metric :: "metric_desc \<Rightarrow> bool" where
  "good_metric m \<longleftrightarrow> distinct (mdLabels m) \<and> ''le'' \<notin> set (mdLabels m) \<and>
     (case mdKind m of Histogram bs \<Rightarrow> sorted_wrt (<) bs | _ \<Rightarrow> True)"

definition reg_accepts :: "(metric_desc \<Rightarrow> 'r \<Rightarrow> ('e, 'r) go_result) \<Rightarrow> ('r \<Rightarrow> string set) \<Rightarrow> bool" where
  "reg_accepts reg names \<longleftrightarrow>
     (\<forall>m r. good_metric m \<and> mdName m \<notin> names r \<longrightarrow> (\<exists>r'. reg m r = Ok r' \<and> names r' = insert (mdName m) (names r)))"

lemma register_all_Ok:
  assumes "reg_accepts reg names" "list_all good_metric ms" "distinct (map mdName ms)" "set (map mdName ms) \<inter> names r = {}"
  shows "\<exists>r'. register_all reg ms r = Ok r' \<and> names r' = set (map mdName ms) \<union> names r"
  using assms(2-4)
proof (induction ms arbitrary: r)
  case (Cons m ms)
  obtain r1 where r1: "reg m r = Ok r1" "names r1 = insert (mdName m) (names r)"
    using assms(1) [unfolded reg_accepts_def, rule_format, of m r] Cons.prems by auto
  have "\<exists>r'. register_all reg ms r1 = Ok r' \<and> names r' = set (map mdName ms) \<union> names r1"
    by (rule Cons.IH) (use Cons.prems r1(2) in auto)
  then show ?case using r1 by auto
qed simp

lemma all_metrics_fields: "distinct (map fst (all_metrics b))"
  unfolding all_metrics_def by simp

lemma all_metrics_names: "distinct (map (mdName \<circ> snd) (all_metrics b))"
  unfolding all_metrics_def by simp

lemma all_metrics_good: "sorted_wrt (<) b \<Longrightarrow> list_all good_metric (map snd (all_metrics b))"
  unfolding all_metrics_def by (simp add: good_metric_def)

text \<open>The server can be built: no registration panics while the registry holds none of these names.\<close>

theorem NewMetrics_registers:
  assumes "reg_accepts reg names" "sorted_wrt (<) b" "\<not> metricsDone g"
    "set (map (mdName \<circ> snd) (all_metrics b)) \<inter> names (defaultRegistry g) = {}"
  shows "\<exists>g'. NewMetrics_once reg b g = Ok (Some (all_metrics b), g') \<and> metricsDone g' \<and>
    globalMetrics g' = Some (all_metrics b)"
  using register_all_Ok [OF assms(1) all_metrics_good [OF assms(2)], of "defaultRegistry g"] all_metrics_names [of b] assms(3,4)
  by (auto simp: NewMetrics_once_def)

text \<open>A second server in the process shares the metrics of the first: nothing is registered twice.\<close>

theorem NewMetrics_shared:
  assumes "NewMetrics_once reg b g = Ok (Some ms, g')"
  shows "NewMetrics_once reg b' g' = Ok (Some ms, g')"
  using assms by (auto simp: NewMetrics_once_def Let_def split: if_splits)

text \<open>The uses in \<open>processMessage\<close>: the type and tenant of the message, with the kind of the error for \<open>MessageErrors\<close>.\<close>

lemma label_widths:
  "label_width b ''MessagesTotal'' = Some 2" "label_width b ''MessageDuration'' = Some 2"
  "label_width b ''MessageErrors'' = Some 3"
  by (simp_all add: label_width_def all_metrics_def)

end
