(* ===== verification/Spec2Isabelle.thy ===== *)
theory Spec2Isabelle
  imports Sample_Log Addresses Localization Program Simple_Resolver Renewal_Log Message_Types Metric_Registry
begin

text \<open>
  A verification library for \<open>fsip2\<close>, a server that lets self-service kiosks, which speak the SIP2
  protocol over TCP, work with the FOLIO library platform. Paths are those below \<open>src/internal\<close>.

  The program.
  \<^item> A listener accepts connections; each is served by its own goroutine, which reads one
  message after the other, has it parsed, dispatches it to the handler of its code, writes the
  response and, when the connection ends, logs the session out of FOLIO (\<open>server\<close>).
  \<^item> The tenant of a connection is found from its address and port when it opens, and again from user
  name and location at a login (\<open>tenant\<close>); the tenant's configuration says how messages are framed,
  encoded and answered (\<open>config\<close>).
  \<^item> The parser and the builder turn bytes into messages and back, with checksums (\<open>sip2\<close>).
  \<^item> The handlers work on the session of the connection (\<open>types/session.go\<close>), which holds user,
  patron and token pair, and ask FOLIO over HTTP (\<open>handlers\<close>, \<open>folio\<close>). Expired tokens are renewed in
  front of a request, by refresh or by a new login, and replaced ones are logged out in the background.

  How it is modelled. A Go string is the list of its bytes; a function that can fail returns
  \<open>go_result\<close>, with \<open>Panic\<close> where the code panics. Stateful code is a state transformer over
  \<open>world\<close>: the session, the requests sent to FOLIO so far and the token pairs that wait for their
  background logout. The read loop is the step relation \<open>conn_step\<close> on the state of a connection: its
  phase, whether it is in a read, its world, the bytes that have arrived and are not yet read, how the stream
  ended and the bytes written. Bytes arrive, and the stream ends, by steps of the network (\<open>net_step\<close>), at any time
  and without bound; a read fails only after the deadline has passed or the socket has broken. A handler is one step.

  The theories.
  \<^item> Foundations: \<open>Fsip2_Prelude\<close> (results, bytes), \<open>Go_Utf8\<close> (runes), \<open>Go_Strings\<close> (strings, strconv,
  fmt), \<open>Go_Time\<close> and \<open>Go_Parse\<close> (time.Time, the calendar, \<open>sip2/protocol/datetime.go\<close>), \<open>Float64\<close>
  (amounts), \<open>Helpers\<close> (\<open>helpers/utils.go\<close>: the sanitisers and their specification, truncation).
  \<^item> Messages: \<open>Codes\<close>, \<open>Protocol\<close> (fields, \<open>sip2/protocol\<close>), \<open>Checksum\<close>, \<open>Sip_Parser\<close>, \<open>Builder\<close>,
  \<open>Mediatype\<close>, \<open>Custom_Fields\<close>, \<open>Framing\<close> (the reader of \<open>server/connection.go\<close>), \<open>Msg_Log\<close>. The
  lemmas: fields, requests and streams are read back as they were written, a response is one line, the
  parser panics on exactly the messages that are empty after their checksum is removed. \<open>Message_Types\<close> gives the
  parsed message its type: which entries its maps can have, and how wide they are.
  \<^item> Configuration: \<open>Durations\<close>, \<open>Tenant_Config\<close>, \<open>Reload\<close> (one reload), \<open>Reloader\<close> (its life as a step
  relation, the callback of \<open>main\<close>, and that the tenant service follows), \<open>Folio_User\<close>, \<open>Renewal\<close> (the rolling renewal
  of patron accounts: the decision as one formula, the new date is later), \<open>Tenants\<close> (first match
  at login, highest priority at connect; the locale \<open>priority_sorter\<close> is what sort.Slice promises).
  \<^item> Session and tokens: \<open>Session\<close> (every method; the locale \<open>token_keeper\<close> shows that each refresh token
  is handed out once), \<open>Folio_Http\<close> (one exchange and its errors; \<open>sends\<close>, a calculus of which and how many
  requests a program sends, a token pair for a background logout counted with those it can cost), \<open>Folio_Auth\<close>, \<open>Token_Auth\<close> (renewal, relogin, logout, retries),
  \<open>Cql\<close>, \<open>Capabilities\<close> and \<open>Endpoints\<close> (every request is at an endpoint of the table), \<open>Folio_Models\<close>, \<open>Folio_Clients\<close> (every call that a handler makes).
  \<^item> Handlers: \<open>Handlers_Core\<close>, \<open>Handlers_Session\<close> (93, 35, 97, 99, 19), \<open>Handlers_Circulation\<close> (11, 29, 65),
  \<open>Handlers_Patron\<close> (23), \<open>Patron_Information\<close> (63), \<open>Handlers_Fees\<close> (37), \<open>Handlers_Items\<close> (09) and
  \<open>Item_Information\<close> (17). \<open>Lending\<close> proves that loans, renewals and payments follow the verification of
  the patron. The locale \<open>world_policy\<close> collects, theory by theory, that every operation keeps a predicate
  that admits what the session methods and the logout do.
  \<^item> The connection: \<open>Connection\<close>, with the locales \<open>served_connection\<close> and \<open>tenant_connection\<close> interpreted on
  the handlers that the server registers: invariants of every reachable state, a measure that every step not of the
  network decreases (an endless run is fed by its client again and again), and that a connection that only its client can move waits for it, or is closed and logged out.
  \<^item> \<open>Responses\<close>: what goes back. \<open>yields\<close> tells what a handler can return; every registered handler
  answers with the code of its request, and built responses end with sequence number and checksum, unless the
  character set cannot encode their text: \<open>unframed\<close> says what is sent then.
  \<^item> The server: \<open>Server\<close> (\<open>server.go\<close>, \<open>tls.go\<close>, the shutdown in \<open>cmd/fsip2/main.go\<close>), the step relation
  \<open>server_step\<close> on sockets, accept loops and the goroutines of all connections, with \<open>Start\<close> and \<open>Stop\<close>
  as calls between the steps. What is not the server's doing is \<open>outside_step\<close>: connections come, the network
  moves, a context is cancelled, the timer of \<open>Stop\<close> runs out. \<open>Stop\<close> has its own context, which in the program is the
  server's. The locale \<open>connection_invariant\<close> lifts what every connection keeps to every reachable server; counters
  are exact; a stopped server, as long as the process lasts, moves on only where clients feed it (a multiset of the work of
  its goroutines decreases otherwise) and comes to rest with its connections waiting for their clients, closed and logged out,
  or \<open>Abandoned\<close>: a connection without a tenant is left with its socket open. That the process exits when \<open>main\<close> has
  returned, with the sessions then open not logged out, is not a step of the model: a run simply ends there.
  The connections share the listener, the counters and the metrics; a session, a parser and a
  builder belong to one connection, as in the code, so a step of a connection changes nothing of another. What FOLIO
  answers to a connection is any function of the requests of that connection: as the function is arbitrary, the answers may
  depend on the other connections of the run too. The tenant service may differ from one request to the next.
  \<^item> What the operator sees: \<open>Logger\<close> (levels, lines, \<open>logging/logger.go\<close>), \<open>Connection_Log\<close> (the lines and the
  labelled metrics of a connection: its definitions are those of \<open>Connection\<close> with a record of both, and
  \<open>observed_step\<close> is shown to be \<open>conn_step\<close> when the record is forgotten) and \<open>Renewal_Log\<close>. \<open>Metric_Registry\<close> has all
  metrics and their registration, once for the program (\<open>metrics/metrics.go\<close>). Metrics agree with each other; an answered message is shown masked
  (\<open>pins_masked\<close>), one that failed as it came, and again in the warning of \<open>buildErrorResponse\<close> where it cannot be parsed.
  \<^item> \<open>Program\<close> (\<open>cmd/fsip2/main.go\<close> and \<open>health\<close>): a run as the list of what it does to its parts.
  \<^item> \<open>Addresses\<close> (\<open>helpers/ip.go\<close> with the part of package net it uses), \<open>Simple_Resolver\<close> (the resolver that
  uses package net) and \<open>Localization\<close>.
  \<^item> \<open>Samples\<close>, \<open>Sample_World\<close>, \<open>Sample_Server\<close> and \<open>Sample_Log\<close> hold the concrete inputs of the witnesses.

  Parameters. What is not the program is an argument: FOLIO (\<open>Serve\<close>, any function of the requests
  sent before), the clock and the cancellation of the context (functions of the same), the decoders of
  encoding/json, the encoders of golang.org/x/text, the time zone database, Unicode case mapping outside
  ASCII, strconv.ParseFloat, FOLIO's reader of CQL terms, the sorting of package sort, the subnet library of the tenants, files, key pairs and listening, and the order in which the goroutines of a
  checkin reach FOLIO. No property assumes more of them than its statement says.

  Bounds and fuel. Integers that cannot overflow are \<open>int\<close> or \<open>nat\<close>; dates are added in 64 bits and wrap
  around (\<open>AddDate_UTC\<close>, except for the count of days inside package time from year \<open>10 ^ 16\<close> on); the connection counters and
  the reload interval are 64-bit words; parsing a number keeps the 64-bit
  limits of strconv, and amounts are binary64. \<open>TrimSpace\<close> counts down from the length of its text, and
  \<open>read_all\<close>, a specification, reads as many messages as it is asked for: at least the length of the list.
  The loops of the code are structural recursions or have a measure.

  Not modelled. The log lines of the handlers and of the FOLIO client, the values of metrics that nothing writes to,
  the JSON decoders of the FOLIO models except those of amounts, subjects and series (a decoder is an argument of each exchange), the
  writing of log files and the command line: input and output, or calls of libraries only. Time passes where the clock says so; the end of a deadline and
  the tick of the reloader are steps that may happen at any time. Memory, file descriptors and scheduling are
  not modelled, except that the goroutines interleave freely. The tenant service of a connection may change
  between any two requests. Locks: a session method is one step; the connections and the background logouts
  interleave between messages, not inside one. No two calls of \<open>Start\<close> of a server overlap. The patron
  information handler reads the clock once for all loans where the code reads it for each.
\<close>

text \<open>C1: Where the tenant requires the password or PIN of a patron, the handlers of checkout, renewal, renew-all
and fee payment ask FOLIO to lend, to renew or to take a payment only after FOLIO has accepted, for this
very message, a request that verifies the patron of the message with the password of the message: the PIN is
checked for the user whom the session keeps for this very barcode, or whom FOLIO returned, after the message had
come, to a look-up of the barcode.\<close>

theorem lending_and_payment_follow_verification:
  assumes "h \<in> {CheckoutHandler_Handle, RenewHandler_Handle, RenewAllHandler_Handle, FeePaidHandler_Handle}"
    and "run_state (h e msg) w = (r, w')" "sessTenant (wSession w) = Some tc" "PatronPasswordVerificationRequired tc"
    and "rq \<in> set (drop (length (wSent w)) (wSent w'))" "guarded_request rq"
  shows "\<exists>pre v rest uid. wSent w' = pre @ [v] @ rest \<and> length (wSent w) \<le> length pre \<and> rq \<in> set rest \<and>
    accepted e pre v \<and> found_patron e tc (msg_GetField msg F_PatronIdentifier) uid w pre \<and>
    verification_request tc uid (msg_GetField msg F_PatronIdentifier) (msg_GetField msg F_PatronPassword) v"
proof (rule lends_verifiedD)
  show "lends_verified e tc msg w w'"
    using assms(1-3) by (auto intro: Checkout_verified Renew_verified RenewAll_verified FeePaid_verified)
qed (use assms in auto)

lemma lending_and_payment_follow_verification_witness:
  "\<exists>pre v rest uid. wSent (snd (run_state (CheckoutHandler_Handle sample_env checkout_message) sample_world)) =
     pre @ [v] @ rest \<and> rest \<noteq> [] \<and> accepted sample_env pre v \<and> found_patron sample_env sample_config ''b1'' uid sample_world pre \<and>
     verification_request sample_config uid ''b1'' ''1234'' v"
proof -
  obtain rq where rq: "rq \<in> set (wSent (snd (run_state (CheckoutHandler_Handle sample_env checkout_message) sample_world)))"
    "rqPath rq = ''/circulation/check-out-by-barcode''" using sample_checkout by blast
  then have "guarded_request rq" by (simp add: guarded_request_def)
  from lending_and_payment_follow_verification
    [OF _ prod.collapse [symmetric], where h = CheckoutHandler_Handle and e = sample_env and msg = checkout_message
      and w = sample_world and tc = sample_config and rq = rq] rq this
  show ?thesis by (fastforce simp: checkout_message_def)
qed



text \<open>C3: In every state that a server can reach, whatever its connections interleave: each of them has a tenant, and
while it is served its parser and builder are those of that tenant; once it is closed its session holds no
token; and it never sent a logout without a well-formed refresh token, or mixed the token kinds.\<close>

theorem every_connection_of_the_server_is_safe:
  assumes "reachable cfg (server_sites sched url ts ip) e s"
    and "k < length (svGoroutines s)" "conn_of (svGoroutines s ! k) = Some c"
  shows "(\<exists>tc. sessTenant (wSession (cnWorld c)) = Some tc \<and>
      (case cnPhase c of
         Serving x \<Rightarrow> cParser x = tc \<and> cBuilder x = tc
       | Closed reason \<Rightarrow> AuthToken (wSession (cnWorld c)) = [] \<and> refreshToken (wSession (cnWorld c)) = []
       | Crashed \<Rightarrow> True)) \<and>
    list_all logout_guarded (wSent (cnWorld c)) \<and> list_all one_token_kind (wSent (cnWorld c))"
proof -
  note all = tenants_of_server.reachable_conns [OF assms(1)] tokens_of_server.reachable_conns [OF assms(1)]
    guarded_of_server.reachable_conns [OF assms(1)] one_kind_of_server.reachable_conns [OF assms(1)]
  have "same_tenant c" "no_tokens_left c" "sent_only logout_guarded (cnWorld c)" "sent_only one_token_kind (cnWorld c)"
    using all assms(2,3) by (auto simp: all_conns_def)
  then show ?thesis
    by (auto simp: same_tenant_def no_tokens_left_def sent_only_def split: option.splits phase.split)
qed

lemma every_connection_of_the_server_is_safe_witness:
  "reachable sample_cfg serving_sites serving_envs serving_server \<and>
     (\<exists>tc. sessTenant (wSession (cnWorld fresh_conn)) = Some tc \<and> (case cnPhase fresh_conn of Serving x \<Rightarrow> cParser x = tc | _ \<Rightarrow> False))"
proof -
  from every_connection_of_the_server_is_safe [OF reachable_serving, of 0 fresh_conn]
  show ?thesis using reachable_serving by (auto simp: serving_simps fresh_conn_def NewConnection_def)
qed

text \<open>C4: Every request that a connection of the server sends to FOLIO is at an endpoint that the capability table lists
as called by the program: its method is that of the entry and its path the pattern of the entry with some text
for the parameter. Where that text is one segment the look-up finds the permission that the request needs.\<close>

theorem requests_are_in_the_capability_table:
  assumes "(conn_step (server_site sched url ts ip) e)\<^sup>*\<^sup>* s s'" "wSent (cnWorld s) = []"
    and "rq \<in> set (wSent (cnWorld s'))"
  shows "\<exists>ce \<in> set Capabilities. (Usage ce = UsageDirect \<or> Usage ce = UsagePublic) \<and> ceMethod ce = rqMethod rq \<and>
    (\<exists>v. without_query (rqPath rq) = instantiate (PathPattern ce) v \<and>
      (one_segment v \<longrightarrow> LookupCapability (rqMethod rq) (rqPath rq) \<noteq> None))"
proof -
  have "sent_only at_endpoint (cnWorld s')"
    using catalogued_server.steps_keep [OF assms(1)] assms(2) by (simp add: sent_only_def)
  then have "in_table (rqMethod rq) (rqPath rq)"
    using assms(3) by (simp add: sent_only_def list_all_iff at_endpoint_def)
  then show ?thesis using lookup_in_table unfolding in_table_def called_def by metis
qed

lemma requests_are_in_the_capability_table_witness:
  "\<exists>s'. conn_step sample_server sample_env sample_conn s' \<and> wSent (cnWorld s') \<noteq> [] \<and>
     (\<forall>rq \<in> set (wSent (cnWorld s')). \<exists>ce \<in> set Capabilities. ceMethod ce = rqMethod rq)"
proof -
  let ?s = "closeAndLogout sample_env ClientClosed (sample_conn\<lparr>cnUnread := []\<rparr>)"
  have step: "conn_step sample_server sample_env sample_conn ?s"
    by (rule conn_step.end_of_input [where tc = sample_config]) (simp_all add: sample_conn_def sample_read_nothing)
  have sent: "map rqPath (wSent (cnWorld ?s)) = [''/authn/logout'']"
    using sample_logout by (simp add: closeAndLogout_def sample_conn_def)
  have run: "(conn_step sample_server sample_env)\<^sup>*\<^sup>* sample_conn ?s" by (rule r_into_rtranclp) (rule step)
  have "\<exists>ce \<in> set Capabilities. ceMethod ce = rqMethod rq" if "rq \<in> set (wSent (cnWorld ?s))" for rq
    using requests_are_in_the_capability_table [OF run [unfolded sample_server_def] _ that] by (auto simp: sample_conn_def)
  then show ?thesis using step sent by (intro exI [of _ ?s]) auto
qed

text \<open>C5: What a connection sends for a message answers that message: the response to a message that was served starts
with the response code that the protocol assigns to it (a resend request is answered by 96, and an item
information that cannot be built is one), and the response to one that failed does so too, or there is none.\<close>

theorem connection_answers_the_request:
  assumes "run_state (serve_message (server_site sched url ts ip) e c raw) w = ((s, c'), w')"
    and "sessTenant (wSession w) = Some (cParser c)" "cBuilder c = cParser c"
  shows "case s of
      Answer r \<Rightarrow> (case Parse (Encoders e) (cParser c) raw of
          Ok msg \<Rightarrow> ValidateMessage (cParser c) msg = None \<and>
            (if Code msg \<in> {RequestSCResend, RequestACSResend} then r = ''96''
             else prefix (GetResponseCode (Code msg)) r \<or> (Code msg = ItemInformationRequest \<and> r = ''96''))
        | _ \<Rightarrow> False)
    | Rejected r \<Rightarrow> r = [] \<or> (case Parse (Encoders e) (cParser c') raw of
          Ok msg \<Rightarrow> prefix (GetResponseCode (Code msg)) r | _ \<Rightarrow> False)
    | Fatal \<Rightarrow> True"
  using serve_message_answers [OF assms(1)] assms(2,3)
  unfolding answered_for_def answers_code_def by (simp add: in_step_def of_tenant_def)

lemma connection_answers_the_request_witness:
  "\<exists>c' w'. run_state (serve_message sample_server sample_env plain_conn ''97'') plain_world = ((Answer ''96'', c'), w') \<and>
     (\<exists>msg. Parse sample_enc plain_config ''97'' = Ok msg \<and> ValidateMessage plain_config msg = None)"
proof -
  obtain s c' w' where run: "run_state (serve_message sample_server sample_env plain_conn ''97'') plain_world = ((s, c'), w')"
    by (metis prod.exhaust)
  then have "s = Answer ''96''" using plain_served by simp
  with connection_answers_the_request [OF run [unfolded sample_server_def]] run show ?thesis
    by (auto simp: plain_conn_def plain_world_def UpdateTenant_def split: go_result.splits)
qed

text \<open>C6: A connection of the server that nothing but its client and the network can move has nothing left to do. It waits
in a read, no whole message has arrived and the client may still send; or it was closed, its session
holds no token and no logout of a replaced pair is pending; or a message made the process panic.\<close>

theorem resting_connections_wait_or_are_closed:
  assumes "handleConnection (server_site sched url ts ip) now sid cip cport sport stream = Ok s0"
    and "(conn_step (server_site sched url ts ip) e)\<^sup>*\<^sup>* s0 s"
    and "\<And>s'. conn_step (server_site sched url ts ip) e s s' \<Longrightarrow> net_step s s'"
  shows "cnPhase s = Crashed \<or>
    (\<exists>c tc. cnPhase s = Serving c \<and> cnReading s \<and> cnEnd s = None \<and> sessTenant (wSession (cnWorld s)) = Some tc \<and>
       readMessage tc (cnUnread s) = OutOfBytes \<and> wBackground (cnWorld s) = []) \<or>
    (\<exists>reason. cnPhase s = Closed reason \<and> wBackground (cnWorld s) = [] \<and>
       AuthToken (wSession (cnWorld s)) = [] \<and> refreshToken (wSession (cnWorld s)) = [])"
proof -
  have "left_to_network (server_site sched url ts ip) e s" using assms(3) by (simp add: left_to_network_def)
  from server_rests [OF assms(1,2) this] show ?thesis
    by (auto simp: waiting_def split: phase.splits option.splits)
qed

lemma resting_connections_wait_or_are_closed_witness:
  "\<exists>s. (conn_step sample_server sample_env)\<^sup>*\<^sup>* idle_conn s \<and> cnPhase s \<noteq> Crashed \<and>
     (\<exists>c tc. cnPhase s = Serving c \<and> cnReading s \<and> readMessage tc (cnUnread s) = OutOfBytes)"
proof -
  let ?s = "idle_conn\<lparr>cnReading := True\<rparr>"
  have run: "(conn_step sample_server sample_env)\<^sup>*\<^sup>* idle_conn ?s" by (rule r_into_rtranclp) (rule idle_checked)
  from resting_connections_wait_or_are_closed [OF idle_started [unfolded sample_server_def] run [unfolded sample_server_def]
      idle_waits [unfolded sample_server_def]]
  show ?thesis using run idle_phase by (intro exI [of _ ?s]) auto
qed

text \<open>C7: A connection goes on for ever only as long as its client feeds it: in every infinite run, whatever FOLIO answers,
bytes arrive from the network again and again.
So from no state does it take more than finitely many steps without input.\<close>

theorem endless_connections_are_fed:
  assumes "\<And>n. conn_step st e (f n) (f (Suc n))"
  shows "\<exists>m \<ge> n. net_step (f m) (f (Suc m)) \<and> length (cnUnread (f m)) < length (cnUnread (f (Suc m)))"
proof -
  obtain m where m: "m \<ge> n" "fed (f m) (f (Suc m))" using endless_is_fed [of st e f n] assms by blast
  then show ?thesis using fed_by_network [of st e "f m" "f (Suc m)"] assms by (auto simp: fed_def)
qed

lemma endless_connections_are_fed_witness:
  "(\<forall>n. conn_step sample_server sample_env (typed n) (typed (Suc n))) \<and>
     (\<exists>m \<ge> 7. length (cnUnread (typed m)) < length (cnUnread (typed (Suc m))))"
proof -
  have run: "conn_step sample_server sample_env (typed n) (typed (Suc n))" for n by (rule typed_step)
  from endless_connections_are_fed [of sample_server sample_env typed 7, OF run] run show ?thesis by blast
qed

text \<open>C8: Once a server that has finished starting is stopped it accepts nothing more, and as long as the process lasts it goes
on only as long as its clients feed it. By its own steps it reaches a state at rest, or a panic; every state that only
the outside can move is at rest: the accept loops are over, each connection waits in a read for its client, was closed
and logged out with no logout pending, or was abandoned with its socket open because it had no tenant; the active
connections are those that wait, and Stop itself waits only for them, until its timer or its context ends.\<close>

theorem stopped_server_comes_to_rest:
  assumes "reachable cfg (server_sites sched url ts ip) e s" "\<not> crashed_server s" "svRunning s" "\<not> binding s"
  shows "(\<forall>f. f 0 = Stop d s \<and> (\<forall>n. server_step cfg (server_sites sched url ts ip) e (f n) (f (Suc n))) \<longrightarrow>
      (\<forall>n. \<exists>m \<ge> n. server_fed (f m) (f (Suc m)))) \<and>
    (\<exists>s'. own_run cfg (server_sites sched url ts ip) e (Stop d s) s' \<and> (crashed_server s' \<or> at_rest s')) \<and>
    (\<forall>s'. server_run cfg (server_sites sched url ts ip) e (Stop d s) s' \<and> \<not> crashed_server s' \<and>
        left_to_outside cfg (server_sites sched url ts ip) e s' \<longrightarrow>
      at_rest s' \<and> length (svGoroutines s') = length (svGoroutines s))"
proof -
  have stop: "stopped (Stop d s)" using stopped_Stop [OF reachable_sockets_known [OF assms(1)] assms(3,4)] .
  note r = reachable.stop_called [OF assms(1,2)]
  have same: "svGoroutines (Stop d s) = svGoroutines s" by (simp add: Stop_def)
  show ?thesis
  proof (intro conjI allI impI)
    fix f n
    assume "f 0 = Stop d s \<and> (\<forall>n. server_step cfg (server_sites sched url ts ip) e (f n) (f (Suc n)))"
    then show "\<exists>m \<ge> n. server_fed (f m) (f (Suc m))" using stopped_endless_is_fed [of f] stop by metis
  next
    show "\<exists>s'. own_run cfg (server_sites sched url ts ip) e (Stop d s) s' \<and> (crashed_server s' \<or> at_rest s')"
      by (rule stopped_reaches_rest [OF stop r])
  next
    fix s'
    assume s': "server_run cfg (server_sites sched url ts ip) e (Stop d s) s' \<and> \<not> crashed_server s' \<and>
      left_to_outside cfg (server_sites sched url ts ip) e s'"
    then have "stopped s'" "length (svGoroutines s') = length (svGoroutines s)"
      using run_stopped [OF _ stop] same by auto
    then show "at_rest s'" "length (svGoroutines s') = length (svGoroutines s)"
      using s' stuck_at_rest [OF run_reachable [OF _ r]] by (auto simp: stopped_def)
  qed
qed

lemma stopped_server_comes_to_rest_witness:
  "\<exists>s'. own_run sample_cfg serving_sites serving_envs (Stop False serving_server) s' \<and> (crashed_server s' \<or> at_rest s')"
  using stopped_server_comes_to_rest [OF reachable_serving serving_simps(5,2,3)] by blast

text \<open>C9: After any run of the reloader, with reloads that fail, change something or not, the tenant service is exactly
the one that would be built from the configuration in force, as if it had been so from the start; and a reload
has changed nothing but the tenants.\<close>

theorem service_follows_the_configuration:
  assumes "reloader_reachable cfg r"
  shows "service_after srt pick cfg (rdPublished r) = NewService srt pick (rdConfig r) \<and>
    SetTenants [] [] [] (rdConfig r) = SetTenants [] [] [] cfg"
  using reachable_last [OF assms] reachable_settings [OF assms]
  by (simp add: service_after_last same_service_settings_def)

lemma service_follows_the_configuration_witness:
  "rdPublished sample_reloaded = [rdConfig sample_reloaded] \<and> TenantsOrdered (rdConfig sample_reloaded) = [sample_config] \<and>
   service_after (\<lambda>rs. rs) (\<lambda>ts. None) sample_cfg (rdPublished sample_reloaded) =
     NewService (\<lambda>rs. rs) (\<lambda>ts. None) (rdConfig sample_reloaded)"
  using service_follows_the_configuration [OF reachable_reloaded, of "\<lambda>rs. rs" "\<lambda>ts. None"] reloaded_config by simp



text \<open>C11: In every reachable state the active counter is the number of connections whose goroutine has not returned,
and the total the number accepted, both to 64 bits; the gauges and counters of the metrics agree with them,
and as many sessions are active as connections are handled.\<close>

theorem connection_counters_are_exact:
  assumes "reachable cfg st e s"
  shows "GetActiveConnections s = of_nat (length (filter live (svGoroutines s))) \<and>
    GetTotalConnections s = of_nat (length (svGoroutines s)) \<and>
    ConnectionsTotal (svMetrics s) = length (svGoroutines s) \<and>
    ConnectionsActive (svMetrics s) = int (length (filter live (svGoroutines s))) \<and>
    SessionsActive (svMetrics s) = int (length (filter (\<lambda>g. \<exists>c. g = Handling c) (svGoroutines s))) \<and>
    SessionsCreated (svMetrics s) = length (filter (\<lambda>g. conn_of g \<noteq> None) (svGoroutines s))"
  using reachable_accounted [OF assms] by (simp add: accounted_def GetActiveConnections_def GetTotalConnections_def)

lemma connection_counters_are_exact_witness:
  "GetActiveConnections serving_server = 1 \<and> GetTotalConnections serving_server = 1 \<and> SessionsActive (svMetrics serving_server) = 1"
  using connection_counters_are_exact [OF reachable_serving] by (simp add: serving_simps)

text \<open>C12: When one of the extra ports cannot be bound, Start closes every listener that it had opened and starts no accept
loop; but the server still counts as running, so that a second Start is refused.\<close>

theorem failed_start_releases_its_ports:
  assumes "reachable cfg st e s" "svRunning s" "svStarting s = BindExtra ps"
    and "server_step cfg st e s s'" "svStarting s' = StartFailed err"
  shows "list_all (\<lambda>sk. \<not> skOpen sk) (svSockets s') \<and> svListeners s' = [] \<and> svLoops s' = svLoops s \<and>
    IsRunning s' \<and> fst (Start s') = Some ''server is already running''"
  using extra_failure_closes [OF reachable_sockets_known [OF assms(1)] assms(3-5)] step_running [OF assms(4)] assms(2)
  by (simp add: all_closed_def IsRunning_def Start_def)

lemma failed_start_releases_its_ports_witness:
  "svListeners failed_server = [] \<and> fst (Start failed_server) = Some ''server is already running''"
  using failed_start_releases_its_ports [OF reachable_bound bound_simps(6,1) sample_start_fails]
  by (simp add: failed_server_def)

text \<open>C13: A kiosk can end the whole process with one message: under a tenant with error detection the nine bytes
AY1AZFE9A have a valid checksum, and the parser panics on the empty message that is left without it.\<close>

theorem nine_bytes_crash_the_server:
  assumes "cnPhase s = Serving c" "sessTenant (wSession (cnWorld s)) = Some (cParser c)"
    and "ErrorDetectionEnabled (cParser c)" "GetEncoder (Charset (cParser c)) = Ok en"
    and "Encoders e en ''AY1AZ'' = Some ''AY1AZ''" "MessageDelimiter (cParser c) = [d]" "d \<notin> set ''AY1AZFE9A''"
    and "cnUnread s = ''AY1AZFE9A'' @ d # rest" "Cancelled e (wSent (cnWorld s)) = None"
  shows "\<exists>s'. (conn_step st e)\<^sup>*\<^sup>* s s' \<and> cnPhase s' = Crashed"
proof -
  have "readMessage (cParser c) (cnUnread s) = GotMessage ''AY1AZFE9A'' rest"
    using readMessage_framed [of "cParser c" "''AY1AZFE9A''" rest] assms(6-8) plain_message_single [of d "''AY1AZFE9A''"]
    by (simp add: maxSIP2MessageBytes_def)
  moreover have "Parse (Encoders e) (cParser c) ''AY1AZFE9A'' = Panic"
    by (rule Parse_AY1) (use assms(3-5) in simp_all)
  ultimately show ?thesis using parser_panic_crashes [OF assms(1,2,9), where st = st] by blast
qed

lemma nine_bytes_crash_the_server_witness:
  "\<exists>s'. (conn_step sample_server sample_env)\<^sup>*\<^sup>* (sample_conn\<lparr>cnUnread := ''AY1AZFE9A'' @ [CHR 0x0D]\<rparr>) s' \<and> cnPhase s' = Crashed"
  by (rule nine_bytes_crash_the_server [where en = UTF8 and d = "CHR 0x0D" and rest = "[]"]) (simp_all add: sample_conn_def, simp_all)

text \<open>C14: A message that fails to be processed is written to the log as it came, PINs and passwords included, at every log
level of the tenant and of the server: once in the line of the error, after the masked line of the receipt where the
tenant logs messages of its kind, and once more in a warning when the error response finds that it cannot be parsed.\<close>

theorem failed_message_is_logged_as_it_came:
  assumes "run_state (observed_serve st e c raw (reading w raw t)) w = (((Rejected r, c'), t'), w')"
  shows "message_texts (tmLines t') = message_texts (tmLines t) @ received_texts w raw @ raw #
      (case Parse (Encoders e) (cParser c') raw of Err err \<Rightarrow> [raw] | _ \<Rightarrow> []) \<and>
    (\<exists>err. failed_line err raw \<in> set (write_lines lg (tmLines t')) \<and> (''message'', raw) \<in> set (lnFields (failed_line err raw)))"
  using rejected_shows [OF assms] failed_line_kept [OF assms] by (auto simp: failed_line_def line_def split: go_result.splits)

lemma failed_message_is_logged_as_it_came_witness:
  "\<exists>t' w'. run_state (observed_serve sample_server sample_env secret_conn ''9300CNu|COsecret|''
         (reading sample_world ''9300CNu|COsecret|'' no_telemetry)) sample_world = (((Rejected [], secret_conn), t'), w') \<and>
     LogLevel sample_config = ''Full'' \<and> ''9300CNu|COsecret|'' \<in> set (message_texts (tmLines t'))"
proof -
  obtain t' w' where run: "run_state (observed_serve sample_server sample_env secret_conn ''9300CNu|COsecret|''
         (reading sample_world ''9300CNu|COsecret|'' no_telemetry)) sample_world = (((Rejected [], secret_conn), t'), w')"
    by (rule secret_observed)
  with failed_message_is_logged_as_it_came [OF run] show ?thesis by simp
qed



text \<open>C16: At every moment of a connection its labelled metrics agree: each message of a type and tenant that was counted
has its duration observed, also when its handler panicked, no more errors than messages are counted, and only
message types with a registered handler are.\<close>

theorem message_metrics_agree:
  assumes "(observed_step st e)\<^sup>*\<^sup>* (s, no_telemetry) (s', t)"
  shows "MessageDuration t = MessagesTotal t \<and> (\<forall>l kind. MessageErrors t (l, kind) \<le> MessagesTotal t l) \<and>
    (\<forall>code name. siteHandlers st code = None \<longrightarrow> MessagesTotal t (code, name) = 0)"
  using agree_steps [OF assms] none_agree unfolding metrics_agree_def by simp

lemma message_metrics_agree_witness:
  "\<exists>s' t. observed_step sample_server sample_env (plain_served_conn, no_telemetry) (s', t) \<and>
     MessagesTotal t (''97'', ''main'') = 1 \<and> MessageDuration t (''97'', ''main'') = 1"
proof -
  obtain s' t where step: "observed_step sample_server sample_env (plain_served_conn, no_telemetry) (s', t)"
    and one: "MessagesTotal t (''97'', ''main'') = 1"
    by (rule plain_counted)
  with message_metrics_agree [OF r_into_rtranclp [of "observed_step sample_server sample_env"], OF step] show ?thesis by fastforce
qed

text \<open>C17: Whatever a login message says and however FOLIO answers it, a refresh token that the session held, or that
waits for its background logout, is afterwards still one of the two: no Keycloak session is forgotten.\<close>

theorem login_loses_no_refresh_token:
  assumes "sessTenant (wSession w) = Some tc"
  shows "known_refresh w - {[]} \<subseteq> known_refresh (snd (run_state (LoginHandler_Handle e msg) w))"
  using prod.collapse [symmetric] assms by (rule Login_keeps_tokens)

lemma login_loses_no_refresh_token_witness:
  "''d.e.f'' \<in> known_refresh (snd (run_state (LoginHandler_Handle sample_env
     (sample_message LoginRequest [(''CN'', ''other''), (''CO'', ''pw'')])) sample_world))"
  by (rule subsetD [OF login_loses_no_refresh_token [where tc = sample_config]]) (simp_all add: known_refresh_def)

text \<open>C18: After a login message with user and password a session that held a whole pair of tokens, or none, holds no access
token and no refresh token at all, or both of them issued by the tenant it belongs to; also when the message has
moved the session to a new tenant and FOLIO refused the login there.\<close>

theorem complete_login_leaves_own_tokens:
  assumes "sessTenant (wSession w) = Some tc" "msg_GetField msg F_LoginUserID \<noteq> []" "msg_GetField msg F_LoginPassword \<noteq> []"
    and "AuthToken (wSession w) = [] \<longleftrightarrow> refreshToken (wSession w) = []"
  shows "let s = wSession (snd (run_state (LoginHandler_Handle e msg) w)) in
    AuthToken s = [] \<and> refreshToken s = [] \<or>
    AuthToken s \<noteq> [] \<and> refreshToken s \<noteq> [] \<and> tokenOkapiURL s = OkapiURL tc \<and> tokenTenant s = OkapiTenant tc"
proof -
  have "own_pair tc (wSession (snd (run_state (LoginHandler_Handle e msg) w)))"
    using prod.collapse [symmetric] assms(1-3) by (rule Login_leaves_own_tokens) (use assms(4) in \<open>simp add: whole_pair_def\<close>)
  then show ?thesis by (simp add: own_pair_def Let_def)
qed

lemma complete_login_leaves_own_tokens_witness:
  "let s = wSession (snd (run_state (LoginHandler_Handle sample_env
       (sample_message LoginRequest [(''CN'', ''other''), (''CO'', ''pw'')]))
         (sample_world\<lparr>wSession := UpdateTenant (Some (sample_config\<lparr>OkapiTenant := ''branch''\<rparr>)) known_session\<rparr>))) in
     AuthToken s = [] \<or> tokenTenant s = ''branch''"
  using complete_login_leaves_own_tokens [where e = sample_env and tc = "sample_config\<lparr>OkapiTenant := ''branch''\<rparr>"
      and msg = "sample_message LoginRequest [(''CN'', ''other''), (''CO'', ''pw'')]"
      and w = "sample_world\<lparr>wSession := UpdateTenant (Some (sample_config\<lparr>OkapiTenant := ''branch''\<rparr>)) known_session\<rparr>"]
  by (auto simp: UpdateTenant_def Let_def)

text \<open>C19: A login message without a password, when it has moved the session to another tenant, leaves the access
token of the old tenant in the session, and the next request to FOLIO is given that token for the new
tenant: the check for tokens of another tenant is made only after the required fields were found.\<close>

theorem incomplete_login_keeps_foreign_token:
  assumes "sessTenant (wSession w) = Some tc" "msg_GetField msg F_LoginPassword = []"
    and "HasTokensFromOtherTenant (wSession w)" "AuthToken (wSession w) \<noteq> []"
    and "\<not> IsTokenExpired (Clock e (wSent w)) (wSession w)"
  shows "let w' = snd (run_state (LoginHandler_Handle e msg) w) in
    HasTokensFromOtherTenant (wSession w') \<and>
    fst (run_state (getAuthenticatedFolioClient e) w') = Ok (AuthToken (wSession w))"
  using assms by (simp add: LoginHandler_Handle_def run_with_tenant validateRequiredFields_def validateRequiredField_def
      getAuthenticatedFolioClient_def get_session_def time_now_def)

lemma incomplete_login_keeps_foreign_token_witness:
  "fst (run_state (getAuthenticatedFolioClient sample_env)
     (snd (run_state (LoginHandler_Handle sample_env (sample_message LoginRequest [(''CN'', ''other'')]))
        (sample_world\<lparr>wSession := UpdateTenant (Some (sample_config\<lparr>OkapiTenant := ''branch''\<rparr>)) known_session\<rparr>)))) =
     Ok ''a.b.c''"
proof -
  let ?tc = "sample_config\<lparr>OkapiTenant := ''branch''\<rparr>"
  let ?w = "sample_world\<lparr>wSession := UpdateTenant (Some ?tc) known_session\<rparr>"
  have "HasTokensFromOtherTenant (wSession ?w)" "\<not> IsTokenExpired sample_time (wSession ?w)"
    by (simp_all add: HasTokensFromOtherTenant_def UpdateTenant_def IsTokenExpired_def)
  with incomplete_login_keeps_foreign_token
    [of ?w ?tc "sample_message LoginRequest [(''CN'', ''other'')]" sample_env] show ?thesis
    by (simp add: UpdateTenant_def Let_def)
qed

text \<open>C20: A request framed by \<open>Build\<close> under a tenant with error detection, whose fixed fields are complete
and whose variable fields were written with \<open>BuildField\<close>, is parsed back: the parser accepts
the bytes before the message delimiter, finds the code and the sequence number, and every field
value that \<open>BuildField\<close> emitted, the last one of a code that occurs twice. It needs a field delimiter of one byte
that is no blank or control character, at least one emitted field, and that neither AY nor AZ occurs in the content: a value with one of them
is taken for the checksum fields.\<close>

theorem built_request_is_parsed_back:
  assumes "Build enc cfg code (request_content d fixed fs) seq = Ok r" "ErrorDetectionEnabled cfg"
    and "FieldDelimiter cfg = [d]" "plain_delim d" "length code = 2" "d \<notin> set code"
    and "length fixed = request_width code" "\<forall>(c, v) \<in> set fs. field_code d c" "emitted d fs \<noteq> []"
    and "\<not> sublist ''AY'' seq" "\<not> sublist ''AY'' (code @ request_content d fixed fs @ ''A'')"
    and "\<not> sublist ''AZ'' (code @ request_content d fixed fs @ ''AY'' @ seq @ ''A'')"
  shows "\<exists>body m. r = body @ MessageDelimiter cfg \<and> Parse enc cfg body = Ok m \<and> Code m = code \<and>
    msgSequenceNumber m = seq \<and> Fields m = map_of (rev (emitted d fs)) ++ map_of (fixed_fields code fixed)"
  using assms by (rule Parse_Build)

lemma built_request_is_parsed_back_witness:
  "\<exists>r body m. Build sample_enc sample_config ''35'' (request_content CHR ''|'' ''000000000000000000'' [(''AA'', ''42'')]) ''7'' = Ok r \<and>
     r = body @ MessageDelimiter sample_config \<and> Parse sample_enc sample_config body = Ok m \<and> msgSequenceNumber m = ''7''"
proof -
  have v: "SanitizeFieldValue ''42'' ''|'' = ''42''" by (rule sample_field) simp_all

  have c: "request_content CHR ''|'' ''000000000000000000'' [(''AA'', ''42'')] = ''000000000000000000AA42|''"
    by (simp add: request_content_def BuildField_def v)
  obtain r where "Build sample_enc sample_config ''35'' (request_content CHR ''|'' ''000000000000000000'' [(''AA'', ''42'')]) ''7'' = Ok r"
    using sample_Build by blast
  with built_request_is_parsed_back [OF this] show ?thesis
    by (auto simp: c v plain_delim_def request_width_def fieldsStart_def
        numeral_eq_Suc sublist_two)
qed

text \<open>C21: The type of a message that the parser returns: its code has two bytes; each variable field is named by a two-byte
code, has at least one value, none of them with a delimiter, and is represented in the single-value map by its last
value, although the comment at the parser says the first; every other entry of that map is a fixed field that the
message code prescribes, with exactly its width.\<close>

theorem parsed_message_is_well_typed:
  assumes "Parse enc cfg raw = Ok m" "FieldDelimiter cfg = [d]"
  shows "well_typed_message d m \<and> RawMessage m = raw \<and> ChecksumValid m = ErrorDetectionEnabled cfg"
  using Parse_typed [OF assms] Parse_valid [OF assms(1)] by simp

lemma parsed_message_is_well_typed_witness:
  "\<exists>m. Parse sample_enc plain_config ''9300CNu|COsecret|CNv|'' = Ok m \<and> Fields m ''uid_algorithm'' = Some ''0'' \<and>
     MultiValueFields m ''CN'' = Some [''u'', ''v''] \<and> well_typed_message CHR ''|'' m"
proof -
  obtain m where parsed: "Parse sample_enc plain_config ''9300CNu|COsecret|CNv|'' = Ok m"
    and m: "Fields m ''uid_algorithm'' = Some ''0''" "MultiValueFields m ''CN'' = Some [''u'', ''v'']"
    by (rule plain_login_parse)
  have "FieldDelimiter plain_config = ''|''" by (simp add: plain_config_def)
  from parsed_message_is_well_typed [OF parsed this] parsed m show ?thesis by blast
qed

text \<open>C22: The token that a handler works with is never empty and is the access token that the session holds
afterwards: either nothing changed, or a renewal stored a complete new pair of the session's own tenant.
When no token can be had the session is left as it was.\<close>

theorem token_in_use_is_the_stored_one:
  assumes "run_state (getAuthenticatedFolioClient e) w = (r, w')"
  shows "(\<exists>err. r = Err err \<and> wSession w' = wSession w) \<or>
    (r = Ok (AuthToken (wSession w')) \<and> AuthToken (wSession w') \<noteq> [] \<and>
       (wSession w' = wSession w \<or> tokens_replaced (wSession w) (wSession w')))"
  using assms by (rule getAuthenticatedFolioClient_cases)

lemma token_in_use_is_the_stored_one_witness:
  "run_state (getAuthenticatedFolioClient sample_env) sample_world = (Ok ''a.b.c'', sample_world) \<and>
     AuthToken (wSession sample_world) = ''a.b.c''"
  using token_in_use_is_the_stored_one [of sample_env sample_world "Ok ''a.b.c''" sample_world] by simp

text \<open>C23: From the lists that were fetched for a patron information request its response is built without a nil
dereference or a slice out of range, whatever FOLIO has put into them, provided the limits of the custom
fields are not negative: holds that were only counted, and are nil, are not itemised.\<close>

theorem patron_information_never_panics:
  assumes "run_state (patron_items_of e tc (request_summary msg) token user) w = (Ok (items, accounts), w1)"
    and "\<And>c. PatronCustomFields tc = Some c \<Longrightarrow> \<forall>m \<in> set (pcf_Fields c). 0 \<le> MaxLength m"
  shows "fst (run_state (buildPatronInformationResponse e tc msg pf items) w2) \<noteq> Panic"
  using assms by (rule patron_information_no_nil)

lemma patron_information_never_panics_witness:
  "\<exists>items. fst (run_state (buildPatronInformationResponse sample_env (sample_config\<lparr>PatronCustomFields := Some sample_custom\<rparr>)
     (sample_message PatronInformationRequest []) None items) sample_world) \<noteq> Panic"
proof -
  let ?tc = "sample_config\<lparr>PatronCustomFields := Some sample_custom\<rparr>"
  let ?msg = "sample_message PatronInformationRequest []"
  obtain x w1 where run: "run_state (patron_items_of sample_env ?tc (request_summary ?msg) ''a.b.c'' sample_user) sample_world =
      (Ok x, w1)"
    using sample_patron_items by blast
  obtain items as where x: "x = (items, as)" by (cases x)
  have "fst (run_state (buildPatronInformationResponse sample_env ?tc ?msg None items) sample_world) \<noteq> Panic"
    by (rule patron_information_never_panics [OF run [unfolded x]]) (auto simp: sample_custom_def)
  then show ?thesis by blast
qed

text \<open>C24: A message body that is built from fields is parsed to exactly those fields, in order and with repeated
ones, whatever their values are: no value adds a field, hides one or moves into another.\<close>

theorem built_fields_are_parsed_back:
  assumes "plain_delim d" "\<forall>(c, v) \<in> set fs. field_code d c"
  shows "ParseMultiValueFields (concat (map (\<lambda>(c, v). BuildField c v [d]) fs)) [d] = multi_map (emitted d fs)"
  using assms by (rule ParseMultiValueFields_BuildFields)

lemma built_fields_are_parsed_back_witness:
  "ParseMultiValueFields (BuildField ''AF'' ''one'' ''|'' @ BuildField ''AF'' ''two'' ''|'') ''|'' ''AF'' = Some [''one'', ''two'']"
proof -
  have "SanitizeFieldValue ''one'' ''|'' = ''one''" "SanitizeFieldValue ''two'' ''|'' = ''two''" by (rule sample_field; simp)+
  with built_fields_are_parsed_back [of "CHR ''|''" "[(''AF'', ''one''), (''AF'', ''two'')]"] show ?thesis
    by (simp add: plain_delim_def multi_map_def)
qed

text \<open>C25: Closing a connection sends at most three requests, all of them logouts and refreshes to the FOLIO address
and tenant that issued the token pair, even when a login has since moved the session to another tenant.\<close>

theorem close_logs_out_at_the_issuer:
  "\<exists>rqs. wSent (cnWorld (closeAndLogout e err s)) = wSent (cnWorld s) @ rqs \<and> length rqs \<le> 3 \<and>
     list_all (\<lambda>rq. rqBase rq = tokenOkapiURL (wSession (cnWorld s)) \<and> rqTenant rq = tokenTenant (wSession (cnWorld s)) \<and>
        rqPath rq \<in> {''/authn/logout'', ''/authn/refresh''}) rqs"
  using close_requests [of e err s]
  by (fastforce simp: to_client_def NewAuthClient_def NewClient_def list_all_iff)

text \<open>C26: No message costs FOLIO more than nineteen requests, token renewal included and every token pair that is handed to a
background logout counted with the three requests that this can take, except the two that itemise the loans of a patron:
a renew-all costs at most ten and two for each of the loans the tenant allows.\<close>

theorem requests_per_message_are_bounded:
  assumes "RegisterAllHandlers sched url code = Some h" "sessTenant (wSession w) = Some tc"
    and "code = PatronInformationRequest \<longrightarrow> \<not> lists_loans msg"
  shows "let w' = snd (run_state (h e msg) w) in
    length (wSent w') + 3 * length (wBackground w') \<le> length (wSent w) + 3 * length (wBackground w) +
      (if code = RenewAllRequest then 10 + 2 * nat (GetRenewAllMaxItems tc) else 19)"
proof (cases "code = RenewAllRequest")
  case True
  then have "h = RenewAllHandler_Handle"
    using assms(1) by (simp add: RegisterAllHandlers_def registered_handlers_def)
  then show ?thesis using RenewAll_requests [OF assms(2), of e msg] True by (simp add: Let_def)
next
  case False
  then show ?thesis using sends_requests(1) [where w = w, OF registered_sends [OF assms(1) False assms(3), of e]] by (simp add: Let_def)
qed

lemma requests_per_message_are_bounded_witness:
  "length (wSent (snd (run_state (CheckoutHandler_Handle sample_env checkout_message) sample_world))) \<le> 19"
  using requests_per_message_are_bounded [where code = CheckoutRequest and h = CheckoutHandler_Handle and w = sample_world
      and tc = sample_config and e = sample_env and msg = checkout_message]
  by (simp add: RegisterAllHandlers_def registered_handlers_def Let_def)

text \<open>C27: When the tenant resolves no claims, an item that FOLIO reports as claimed returned is not checked in: after
the look-up of the item nothing more is sent.\<close>

theorem claimed_item_is_not_checked_in:
  assumes "sessTenant (wSession w) = Some tc" "msg_GetField msg F_ItemIdentifier \<noteq> []" "LocationCode (wSession w) \<noteq> []"
    and "run_state (getAuthenticatedFolioClient e) w = (Ok token, w1)"
    and "run_state (GetItemByBarcode e (the_client tc) token (msg_GetField msg F_ItemIdentifier)) w1 = (Ok item, w2)"
    and "StatusName item = ''Claimed returned''" "GetClaimedReturnedResolution (Unicode e) tc = ''none''"
  shows "wSent (snd (run_state (CheckinHandler_Handle sched hc e msg) w)) = wSent w2"
  using assms by (intro Checkin_claimed [where token = token and item = item])
    (simp_all add: validateRequiredFields_def validateRequiredField_def claimed_blocked_def)

lemma claimed_item_is_not_checked_in_witness:
  "map rqMethod (wSent (snd (run_state (CheckinHandler_Handle (\<lambda>rqs. start_order) sample_config claimed_env
     (sample_message CheckinRequest [(''AB'', ''i1'')])) sample_world))) = [''GET'', ''GET'']"
proof -
  let ?msg = "sample_message CheckinRequest [(''AB'', ''i1'')]"
  obtain w2 where w2: "run_state (GetItemByBarcode claimed_env (the_client sample_config) ''a.b.c'' ''i1'') sample_world =
      (Ok claimed_item, w2)" "map rqMethod (wSent w2) = [''GET'', ''GET'']" by (rule claimed_lookup)
  have "wSent (snd (run_state (CheckinHandler_Handle (\<lambda>rqs. start_order) sample_config claimed_env ?msg) sample_world)) = wSent w2"
    by (rule claimed_item_is_not_checked_in [where tc = sample_config and token = "''a.b.c''" and item = claimed_item
        and ?w1.0 = sample_world]) (use w2 in \<open>simp_all add: claimed_simps\<close>)
  then show ?thesis using w2 by simp
qed

text \<open>C28: What a checkin learns about the item does not depend on the order in which its four goroutines reach
FOLIO, as long as FOLIO answers a read the same way whatever was asked before.\<close>

theorem checkin_goroutines_commute:
  assumes "steady e"
  shows "fst (run_state (fetch_parallel sched e ic token item) w) = fst (run_state (fetch_parallel sched' e ic token item) w')"
  using assms by (rule fetch_parallel_order)

lemma checkin_goroutines_commute_witness:
  "fst (run_state (fetch_parallel (\<lambda>rqs. start_order) sample_env (the_client sample_config) ''a.b.c'' zero_item) sample_world) =
   fst (run_state (fetch_parallel (\<lambda>rqs. rev start_order) sample_env (the_client sample_config) ''a.b.c'' zero_item) sample_world)"
  by (rule checkin_goroutines_commute) (simp add: steady_def)

text \<open>C29: Under any sequence of the operations of a session, every refresh token that was stored leaves it exactly once, handed
out by TakeTokens or SwapTokens or discarded by UpdateTokens or Clear, or is still held; and once it has left, no
operation hands it out again and GetRefreshToken, which hands out a copy, no longer shows it. So it is if none is
stored twice; copies that were handed out before are the renewal lock's matter.\<close>

theorem refresh_tokens_are_handed_out_once:
  assumes "distinct (kept (held_refresh s) @ session_tokens.tokens_in ops)"
  shows "case session_tokens.run_keeper ops s of (uses, s') \<Rightarrow>
    gone_for_good uses \<and>
    mset (left_tokens uses @ kept (held_refresh s')) = mset (kept (held_refresh s) @ session_tokens.tokens_in ops)"
  using session_tokens.never_seen_again [OF assms] session_tokens.custody [of ops s] by (simp add: case_prod_beta)

lemma refresh_tokens_are_handed_out_once_witness:
  "gone_for_good (fst (session_tokens.run_keeper [Look, Take, Look, Take] known_session)) \<and>
   fst (session_tokens.run_keeper [Look, Take, Look, Take] known_session) = [Copied ''d.e.f'', Handed ''d.e.f'']"
proof -
  have "distinct (kept (held_refresh known_session) @ session_tokens.tokens_in [Look, Take, Look, Take])"
    by (simp only: session_tokens.tokens_in.simps) (simp add: held_refresh_def known_token_def)
  from refresh_tokens_are_handed_out_once [OF this] known_uses show ?thesis by (simp add: case_prod_beta)
qed

text \<open>C30: When the address of a client lies in the subnet of an entry, the tenant of its connection is that of such an
entry, whatever other entries claim the port: the resolvers are consulted in the order of their priority, also if the
sorting, which is not stable, orders those of the same priority at will.\<close>

theorem subnet_decides_at_connect:
  assumes "cip \<noteq> []" "sc \<in> set (SCTenants cfg)" "SCSubnet sc \<noteq> []" "ipInSubnet ip cip (SCSubnet sc)"
    and "map_of (Tenants cfg) (sc_Tenant sc) = Some t"
    and "\<And>rs. mset (srt rs) = mset rs" "\<And>rs. sorted_wrt (\<lambda>a b. Priority b \<le> Priority a) (srt rs)"
  shows "\<exists>sc' \<in> set (SCTenants cfg). \<exists>tc. ipInSubnet ip cip (SCSubnet sc') \<and>
    map_of (Tenants cfg) (sc_Tenant sc') = Some tc \<and>
    ResolveAtConnect ip cip cport sport (NewService srt pick cfg) = Ok tc"
  using assms(1-5) by (rule priority_sorter.ResolveAtConnect_subnet [OF priority_sorter.intro, OF assms(6,7)])

lemma subnet_decides_at_connect_witness:
  "\<exists>tc. ResolveAtConnect sample_subnets ''10.0.0.1'' 4000 6001 (NewService sort_resolvers (\<lambda>ts. None) sample_sites) = Ok tc \<and>
     tc = sample_config"
proof -
  let ?sc = "\<lparr>sc_Tenant = ''main'', SCSubnet = ''10.0.0.0/8'', sc_Port = 0, LocationCodes = [], UsernamePrefixes = []\<rparr>"
  have sc: "?sc \<in> set (SCTenants sample_sites)" "map_of (Tenants sample_sites) ''main'' = Some sample_config"
    by (simp_all add: sample_sites_def)
  have "\<exists>sc' \<in> set (SCTenants sample_sites). \<exists>tc. ipInSubnet sample_subnets ''10.0.0.1'' (SCSubnet sc') \<and>
    map_of (Tenants sample_sites) (sc_Tenant sc') = Some tc \<and>
    ResolveAtConnect sample_subnets ''10.0.0.1'' 4000 6001 (NewService sort_resolvers (\<lambda>ts. None) sample_sites) = Ok tc"
    by (rule subnet_decides_at_connect [OF _ sc(1), where t = sample_config])
      (use sc by_priority.srt_mset by_priority.srt_sorted in \<open>simp_all add: ipInSubnet_def sample_subnets_def\<close>)
  then show ?thesis by (auto simp: sample_sites_def ipInSubnet_def sample_subnets_def)
qed

text \<open>C31: The tenant of a login is that of the first sub-tenant entry, in the order of the configuration, whose
criteria all match and whose tenant is known; without one it is the default tenant.\<close>

theorem login_tenant_is_the_first_match:
  "ResolveComplete ip port cip user loc s =
     (case find (\<lambda>sc. sc_matches ip port cip user loc sc \<and> tenantConfigs s (sc_Tenant sc) \<noteq> None) (scTenants s) of
        Some sc \<Rightarrow> Ok (the (tenantConfigs s (sc_Tenant sc)))
      | None \<Rightarrow> (case defaultConfig s of None \<Rightarrow> Err ''no tenant configuration available'' | Some tc \<Rightarrow> Ok tc))"
  (is "_ = (case ?found of Some sc \<Rightarrow> _ sc | None \<Rightarrow> _)")
proof (cases ?found)
  case (Some sc)
  then have "tenantConfigs s (sc_Tenant sc) \<noteq> None" by (auto simp: find_Some_iff)
  with Some show ?thesis unfolding ResolveComplete_def resolve_entries_find by auto
qed (simp add: ResolveComplete_def resolve_entries_find)

text \<open>C32: A patron account is renewed exactly when renewals are enabled, the account has an expiration date within
the renewal window, the patron group is among those selected, and an account that has expired may be
extended and has not been expired for longer than the limit.\<close>

theorem renewal_decision:
  "rdShouldRenew (ShouldRenew user cfg today) \<longleftrightarrow>
     rr_Enabled cfg \<and>
     (\<exists>e. ExpirationDate user = Some e \<and>
        (SelectPatrons cfg \<longrightarrow> PatronGroup user \<in> set (AllowedPatrons cfg)) \<and>
        (IsExpired e today \<longrightarrow> ExtendExpired cfg \<and>
          (ExtendExpiredLimits cfg \<noteq> [] \<longrightarrow>
             (\<exists>limit cutoff. ParseDuration (ExtendExpiredLimits cfg) = Ok limit \<and>
                SubtractDuration today (Value limit) (Period limit) = Ok cutoff \<and> \<not> Before e cutoff))) \<and>
        IsWithinPeriod e today (RenewWithin cfg) = Ok True)"
  by (rule ShouldRenew_iff)

lemma renewal_decision_witness:
  "rdShouldRenew (ShouldRenew (sample_user\<lparr>ExpirationDate := Some sample_time\<rparr>) sample_renewal sample_time)"
proof -
  have "After t (StripTime sample_time) \<Longrightarrow> \<not> After (StripTime (StripTime sample_time)) t" for t
    by (simp add: After_def)
  moreover obtain t where "AddDuration sample_time 1 ''M'' = Ok t" "After t (StripTime sample_time)"
  proof -
    have "date_of (StripTime sample_time) = (1997, 5, 23)" by code_simp
    from AddDate_UTC_after [OF _ _ _ _ _ _ _ this, of 0 1 0] that show thesis by (simp add: AddDuration_def Let_def)
  qed
  ultimately show ?thesis unfolding renewal_decision
    by (simp add: sample_renewal_def IsExpired_def Before_def IsWithinPeriod_def AddDuration_def Let_def)
qed

text \<open>C33: A rolling renewal sends nothing to FOLIO in a dry run, and nothing for a patron for whom the configuration
does not call for a renewal at that moment.\<close>

theorem rolling_renewal_writes_only_when_due:
  assumes "\<And>cfg. RollingRenewals tc = Some cfg \<Longrightarrow> DryRun cfg \<or> \<not> rdShouldRenew (ShouldRenew user cfg (Clock e (wSent w)))"
    and "\<And>cfg. RollingRenewals tc = Some cfg \<Longrightarrow> rr_Validate cfg = None"
  shows "run_state (attemptRollingRenewal e tc user token) w = (Ok (), w)"
  using assms by (rule attemptRollingRenewal_idle)

lemma rolling_renewal_writes_only_when_due_witness:
  "run_state (attemptRollingRenewal sample_env (sample_config\<lparr>RollingRenewals := Some sample_renewal\<rparr>) sample_user ''a.b.c'')
     sample_world = (Ok (), sample_world)"
  by (rule rolling_renewal_writes_only_when_due) (auto simp: sample_renewal_valid)

text \<open>C34: The parser panics exactly on a message whose checksum is accepted and whose sequence number
field starts in its first two bytes: removing the checksum fields leaves less than a code.
Every other input is parsed or rejected with an error.\<close>

theorem parser_panics_exactly_when:
  "Parse enc cfg raw = Panic \<longleftrightarrow>
     ErrorDetectionEnabled cfg \<and> is_ok (checksum_stage enc cfg raw) \<and>
     (take 2 raw = ''AY'' \<or> take 2 (drop 1 raw) = ''AY'')"
  by (rule Parse_Panic_iff)

text \<open>C35: The loop of the sanitiser, with its two flags, computes its specification on every sequence of characters:
the text is cut at the control characters, the pieces are trimmed where they were cut and joined by one space.\<close>

theorem sanitiser_is_its_specification:
  "sanitize_runes rs = sanitize_spec rs"
  by (rule sanitize_runes_spec)

text \<open>C36: Messages that a client writes one after the other, each with the delimiter of the tenant, of one or more bytes, and
possibly after line feeds, are read back one by one, and nothing of an unfinished one: none is lost, joined or changed.
The delimiter must not occur in a message, nor begin in it, and the two together must fit into 64 KB; a message must
not begin with a line feed unless the delimiter does, nor end with a carriage return where the delimiter is a line feed.\<close>

theorem stream_is_read_message_by_message:
  assumes "list_all (\<lambda>(k, m). plain_message (MessageDelimiter tc) m \<and> (k = 0 \<or> hd (MessageDelimiter tc) \<noteq> LF)) ms"
    and "readMessage tc part = OutOfBytes" "length ms \<le> n"
  shows "read_all n tc (concat (map (\<lambda>(k, m). replicate k LF @ m @ MessageDelimiter tc) ms) @ part) = map snd ms"
  using read_all_framed [OF assms] by (simp add: written_stream_def)

lemma stream_is_read_message_by_message_witness:
  "read_all 3 (sample_config\<lparr>MessageDelimiter := [CR, LF]\<rparr>) (''99'' @ [CR, LF] @ [LF] @ ''9'' @ [CR] @ ''7'' @ [CR, LF] @ ''93'') =
     [''99'', ''9'' @ [CR] @ ''7'']"
  using stream_is_read_message_by_message [of "sample_config\<lparr>MessageDelimiter := [CR, LF]\<rparr>"
      "[(0, ''99''), (1, ''9'' @ [CR] @ ''7'')]" "''93''" 3]
  by (simp add: plain_message_def maxSIP2MessageBytes_def skipped_LF_def readMessage_def tc_GetMessageDelimiterBytes_def Let_def)

text \<open>C37: A value that is quoted for a CQL query is read by FOLIO as that very text and ends where the quotation ends: a barcode
cannot become a wildcard or another part of the query. FOLIO's reader is any function with the documented laws: a
quote ends a term, a backslash makes a special character a literal, a character that is not special is one.\<close>

theorem cql_value_stays_a_value:
  assumes "reads_cql rd literal"
  shows "\<exists>body. cqlQuote v = CHR 0x22 # body \<and> rd (body @ rest) = Some (map literal v, rest)"
  using reads_escaped [OF assms, of v rest] by (simp add: cqlQuote_def)

lemma cql_value_stays_a_value_witness:
  "read_term (tl (cqlQuote ''x*'') @ '' or y'') = Some ([Literal CHR ''x'', Literal CHR ''*''], '' or y'') \<and> reads_cql read_term Literal"
  using cql_value_stays_a_value [OF read_term_reads, of "''x*''" "'' or y''"] read_term_reads by auto






subsection \<open>Further results\<close>

text \<open>Nine bytes that any kiosk can send make the parser panic, under any tenant with error detection
and an encoder that leaves ASCII alone.\<close>

lemma nine_bytes_panic_the_parser:
  assumes "ErrorDetectionEnabled cfg" "GetEncoder (Charset cfg) = Ok e" "enc e ''AY1AZ'' = Some ''AY1AZ''"
  shows "Parse enc cfg ''AY1AZFE9A'' = Panic"
  using assms by (rule Parse_AY1)

lemma nine_bytes_panic_the_parser_witness:
  "Parse sample_enc sample_config ''AY1AZFE9A'' = Panic"
  using nine_bytes_panic_the_parser [of sample_config UTF8 sample_enc] by simp

text \<open>The map of single values refines the map of all values by their last one; the comment at the parser
promises the first.\<close>

lemma last_of_repeated_fields_is_kept:
  "ParseFields message delim c = map_option last (ParseMultiValueFields message delim c)"
  by (rule ParseFields_last)

text \<open>The circulation status in an item information response comes from the built-in table, whatever mapping the
tenant configures: the handler was given the empty configuration it was registered with.\<close>

lemma item_status_ignores_the_tenant:
  "rdStatus (prepareItemResponseData e (handler_config url) (Some f)) =
     getDefaultCirculationStatusMapping (StatusName (ifItem f))"
  by (rule item_status_default)

text \<open>A fee amount that the library parses to not-a-number passes the test for a positive amount: the handler
goes on to verify the patron and to pay it.\<close>

lemma fee_of_NaN_is_accepted:
  assumes "ParseFloat e (msg_GetField msg F_FeeAmount) = Some NaN" "sessTenant (wSession w) = Some tc"
    and "validateRequiredFields msg [F_PatronIdentifier, F_FeeAmount]"
  shows "run_state (FeePaidHandler_Handle e msg) w =
    run_state (with_verified_patron e tc msg (fee_paid_error e tc msg)
      (pay_fees e tc msg (payment_of tc (wSession w)) NaN) ''Authentication failed'') w"
  using assms by (rule FeePaid_NaN)

lemma fee_of_NaN_is_accepted_witness:
  "let msg = sample_message FeePaidRequest [(''AA'', ''b1''), (''BV'', ''NaN''), (''AD'', ''1234'')] in
   run_state (FeePaidHandler_Handle sample_env msg) sample_world =
     run_state (with_verified_patron sample_env sample_config msg (fee_paid_error sample_env sample_config msg)
       (pay_fees sample_env sample_config msg (payment_of sample_config known_session) NaN) ''Authentication failed'') sample_world"
  using fee_of_NaN_is_accepted
    [of sample_env "sample_message FeePaidRequest [(''AA'', ''b1''), (''BV'', ''NaN''), (''AD'', ''1234'')]" sample_world sample_config]
  by (simp add: Let_def validateRequiredFields_def validateRequiredField_def)

text \<open>The end of a patron session clears the patron and keeps everything the service itself is logged in with:
tokens, user, password, tenant and location, so that the next patron is served without a new login.\<close>

lemma end_session_forgets_only_the_patron:
  assumes "sessTenant (wSession w) = Some tc" "msg_GetField msg F_PatronIdentifier \<noteq> []"
  shows "let s = wSession w; s' = wSession (snd (run_state (EndSessionHandler_Handle e msg) w)) in
    PatronID s' = [] \<and> PatronBarcode s' = [] \<and> AuthToken s' = AuthToken s \<and> TokenExpiresAt s' = TokenExpiresAt s \<and>
    refreshToken s' = refreshToken s \<and> Username s' = Username s \<and> password s' = password s \<and>
    LocationCode s' = LocationCode s \<and> sessTenant s' = sessTenant s \<and> IsAuthenticated s' = IsAuthenticated s"
proof -
  obtain now where "wSession (snd (run_state (EndSessionHandler_Handle e msg) w)) = ClearPatron now (wSession w)"
    using EndSession_session [OF prod.collapse [symmetric] assms] by blast
  then show ?thesis by (simp add: Let_def ClearPatron_def)
qed

lemma end_session_forgets_only_the_patron_witness:
  "PatronID (wSession (snd (run_state (EndSessionHandler_Handle sample_env
     (sample_message EndPatronSessionRequest [(''AA'', ''b1'')])) sample_world))) = []"
  using end_session_forgets_only_the_patron
    [of sample_world sample_config "sample_message EndPatronSessionRequest [(''AA'', ''b1'')]" sample_env]
  by (simp add: Let_def)

text \<open>In every state that a new connection of the server can reach, the session has a tenant, and while the
connection is served its parser and its response builder are set up for that very tenant, also after a
login has moved the session to another.\<close>

lemma connection_works_for_its_tenant:
  assumes "handleConnection (server_site sched url ts ip) now sid cip cport sport stream = Ok s"
    and "(conn_step (server_site sched url ts ip) e)\<^sup>*\<^sup>* s s'"
  shows "\<exists>tc. sessTenant (wSession (cnWorld s')) = Some tc \<and>
    (\<forall>c. cnPhase s' = Serving c \<longrightarrow> cParser c = tc \<and> cBuilder c = tc)"
proof -
  have "same_tenant s'"
    using server_tenants.steps_same_tenant [OF assms(2)] assms(1)
    by (auto simp: handleConnection_def same_tenant_def NewConnection_def NewSession_def)
  then show ?thesis by (auto simp: same_tenant_def split: option.splits)
qed

lemma connection_works_for_its_tenant_witness:
  "\<exists>s tc. handleConnection sample_server sample_time ''s1'' ''10.0.0.1'' 4000 6001 [] = Ok s \<and>
     sessTenant (wSession (cnWorld s)) = Some tc"
proof -
  have "handleConnection sample_server sample_time ''s1'' ''10.0.0.1'' 4000 6001 [] =
      Ok (NewConnection sample_time ''s1'' sample_config 6001 ''10.0.0.1'' [])" by (rule sample_connection)
  with connection_works_for_its_tenant [OF this [unfolded sample_server_def] rtranclp.rtrancl_refl]
  show ?thesis by blast
qed

text \<open>A message that is read from the network has at most 64 KB, and reading it consumes input.\<close>

lemma message_length_is_bounded:
  assumes "readMessage tc stream = GotMessage m rest"
  shows "length m \<le> Suc maxSIP2MessageBytes - length (tc_GetMessageDelimiterBytes tc) \<and> length rest < length stream"
  using readMessage_bound [OF assms] by simp

lemma message_length_is_bounded_witness:
  "readMessage sample_config (''97'' @ [CHR 0x0D]) = GotMessage ''97'' [] \<and> length ''97'' \<le> maxSIP2MessageBytes"
proof -
  have "readMessage sample_config (''97'' @ [CHR 0x0D]) = GotMessage ''97'' []"
    using readMessage_framed [of sample_config "''97''" "[]"] plain_message_single [of "CHR 0x0D" "''97''"]
    by (simp add: maxSIP2MessageBytes_def)
  with message_length_is_bounded [OF this] show ?thesis by (simp add: tc_GetMessageDelimiterBytes_def)
qed

text \<open>Two messages that differ only in a PIN or password field, by a value of the same length, are logged alike:
below the debugging level a log says nothing about such a value but its length.\<close>

lemma log_masks_passwords:
  assumes "code = ''AD'' \<or> code = ''CO''" "CHR ''|'' \<notin> set v" "CHR ''|'' \<notin> set v'" "length v = length v'"
    and "CHR ''|'' \<notin> set w"
  shows "obfuscatePINsAndPasswords (w @ CHR ''|'' # code @ v @ CHR ''|'' # t) =
    obfuscatePINsAndPasswords (w @ CHR ''|'' # code @ v' @ CHR ''|'' # t)"
  using assms by (rule obfuscate_hides)

lemma log_masks_passwords_witness:
  "obfuscatePINsAndPasswords ''63|AD1234|AAb1|'' = obfuscatePINsAndPasswords ''63|AD9999|AAb1|''"
  using log_masks_passwords [of "''AD''" "''1234''" "''9999''" "''63''" "''AAb1|''"] by simp

text \<open>Whatever text FOLIO has stored, a custom field that is added to a response is one field: a delimiter, the
configured code and a value of at most the configured length, without delimiter and line break.\<close>

lemma custom_field_stays_one_field:
  assumes "ProcessCustomFields uni user (Some cfg) [d] = Ok ts" "t \<in> set ts" "plain_delim d"
    and "\<forall>m \<in> set (pcf_Fields cfg). 0 \<le> MaxLength m"
  shows "\<exists>m \<in> set (pcf_Fields cfg). \<exists>v. t = [d] @ ToUpper uni (cfm_Code m) @ v \<and> int (length v) \<le> MaxLength m \<and>
    d \<notin> set v \<and> CR \<notin> set v \<and> LF \<notin> set v"
  using assms by (rule ProcessCustomFields_fields)

lemma custom_field_stays_one_field_witness:
  "ProcessCustomFields (\<lambda>r. r) (Some sample_user) (Some sample_custom) ''|'' = Ok [''|SSA1''] \<and>
   (\<exists>m \<in> set (pcf_Fields sample_custom). \<exists>v. ''|SSA1'' = ''|'' @ ToUpper (\<lambda>r. r) (cfm_Code m) @ v \<and>
     int (length v) \<le> MaxLength m)"
proof -
  have "ProcessCustomFields (\<lambda>r. r) (Some sample_user) (Some sample_custom) ''|'' = Ok [''|SSA1'']" by (rule sample_custom_fields)
  with custom_field_stays_one_field [OF this, of "''|SSA1''"] show ?thesis
    by (auto simp: plain_delim_def sample_custom_def)
qed

text \<open>In a zone of a fixed offset, a time of the years 0 to 9999 that is formatted for SIP2 and parsed again is
the same instant, without its fraction of a second.\<close>

lemma date_is_parsed_back:
  assumes "LoadLocation tz timezone = Some (\<lambda>_. off)" "\<not> IsZero t"
    and "date_of (in_zone tz timezone t) = (y, m, d)" "0 \<le> y" "y \<le> 9999"
  shows "ParseSIP2DateTime tz (FormatSIP2DateTime tz t timezone) timezone =
    Some \<lparr>tm_ns = tm_ns t div 1000000000 * 1000000000, tm_off = off\<rparr>"
  using assms by (rule parse_formatted)

lemma date_is_parsed_back_witness:
  "ParseSIP2DateTime (\<lambda>s. None) (FormatSIP2DateTime (\<lambda>s. None) sample_time ''UTC'') ''UTC'' =
     Some \<lparr>tm_ns = 63000000000000000000, tm_off = 0\<rparr>"
proof -
  have "date_of (in_zone (\<lambda>s. None) ''UTC'' sample_time) = (1997, 5, 23)" by code_simp
  with date_is_parsed_back [of "\<lambda>s. None" "''UTC''" 0 sample_time] show ?thesis
    by (simp add: LoadLocation_def) (simp add: sample_time_def)
qed

text \<open>A response that the builder returns is one line: it ends with the message delimiter of the tenant and no
control character stands before it, if none is in the parts that it is built from.\<close>

lemma response_is_one_line:
  assumes "Build enc cfg code content seq = Ok r" "clean code" "clean content" "clean seq" "clean (FieldDelimiter cfg)"
  shows "one_line cfg r"
  using assms by (rule Build_one_line)

lemma response_is_one_line_witness:
  "\<exists>r. Build sample_enc sample_config ''94'' ''1'' ''1'' = Ok r \<and> one_line sample_config r"
proof -
  obtain r where r: "Build sample_enc sample_config ''94'' ''1'' ''1'' = Ok r" using sample_Build by blast
  have "one_line sample_config r" by (rule response_is_one_line [OF r]) simp_all
  with r show ?thesis by blast
qed

text \<open>The patron status of a response has fourteen letters: the charge, renewal and hold privileges are denied
exactly when one of the manual or automated blocks of the patron denies them, and everything is denied to
a patron who is not valid.\<close>

lemma patron_status_letters:
  "patronStatusString valid user manual automated =
     map (\<lambda>j. if valid \<and> user \<noteq> None \<and> \<not> privilege_denied (blocks_of manual) (blocks_of automated) j
            then CHR '' '' else CHR ''Y'') [0..<14]"
  by (rule patronStatusString_spec)

text \<open>The new expiration date that a renewal computes is after today, so that the renewed account is not expired, for a
day of the years 0 to 9999 and a duration of at most a thousand million units. A duration that is far larger, and
accepted, wraps around.\<close>

lemma renewed_account_is_not_expired:
  assumes "CalculateNewExpiration today cfg = Ok t" "date_of today = (y, m, d)" "0 \<le> y" "y \<le> 9999"
    and "\<And>dur. ParseDuration (ExtendFor cfg) = Ok dur \<Longrightarrow> Value dur \<le> 10 ^ 9"
  shows "After t (StripTime today) \<and> \<not> IsExpired t today"
  using assms by (rule CalculateNewExpiration_after)

end
